(* ===== verification/Prelude.thy ===== *)
theory Prelude
  imports Main "HOL-Library.Sublist"
begin

text \<open>
  Shared vocabulary of the development: the errors of the Go code, computations that pass a
  world state and end in a value, an error or a panic, the combinators that mirror Go's control
  flow (\<open>if err != nil\<close>, error wrapping, \<open>defer\<close>), a small calculus for facts of the form
  ``this computation moves the world only along a given relation'', and string splitting.
  Nothing here models a particular source file.
\<close>

named_theorems io_simps \<open>one-step evaluation of the computation combinators\<close>
named_theorems stays_intros \<open>structural rules for step relations\<close>

section \<open>Errors and outcomes\<close>

text \<open>
  \<open>Errorf s\<close> is an error built from a plain message, \<open>Wrapf s e\<close> is
  \<open>fmt.Errorf("s: %w", e)\<close>, \<open>EOF\<close> is \<open>io.EOF\<close> and \<open>External r s\<close> is an error
  produced outside the repository (operating system, Kubernetes API server, Helm), with a
  reason \<open>r\<close> and a message \<open>s\<close>.
\<close>

datatype go_error =
    Errorf string
  | Wrapf string go_error
  | EOF
  | External string string

text \<open>The \<open>Error()\<close> method: the message of an error.\<close>

primrec Error :: "go_error \<Rightarrow> string" where
  "Error (Errorf s) = s"
| "Error (Wrapf s e) = s @ '': '' @ Error e"
| "Error EOF = ''EOF''"
| "Error (External r s) = s"

datatype 'a outcome = Ok 'a | Err go_error | Panic string

text \<open>A computation over a world, and a call of code outside the repository (which never panics).\<close>

type_synonym ('w, 'a) io = "'w \<Rightarrow> 'a outcome \<times> 'w"
type_synonym ('s, 'a) call = "'s \<Rightarrow> (go_error + 'a) \<times> 's"

section \<open>Combinators\<close>

definition io_return :: "'a \<Rightarrow> ('w, 'a) io" where
  [io_simps]: "io_return a w = (Ok a, w)"

definition io_fail :: "go_error \<Rightarrow> ('w, 'a) io" where
  [io_simps]: "io_fail e w = (Err e, w)"

definition io_panic :: "string \<Rightarrow> ('w, 'a) io" where
  [io_simps]: "io_panic s w = (Panic s, w)"

text \<open>\<open>io_try m h f\<close>: run \<open>m\<close>; on an error continue with \<open>h\<close>, otherwise with \<open>f\<close>.
  A panic is never handled.\<close>

definition io_try :: "('w, 'a) io \<Rightarrow> (go_error \<Rightarrow> ('w, 'b) io) \<Rightarrow> ('a \<Rightarrow> ('w, 'b) io) \<Rightarrow> ('w, 'b) io" where
  [io_simps]: "io_try m h f w =
    (case m w of
       (Ok a, w') \<Rightarrow> f a w'
     | (Err e, w') \<Rightarrow> h e w'
     | (Panic s, w') \<Rightarrow> (Panic s, w'))"

text \<open>\<open>if err != nil { return err }\<close>.\<close>

definition io_bind :: "('w, 'a) io \<Rightarrow> ('a \<Rightarrow> ('w, 'b) io) \<Rightarrow> ('w, 'b) io" where
  [io_simps]: "io_bind m f = io_try m io_fail f"

text \<open>\<open>if err != nil { return fmt.Errorf("s: %w", err) }\<close>.\<close>

definition io_wrap :: "string \<Rightarrow> ('w, 'a) io \<Rightarrow> ('w, 'a) io" where
  [io_simps]: "io_wrap s m = io_try m (\<lambda>e. io_fail (Wrapf s e)) io_return"

text \<open>\<open>defer\<close> of a clean-up action whose own error is only printed.\<close>

definition io_defer :: "('w, unit) io \<Rightarrow> ('w, 'a) io \<Rightarrow> ('w, 'a) io" where
  [io_simps]: "io_defer c m w = (case m w of (r, w') \<Rightarrow> (r, snd (c w')))"

text \<open>A \<open>for ... range\<close> loop whose body returns at the first error.\<close>

primrec io_foreach :: "('a \<Rightarrow> ('w, unit) io) \<Rightarrow> 'a list \<Rightarrow> ('w, unit) io" where
  "io_foreach f [] = io_return ()"
| "io_foreach f (x # xs) = io_bind (f x) (\<lambda>_. io_foreach f xs)"

definition io_state :: "('w \<Rightarrow> 'a) \<Rightarrow> ('w, 'a) io" where
  [io_simps]: "io_state f w = (Ok (f w), w)"

definition io_pure :: "go_error + 'a \<Rightarrow> ('w, 'a) io" where
  [io_simps]: "io_pure r = (case r of Inl e \<Rightarrow> io_fail e | Inr a \<Rightarrow> io_return a)"

text \<open>The outcomes a caller can see.\<close>

definition panics :: "'a outcome \<Rightarrow> bool" where
  "panics r \<longleftrightarrow> (case r of Panic _ \<Rightarrow> True | _ \<Rightarrow> False)"

lemma panics_simps [simp]:
  "\<not> panics (Ok a)" "\<not> panics (Err e)" "panics (Panic s)"
  by (simp_all add: panics_def)

section \<open>Monad laws and loops\<close>

lemma io_bind_return_left [simp]: "io_bind (io_return a) f = f a"
  by (rule ext) (simp add: io_simps)

lemma io_bind_return_right [simp]: "io_bind m io_return = m"
  by (rule ext) (simp add: io_simps split: prod.split outcome.split)

lemma io_bind_assoc: "io_bind (io_bind m f) g = io_bind m (\<lambda>a. io_bind (f a) g)"
  by (rule ext) (simp add: io_simps split: prod.split outcome.split)

lemma io_bind_fail [simp]: "io_bind (io_fail e) f = io_fail e"
  by (rule ext) (simp add: io_simps)

lemma io_try_return [simp]: "io_try (io_return a) h f = f a"
  by (rule ext) (simp add: io_simps)

lemma io_try_fail [simp]: "io_try (io_fail e) h f = h e"
  by (rule ext) (simp add: io_simps)

lemma io_bind_OkE:
  assumes "io_bind m f w = (Ok b, w')"
  obtains a v where "m w = (Ok a, v)" and "f a v = (Ok b, w')"
  using assms by (auto simp: io_simps split: prod.splits outcome.splits)

lemma io_bind_wrap_Ok: "m w = (Ok a, v) \<Longrightarrow> io_bind (io_wrap s m) f w = f a v"
  by (simp add: io_simps)

lemma io_wrap_Ok_iff: "io_wrap s m w = (Ok a, w') \<longleftrightarrow> m w = (Ok a, w')"
  by (auto simp: io_simps split: prod.splits outcome.splits)

text \<open>
  The trace of a loop: the states between the iterations that succeeded, and the outcome of the iteration the loop
  stopped at.
\<close>

lemma io_foreach_trace:
  assumes "io_foreach f xs w = (res, w')"
  shows "\<exists>n ws. length ws = Suc n \<and> ws ! 0 = w \<and> n \<le> length xs \<and>
    (\<forall>i<n. f (xs ! i) (ws ! i) = (Ok (), ws ! Suc i)) \<and>
    (if res = Ok () then n = length xs \<and> w' = ws ! n else n < length xs \<and> f (xs ! n) (ws ! n) = (res, w'))"
  using assms
proof (induction xs arbitrary: w)
  case Nil
  then show ?case by (intro exI [of _ 0] exI [of _ "[w]"]) (simp add: io_simps)
next
  case (Cons x xs)
  obtain g v where g: "f x w = (g, v)" by fastforce
  show ?case
  proof (cases "g = Ok ()")
    case True
    then have "io_foreach f xs v = (res, w')" using Cons.prems g by (simp add: io_simps)
    then obtain n ws where ws: "length ws = Suc n" "ws ! 0 = v" "n \<le> length xs"
      "\<forall>i<n. f (xs ! i) (ws ! i) = (Ok (), ws ! Suc i)"
      "if res = Ok () then n = length xs \<and> w' = ws ! n else n < length xs \<and> f (xs ! n) (ws ! n) = (res, w')"
      using Cons.IH by blast
    have "f ((x # xs) ! i) ((w # ws) ! i) = (Ok (), (w # ws) ! Suc i)" if "i < Suc n" for i
      using that ws(2,4) g True by (cases i) simp_all
    then show ?thesis
      using ws by (intro exI [of _ "Suc n"] exI [of _ "w # ws"]) (simp split: if_splits)
  next
    case False
    then have "w' = v" "res = g" using Cons.prems g by (cases g; simp add: io_simps)+
    then show ?thesis using False g by (intro exI [of _ 0] exI [of _ "[w]"]) simp
  qed
qed

lemma io_foreach_append:
  "io_foreach f (xs @ ys) = io_bind (io_foreach f xs) (\<lambda>_. io_foreach f ys)"
  by (induction xs) (simp_all add: io_bind_assoc)

section \<open>Moving the world along a relation\<close>

text \<open>
  \<open>stays R m\<close>: from every world, \<open>m\<close> ends, whatever its outcome, in a world related by \<open>R\<close>.
\<close>

definition stays :: "('w \<Rightarrow> 'w \<Rightarrow> bool) \<Rightarrow> ('w, 'a) io \<Rightarrow> bool" where
  "stays R m \<longleftrightarrow> (\<forall>w. R w (snd (m w)))"

lemma staysI: "(\<And>w. R w (snd (m w))) \<Longrightarrow> stays R m"
  by (simp add: stays_def)

lemma staysD: "stays R m \<Longrightarrow> m w = (r, w') \<Longrightarrow> R w w'"
  by (metis snd_conv stays_def)

locale step_relation =
  fixes R :: "'w \<Rightarrow> 'w \<Rightarrow> bool"
  assumes step_refl: "R w w"
    and step_trans: "R u v \<Longrightarrow> R v w \<Longrightarrow> R u w"
begin

lemma stays_return [stays_intros]: "stays R (io_return a)"
  by (simp add: stays_def io_simps step_refl)

lemma stays_fail [stays_intros]: "stays R (io_fail e)"
  by (simp add: stays_def io_simps step_refl)

lemma stays_panic [stays_intros]: "stays R (io_panic s)"
  by (simp add: stays_def io_simps step_refl)

lemma stays_state [stays_intros]: "stays R (io_state f)"
  by (simp add: stays_def io_simps step_refl)

lemma stays_pure [stays_intros]: "stays R (io_pure r)"
  by (auto simp: stays_def io_simps step_refl split: sum.split)

lemma stays_try [stays_intros]:
  assumes m: "stays R m" and h: "\<And>e. stays R (h e)" and f: "\<And>a. stays R (f a)"
  shows "stays R (io_try m h f)"
proof (rule staysI)
  fix w
  obtain r v where mw: "m w = (r, v)" by (cases "m w")
  then have "R w v" using m by (rule staysD [rotated])
  moreover have "R v (snd (io_try m h f w))"
    using mw h f step_refl [of v] by (cases r) (auto simp: io_simps stays_def)
  ultimately show "R w (snd (io_try m h f w))" by (rule step_trans)
qed

lemma stays_bind [stays_intros]:
  assumes "stays R m" and "\<And>a. stays R (f a)"
  shows "stays R (io_bind m f)"
  unfolding io_bind_def by (intro stays_try stays_fail assms)

lemma stays_wrap [stays_intros]: "stays R m \<Longrightarrow> stays R (io_wrap s m)"
  unfolding io_wrap_def by (intro stays_try stays_fail stays_return)

lemma stays_defer [stays_intros]:
  assumes "stays R c" and "stays R m"
  shows "stays R (io_defer c m)"
proof (rule staysI)
  fix w
  obtain r v where mw: "m w = (r, v)" by (cases "m w")
  have "R w v" using assms(2) mw by (rule staysD)
  moreover have "R v (snd (c v))" using assms(1) by (simp add: stays_def)
  ultimately show "R w (snd (io_defer c m w))"
    using mw by (auto simp: io_simps intro: step_trans)
qed

lemma stays_foreach [stays_intros]:
  assumes "\<And>x. stays R (f x)"
  shows "stays R (io_foreach f xs)"
  by (induction xs) (auto intro!: stays_return stays_bind assms)

end

text \<open>Equality of a view of the world is such a relation, for every view.\<close>

definition same :: "('w \<Rightarrow> 'b) \<Rightarrow> 'w \<Rightarrow> 'w \<Rightarrow> bool" where
  "same v w w' \<longleftrightarrow> v w' = v w"

interpretation same_view: step_relation "same v"
  by unfold_locales (simp_all add: same_def)

section \<open>Computations that never panic\<close>

definition safe :: "('w, 'a) io \<Rightarrow> bool" where
  "safe m \<longleftrightarrow> (\<forall>w. \<not> panics (fst (m w)))"

named_theorems safe_intros \<open>structural rules for the absence of panics\<close>

lemma safeD: "safe m \<Longrightarrow> \<not> panics (fst (m w))"
  by (simp add: safe_def)

lemma safe_base [safe_intros]: "safe (io_return a)" "safe (io_fail e)" "safe (io_state f)"
  by (simp_all add: safe_def io_simps)

lemma safe_pure [safe_intros]: "safe (io_pure r)"
  by (auto simp: safe_def io_simps split: sum.split)

lemma safe_try [safe_intros]:
  assumes "safe m" and "\<And>e. safe (h e)" and "\<And>a. safe (f a)"
  shows "safe (io_try m h f)"
  unfolding safe_def
proof
  fix w
  obtain r v where mw: "m w = (r, v)" by (cases "m w")
  then have "\<not> panics r" using safeD [OF assms(1), of w] by simp
  then show "\<not> panics (fst (io_try m h f w))"
    using mw safeD [OF assms(2)] safeD [OF assms(3)] by (cases r) (simp_all add: io_simps)
qed

lemma safe_bind [safe_intros]: "safe m \<Longrightarrow> (\<And>a. safe (f a)) \<Longrightarrow> safe (io_bind m f)"
  unfolding io_bind_def by (intro safe_try safe_base)

lemma safe_wrap [safe_intros]: "safe m \<Longrightarrow> safe (io_wrap s m)"
  unfolding io_wrap_def by (intro safe_try safe_base)

lemma safe_defer [safe_intros]: "safe m \<Longrightarrow> safe (io_defer c m)"
  by (auto simp: safe_def io_simps split: prod.split) (metis fst_conv)

lemma safe_foreach [safe_intros]: "(\<And>x. safe (f x)) \<Longrightarrow> safe (io_foreach f xs)"
  by (induction xs) (auto intro!: safe_base safe_bind)

text \<open>Run a computation on every element and collect the results.\<close>

primrec io_map :: "('a \<Rightarrow> ('w, 'b) io) \<Rightarrow> 'a list \<Rightarrow> ('w, 'b list) io" where
  "io_map f [] = io_return []"
| "io_map f (x # xs) = io_bind (f x) (\<lambda>b. io_bind (io_map f xs) (\<lambda>bs. io_return (b # bs)))"

lemma io_map_length: "io_map f xs w = (Ok bs, w') \<Longrightarrow> length bs = length xs"
  by (induction xs arbitrary: w bs) (auto simp: io_simps split: prod.splits outcome.splits)

lemma safe_map [safe_intros]: "(\<And>x. safe (f x)) \<Longrightarrow> safe (io_map f xs)"
  by (induction xs) (auto intro!: safe_base safe_bind)

lemma io_map_ConsE:
  assumes "io_map f (x # xs) w = (Ok bs, w')"
  obtains b v bs' where "f x w = (Ok b, v)" "io_map f xs v = (Ok bs', w')" "bs = b # bs'"
  using assms by (auto simp: io_simps split: prod.splits outcome.splits)

lemma io_map_all2:
  assumes "io_map f xs w = (Ok bs, w')" and "\<And>x b v v'. f x v = (Ok b, v') \<Longrightarrow> Q x b"
  shows "list_all2 Q xs bs"
  using assms(1)
proof (induction xs arbitrary: w bs)
  case (Cons x xs)
  then show ?case by (elim io_map_ConsE) (auto intro: assms(2))
qed (simp add: io_simps)

section \<open>Decimal numbers\<close>

text \<open>The verb \<open>%d\<close> of a format string, for a number that is not negative.\<close>

fun decimal :: "nat \<Rightarrow> string" where
  "decimal n =
     (if n < 10 then [char_of (n + 48)] else decimal (n div 10) @ [char_of (n mod 10 + 48)])"

declare decimal.simps [simp del]

lemma decimal_digits: "c \<in> set (decimal n) \<Longrightarrow> 48 \<le> (of_char c :: nat) \<and> (of_char c :: nat) \<le> 57"
  by (induction n rule: decimal.induct) (subst (asm) decimal.simps, auto split: if_splits)

section \<open>Options and bounded quantifiers\<close>

lemma first_error_None [simp]:
  "(case x of None \<Rightarrow> y | Some e \<Rightarrow> Some e) = None \<longleftrightarrow> x = None \<and> y = None"
  by (cases x) simp_all

lemma all_less_Suc_conv: "(\<forall>k < Suc n. P k) \<longleftrightarrow> P 0 \<and> (\<forall>k < n. P (Suc k))"
  by (auto simp: less_Suc_eq_0_disj)

lemma ex_less_Suc_conv: "(\<exists>k < Suc n. P k) \<longleftrightarrow> P 0 \<or> (\<exists>k < n. P (Suc k))"
  by (auto simp: less_Suc_eq_0_disj)

lemma list_all2_list_all:
  "list_all2 (\<lambda>x y. Q y \<longrightarrow> P x) xs ys \<Longrightarrow> list_all Q ys \<Longrightarrow> list_all P xs"
  by (induction rule: list_all2_induct) simp_all

section \<open>Splitting and joining lists at a separator\<close>

text \<open>\<open>strings.Split(s, sep)\<close> and \<open>strings.Join(xs, sep)\<close> for a separator of one character.\<close>

fun split_on :: "'a \<Rightarrow> 'a list \<Rightarrow> 'a list list" where
  "split_on c [] = [[]]"
| "split_on c (x # xs) =
     (if x = c then [] # split_on c xs
      else (case split_on c xs of [] \<Rightarrow> [[x]] | y # ys \<Rightarrow> (x # y) # ys))"

fun join_with :: "'a \<Rightarrow> 'a list list \<Rightarrow> 'a list" where
  "join_with c [] = []"
| "join_with c [x] = x"
| "join_with c (x # xs) = x @ c # join_with c xs"

lemma split_on_neq_Nil [simp]: "split_on c xs \<noteq> []"
  by (induction xs) (auto split: list.split)

lemma join_split [simp]: "join_with c (split_on c xs) = xs"
proof (induction xs)
  case (Cons x xs)
  then show ?case
    by (cases "split_on c xs"; cases "tl (split_on c xs)") (auto simp: neq_Nil_conv)
qed simp

lemma split_on_append_sep: "split_on c (xs @ c # ys) = split_on c xs @ split_on c ys"
  by (induction xs) (auto split: list.split)

lemma split_on_no_sep: "c \<notin> set xs \<Longrightarrow> split_on c xs = [xs]"
  by (induction xs) auto

lemma split_on_no_sep_elem: "x \<in> set (split_on c xs) \<Longrightarrow> c \<notin> set x"
  by (induction xs arbitrary: x) (auto split: list.splits if_splits)

lemma split_join:
  "xs \<noteq> [] \<Longrightarrow> \<forall>x \<in> set xs. c \<notin> set x \<Longrightarrow> split_on c (join_with c xs) = xs"
  by (induction c xs rule: join_with.induct) (auto simp: split_on_no_sep split_on_append_sep)

end
