(* ===== verification/API_Types.thy ===== *)
theory API_Types
  imports Prelude "HOL-Library.Word"
begin

text \<open>
  The data of the program: the fields of the Kubernetes and Cluster API objects the code reads
  (object metadata, label selectors, clusters, object references, conditions), and the two custom
  resources declared in \<open>api/v1alpha1\<close> with their accessor methods.

  A Go map that may be nil is an \<open>option\<close> of a map, a pointer is an \<open>option\<close>, a slice is a list
  (the code never tells a nil slice from an empty one), a byte slice is a string.  Time stamps
  are \<open>nat\<close>, durations are \<open>int\<close> nanoseconds.
\<close>

section \<open>Objects of Kubernetes and Cluster API\<close>

type_synonym labels = "string \<rightharpoonup> string"

record ObjectMeta =
  om_Name :: string
  om_Namespace :: string
  om_Labels :: labels
  om_Annotations :: "labels option"
  om_DeletionTimestamp :: "nat option"

record NamespacedName =
  nn_Namespace :: string
  nn_Name :: string

text \<open>\<open>client.ObjectKeyFromObject\<close>.\<close>

definition ObjectKeyFromObject :: "ObjectMeta \<Rightarrow> NamespacedName" where
  "ObjectKeyFromObject m = \<lparr>nn_Namespace = om_Namespace m, nn_Name = om_Name m\<rparr>"

datatype LabelSelectorOperator = In | NotIn | Exists | DoesNotExist | OtherOperator string

record LabelSelectorRequirement =
  lsr_Key :: string
  lsr_Operator :: LabelSelectorOperator
  lsr_Values :: "string list"

record LabelSelector =
  ls_MatchLabels :: "(string \<times> string) list"
  ls_MatchExpressions :: "LabelSelectorRequirement list"

text \<open>A \<open>labels.Selector\<close>, through its only method the code calls, \<open>Matches\<close>.\<close>

type_synonym Selector = "labels \<Rightarrow> bool"

record Condition =
  cond_Type :: string
  cond_Status :: string
  cond_Reason :: string

type_synonym Conditions = "Condition list"

record Cluster =
  cl_Kind :: string
  cl_APIVersion :: string
  cl_Meta :: ObjectMeta
  cl_ControlPlaneReady :: bool
  cl_Conditions :: Conditions

abbreviation cl_Name :: "Cluster \<Rightarrow> string" where
  "cl_Name c \<equiv> om_Name (cl_Meta c)"

abbreviation cl_Namespace :: "Cluster \<Rightarrow> string" where
  "cl_Namespace c \<equiv> om_Namespace (cl_Meta c)"

abbreviation cl_Labels :: "Cluster \<Rightarrow> labels" where
  "cl_Labels c \<equiv> om_Labels (cl_Meta c)"

record ObjectReference =
  ref_Kind :: string
  ref_APIVersion :: string
  ref_Name :: string
  ref_Namespace :: string

definition ControlPlaneReadyCondition :: string where
  "ControlPlaneReadyCondition = ''ControlPlaneReady''"

record Result =
  Requeue :: bool
  RequeueAfter :: int

text \<open>\<open>ctrl.Result{}\<close> and \<open>ctrl.Result{RequeueAfter: n}\<close>.\<close>

definition emptyResult :: Result where
  "emptyResult = \<lparr>Requeue = False, RequeueAfter = 0\<rparr>"

abbreviation requeueAfter :: "int \<Rightarrow> Result" where
  "requeueAfter n \<equiv> emptyResult\<lparr>RequeueAfter := n\<rparr>"

definition minute :: int where
  "minute = 60 * 1000000000"

section \<open>KubewardenAddon\<close>

record ResourceRequirements =
  rr_CPU :: string
  rr_Memory :: string

record PolicyServerConfig =
  psc_Resources :: ResourceRequirements
  psc_Replicas :: "32 word"

record KubewardenAddonSpec =
  kas_ClusterSelector :: LabelSelector
  kas_Version :: string
  kas_ImageRepository :: string
  kas_PolicyServerConfig :: PolicyServerConfig

record KubewardenAddonStatus =
  kast_Ready :: bool
  kast_Conditions :: Conditions
  kast_MatchingClusters :: "ObjectReference list"

record KubewardenAddon =
  ka_Meta :: ObjectMeta
  ka_Spec :: KubewardenAddonSpec
  ka_Status :: KubewardenAddonStatus

definition Addon_GetConditions :: "KubewardenAddon \<Rightarrow> Conditions" where
  "Addon_GetConditions c = kast_Conditions (ka_Status c)"

definition Addon_SetConditions :: "Conditions \<Rightarrow> KubewardenAddon \<Rightarrow> KubewardenAddon" where
  "Addon_SetConditions conditions c = c\<lparr>ka_Status := (ka_Status c)\<lparr>kast_Conditions := conditions\<rparr>\<rparr>"

text \<open>The loop of \<open>SetMatchingClusters\<close>, which appends one reference per cluster.\<close>

fun append_references :: "ObjectReference list \<Rightarrow> Cluster list \<Rightarrow> ObjectReference list" where
  "append_references acc [] = acc"
| "append_references acc (cluster # rest) =
     append_references
       (acc @ [\<lparr>ref_Kind = cl_Kind cluster, ref_APIVersion = cl_APIVersion cluster,
                ref_Name = cl_Name cluster, ref_Namespace = cl_Namespace cluster\<rparr>]) rest"

definition Addon_SetMatchingClusters :: "Cluster list \<Rightarrow> KubewardenAddon \<Rightarrow> KubewardenAddon" where
  "Addon_SetMatchingClusters clusterList c =
     c\<lparr>ka_Status := (ka_Status c)\<lparr>kast_MatchingClusters := append_references [] clusterList\<rparr>\<rparr>"

section \<open>KubewardenPolicy\<close>

record RawExtension =
  re_Raw :: string

record PolicyRule =
  pr_APIGroups :: "string list"
  pr_APIVersions :: "string list"
  pr_Resources :: "string list"
  pr_Operations :: "string list"
  pr_Scope :: string

record MatchCondition =
  mc_Name :: string
  mc_Expression :: string

record KubewardenPolicySpec =
  kps_ClusterSelector :: LabelSelector
  kps_PolicyType :: string
  kps_PolicyName :: string
  kps_TargetNamespace :: string
  kps_PolicyServer :: string
  kps_Module :: string
  kps_Rules :: "PolicyRule list"
  kps_Mutating :: bool
  kps_Settings :: RawExtension
  kps_FailurePolicy :: string
  kps_MatchConditions :: "MatchCondition list"

record DeployedPolicyStatus =
  dps_ClusterName :: string
  dps_ClusterNamespace :: string
  dps_PolicyName :: string
  dps_PolicyType :: string
  dps_Active :: bool
  dps_LastTransitionTime :: "nat option"
  dps_Message :: string

record KubewardenPolicyStatus =
  kpst_Ready :: bool
  kpst_Conditions :: Conditions
  kpst_MatchingClusters :: "ObjectReference list"
  kpst_DeployedPolicies :: "DeployedPolicyStatus list"

record KubewardenPolicy =
  kp_Meta :: ObjectMeta
  kp_Spec :: KubewardenPolicySpec
  kp_Status :: KubewardenPolicyStatus

definition Policy_GetConditions :: "KubewardenPolicy \<Rightarrow> Conditions" where
  "Policy_GetConditions p = kpst_Conditions (kp_Status p)"

definition Policy_SetConditions :: "Conditions \<Rightarrow> KubewardenPolicy \<Rightarrow> KubewardenPolicy" where
  "Policy_SetConditions conditions p = p\<lparr>kp_Status := (kp_Status p)\<lparr>kpst_Conditions := conditions\<rparr>\<rparr>"

definition Policy_SetMatchingClusters :: "Cluster list \<Rightarrow> KubewardenPolicy \<Rightarrow> KubewardenPolicy" where
  "Policy_SetMatchingClusters clusterList p =
     p\<lparr>kp_Status := (kp_Status p)\<lparr>kpst_MatchingClusters := append_references [] clusterList\<rparr>\<rparr>"

section \<open>Annotations\<close>

definition HasAnnotation :: "ObjectMeta \<Rightarrow> string \<Rightarrow> bool" where
  "HasAnnotation o' annotation =
     (case om_Annotations o' of
        None \<Rightarrow> False
      | Some annotations \<Rightarrow> annotations annotation \<noteq> None)"

text \<open>\<open>m[k] = v\<close>: an assignment to an entry of a nil map panics.\<close>

definition map_assign :: "labels option \<Rightarrow> string \<Rightarrow> string \<Rightarrow> labels outcome" where
  "map_assign m k v =
     (case m of
        None \<Rightarrow> Panic ''assignment to entry in nil map''
      | Some f \<Rightarrow> Ok (f(k \<mapsto> v)))"

section \<open>The status accessors of both resources\<close>

text \<open>
  Both custom resources implement Cluster API's getter and setter of conditions and a setter of the
  matching clusters.  The contract: what is set is read back, and the two setters do not interfere.
\<close>

definition reference_of :: "Cluster \<Rightarrow> ObjectReference" where
  "reference_of cluster =
     \<lparr>ref_Kind = cl_Kind cluster, ref_APIVersion = cl_APIVersion cluster,
      ref_Name = cl_Name cluster, ref_Namespace = cl_Namespace cluster\<rparr>"

lemma append_references_map: "append_references acc cs = acc @ map reference_of cs"
  by (induction cs arbitrary: acc) (simp_all add: reference_of_def)

locale status_object =
  fixes getC :: "'o \<Rightarrow> Conditions"
    and setC :: "Conditions \<Rightarrow> 'o \<Rightarrow> 'o"
    and getM :: "'o \<Rightarrow> ObjectReference list"
    and setM :: "Cluster list \<Rightarrow> 'o \<Rightarrow> 'o"
    and spec :: "'o \<Rightarrow> 'p"
  assumes get_setC: "getC (setC cs x) = cs"
    and set_getC: "setC (getC x) x = x"
    and setC_setC: "setC cs (setC ds x) = setC cs x"
    and getM_setM: "getM (setM ks x) = map reference_of ks"
    and getC_setM: "getC (setM ks x) = getC x"
    and getM_setC: "getM (setC cs x) = getM x"
    and spec_set: "spec (setC cs x) = spec x" "spec (setM ks x) = spec x"
begin

lemma matching_names: "map ref_Name (getM (setM ks x)) = map cl_Name ks"
  by (simp add: getM_setM reference_of_def)

lemma matching_length: "length (getM (setM ks x)) = length ks"
  by (simp add: getM_setM)

lemma conditions_roundtrip: "getC (setM ks (setC cs x)) = cs \<and> getM (setC cs (setM ks x)) = map reference_of ks"
  by (simp add: get_setC getM_setM getC_setM getM_setC)

end

lemmas accessor_defs =
  Addon_GetConditions_def Addon_SetConditions_def Addon_SetMatchingClusters_def
  Policy_GetConditions_def Policy_SetConditions_def Policy_SetMatchingClusters_def

interpretation addon_status: status_object
  Addon_GetConditions Addon_SetConditions "\<lambda>a. kast_MatchingClusters (ka_Status a)"
  Addon_SetMatchingClusters ka_Spec
  by unfold_locales (simp_all add: accessor_defs append_references_map)

interpretation policy_status: status_object
  Policy_GetConditions Policy_SetConditions "\<lambda>p. kpst_MatchingClusters (kp_Status p)"
  Policy_SetMatchingClusters kp_Spec
  by unfold_locales (simp_all add: accessor_defs append_references_map)

lemma HasAnnotation_set:
  "HasAnnotation (m\<lparr>om_Annotations := Some (f(k \<mapsto> v))\<rparr>) k' \<longleftrightarrow> k' = k \<or> f k' \<noteq> None"
  by (simp add: HasAnnotation_def)

lemma map_assign_nil_guard:
  "\<not> panics (map_assign (Some (case m of None \<Rightarrow> Map.empty | Some f \<Rightarrow> f)) k v)"
  by (simp add: map_assign_def)

end
