(* ===== verification/Sample_Objects.thy ===== *)
theory Sample_Objects
  imports API_Types
begin

text \<open>
  Concrete objects on which the witnesses of the development evaluate the model.
\<close>

definition sampleMeta :: "string \<Rightarrow> ObjectMeta" where
  "sampleMeta name =
     \<lparr>om_Name = name, om_Namespace = ''default'', om_Labels = [''environment'' \<mapsto> ''production''],
      om_Annotations = None, om_DeletionTimestamp = None\<rparr>"

definition sampleSelector :: LabelSelector where
  "sampleSelector =
     \<lparr>ls_MatchLabels = [(''environment'', ''production'')], ls_MatchExpressions = []\<rparr>"

definition sampleCluster :: "string \<Rightarrow> Cluster" where
  "sampleCluster name =
     \<lparr>cl_Kind = ''Cluster'', cl_APIVersion = ''cluster.x-k8s.io/v1beta1'', cl_Meta = sampleMeta name,
      cl_ControlPlaneReady = True,
      cl_Conditions = [\<lparr>cond_Type = ''ControlPlaneReady'', cond_Status = ''True'', cond_Reason = ''''\<rparr>]\<rparr>"

definition installedCluster :: "string \<Rightarrow> Cluster" where
  "installedCluster name =
     (sampleCluster name)\<lparr>cl_Meta := (sampleMeta name)
        \<lparr>om_Annotations := Some [''caapkw.kubewarden.io/installed'' \<mapsto> ''true'']\<rparr>\<rparr>"

definition sampleRule :: PolicyRule where
  "sampleRule =
     \<lparr>pr_APIGroups = [''''], pr_APIVersions = [''v1''], pr_Resources = [''pods''],
      pr_Operations = [''CREATE'', ''UPDATE''], pr_Scope = ''''\<rparr>"

definition samplePolicy :: KubewardenPolicy where
  "samplePolicy =
     \<lparr>kp_Meta = sampleMeta ''no-privileged-pods'',
      kp_Spec = \<lparr>kps_ClusterSelector = sampleSelector, kps_PolicyType = ''AdmissionPolicy'',
        kps_PolicyName = '''', kps_TargetNamespace = '''', kps_PolicyServer = '''',
        kps_Module = ''registry://ghcr.io/kubewarden/policies/pod-privileged:v1.0.8'',
        kps_Rules = [sampleRule], kps_Mutating = False, kps_Settings = \<lparr>re_Raw = ''{}''\<rparr>,
        kps_FailurePolicy = '''', kps_MatchConditions = []\<rparr>,
      kp_Status = \<lparr>kpst_Ready = False, kpst_Conditions = [], kpst_MatchingClusters = [],
        kpst_DeployedPolicies = []\<rparr>\<rparr>"

definition sampleAddon :: KubewardenAddon where
  "sampleAddon =
     \<lparr>ka_Meta = sampleMeta ''kubewarden'',
      ka_Spec = \<lparr>kas_ClusterSelector = sampleSelector, kas_Version = '''', kas_ImageRepository = '''',
        kas_PolicyServerConfig =
          \<lparr>psc_Resources = \<lparr>rr_CPU = '''', rr_Memory = ''''\<rparr>, psc_Replicas = 1\<rparr>\<rparr>,
      ka_Status = \<lparr>kast_Ready = False, kast_Conditions = [], kast_MatchingClusters = []\<rparr>\<rparr>"

lemmas sample_defs =
  sampleMeta_def sampleSelector_def sampleCluster_def installedCluster_def sampleRule_def
  samplePolicy_def sampleAddon_def

end
