(* ===== verification/Webhooks.thy ===== *)
theory Webhooks
  imports Sample_Objects
begin

text \<open>
  The admission webhooks of the two custom resources (\<open>api/v1alpha1/kubewardenaddon_webhook.go\<close>
  and \<open>kubewardenpolicy_webhook.go\<close>): the mutating webhook \<open>Default\<close> and the three validating
  entry points.  A validator returns its warnings together with an optional error; logging is left
  out.  The locale \<open>admission_object\<close> is the contract both resources share: what a client gets that runs
  the defaulter and then the validator on every write.  Which writes the API server sends to them is the subject of
  the theory of admission.
\<close>

type_synonym verdict = "string list \<times> go_error option"

section \<open>KubewardenAddon\<close>

definition Addon_Default :: "KubewardenAddon \<Rightarrow> KubewardenAddon" where
  "Addon_Default p =
     (let p1 = (if kas_ImageRepository (ka_Spec p) = ''''
                then p\<lparr>ka_Spec := (ka_Spec p)
                       \<lparr>kas_ImageRepository := ''ghcr.io/kubewarden/kubewarden-controller:v1.18.0''\<rparr>\<rparr>
                else p)
      in if kas_Version (ka_Spec p1) = ''''
         then p1\<lparr>ka_Spec := (ka_Spec p1)\<lparr>kas_Version := ''latest''\<rparr>\<rparr>
         else p1)"

definition Addon_ValidateCreate :: "KubewardenAddon \<Rightarrow> verdict" where
  "Addon_ValidateCreate r = ([], None)"

definition Addon_ValidateUpdate :: "KubewardenAddon \<Rightarrow> KubewardenAddon \<Rightarrow> verdict" where
  "Addon_ValidateUpdate r old = ([], None)"

definition Addon_ValidateDelete :: "KubewardenAddon \<Rightarrow> verdict" where
  "Addon_ValidateDelete r = ([], None)"

section \<open>KubewardenPolicy\<close>

definition default_PolicyType :: "KubewardenPolicySpec \<Rightarrow> KubewardenPolicySpec" where
  "default_PolicyType s =
     (if kps_PolicyType s = '''' then s\<lparr>kps_PolicyType := ''ClusterAdmissionPolicy''\<rparr> else s)"

definition default_PolicyServer :: "KubewardenPolicySpec \<Rightarrow> KubewardenPolicySpec" where
  "default_PolicyServer s =
     (if kps_PolicyServer s = '''' then s\<lparr>kps_PolicyServer := ''default''\<rparr> else s)"

definition default_FailurePolicy :: "KubewardenPolicySpec \<Rightarrow> KubewardenPolicySpec" where
  "default_FailurePolicy s =
     (if kps_FailurePolicy s = '''' then s\<lparr>kps_FailurePolicy := ''Fail''\<rparr> else s)"

definition default_PolicyName :: "string \<Rightarrow> KubewardenPolicySpec \<Rightarrow> KubewardenPolicySpec" where
  "default_PolicyName name s =
     (if kps_PolicyName s = '''' then s\<lparr>kps_PolicyName := name\<rparr> else s)"

definition default_TargetNamespace :: "KubewardenPolicySpec \<Rightarrow> KubewardenPolicySpec" where
  "default_TargetNamespace s =
     (if kps_PolicyType s = ''AdmissionPolicy'' \<and> kps_TargetNamespace s = ''''
      then s\<lparr>kps_TargetNamespace := ''default''\<rparr> else s)"

definition Policy_Default :: "KubewardenPolicy \<Rightarrow> KubewardenPolicy" where
  "Policy_Default p =
     p\<lparr>kp_Spec :=
         default_TargetNamespace
           (default_PolicyName (om_Name (kp_Meta p))
             (default_FailurePolicy (default_PolicyServer (default_PolicyType (kp_Spec p)))))\<rparr>"

definition rule_error :: "nat \<Rightarrow> string \<Rightarrow> go_error" where
  "rule_error i msg = Errorf (''rule['' @ decimal i @ '']: '' @ msg)"

definition validOps :: "string list" where
  "validOps = [''CREATE'', ''UPDATE'', ''DELETE'', ''CONNECT'']"

fun validate_operations :: "nat \<Rightarrow> string list \<Rightarrow> go_error option" where
  "validate_operations i [] = None"
| "validate_operations i (op # ops) =
     (if op \<notin> set validOps
      then Some (rule_error i (''invalid operation '' @ [CHR 0x27] @ op @ [CHR 0x27] @
                  '', must be one of: CREATE, UPDATE, DELETE, CONNECT''))
      else validate_operations i ops)"

definition validate_rule :: "nat \<Rightarrow> PolicyRule \<Rightarrow> go_error option" where
  "validate_rule i rule =
     (if length (pr_APIVersions rule) = 0 then Some (rule_error i ''apiVersions must be specified'')
      else if length (pr_Resources rule) = 0 then Some (rule_error i ''resources must be specified'')
      else if length (pr_Operations rule) = 0 then Some (rule_error i ''operations must be specified'')
      else validate_operations i (pr_Operations rule))"

fun validate_rules :: "nat \<Rightarrow> PolicyRule list \<Rightarrow> go_error option" where
  "validate_rules i [] = None"
| "validate_rules i (rule # rules) =
     (case validate_rule i rule of
        Some e \<Rightarrow> Some e
      | None \<Rightarrow> validate_rules (Suc i) rules)"

definition validateKubewardenPolicy :: "KubewardenPolicy \<Rightarrow> verdict" where
  "validateKubewardenPolicy p =
     (let s = kp_Spec p in
      if kps_Module s = '''' then ([], Some (Errorf ''module must be specified''))
      else if length (kps_Rules s) = 0
           then ([], Some (Errorf ''at least one rule must be specified''))
      else (case validate_rules 0 (kps_Rules s) of
              Some e \<Rightarrow> ([], Some e)
            | None \<Rightarrow>
                if kps_PolicyType s = ''AdmissionPolicy'' \<and> kps_TargetNamespace s = ''''
                then ([], Some (Errorf ''targetNamespace must be specified for AdmissionPolicy''))
                else if kps_PolicyType s = ''AdmissionPolicy''
                then ([''AdmissionPolicy requires Kubernetes 1.21.0 or greater in workload clusters''], None)
                else ([], None)))"

definition Policy_ValidateCreate :: "KubewardenPolicy \<Rightarrow> verdict" where
  "Policy_ValidateCreate p = validateKubewardenPolicy p"

definition Policy_ValidateUpdate :: "KubewardenPolicy \<Rightarrow> KubewardenPolicy \<Rightarrow> verdict" where
  "Policy_ValidateUpdate p old = validateKubewardenPolicy p"

definition Policy_ValidateDelete :: "KubewardenPolicy \<Rightarrow> verdict" where
  "Policy_ValidateDelete p = ([], None)"

section \<open>The admission contract\<close>

locale admission_object =
  fixes default :: "'o \<Rightarrow> 'o"
    and vcreate :: "'o \<Rightarrow> verdict"
    and vupdate :: "'o \<Rightarrow> 'o \<Rightarrow> verdict"
    and vdelete :: "'o \<Rightarrow> verdict"
    and meta :: "'o \<Rightarrow> ObjectMeta"
  assumes default_idem: "default (default x) = default x"
    and default_meta: "meta (default x) = meta x"
    and update_as_create: "vupdate x old = vcreate x"
    and delete_admitted: "vdelete x = ([], None)"
begin

text \<open>A create or update request: the object as it is stored, or the reason it is refused.\<close>

definition admit :: "'o \<Rightarrow> go_error + 'o" where
  "admit x = (case vcreate (default x) of (_, Some e) \<Rightarrow> Inl e | (_, None) \<Rightarrow> Inr (default x))"

lemma admit_stored_fixed: "admit x = Inr y \<Longrightarrow> default y = y"
  by (auto simp: admit_def default_idem split: prod.splits option.splits)

lemma admit_again: "admit x = Inr y \<Longrightarrow> admit y = Inr y"
  by (auto simp: admit_def default_idem split: prod.splits option.splits)

lemma update_of_stored: "admit x = Inr y \<Longrightarrow> snd (vupdate y old) = None"
  by (auto simp: admit_def default_idem update_as_create split: prod.splits option.splits)

lemma admit_defaulted: "admit (default x) = admit x"
  unfolding admit_def default_idem ..

end

lemmas addon_webhook_defs =
  Addon_Default_def Addon_ValidateCreate_def Addon_ValidateUpdate_def Addon_ValidateDelete_def
lemmas policy_webhook_defs =
  Policy_ValidateCreate_def Policy_ValidateUpdate_def Policy_ValidateDelete_def

text \<open>The defaulter in closed form: each field is its old value or its default.\<close>

definition or_default :: "string \<Rightarrow> string \<Rightarrow> string" where
  "or_default d x = (if x = '''' then d else x)"

lemma or_default_idem [simp]: "or_default d (or_default d x) = or_default d x"
  by (simp add: or_default_def)

lemma or_default_keep: "x \<noteq> '''' \<Longrightarrow> or_default d x = x"
  by (simp add: or_default_def)

lemma or_default_nonempty [simp]: "or_default d x = '''' \<longleftrightarrow> d = '''' \<and> x = ''''"
  by (auto simp: or_default_def)

definition default_ns :: "string \<Rightarrow> string \<Rightarrow> string" where
  "default_ns ty ns = (if ty = ''AdmissionPolicy'' then or_default ''default'' ns else ns)"

lemma default_ns_idem [simp]: "default_ns ty (default_ns ty ns) = default_ns ty ns"
  by (simp add: default_ns_def)

lemma default_steps:
  "default_PolicyType s = s\<lparr>kps_PolicyType := or_default ''ClusterAdmissionPolicy'' (kps_PolicyType s)\<rparr>"
  "default_PolicyServer s = s\<lparr>kps_PolicyServer := or_default ''default'' (kps_PolicyServer s)\<rparr>"
  "default_FailurePolicy s = s\<lparr>kps_FailurePolicy := or_default ''Fail'' (kps_FailurePolicy s)\<rparr>"
  "default_PolicyName n s = s\<lparr>kps_PolicyName := or_default n (kps_PolicyName s)\<rparr>"
  "default_TargetNamespace s =
     s\<lparr>kps_TargetNamespace := default_ns (kps_PolicyType s) (kps_TargetNamespace s)\<rparr>"
  by (simp_all add: default_PolicyType_def default_PolicyServer_def default_FailurePolicy_def
      default_PolicyName_def default_TargetNamespace_def or_default_def default_ns_def)

lemma Policy_Default_closed:
  "Policy_Default p =
     p\<lparr>kp_Spec := (kp_Spec p)
        \<lparr>kps_PolicyType := or_default ''ClusterAdmissionPolicy'' (kps_PolicyType (kp_Spec p)),
         kps_PolicyServer := or_default ''default'' (kps_PolicyServer (kp_Spec p)),
         kps_FailurePolicy := or_default ''Fail'' (kps_FailurePolicy (kp_Spec p)),
         kps_PolicyName := or_default (om_Name (kp_Meta p)) (kps_PolicyName (kp_Spec p)),
         kps_TargetNamespace :=
           default_ns (or_default ''ClusterAdmissionPolicy'' (kps_PolicyType (kp_Spec p)))
             (kps_TargetNamespace (kp_Spec p))\<rparr>\<rparr>"
  by (simp add: Policy_Default_def default_steps)

interpretation addon_admission: admission_object
  Addon_Default Addon_ValidateCreate Addon_ValidateUpdate Addon_ValidateDelete ka_Meta
  by unfold_locales (simp_all add: addon_webhook_defs Let_def)

interpretation policy_admission: admission_object
  Policy_Default Policy_ValidateCreate Policy_ValidateUpdate Policy_ValidateDelete kp_Meta
  by unfold_locales (simp_all add: policy_webhook_defs Policy_Default_closed)

section \<open>What the validator accepts\<close>

definition rule_ok :: "PolicyRule \<Rightarrow> bool" where
  "rule_ok r \<longleftrightarrow> pr_APIVersions r \<noteq> [] \<and> pr_Resources r \<noteq> [] \<and> pr_Operations r \<noteq> [] \<and>
     set (pr_Operations r) \<subseteq> {''CREATE'', ''UPDATE'', ''DELETE'', ''CONNECT''}"

lemma validate_operations_None: "validate_operations i ops = None \<longleftrightarrow> set ops \<subseteq> set validOps"
  by (induction ops) auto

lemma validate_rule_None: "validate_rule i r = None \<longleftrightarrow> rule_ok r"
  by (auto simp: validate_rule_def rule_ok_def validate_operations_None validOps_def)

lemma validate_rules_None: "validate_rules i rs = None \<longleftrightarrow> (\<forall>r \<in> set rs. rule_ok r)"
  by (induction rs arbitrary: i) (auto simp: validate_rule_None)

lemma validate_rules_Some:
  "validate_rules i rs = Some e \<longleftrightarrow>
     (\<exists>k < length rs. validate_rule (i + k) (rs ! k) = Some e \<and> (\<forall>j < k. rule_ok (rs ! j)))"
proof (induction rs arbitrary: i)
  case (Cons r rs)
  show ?case
  proof (cases "validate_rule i r")
    case None
    then have "rule_ok r" by (simp add: validate_rule_None)
    then show ?thesis
      using None by (auto simp: Cons.IH all_less_Suc_conv ex_less_Suc_conv)
  next
    case (Some e')
    then have "\<not> rule_ok r" by (simp flip: validate_rule_None [of i])
    then show ?thesis
      using Some by (auto simp: all_less_Suc_conv ex_less_Suc_conv)
  qed
qed simp

lemma validate_operations_rule_error:
  "validate_operations i ops = Some e \<Longrightarrow> \<exists>msg. e = rule_error i msg"
  by (induction ops) (auto split: if_splits)

lemma validate_rule_rule_error: "validate_rule i r = Some e \<Longrightarrow> \<exists>msg. e = rule_error i msg"
  by (auto simp: validate_rule_def dest: validate_operations_rule_error split: if_splits)

lemma validate_None:
  "snd (validateKubewardenPolicy p) = None \<longleftrightarrow>
     kps_Module (kp_Spec p) \<noteq> '''' \<and> kps_Rules (kp_Spec p) \<noteq> [] \<and>
     (\<forall>r \<in> set (kps_Rules (kp_Spec p)). rule_ok r) \<and>
     (kps_PolicyType (kp_Spec p) = ''AdmissionPolicy'' \<longrightarrow> kps_TargetNamespace (kp_Spec p) \<noteq> '''')"
  by (auto simp: validateKubewardenPolicy_def Let_def validate_rules_None [of 0, symmetric]
      split: option.splits)

lemma validate_warnings:
  "fst (validateKubewardenPolicy p) \<noteq> [] \<longleftrightarrow>
     snd (validateKubewardenPolicy p) = None \<and> kps_PolicyType (kp_Spec p) = ''AdmissionPolicy''"
  by (auto simp: validateKubewardenPolicy_def Let_def split: option.splits)

section \<open>Properties\<close>

text \<open>C12: the policy validator accepts a policy exactly when it names a module, has at least one
  rule, every rule has API versions, resources and operations, every operation is one of the four
  admission operations, and a namespaced policy names its target namespace; it warns exactly for
  accepted namespaced policies, so warnings never come with an error.\<close>

theorem validate_accepts_iff:
  "(snd (validateKubewardenPolicy p) = None \<longleftrightarrow>
      kps_Module (kp_Spec p) \<noteq> '''' \<and> kps_Rules (kp_Spec p) \<noteq> [] \<and>
      (\<forall>r \<in> set (kps_Rules (kp_Spec p)). rule_ok r) \<and>
      (kps_PolicyType (kp_Spec p) = ''AdmissionPolicy'' \<longrightarrow> kps_TargetNamespace (kp_Spec p) \<noteq> '''')) \<and>
   (fst (validateKubewardenPolicy p) \<noteq> [] \<longleftrightarrow>
      snd (validateKubewardenPolicy p) = None \<and> kps_PolicyType (kp_Spec p) = ''AdmissionPolicy'')"
  by (auto simp: validate_None validate_warnings)

theorem validate_accepts_iff_witness:
  "rule_ok sampleRule \<and> snd (validateKubewardenPolicy (Policy_Default samplePolicy)) = None \<and>
   fst (validateKubewardenPolicy (Policy_Default samplePolicy)) \<noteq> []"
  using validate_accepts_iff [of "Policy_Default samplePolicy"]
  by (simp add: sample_defs Policy_Default_closed or_default_def default_ns_def rule_ok_def)

text \<open>When the rules of a policy with a module are at fault, the error reported is the one of
  the first offending rule, and it carries that rule's index.\<close>

theorem validate_reports_first_bad_rule:
  assumes "kps_Module (kp_Spec p) \<noteq> ''''"
    and "k < length (kps_Rules (kp_Spec p))"
    and "\<not> rule_ok (kps_Rules (kp_Spec p) ! k)"
    and "\<forall>j < k. rule_ok (kps_Rules (kp_Spec p) ! j)"
  shows "\<exists>msg. validateKubewardenPolicy p = ([], Some (rule_error k msg)) \<and>
     validate_rule k (kps_Rules (kp_Spec p) ! k) = Some (rule_error k msg)"
proof -
  let ?r = "kps_Rules (kp_Spec p) ! k"
  obtain msg where msg: "validate_rule k ?r = Some (rule_error k msg)"
    using assms(3) by (metis option.exhaust validate_rule_None validate_rule_rule_error)
  then have "validate_rules 0 (kps_Rules (kp_Spec p)) = Some (rule_error k msg)"
    using assms(2,4) by (auto simp: validate_rules_Some)
  then show ?thesis
    using msg assms(1,2) by (intro exI [of _ msg]) (auto simp: validateKubewardenPolicy_def Let_def)
qed

definition badOperationPolicy :: KubewardenPolicy where
  "badOperationPolicy = samplePolicy\<lparr>kp_Spec := (kp_Spec samplePolicy)
     \<lparr>kps_Rules := [sampleRule, sampleRule\<lparr>pr_Operations := [''CREATE'', ''PATCH'']\<rparr>]\<rparr>\<rparr>"

theorem validate_reports_first_bad_rule_witness:
  "\<exists>msg. validateKubewardenPolicy badOperationPolicy = ([], Some (rule_error 1 msg))"
  using validate_reports_first_bad_rule [of badOperationPolicy 1]
  by (auto simp: badOperationPolicy_def sample_defs rule_ok_def)

text \<open>C24: the defaulting webhook fills exactly the empty fields, with the documented values: the policy type
  \<open>ClusterAdmissionPolicy\<close>, the policy server \<open>default\<close>, the failure policy \<open>Fail\<close>, the name of the object as the policy
  name and, for a namespaced policy only, the target namespace \<open>default\<close>.  Every value the user gave is kept, and
  nothing else changes.\<close>

theorem policy_default_fills_empty_fields:
  assumes "s = kp_Spec p" and "s' = kp_Spec (Policy_Default p)"
  shows "kps_PolicyType s' = (if kps_PolicyType s = '''' then ''ClusterAdmissionPolicy'' else kps_PolicyType s) \<and>
    kps_PolicyServer s' = (if kps_PolicyServer s = '''' then ''default'' else kps_PolicyServer s) \<and>
    kps_FailurePolicy s' = (if kps_FailurePolicy s = '''' then ''Fail'' else kps_FailurePolicy s) \<and>
    kps_PolicyName s' = (if kps_PolicyName s = '''' then om_Name (kp_Meta p) else kps_PolicyName s) \<and>
    kps_TargetNamespace s' =
      (if kps_PolicyType s = ''AdmissionPolicy'' \<and> kps_TargetNamespace s = '''' then ''default'' else kps_TargetNamespace s) \<and>
    s'\<lparr>kps_PolicyType := kps_PolicyType s, kps_PolicyServer := kps_PolicyServer s,
       kps_FailurePolicy := kps_FailurePolicy s, kps_PolicyName := kps_PolicyName s,
       kps_TargetNamespace := kps_TargetNamespace s\<rparr> = s \<and>
    kp_Meta (Policy_Default p) = kp_Meta p \<and> kp_Status (Policy_Default p) = kp_Status p"
  using assms by (simp add: Policy_Default_closed or_default_def default_ns_def)

theorem policy_default_fills_empty_fields_witness:
  "kps_PolicyType (kp_Spec (Policy_Default samplePolicy)) = ''AdmissionPolicy'' \<and>
   kps_PolicyServer (kp_Spec (Policy_Default samplePolicy)) = ''default'' \<and>
   kps_FailurePolicy (kp_Spec (Policy_Default samplePolicy)) = ''Fail'' \<and>
   kps_PolicyName (kp_Spec (Policy_Default samplePolicy)) = ''no-privileged-pods'' \<and>
   kps_TargetNamespace (kp_Spec (Policy_Default samplePolicy)) = ''default''"
  using policy_default_fills_empty_fields
    [of "kp_Spec samplePolicy" samplePolicy "kp_Spec (Policy_Default samplePolicy)"]
  by (simp add: sample_defs)

text \<open>C23: admission of a policy, that is defaulting followed by validation, refuses it exactly for
  a missing module, no rule or a malformed rule (never for a missing target namespace), and an
  admitted object is admitted again unchanged: it is a fixed point of the defaulter, and an update
  to it is accepted whatever the old object was.\<close>

theorem policy_admission_stable:
  "(snd (Policy_ValidateCreate (Policy_Default p)) = None \<longleftrightarrow>
      kps_Module (kp_Spec p) \<noteq> '''' \<and> kps_Rules (kp_Spec p) \<noteq> [] \<and>
      (\<forall>r \<in> set (kps_Rules (kp_Spec p)). rule_ok r)) \<and>
   Policy_Default (Policy_Default p) = Policy_Default p \<and>
   (snd (Policy_ValidateCreate (Policy_Default p)) = None \<longrightarrow>
      snd (Policy_ValidateUpdate (Policy_Default (Policy_Default p)) old) = None)"
  by (simp add: Policy_ValidateCreate_def Policy_ValidateUpdate_def policy_admission.default_idem
      validate_None Policy_Default_closed default_ns_def)

theorem policy_admission_stable_witness:
  "snd (Policy_ValidateCreate (Policy_Default samplePolicy)) = None \<and>
   snd (Policy_ValidateUpdate (Policy_Default (Policy_Default samplePolicy)) badOperationPolicy) = None"
proof -
  have "kps_Module (kp_Spec samplePolicy) \<noteq> '''' \<and> kps_Rules (kp_Spec samplePolicy) \<noteq> [] \<and>
      (\<forall>r \<in> set (kps_Rules (kp_Spec samplePolicy)). rule_ok r)"
    by (simp add: samplePolicy_def sampleRule_def rule_ok_def)
  then show ?thesis
    using policy_admission_stable [of samplePolicy badOperationPolicy] by blast
qed

end
