(* ===== verification/Paths.thy ===== *)
theory Paths
  imports Prelude "HOL-Library.Char_ord" "HOL-Library.List_Lexorder"
begin

text \<open>
  The part of Go's \<open>path/filepath\<close> the program calls, for Unix path syntax: \<open>Clean\<close>, \<open>Join\<close> and
  the base-name pattern \<open>*.yaml\<close> of \<open>Glob\<close>.  A path also has a key, its rootedness and its
  list of cleaned components, which is what identifies a file: \<open>pkey\<close> is invariant under \<open>Clean\<close>.
\<close>

abbreviation slash :: char where
  "slash \<equiv> CHR ''/''"

text \<open>
  One pass of \<open>Clean\<close> over the components, with the output reversed: empty components and \<open>.\<close> are
  dropped, \<open>..\<close> removes the component before it, is dropped at the root of a rooted path, and is
  kept at the front of a relative one.
\<close>

fun clean_comps :: "bool \<Rightarrow> string list \<Rightarrow> string list \<Rightarrow> string list" where
  "clean_comps rooted out [] = rev out"
| "clean_comps rooted out (c # cs) =
     (if c = '''' \<or> c = ''.'' then clean_comps rooted out cs
      else if c = ''..'' then
        (case out of
           [] \<Rightarrow> if rooted then clean_comps rooted [] cs else clean_comps rooted [''..''] cs
         | x # xs \<Rightarrow> if x \<noteq> ''..'' then clean_comps rooted xs cs
                     else clean_comps rooted (''..'' # out) cs)
      else clean_comps rooted (c # out) cs)"

definition is_rooted :: "string \<Rightarrow> bool" where
  "is_rooted s = (case s of [] \<Rightarrow> False | c # _ \<Rightarrow> c = slash)"

type_synonym key = "bool \<times> string list"

definition pkey :: "string \<Rightarrow> key" where
  "pkey s = (is_rooted s, clean_comps (is_rooted s) [] (split_on slash s))"

fun render :: "key \<Rightarrow> string" where
  "render (rooted, cs) =
     (if rooted then slash # join_with slash cs
      else if cs = [] then ''.'' else join_with slash cs)"

definition Clean :: "string \<Rightarrow> string" where
  "Clean s = render (pkey s)"

definition Join :: "string list \<Rightarrow> string" where
  "Join elems = (case dropWhile (\<lambda>e. e = '''') elems of [] \<Rightarrow> '''' | es \<Rightarrow> Clean (join_with slash es))"

text \<open>\<open>Match("*.yaml", name)\<close> for a name without separators.\<close>

definition match_yaml :: "string \<Rightarrow> bool" where
  "match_yaml name \<longleftrightarrow> suffix ''.yaml'' name"

section \<open>Clean components\<close>

definition plain :: "string \<Rightarrow> bool" where
  "plain c \<longleftrightarrow> c \<noteq> '''' \<and> c \<noteq> ''.'' \<and> c \<noteq> ''..'' \<and> slash \<notin> set c"

definition noise :: "string \<Rightarrow> bool" where
  "noise c \<longleftrightarrow> c = '''' \<or> c = ''.''"

lemma clean_comps_append:
  "clean_comps r out (xs @ ys) = clean_comps r (rev (clean_comps r out xs)) ys"
  by (induction r out xs rule: clean_comps.induct) (auto split: list.split)

lemma clean_comps_no_dotdot:
  "''..'' \<notin> set cs \<Longrightarrow> clean_comps r out cs = rev out @ filter (\<lambda>c. \<not> noise c) cs"
  by (induction cs arbitrary: out) (auto simp: noise_def)

text \<open>The shape of a cleaned component list: leading \<open>..\<close> only for relative paths, then plain names.\<close>

definition cleaned :: "bool \<Rightarrow> string list \<Rightarrow> bool" where
  "cleaned r cs \<longleftrightarrow> sorted_wrt (\<lambda>a b. b = ''..'' \<longrightarrow> a = ''..'') cs \<and>
     (\<forall>c \<in> set cs. plain c \<or> c = ''..'' \<and> \<not> r)"

lemma plain_simps [simp]: "\<not> plain ''''" "\<not> plain ''.''" "\<not> plain ''..''"
  by (simp_all add: plain_def)

lemma cleaned_Nil [simp]: "cleaned r []"
  by (simp add: cleaned_def)

lemma cleaned_append_plain:
  "cleaned r cs \<Longrightarrow> \<forall>x \<in> set xs. plain x \<Longrightarrow> cleaned r (cs @ xs)"
  unfolding cleaned_def by (auto simp: sorted_wrt_append) (induction xs, auto)

lemma cleaned_prefix: "cleaned r (cs @ ds) \<Longrightarrow> cleaned r cs"
  by (auto simp: cleaned_def sorted_wrt_append)

lemma cleaned_last_dotdot:
  "cleaned r (cs @ [''..'']) \<Longrightarrow> \<not> r \<and> cleaned r (cs @ [''..'', ''..''])"
  by (auto simp: cleaned_def sorted_wrt_append)

lemma clean_comps_step_cleaned:
  assumes "cleaned r (rev out)" and "slash \<notin> set c"
  shows "\<exists>out'. cleaned r (rev out') \<and> (\<forall>cs. clean_comps r out (c # cs) = clean_comps r out' cs)"
proof (cases "noise c")
  case True
  then show ?thesis using assms(1) by (auto simp: noise_def)
next
  case noisy: False
  show ?thesis
  proof (cases "c = ''..''")
    case False
    then have "plain c" using noisy assms(2) by (simp add: plain_def noise_def)
    then have "cleaned r (rev (c # out))" using assms(1) by (simp add: cleaned_append_plain)
    then show ?thesis using False noisy by (intro exI [of _ "c # out"]) (simp add: noise_def)
  next
    case True
    show ?thesis
    proof (cases out)
      case Nil
      have "cleaned False [''..'']" by (simp add: cleaned_def)
      then show ?thesis
        using True Nil by (intro exI [of _ "if r then [] else [''..'']"]) simp
    next
      case (Cons x xs)
      have "cleaned r (rev xs)" using assms(1) Cons by (auto intro: cleaned_prefix)
      moreover have "x = ''..'' \<Longrightarrow> cleaned r (rev (''..'' # out))"
        using assms(1) Cons cleaned_last_dotdot [of r "rev xs"] by auto
      ultimately show ?thesis
        using True Cons by (intro exI [of _ "if x = ''..'' then ''..'' # out else xs"]) simp
    qed
  qed
qed

lemma clean_comps_cleaned:
  "cleaned r (rev out) \<Longrightarrow> \<forall>c \<in> set cs. slash \<notin> set c \<Longrightarrow> cleaned r (clean_comps r out cs)"
proof (induction cs arbitrary: out)
  case (Cons c cs)
  then obtain out' where "cleaned r (rev out')" "clean_comps r out (c # cs) = clean_comps r out' cs"
    using clean_comps_step_cleaned [of r out c] by auto
  then show ?case using Cons.IH Cons.prems by simp
qed simp

lemma clean_comps_fixed: "cleaned r (rev out @ cs) \<Longrightarrow> clean_comps r out cs = rev out @ cs"
proof (induction cs arbitrary: out)
  case (Cons c cs)
  then have "cleaned r (rev (c # out) @ cs)" by simp
  then have IH: "clean_comps r (c # out) cs = rev out @ c # cs"
    using Cons.IH [of "c # out"] by simp
  have c: "plain c \<or> c = ''..'' \<and> \<not> r" and front: "c = ''..'' \<Longrightarrow> \<forall>x \<in> set out. x = ''..''"
    using Cons.prems by (auto simp: cleaned_def sorted_wrt_append)
  show ?case
  proof (cases "c = ''..''")
    case True
    then have "\<not> r" using c by simp
    then show ?thesis using True IH front by (cases out) simp_all
  next
    case False
    then have "plain c" using c by simp
    then show ?thesis using False IH by (simp add: plain_def)
  qed
qed simp

lemma pkey_cleaned: "cleaned (fst (pkey s)) (snd (pkey s))"
  unfolding pkey_def fst_conv snd_conv
  by (rule clean_comps_cleaned) (auto dest: split_on_no_sep_elem)

lemma cleaned_elem:
  assumes "cleaned r cs" and "x \<in> set cs"
  shows "slash \<notin> set x" and "x \<noteq> ''''"
proof -
  have "plain x \<or> x = ''..''" using assms unfolding cleaned_def by blast
  then show "slash \<notin> set x" and "x \<noteq> ''''" by (auto simp: plain_def)
qed

lemma pkey_render: "cleaned r cs \<Longrightarrow> pkey (render (r, cs)) = (r, cs)"
proof -
  assume c: "cleaned r cs"
  then have ns: "\<forall>x \<in> set cs. slash \<notin> set x" by (blast dest: cleaned_elem(1))
  have fixed: "clean_comps r [] cs = cs" using clean_comps_fixed [of r "[]"] c by simp
  show ?thesis
  proof (cases cs)
    case Nil
    then show ?thesis by (cases r) (simp_all add: pkey_def is_rooted_def)
  next
    case (Cons x xs)
    then have "x \<noteq> ''''" using cleaned_elem(2) [OF c] by simp
    then have "\<not> is_rooted (join_with slash cs)"
      using Cons ns by (cases xs; cases x) (auto simp: is_rooted_def)
    moreover have "split_on slash (join_with slash cs) = cs"
      using Cons ns by (intro split_join) simp_all
    moreover have "clean_comps True [] ([] # cs) = clean_comps True [] cs" by simp
    ultimately show ?thesis
      using Cons fixed by (cases r) (simp_all add: pkey_def is_rooted_def del: clean_comps.simps join_with.simps)
  qed
qed

theorem pkey_Clean [simp]: "pkey (Clean s) = pkey s"
  using pkey_cleaned [of s] by (metis Clean_def pkey_render prod.collapse)

corollary Clean_idem: "Clean (Clean s) = Clean s"
  using pkey_Clean [of s] by (simp only: Clean_def [of "Clean s"] Clean_def [of s, symmetric])

section \<open>Joining a directory and a name\<close>

text \<open>A name stays below the directory it is joined to when none of its components is \<open>..\<close>.\<close>

definition local_name :: "string \<Rightarrow> bool" where
  "local_name n \<longleftrightarrow> ''..'' \<notin> set (split_on slash n)"

lemma pkey_Join:
  assumes "d \<noteq> ''''"
  shows "pkey (Join [d, n]) =
    (is_rooted d, clean_comps (is_rooted d) (rev (snd (pkey d))) (split_on slash n))"
proof -
  have "is_rooted (d @ slash # n) = is_rooted d"
    using assms by (cases d) (simp_all add: is_rooted_def)
  then have "pkey (d @ slash # n) =
      (is_rooted d, clean_comps (is_rooted d) (rev (snd (pkey d))) (split_on slash n))"
    by (simp add: pkey_def split_on_append_sep clean_comps_append)
  then show ?thesis
    using assms by (simp add: Join_def)
qed

lemma pkey_Join_local:
  assumes "d \<noteq> ''''" and "local_name n"
  shows "pkey (Join [d, n]) =
    (fst (pkey d), snd (pkey d) @ filter (\<lambda>c. \<not> noise c) (split_on slash n))"
  using assms by (simp add: pkey_Join clean_comps_no_dotdot local_name_def)
    (simp add: pkey_def)

text \<open>A plain file name is one component.\<close>

lemma split_plain: "plain n \<Longrightarrow> split_on slash n = [n]"
  by (simp add: plain_def split_on_no_sep)

lemma pkey_Join_plain:
  assumes "d \<noteq> ''''" and "plain n"
  shows "pkey (Join [d, n]) = (fst (pkey d), snd (pkey d) @ [n])"
proof -
  have "local_name n" "\<not> noise n"
    using assms(2) by (simp_all add: local_name_def split_plain noise_def) (auto simp: plain_def)
  then show ?thesis
    using assms by (simp add: pkey_Join_local split_plain)
qed

lemma clean_comps_last_plain: "plain n \<Longrightarrow> clean_comps r out (cs @ [n]) = clean_comps r out cs @ [n]"
  by (auto simp: clean_comps_append plain_def)

lemma pkey_append_plain: "plain n \<Longrightarrow> \<exists>X. snd (pkey (e @ slash # n)) = X @ [n]"
  by (simp add: pkey_def split_on_append_sep split_plain clean_comps_last_plain)

end
