(* ===== verification/Files.thy ===== *)
theory Files
  imports Paths "HOL-Library.AList"
begin

text \<open>
  The operating system as the program sees it through \<open>os\<close>, \<open>io\<close> and \<open>path/filepath\<close>: a store of
  files and directories keyed by cleaned paths, temporary names drawn from a random stream, and
  a fault schedule that may let any system call fail.  Symbolic links, permissions and file handles are
  left out: \<open>os.Open\<close> yields the node, and closing a handle has no effect.

  The world also carries the state \<open>svc\<close> of everything outside the process (API servers, Helm,
  the network).  Calls to the outside change only \<open>svc\<close>, system calls never change it.
\<close>

datatype node = File string | Dir

record 's world =
  fs :: "(key \<times> node) list"
  tmpdir :: string
  rnd :: "nat \<Rightarrow> nat"
  faults :: "nat \<Rightarrow> go_error option"
  short :: "nat \<Rightarrow> nat"
  tick :: nat
  svc :: 's

abbreviation node_at :: "'s world \<Rightarrow> key \<Rightarrow> node option" where
  "node_at w \<equiv> map_of (fs w)"

definition is_dir :: "'s world \<Rightarrow> key \<Rightarrow> bool" where
  "is_dir w k \<longleftrightarrow> set (snd k) \<subseteq> {''..''} \<or> node_at w k = Some Dir"

definition parent :: "key \<Rightarrow> key" where
  "parent k = (fst k, butlast (snd k))"

definition under :: "key \<Rightarrow> key \<Rightarrow> bool" where
  "under d k \<longleftrightarrow> fst k = fst d \<and> prefix (snd d) (snd k)"

section \<open>Calls\<close>

text \<open>A system call: the fault schedule decides whether it fails before it has any effect.\<close>

definition os_call :: "('s world, 'a) io \<Rightarrow> ('s world, 'a) io" where
  "os_call m w =
     (let w' = w\<lparr>tick := Suc (tick w)\<rparr> in
      case faults w (tick w) of Some e \<Rightarrow> (Err e, w') | None \<Rightarrow> m w')"

text \<open>A call of code outside the repository.\<close>

definition ext_call :: "('s, 'a) call \<Rightarrow> ('s world, 'a) io" where
  "ext_call c w =
     (case c (svc w) of
        (Inl e, s) \<Rightarrow> (Err e, w\<lparr>svc := s\<rparr>)
      | (Inr a, s) \<Rightarrow> (Ok a, w\<lparr>svc := s\<rparr>))"

definition put :: "key \<Rightarrow> node \<Rightarrow> 's world \<Rightarrow> 's world" where
  "put k n w = w\<lparr>fs := AList.update k n (fs w)\<rparr>"

definition os_Open :: "string \<Rightarrow> ('s world, node) io" where
  "os_Open p = os_call (\<lambda>w.
     case node_at w (pkey p) of
       None \<Rightarrow> (Err (External ''ErrNotExist'' (''open '' @ p @ '': no such file or directory'')), w)
     | Some n \<Rightarrow> (Ok n, w))"

definition os_Create :: "string \<Rightarrow> ('s world, unit) io" where
  "os_Create p = os_call (\<lambda>w.
     if \<not> is_dir w (parent (pkey p))
     then (Err (External ''ErrNotExist'' (''open '' @ p @ '': no such file or directory'')), w)
     else if is_dir w (pkey p)
     then (Err (External ''EISDIR'' (''open '' @ p @ '': is a directory'')), w)
     else (Ok (), put (pkey p) (File '''') w))"

definition append_file :: "key \<Rightarrow> string \<Rightarrow> 's world \<Rightarrow> 's world" where
  "append_file k s w = (case node_at w k of Some (File c) \<Rightarrow> put k (File (c @ s)) w | _ \<Rightarrow> w)"

text \<open>A write to an open file; a failing write may have written a part of the data.\<close>

definition file_Write :: "string \<Rightarrow> string \<Rightarrow> ('s world, unit) io" where
  "file_Write p s w =
     (let w' = w\<lparr>tick := Suc (tick w)\<rparr> in
      case faults w (tick w) of
        Some e \<Rightarrow> (Err e, append_file (pkey p) (take (short w (tick w)) s) w')
      | None \<Rightarrow> (Ok (), append_file (pkey p) s w'))"

text \<open>\<open>io.Copy(file, reader)\<close>: the reader yields its data and then ends or fails.\<close>

type_synonym reader = "string \<times> go_error option"

definition io_Copy :: "string \<Rightarrow> reader \<Rightarrow> ('s world, unit) io" where
  "io_Copy p rd =
     io_bind (file_Write p (fst rd))
       (\<lambda>_. case snd rd of None \<Rightarrow> io_return () | Some e \<Rightarrow> io_fail e)"

definition joinPath :: "string \<Rightarrow> string \<Rightarrow> string" where
  "joinPath d name = (if d \<noteq> [] \<and> last d = slash then d @ name else d @ slash # name)"

text \<open>The retry loop of \<open>os.CreateTemp\<close> and \<open>os.MkdirTemp\<close>: the first unused name of the stream.\<close>

fun temp_search :: "'s world \<Rightarrow> string \<Rightarrow> string \<Rightarrow> nat \<Rightarrow> nat \<Rightarrow> string option" where
  "temp_search w pre suf tries i =
     (if tries = 0 then None
      else let name = joinPath (tmpdir w) pre @ decimal (rnd w i) @ suf in
           if node_at w (pkey name) = None then Some name
           else temp_search w pre suf (tries - 1) (Suc i))"

declare temp_search.simps [simp del]

definition make_temp :: "node \<Rightarrow> string \<Rightarrow> string \<Rightarrow> ('s world, string) io" where
  "make_temp n pre suf = os_call (\<lambda>w.
     case temp_search w pre suf 10000 (tick w) of
       None \<Rightarrow> (Err (External ''ErrExist'' ''file exists''), w)
     | Some name \<Rightarrow>
         if \<not> is_dir w (parent (pkey name))
         then (Err (External ''ErrNotExist'' ''no such file or directory''), w)
         else (Ok name, put (pkey name) n w))"

definition os_CreateTemp :: "string \<Rightarrow> string \<Rightarrow> ('s world, string) io" where
  "os_CreateTemp pre suf = make_temp (File '''') pre suf"

definition os_MkdirTemp :: "string \<Rightarrow> ('s world, string) io" where
  "os_MkdirTemp pre = make_temp Dir pre ''''"

definition os_Remove :: "string \<Rightarrow> ('s world, unit) io" where
  "os_Remove p = os_call (\<lambda>w.
     if node_at w (pkey p) = None
     then (Err (External ''ErrNotExist'' (''remove '' @ p @ '': no such file or directory'')), w)
     else if \<exists>k \<in> set (map fst (fs w)). under (pkey p) k \<and> k \<noteq> pkey p
     then (Err (External ''ENOTEMPTY'' (''remove '' @ p @ '': directory not empty'')), w)
     else (Ok (), w\<lparr>fs := AList.delete (pkey p) (fs w)\<rparr>))"

definition os_RemoveAll :: "string \<Rightarrow> ('s world, unit) io" where
  "os_RemoveAll p = os_call (\<lambda>w. (Ok (), w\<lparr>fs := filter (\<lambda>kn. \<not> under (pkey p) (fst kn)) (fs w)\<rparr>))"

text \<open>
  \<open>filepath.Glob(filepath.Join(dir, "*.yaml"))\<close> for a directory whose own path has no pattern
  characters: the matching entries in the order of their names.  \<open>Glob\<close> ignores I/O errors and
  then reports no match; its only error is a malformed pattern, and this pattern is well formed.
\<close>

definition dir_entries :: "'s world \<Rightarrow> key \<Rightarrow> string list" where
  "dir_entries w d =
     sort (remdups (map (\<lambda>kn. last (snd (fst kn)))
       (filter (\<lambda>kn. snd (fst kn) \<noteq> [] \<and> parent (fst kn) = d) (fs w))))"

definition Glob_yaml :: "string \<Rightarrow> ('s world, string list) io" where
  "Glob_yaml dir w =
     (let w' = w\<lparr>tick := Suc (tick w)\<rparr> in
      case faults w (tick w) of
        Some e \<Rightarrow> (Ok [], w')
      | None \<Rightarrow>
          (Ok (if is_dir w (pkey dir)
               then map (\<lambda>n. Join [Clean dir, n]) (filter match_yaml (dir_entries w (pkey dir)))
               else []), w'))"

section \<open>Frames\<close>

lemmas os_defs =
  os_Open_def os_Create_def file_Write_def io_Copy_def make_temp_def os_CreateTemp_def os_MkdirTemp_def
  os_Remove_def os_RemoveAll_def Glob_yaml_def

lemma put_simps [simp]:
  "svc (put k n w) = svc w" "tick (put k n w) = tick w" "faults (put k n w) = faults w"
  "tmpdir (put k n w) = tmpdir w" "rnd (put k n w) = rnd w" "short (put k n w) = short w"
  "fs (put k n w) = AList.update k n (fs w)"
  by (simp_all add: put_def)

lemma append_file_simps [simp]:
  "svc (append_file k s w) = svc w" "tick (append_file k s w) = tick w"
  "faults (append_file k s w) = faults w" "tmpdir (append_file k s w) = tmpdir w"
  by (simp_all add: append_file_def split: option.split node.split)

lemma node_at_put [simp]: "node_at (put k n w) j = (if j = k then Some n else node_at w j)"
  by (simp add: update_conv')

lemma node_at_append_file:
  "node_at (append_file k s w) j =
     (if j = k then (case node_at w k of Some (File c) \<Rightarrow> Some (File (c @ s)) | x \<Rightarrow> x) else node_at w j)"
  by (auto simp: append_file_def update_conv' split: option.split node.split)

text \<open>System calls leave the outside alone, calls to the outside leave the files alone.\<close>

lemma svc_os_call: "(\<And>v. svc (snd (m v)) = svc v) \<Longrightarrow> stays (same svc) (os_call m)"
  by (auto simp: stays_def same_def os_call_def Let_def split: option.split)

lemma stays_svc_os [stays_intros]:
  "stays (same svc) (os_Open p)" "stays (same svc) (os_Create p)" "stays (same svc) (make_temp n pre suf)"
  "stays (same svc) (os_Remove p)" "stays (same svc) (os_RemoveAll p)"
  unfolding os_Open_def os_Create_def make_temp_def os_Remove_def os_RemoveAll_def
  by (rule svc_os_call; simp split: option.split)+

lemma stays_svc_os2 [stays_intros]:
  "stays (same svc) (file_Write p s)" "stays (same svc) (Glob_yaml d)"
  by (auto simp: stays_def same_def file_Write_def Glob_yaml_def Let_def split: option.split)

lemma stays_svc_temp [stays_intros]:
  "stays (same svc) (os_CreateTemp pre suf)" "stays (same svc) (os_MkdirTemp pre)"
  by (simp_all add: os_CreateTemp_def os_MkdirTemp_def stays_svc_os)

lemma stays_svc_Copy [stays_intros]: "stays (same svc) (io_Copy p rd)"
  unfolding io_Copy_def by (cases "snd rd") (auto intro!: stays_intros)

lemma stays_files_ext [stays_intros]:
  "stays (same fs) (ext_call c)" "stays (same node_at) (ext_call c)"
  by (auto simp: stays_def same_def ext_call_def split: prod.split sum.split)

lemma safe_os_call: "(\<And>w. \<not> panics (fst (m w))) \<Longrightarrow> safe (os_call m)"
  by (auto simp: safe_def os_call_def Let_def split: option.split)

lemma safe_ext [safe_intros]: "safe (ext_call c)"
  by (auto simp: safe_def ext_call_def split: prod.split sum.split)

lemma safe_os [safe_intros]:
  "safe (os_Open p)" "safe (os_Create p)" "safe (make_temp n pre suf)"
  "safe (os_Remove p)" "safe (os_RemoveAll p)"
  unfolding os_Open_def os_Create_def make_temp_def os_Remove_def os_RemoveAll_def
  by (rule safe_os_call; simp split: option.split)+

lemma safe_os2 [safe_intros]: "safe (file_Write p s)" "safe (Glob_yaml dir)"
  by (auto simp: safe_def file_Write_def Glob_yaml_def Let_def split: option.split)

lemma safe_temp [safe_intros]: "safe (os_CreateTemp pre suf)" "safe (os_MkdirTemp pre)"
  by (simp_all add: os_CreateTemp_def os_MkdirTemp_def safe_os)

lemma safe_Copy [safe_intros]: "safe (io_Copy p rd)"
  unfolding io_Copy_def by (cases "snd rd") (auto intro!: safe_intros)

end
