(* ===== verification/Environment.thy ===== *)
theory Environment
  imports API_Types Files
begin

text \<open>
  The interfaces of the code outside the repository, as records of functions over the outside
  state \<open>'s\<close>: the client of the management cluster, the clients of workload clusters, and the
  packages the sources call (API error predicates, label selectors, conditions, HTTP, archive
  decoding, Helm, YAML and object decoding).  Every definition that uses one of them takes it as an
  argument; nothing is assumed of them here.  The types of Kubewarden's own policies list the fields
  the code writes, the \<open>Mode\<close> field it leaves at its zero value, and the status it reads.
\<close>

section \<open>Objects of workload clusters\<close>

record RuleWithOperations =
  rwo_Operations :: "string list"
  rwo_APIGroups :: "string list"
  rwo_APIVersions :: "string list"
  rwo_Resources :: "string list"
  rwo_Scope :: "string option"

record PolicySpec =
  ps_PolicyServer :: string
  ps_Mode :: string
  ps_Module :: string
  ps_Mutating :: bool
  ps_Rules :: "RuleWithOperations list"
  ps_FailurePolicy :: "string option"
  ps_Settings :: RawExtension
  ps_MatchConditions :: "MatchCondition list"

text \<open>\<open>ClusterAdmissionPolicy\<close> and \<open>AdmissionPolicy\<close> have the same fields.\<close>

datatype policyKind = ClusterAdmissionPolicy | AdmissionPolicy

record WorkloadPolicy =
  wp_Meta :: ObjectMeta
  wp_Spec :: PolicySpec
  wp_PolicyStatus :: string

definition PolicyStatusActive :: string where
  "PolicyStatusActive = ''active''"

record ManifestObject =
  mo_Kind :: string
  mo_Key :: NamespacedName
  mo_Raw :: string

datatype clientObject =
    NamespaceObject string
  | PolicyObject policyKind WorkloadPolicy
  | DecodedObject ManifestObject

datatype runtimeObject = ClientObject ManifestObject | NotAClientObject

datatype json = JStr string | JArr "json list" | JObj "(string \<times> json) list"

datatype patchType = StrategicMergePatchType | MergePatchType

record PatchTarget =
  pt_APIVersion :: string
  pt_Kind :: string
  pt_Name :: string
  pt_Namespace :: string

section \<open>Clients\<close>

record 's RemoteClient =
  rc_Create :: "clientObject \<Rightarrow> ('s, unit) call"
  rc_Get :: "policyKind \<Rightarrow> NamespacedName \<Rightarrow> ('s, WorkloadPolicy) call"
  rc_Update :: "policyKind \<Rightarrow> WorkloadPolicy \<Rightarrow> ('s, unit) call"
  rc_Delete :: "policyKind \<Rightarrow> NamespacedName \<Rightarrow> ('s, unit) call"
  rc_Patch :: "PatchTarget \<Rightarrow> patchType \<Rightarrow> json \<Rightarrow> ('s, unit) call"

text \<open>
  \<open>mc_ListClusters\<close> takes the namespace and the optional selector of the list options;
  \<open>mc_PatchCluster\<close> and \<open>mc_StatusPatchAddon\<close> take the base of \<open>client.MergeFrom\<close> and the object.
\<close>

record 's MgmtClient =
  mc_GetAddon :: "NamespacedName \<Rightarrow> ('s, KubewardenAddon) call"
  mc_GetPolicy :: "NamespacedName \<Rightarrow> ('s, KubewardenPolicy) call"
  mc_ListClusters :: "string \<Rightarrow> Selector option \<Rightarrow> ('s, Cluster list) call"
  mc_ListAddons :: "('s, KubewardenAddon list) call"
  mc_ListPolicies :: "string \<Rightarrow> ('s, KubewardenPolicy list) call"
  mc_PatchCluster :: "Cluster \<Rightarrow> Cluster \<Rightarrow> ('s, unit) call"
  mc_StatusPatchAddon :: "KubewardenAddon \<Rightarrow> KubewardenAddon \<Rightarrow> ('s, unit) call"
  mc_StatusUpdatePolicy :: "KubewardenPolicy \<Rightarrow> ('s, unit) call"

type_synonym 's ClusterClientGetter = "string \<Rightarrow> NamespacedName \<Rightarrow> ('s, 's RemoteClient) call"

type_synonym Scheme = "string list"

text \<open>Both reconcilers have the same three fields; a nil getter is \<open>None\<close>.\<close>

record 's Reconciler =
  r_Client :: "'s MgmtClient"
  r_Scheme :: Scheme
  r_RemoteClientGetter :: "'s ClusterClientGetter option"

section \<open>Packages\<close>

record HttpResponse =
  resp_StatusCode :: nat
  resp_Body :: reader

record TarEntry =
  te_Name :: string
  te_IsDir :: bool
  te_Body :: reader

text \<open>The headers \<open>Next\<close> yields, and how the archive ends: \<open>None\<close> is the end of the archive.\<close>

type_synonym tarArchive = "TarEntry list \<times> go_error option"

record InstallOptions =
  iopt_ClientOnly :: bool
  iopt_DryRun :: bool
  iopt_ReleaseName :: string
  iopt_IncludeCRDs :: bool
  iopt_Namespace :: string
  iopt_DisableHooks :: bool

record 's Deps =
  d_IsNotFound :: "go_error \<Rightarrow> bool"
  d_IsAlreadyExists :: "go_error \<Rightarrow> bool"
  d_LabelSelectorAsSelector :: "LabelSelector \<Rightarrow> go_error + Selector"
  d_IsTrue :: "Cluster \<Rightarrow> string \<Rightarrow> bool"
  d_Now :: "'s \<Rightarrow> nat"
  d_httpGet :: "string \<Rightarrow> ('s, HttpResponse) call"
  d_openTarGz :: "string \<Rightarrow> go_error + tarArchive"
  d_actionInit :: "string \<Rightarrow> ('s, unit) call"
  d_LocateChart :: "string \<Rightarrow> string \<Rightarrow> string \<Rightarrow> ('s, string) call"
  d_loadChart :: "string \<Rightarrow> ('s, string) call"
  d_installRun :: "InstallOptions \<Rightarrow> string \<Rightarrow> json \<Rightarrow> ('s, string) call"
  d_yamlDocs :: "string \<Rightarrow> string list \<times> go_error option"
  d_universalDecode :: "Scheme \<Rightarrow> string \<Rightarrow> runtimeObject option \<times> string option \<times> go_error option"
  d_NewClusterClient :: "'s ClusterClientGetter"

text \<open>Calling the getter of a reconciler: calling a nil function value panics.\<close>

definition getRemoteClient :: "'s Reconciler \<Rightarrow> Cluster \<Rightarrow> ('s world, 's RemoteClient) io" where
  "getRemoteClient r cluster =
     (case r_RemoteClientGetter r of
        None \<Rightarrow> io_panic ''nil RemoteClientGetter''
      | Some get \<Rightarrow> ext_call (get (cl_Name cluster) (ObjectKeyFromObject (cl_Meta cluster))))"

lemma ext_call_Ok:
  "ext_call c w = (Ok a, w') \<longleftrightarrow> (\<exists>s. c (svc w) = (Inr a, s) \<and> w' = w\<lparr>svc := s\<rparr>)"
  by (auto simp: ext_call_def split: prod.split sum.split)

lemma ext_call_Err:
  "ext_call c w = (Err e, w') \<longleftrightarrow> (\<exists>s. c (svc w) = (Inl e, s) \<and> w' = w\<lparr>svc := s\<rparr>)"
  by (auto simp: ext_call_def split: prod.split sum.split)

lemma ext_call_no_panic [simp]: "\<not> panics (fst (ext_call c w))"
  by (auto simp: ext_call_def panics_def split: prod.split sum.split)

lemma ext_call_not_Panic [simp]: "ext_call c w \<noteq> (Panic s, v)"
  using ext_call_no_panic [of c w] by (metis fst_conv panics_simps(3))

end
