(* ===== verification/Helpers.thy ===== *)
theory Helpers
  imports Environment
begin

text \<open>
  \<open>internal/controller/helpers.go\<close>: the constants of the package, the namespace of Kubewarden,
  chart rendering, the download of the CRD tarball and its extraction.
\<close>

section \<open>Constants\<close>

definition deployToAll :: bool where
  "deployToAll = True"

definition kubewardenNamespace :: string where
  "kubewardenNamespace = ''kubewarden''"

definition kubewardenControllerRepository :: string where
  "kubewardenControllerRepository = ''https://github.com/kubewarden/kubewarden-controller''"

definition githubReleasesPath :: string where
  "githubReleasesPath = ''releases/download''"

definition kubewardenVersion :: string where
  "kubewardenVersion = ''v1.18.0''"

definition kubewardenHelmChartURL :: string where
  "kubewardenHelmChartURL = ''https://charts.kubewarden.io/''"

definition kubewardenHelmReleaseName :: string where
  "kubewardenHelmReleaseName = ''caapkw''"

definition kubewardenHelmDefaultPolicyServerName :: string where
  "kubewardenHelmDefaultPolicyServerName = ''default''"

definition defaultRequeueDuration :: int where
  "defaultRequeueDuration = 1 * minute"

definition KubewardenInstalledAnnotation :: string where
  "KubewardenInstalledAnnotation = ''caapkw.kubewarden.io/installed''"

section \<open>Operations\<close>

text \<open>\<open>createKubewardenNamespace\<close> tolerates a namespace that exists already.\<close>

definition createKubewardenNamespace :: "'s Deps \<Rightarrow> 's RemoteClient \<Rightarrow> ('s world, unit) io" where
  "createKubewardenNamespace d remoteClient =
     io_try (ext_call (rc_Create remoteClient (NamespaceObject kubewardenNamespace)))
       (\<lambda>err. if \<not> d_IsAlreadyExists d err then io_fail err else io_return ())
       io_return"

definition resolveChartVersion :: "string \<Rightarrow> string \<Rightarrow> string" where
  "resolveChartVersion appVersion chartName = (if appVersion = '''' then '''' else '''')"

definition createActionConfig :: "'s Deps \<Rightarrow> string \<Rightarrow> ('s world, unit) io" where
  "createActionConfig d targetNamespace = ext_call (d_actionInit d targetNamespace)"

definition getChart :: "'s Deps \<Rightarrow> string \<Rightarrow> string \<Rightarrow> string \<Rightarrow> ('s world, string) io" where
  "getChart d repoURL version chartName =
     io_bind (ext_call (d_LocateChart d repoURL version chartName))
       (\<lambda>chartPath. ext_call (d_loadChart d chartPath))"

record TemplateConfig =
  tc_ReleaseName :: string
  tc_Chart :: string
  tc_Namespace :: string
  tc_IncludeCRDs :: bool
  tc_Values :: json
  tc_UseReleaseName :: bool

definition helmTemplate :: "'s Deps \<Rightarrow> TemplateConfig \<Rightarrow> ('s world, string) io" where
  "helmTemplate d config =
     io_wrap ''could not render helm chart correctly''
       (ext_call (d_installRun d
          \<lparr>iopt_ClientOnly = True, iopt_DryRun = True, iopt_ReleaseName = tc_ReleaseName config,
           iopt_IncludeCRDs = tc_IncludeCRDs config, iopt_Namespace = tc_Namespace config,
           iopt_DisableHooks = True\<rparr>
          (tc_Chart config) (tc_Values config)))"

text \<open>
  \<open>renderHelmChart\<close> returns the name of a temporary file that holds the rendered manifest.
\<close>

definition renderHelmChart :: "'s Deps \<Rightarrow> string \<Rightarrow> string \<Rightarrow> json \<Rightarrow> ('s world, string) io" where
  "renderHelmChart d name version values =
     io_bind (createActionConfig d kubewardenNamespace) (\<lambda>_.
     io_bind (getChart d kubewardenHelmChartURL (resolveChartVersion version name) name) (\<lambda>chart.
     io_bind (helmTemplate d
        \<lparr>tc_ReleaseName = kubewardenHelmReleaseName, tc_Chart = chart,
         tc_Namespace = kubewardenNamespace, tc_IncludeCRDs = False, tc_Values = values,
         tc_UseReleaseName = False\<rparr>) (\<lambda>rendered.
     io_bind (os_CreateTemp ''kubewarden-helm-rendered-'' ''.yaml'') (\<lambda>renderedFile.
     io_bind (file_Write renderedFile rendered) (\<lambda>_.
     io_return renderedFile)))))"

definition downloadFile :: "'s Deps \<Rightarrow> string \<Rightarrow> ('s world, string) io" where
  "downloadFile d url =
     io_bind (io_wrap ''failed to download file'' (ext_call (d_httpGet d url))) (\<lambda>response.
     if resp_StatusCode response \<noteq> 200
     then io_fail (Errorf (''failed to download file: HTTP '' @ decimal (resp_StatusCode response)))
     else io_bind (io_wrap ''failed to create temp file'' (os_CreateTemp ''kubewarden-'' ''.tar.gz'')) (\<lambda>tempFile.
          io_bind (io_wrap ''failed to write file'' (io_Copy tempFile (resp_Body response))) (\<lambda>_.
          io_return tempFile)))"

text \<open>The loop over the archive: directories are skipped, every other entry becomes a file.\<close>

fun extract_entries :: "string \<Rightarrow> TarEntry list \<Rightarrow> go_error option \<Rightarrow> ('s world, unit) io" where
  "extract_entries extractDir [] ending =
     (case ending of
        None \<Rightarrow> io_return ()
      | Some err \<Rightarrow> io_fail (Wrapf ''failed to read tar header'' err))"
| "extract_entries extractDir (header # rest) ending =
     (if te_IsDir header then extract_entries extractDir rest ending
      else
        (let targetPath = Join [extractDir, te_Name header] in
         io_bind (io_wrap (''failed to create file '' @ targetPath) (os_Create targetPath)) (\<lambda>_.
         io_bind (io_wrap (''failed to write file '' @ targetPath)
                    (io_Copy targetPath (te_Body header))) (\<lambda>_.
         extract_entries extractDir rest ending))))"

definition read_file :: "node \<Rightarrow> go_error + string" where
  "read_file n = (case n of File c \<Rightarrow> Inr c | Dir \<Rightarrow> Inl (External ''EISDIR'' ''is a directory''))"

definition extractTarGz :: "'s Deps \<Rightarrow> string \<Rightarrow> ('s world, string) io" where
  "extractTarGz d tarGzPath =
     io_bind (io_wrap ''failed to open tar.gz file'' (os_Open tarGzPath)) (\<lambda>file.
     io_bind (io_wrap ''failed to create gzip reader''
                (io_bind (io_pure (read_file file)) (\<lambda>content. io_pure (d_openTarGz d content)))) (\<lambda>archive.
     io_bind (io_wrap ''failed to create temp directory'' (os_MkdirTemp ''kubewarden-crds-'')) (\<lambda>extractDir.
     io_bind (extract_entries extractDir (fst archive) (snd archive)) (\<lambda>_.
     io_return extractDir))))"

end
