(* ===== verification/Install.thy ===== *)
theory Install
  imports Helpers
begin

text \<open>
  The installation steps of \<open>internal/controller/kubewardenaddon_controller.go\<close>: applying a
  manifest file, the CRDs, the two Helm charts and the control-plane tolerations.
\<close>

section \<open>applyManifest\<close>

text \<open>
  The loop over the documents of a manifest.  \<open>ending\<close> is how decoding ends after the last
  document: \<open>None\<close> is \<open>io.EOF\<close>.  A document for which the deserializer reports no kind ends the
  loop, and the function returns without an error.
\<close>

fun apply_documents ::
  "'s Deps \<Rightarrow> 's Reconciler \<Rightarrow> 's RemoteClient \<Rightarrow> string list \<Rightarrow> go_error option \<Rightarrow> ('s world, unit) io" where
  "apply_documents d r k8sClient [] ending =
     (case ending of
        None \<Rightarrow> io_return ()
      | Some err \<Rightarrow> io_fail (Wrapf ''failed to decode manifest'' err))"
| "apply_documents d r k8sClient (raw # rest) ending =
     (case d_universalDecode d (r_Scheme r) raw of
        (runtimeObject, kind, err) \<Rightarrow>
          if kind = None then io_return ()
          else (case err of
                  Some e \<Rightarrow> io_fail (Wrapf ''failed to decode runtime object'' e)
                | None \<Rightarrow>
                    (case runtimeObject of
                       Some (ClientObject obj) \<Rightarrow>
                         io_try (ext_call (rc_Create k8sClient (DecodedObject obj)))
                           (\<lambda>e. if \<not> d_IsAlreadyExists d e
                                then io_fail (Wrapf ''failed to apply resource'' e)
                                else apply_documents d r k8sClient rest ending)
                           (\<lambda>_. apply_documents d r k8sClient rest ending)
                     | _ \<Rightarrow> io_fail (Errorf ''failed to cast runtime object to client.Object''))))"

definition applyManifest ::
  "'s Deps \<Rightarrow> 's Reconciler \<Rightarrow> 's RemoteClient \<Rightarrow> string \<Rightarrow> ('s world, unit) io" where
  "applyManifest d r k8sClient filePath =
     io_bind (io_wrap ''failed to open file'' (os_Open filePath)) (\<lambda>file.
     case file of
       Dir \<Rightarrow> io_fail (Wrapf ''failed to decode manifest'' (External ''EISDIR'' ''is a directory''))
     | File content \<Rightarrow>
         apply_documents d r k8sClient (fst (d_yamlDocs d content)) (snd (d_yamlDocs d content)))"

section \<open>CRDs\<close>

definition crdsURL :: "string \<Rightarrow> string" where
  "crdsURL version =
     kubewardenControllerRepository @ ''/'' @ githubReleasesPath @ ''/'' @ version @ ''/CRDS.tar.gz''"

definition installKubewardenCRDs ::
  "'s Deps \<Rightarrow> 's Reconciler \<Rightarrow> string \<Rightarrow> 's RemoteClient \<Rightarrow> ('s world, unit) io" where
  "installKubewardenCRDs d r version remoteClient =
     io_bind (io_wrap ''download CRDs tarball'' (downloadFile d (crdsURL version))) (\<lambda>crdsPath.
     io_defer (os_Remove crdsPath)
       (io_bind (io_wrap ''extract CRDs'' (extractTarGz d crdsPath)) (\<lambda>extractDir.
        io_defer (os_RemoveAll extractDir)
          (io_bind (io_wrap ''list extracted files'' (Glob_yaml extractDir)) (\<lambda>files.
           io_foreach (\<lambda>file. io_wrap (''apply CRD from file '' @ file)
                                (applyManifest d r remoteClient file)) files)))))"

section \<open>Helm charts\<close>

definition controlPlaneToleration :: json where
  "controlPlaneToleration =
     JObj [(''key'', JStr ''node-role.kubernetes.io/control-plane''),
           (''operator'', JStr ''Exists''),
           (''effect'', JStr ''NoSchedule'')]"

definition installKubewardenController ::
  "'s Deps \<Rightarrow> 's Reconciler \<Rightarrow> 's RemoteClient \<Rightarrow> KubewardenAddon \<Rightarrow> ('s world, unit) io" where
  "installKubewardenController d r remoteClient addon =
     (let values = JObj [(''tolerations'', JArr [controlPlaneToleration])] in
      io_bind (io_wrap ''render kubewarden-controller helm chart''
                 (renderHelmChart d ''kubewarden-controller'' (kas_Version (ka_Spec addon)) values))
        (\<lambda>renderedPath.
      io_wrap ''apply kubewarden-controller manifest'' (applyManifest d r remoteClient renderedPath)))"

definition installKubewardenDefaults ::
  "'s Deps \<Rightarrow> 's Reconciler \<Rightarrow> 's RemoteClient \<Rightarrow> KubewardenAddon \<Rightarrow> ('s world, unit) io" where
  "installKubewardenDefaults d r remoteClient addon =
     (let values = JObj [(''policyServer'', JObj [(''tolerations'', JArr [controlPlaneToleration])])] in
      io_bind (io_wrap ''render kubewarden-defaults helm chart''
                 (renderHelmChart d ''kubewarden-defaults'' (kas_Version (ka_Spec addon)) values))
        (\<lambda>renderedPath.
      io_wrap ''apply kubewarden-defaults manifest'' (applyManifest d r remoteClient renderedPath)))"

section \<open>Tolerations\<close>

definition tolerationsSpec :: json where
  "tolerationsSpec = JObj [(''tolerations'', JArr [controlPlaneToleration])]"

definition patchController :: json where
  "patchController = JObj [(''spec'', JObj [(''template'', JObj [(''spec'', tolerationsSpec)])])]"

definition patchPolicyServer :: json where
  "patchPolicyServer = JObj [(''spec'', tolerationsSpec)]"

definition patchAuditScanner :: json where
  "patchAuditScanner =
     JObj [(''spec'', JObj [(''jobTemplate'', JObj [(''spec'',
       JObj [(''template'', JObj [(''spec'', tolerationsSpec)])])])])]"

definition applyControlPlaneTolerations :: "'s RemoteClient \<Rightarrow> ('s world, unit) io" where
  "applyControlPlaneTolerations remoteClient =
     io_bind (io_wrap ''patch kubewarden-controller deployment''
       (ext_call (rc_Patch remoteClient
          \<lparr>pt_APIVersion = ''apps/v1'', pt_Kind = ''Deployment'',
           pt_Name = kubewardenHelmReleaseName @ ''-kubewarden-controller'',
           pt_Namespace = kubewardenNamespace\<rparr>
          StrategicMergePatchType patchController))) (\<lambda>_.
     io_bind (io_wrap ''patch PolicyServer''
       (ext_call (rc_Patch remoteClient
          \<lparr>pt_APIVersion = ''policies.kubewarden.io/v1'', pt_Kind = ''PolicyServer'',
           pt_Name = kubewardenHelmDefaultPolicyServerName, pt_Namespace = kubewardenNamespace\<rparr>
          MergePatchType patchPolicyServer))) (\<lambda>_.
     io_try
       (ext_call (rc_Patch remoteClient
          \<lparr>pt_APIVersion = ''batch/v1'', pt_Kind = ''CronJob'', pt_Name = ''audit-scanner'',
           pt_Namespace = kubewardenNamespace\<rparr>
          StrategicMergePatchType patchAuditScanner))
       (\<lambda>_. io_return ())
       (\<lambda>_. io_return ())))"

end
