(* ===== verification/Addon_Controller.thy ===== *)
theory Addon_Controller
  imports Install
begin

text \<open>
  The reconciler of \<open>KubewardenAddon\<close>
  (\<open>internal/controller/kubewardenaddon_controller.go\<close>): cluster selection, the reconcile loop and
  the watch handler.  Functions that return a result together with an error (\<open>ctrl.Result, error\<close>)
  yield a pair; such a computation fails only by a panic.
\<close>

definition getAllCapiClusters :: "'s Reconciler \<Rightarrow> string \<Rightarrow> ('s world, Cluster list) io" where
  "getAllCapiClusters r ns =
     io_wrap ''listing clusters'' (ext_call (mc_ListClusters (r_Client r) ns None))"

text \<open>The loop of \<open>selectClusters\<close>.\<close>

fun select_loop :: "Selector \<Rightarrow> Cluster list \<Rightarrow> Cluster list \<Rightarrow> Cluster list" where
  "select_loop matches selected [] = selected"
| "select_loop matches selected (cluster # rest) =
     (if matches (cl_Labels cluster) then select_loop matches (selected @ [cluster]) rest
      else select_loop matches selected rest)"

definition selectClusters :: "'s Deps \<Rightarrow> Cluster list \<Rightarrow> LabelSelector \<Rightarrow> go_error + Cluster list" where
  "selectClusters d clusters selector =
     (case d_LabelSelectorAsSelector d selector of
        Inl err \<Rightarrow> Inl (Wrapf ''converting label selector'' err)
      | Inr labelSelector \<Rightarrow> Inr (select_loop labelSelector [] clusters))"

text \<open>Lines 185 to 202: annotate the cluster and patch it in the management cluster.\<close>

definition annotateCluster :: "'s Reconciler \<Rightarrow> Cluster \<Rightarrow> ('s world, unit) io" where
  "annotateCluster r cluster =
     (let annotations = (case om_Annotations (cl_Meta cluster) of
                           None \<Rightarrow> Some Map.empty | Some a \<Rightarrow> Some a);
          clusterCopy = cluster
      in case map_assign annotations KubewardenInstalledAnnotation ''true'' of
           Ok annotations' \<Rightarrow>
             (let cluster' = cluster\<lparr>cl_Meta := (cl_Meta cluster)\<lparr>om_Annotations := Some annotations'\<rparr>\<rparr> in
              io_wrap ''update cluster annotations''
                (ext_call (mc_PatchCluster (r_Client r) clusterCopy cluster')))
         | Err e \<Rightarrow> io_fail e
         | Panic s \<Rightarrow> io_panic s)"

text \<open>Lines 143 to 183: the installation steps for one cluster, in order, each of which may end the loop.\<close>

definition installSteps ::
  "'s Deps \<Rightarrow> 's Reconciler \<Rightarrow> KubewardenAddon \<Rightarrow> Cluster \<Rightarrow> ('s world, unit) io" where
  "installSteps d r addon cluster =
     io_bind (io_wrap ''getting remote cluster client'' (getRemoteClient r cluster)) (\<lambda>remoteClient.
     io_bind (io_wrap ''creating kubewarden namespace'' (createKubewardenNamespace d remoteClient)) (\<lambda>_.
     io_bind (io_wrap ''creating kubewarden CRDs''
       (installKubewardenCRDs d r
          (if kas_Version (ka_Spec addon) \<noteq> '''' then kas_Version (ka_Spec addon) else kubewardenVersion)
          remoteClient)) (\<lambda>_.
     io_bind (io_wrap ''installing kubewarden controller''
       (installKubewardenController d r remoteClient addon)) (\<lambda>_.
     io_bind (io_wrap ''installing kubewarden defaults''
       (installKubewardenDefaults d r remoteClient addon)) (\<lambda>_.
     io_wrap ''applying control-plane tolerations''
       (applyControlPlaneTolerations remoteClient))))))"

text \<open>Lines 143 to 202: the steps for one cluster, then its annotation.\<close>

definition installOnCluster ::
  "'s Deps \<Rightarrow> 's Reconciler \<Rightarrow> KubewardenAddon \<Rightarrow> Cluster \<Rightarrow> ('s world, unit) io" where
  "installOnCluster d r addon cluster =
     io_bind (installSteps d r addon cluster) (\<lambda>_. annotateCluster r cluster)"

text \<open>
  Lines 130 to 203, the loop over the selected clusters: \<open>Some\<close> is a return from inside the loop,
  \<open>None\<close> means that the loop ran to its end.
\<close>

fun install_loop ::
  "'s Deps \<Rightarrow> 's Reconciler \<Rightarrow> KubewardenAddon \<Rightarrow> Cluster list \<Rightarrow>
     ('s world, (Result \<times> go_error option) option) io" where
  "install_loop d r addon [] = io_return None"
| "install_loop d r addon (cluster # rest) =
     (if \<not> cl_ControlPlaneReady cluster \<and> \<not> d_IsTrue d cluster ControlPlaneReadyCondition
      then io_return (Some (requeueAfter defaultRequeueDuration, None))
      else if HasAnnotation (cl_Meta cluster) KubewardenInstalledAnnotation
      then io_return (Some (emptyResult, None))
      else io_try (installOnCluster d r addon cluster)
             (\<lambda>err. io_return (Some (emptyResult, Some err)))
             (\<lambda>_. install_loop d r addon rest))"

definition addon_reconcileNormal ::
  "'s Deps \<Rightarrow> 's Reconciler \<Rightarrow> KubewardenAddon \<Rightarrow> ('s world, Result \<times> go_error option) io" where
  "addon_reconcileNormal d r addon =
     io_try (getAllCapiClusters r (om_Namespace (ka_Meta addon)))
       (\<lambda>err. io_return (emptyResult, Some (Wrapf ''getting capi clusters'' err)))
       (\<lambda>allClusters.
     case selectClusters d allClusters (kas_ClusterSelector (ka_Spec addon)) of
       Inl err \<Rightarrow> io_return (emptyResult, Some (Wrapf ''selecting clusters'' err))
     | Inr selectedClusters \<Rightarrow>
         (let addon1 = Addon_SetMatchingClusters selectedClusters addon;
              clusters = selectedClusters
          in io_bind (install_loop d r addon1 clusters) (\<lambda>returned.
             case returned of
               Some res \<Rightarrow> io_return res
             | None \<Rightarrow>
                 (let addonCopy = addon1;
                      addon2 = addon1\<lparr>ka_Status := (ka_Status addon1)
                        \<lparr>kast_Ready := (length selectedClusters > 0 \<and>
                                       length clusters = length selectedClusters)\<rparr>\<rparr>
                  in io_try (ext_call (mc_StatusPatchAddon (r_Client r) addonCopy addon2))
                       (\<lambda>_. io_return (emptyResult, None))
                       (\<lambda>_. io_return (emptyResult, None))))))"

definition addon_Reconcile ::
  "'s Deps \<Rightarrow> 's Reconciler \<Rightarrow> NamespacedName \<Rightarrow> ('s world, Result \<times> go_error option) io" where
  "addon_Reconcile d r req =
     io_try (ext_call (mc_GetAddon (r_Client r) req))
       (\<lambda>err. if d_IsNotFound d err then io_return (emptyResult\<lparr>Requeue := True\<rparr>, None)
              else io_return (emptyResult\<lparr>Requeue := True\<rparr>, Some err))
       (\<lambda>addon. if om_DeletionTimestamp (ka_Meta addon) \<noteq> None then io_return (emptyResult, None)
                else addon_reconcileNormal d r addon)"

text \<open>The watch handler; an object that is not a cluster is \<open>None\<close>.\<close>

definition clusterToKubewardenAddon ::
  "'s Reconciler \<Rightarrow> Cluster option \<Rightarrow> ('s world, NamespacedName list) io" where
  "clusterToKubewardenAddon r ob =
     (case ob of
        None \<Rightarrow> io_return []
      | Some _ \<Rightarrow>
          io_try (ext_call (mc_ListAddons (r_Client r)))
            (\<lambda>_. io_return [])
            (\<lambda>addons. io_return
               (map (\<lambda>addon. \<lparr>nn_Namespace = om_Namespace (ka_Meta addon),
                              nn_Name = om_Name (ka_Meta addon)\<rparr>) addons)))"

end
