(* ===== verification/Policy_Controller.thy ===== *)
theory Policy_Controller
  imports Helpers
begin

text \<open>
  The reconciler of \<open>KubewardenPolicy\<close> (\<open>internal/controller/kubewardenpolicy_controller.go\<close>):
  translation of the policy, deployment to and deletion from workload clusters, the reconcile
  loop with its status, and the watch handler.
\<close>

section \<open>Translation of the specification\<close>

text \<open>A conversion between Go string types keeps the bytes.\<close>

definition convertOperations :: "string list \<Rightarrow> string list" where
  "convertOperations ops = map (\<lambda>op. op) ops"

definition convertScope :: "string \<Rightarrow> string option" where
  "convertScope scope = (if scope = '''' then None else Some scope)"

fun convert_rules :: "RuleWithOperations list \<Rightarrow> PolicyRule list \<Rightarrow> RuleWithOperations list" where
  "convert_rules acc [] = acc"
| "convert_rules acc (rule # rest) =
     convert_rules
       (acc @ [\<lparr>rwo_Operations = convertOperations (pr_Operations rule),
                rwo_APIGroups = pr_APIGroups rule,
                rwo_APIVersions = pr_APIVersions rule,
                rwo_Resources = pr_Resources rule,
                rwo_Scope = convertScope (pr_Scope rule)\<rparr>]) rest"

fun convert_conditions :: "MatchCondition list \<Rightarrow> MatchCondition list \<Rightarrow> MatchCondition list" where
  "convert_conditions acc [] = acc"
| "convert_conditions acc (mc # rest) =
     convert_conditions (acc @ [\<lparr>mc_Name = mc_Name mc, mc_Expression = mc_Expression mc\<rparr>]) rest"

definition buildPolicySpec :: "KubewardenPolicy \<Rightarrow> PolicySpec" where
  "buildPolicySpec policy =
     (let s = kp_Spec policy in
      \<lparr>ps_PolicyServer = kps_PolicyServer s,
       ps_Mode = '''',
       ps_Module = kps_Module s,
       ps_Mutating = kps_Mutating s,
       ps_Rules = convert_rules [] (kps_Rules s),
       ps_FailurePolicy = (if kps_FailurePolicy s \<noteq> '''' then Some (kps_FailurePolicy s) else None),
       ps_Settings = (if length (re_Raw (kps_Settings s)) > 0 then kps_Settings s else \<lparr>re_Raw = ''''\<rparr>),
       ps_MatchConditions = convert_conditions [] (kps_MatchConditions s)\<rparr>)"

section \<open>Deployment to one cluster\<close>

text \<open>Object metadata with a name and a namespace and nothing else.\<close>

definition newMeta :: "string \<Rightarrow> string \<Rightarrow> ObjectMeta" where
  "newMeta name namespace =
     \<lparr>om_Name = name, om_Namespace = namespace, om_Labels = Map.empty, om_Annotations = None,
      om_DeletionTimestamp = None\<rparr>"

definition deployClusterAdmissionPolicy ::
  "'s Deps \<Rightarrow> 's RemoteClient \<Rightarrow> KubewardenPolicy \<Rightarrow> ('s world, unit) io" where
  "deployClusterAdmissionPolicy d remoteClient policy =
     (let cap = \<lparr>wp_Meta = newMeta (kps_PolicyName (kp_Spec policy)) '''',
                 wp_Spec = buildPolicySpec policy, wp_PolicyStatus = ''''\<rparr>
      in io_try (ext_call (rc_Get remoteClient ClusterAdmissionPolicy (ObjectKeyFromObject (wp_Meta cap))))
           (\<lambda>err. if d_IsNotFound d err
                  then ext_call (rc_Create remoteClient (PolicyObject ClusterAdmissionPolicy cap))
                  else io_fail err)
           (\<lambda>existing. ext_call (rc_Update remoteClient ClusterAdmissionPolicy
                         (existing\<lparr>wp_Spec := wp_Spec cap\<rparr>))))"

definition deployAdmissionPolicy ::
  "'s Deps \<Rightarrow> 's RemoteClient \<Rightarrow> KubewardenPolicy \<Rightarrow> ('s world, unit) io" where
  "deployAdmissionPolicy d remoteClient policy =
     (let ap = \<lparr>wp_Meta = newMeta (kps_PolicyName (kp_Spec policy)) (kps_TargetNamespace (kp_Spec policy)),
                wp_Spec = buildPolicySpec policy, wp_PolicyStatus = ''''\<rparr>
      in io_try (ext_call (rc_Get remoteClient AdmissionPolicy (ObjectKeyFromObject (wp_Meta ap))))
           (\<lambda>err. if d_IsNotFound d err
                  then ext_call (rc_Create remoteClient (PolicyObject AdmissionPolicy ap))
                  else io_fail err)
           (\<lambda>existing. ext_call (rc_Update remoteClient AdmissionPolicy
                         (existing\<lparr>wp_Spec := wp_Spec ap\<rparr>))))"

definition isPolicyActive ::
  "'s RemoteClient \<Rightarrow> KubewardenPolicy \<Rightarrow> ('s world, bool) io" where
  "isPolicyActive remoteClient policy =
     (if kps_PolicyType (kp_Spec policy) = ''ClusterAdmissionPolicy''
      then io_bind (ext_call (rc_Get remoteClient ClusterAdmissionPolicy
                     \<lparr>nn_Namespace = '''', nn_Name = kps_PolicyName (kp_Spec policy)\<rparr>))
             (\<lambda>cap. io_return (wp_PolicyStatus cap = PolicyStatusActive))
      else io_bind (ext_call (rc_Get remoteClient AdmissionPolicy
                     \<lparr>nn_Namespace = kps_TargetNamespace (kp_Spec policy),
                      nn_Name = kps_PolicyName (kp_Spec policy)\<rparr>))
             (\<lambda>ap. io_return (wp_PolicyStatus ap = PolicyStatusActive)))"

text \<open>\<open>deployPolicy\<close> returns the status together with the error.\<close>

definition deployPolicy ::
  "'s Deps \<Rightarrow> 's RemoteClient \<Rightarrow> KubewardenPolicy \<Rightarrow> Cluster \<Rightarrow>
     ('s world, DeployedPolicyStatus \<times> go_error option) io" where
  "deployPolicy d remoteClient policy cluster =
     io_bind (io_state (\<lambda>w. d_Now d (svc w))) (\<lambda>now.
     let status = \<lparr>dps_ClusterName = cl_Name cluster, dps_ClusterNamespace = cl_Namespace cluster,
                   dps_PolicyName = kps_PolicyName (kp_Spec policy),
                   dps_PolicyType = kps_PolicyType (kp_Spec policy),
                   dps_Active = False, dps_LastTransitionTime = Some now, dps_Message = ''''\<rparr>
     in io_try
          (if kps_PolicyType (kp_Spec policy) = ''ClusterAdmissionPolicy''
           then deployClusterAdmissionPolicy d remoteClient policy
           else deployAdmissionPolicy d remoteClient policy)
          (\<lambda>err. io_return (status\<lparr>dps_Message := ''Failed to deploy: '' @ Error err\<rparr>, Some err))
          (\<lambda>_. io_try (isPolicyActive remoteClient policy)
             (\<lambda>err. io_return (status\<lparr>dps_Message := ''Failed to verify status: '' @ Error err\<rparr>, Some err))
             (\<lambda>active. io_return
                (status\<lparr>dps_Active := active,
                        dps_Message := (if active then ''Policy successfully deployed and active''
                                        else ''Policy deployed but not yet active'')\<rparr>, None))))"

definition deletePolicy ::
  "'s Deps \<Rightarrow> 's RemoteClient \<Rightarrow> KubewardenPolicy \<Rightarrow> ('s world, unit) io" where
  "deletePolicy d remoteClient policy =
     (if kps_PolicyType (kp_Spec policy) = ''ClusterAdmissionPolicy''
      then io_try (ext_call (rc_Delete remoteClient ClusterAdmissionPolicy
                    \<lparr>nn_Namespace = '''', nn_Name = kps_PolicyName (kp_Spec policy)\<rparr>))
             (\<lambda>err. if \<not> d_IsNotFound d err then io_fail err else io_return ()) io_return
      else io_try (ext_call (rc_Delete remoteClient AdmissionPolicy
                    \<lparr>nn_Namespace = kps_TargetNamespace (kp_Spec policy),
                     nn_Name = kps_PolicyName (kp_Spec policy)\<rparr>))
             (\<lambda>err. if \<not> d_IsNotFound d err then io_fail err else io_return ()) io_return)"

section \<open>Reconciliation\<close>

definition getMatchingClusters ::
  "'s Deps \<Rightarrow> 's Reconciler \<Rightarrow> KubewardenPolicy \<Rightarrow> ('s world, Cluster list) io" where
  "getMatchingClusters d r policy =
     (case d_LabelSelectorAsSelector d (kps_ClusterSelector (kp_Spec policy)) of
        Inl err \<Rightarrow> io_fail (Wrapf ''invalid cluster selector'' err)
      | Inr selector \<Rightarrow>
          io_wrap ''listing clusters''
            (ext_call (mc_ListClusters (r_Client r) (om_Namespace (kp_Meta policy)) (Some selector))))"

text \<open>Lines 129 to 164, the loop over the matching clusters, with its two local variables.\<close>

fun deploy_loop ::
  "'s Deps \<Rightarrow> 's Reconciler \<Rightarrow> KubewardenPolicy \<Rightarrow> DeployedPolicyStatus list \<Rightarrow> bool \<Rightarrow> Cluster list \<Rightarrow>
     ('s world, DeployedPolicyStatus list \<times> bool) io" where
  "deploy_loop d r policy deployed allReady [] = io_return (deployed, allReady)"
| "deploy_loop d r policy deployed allReady (cluster # rest) =
     (if \<not> cl_ControlPlaneReady cluster \<or> \<not> d_IsTrue d cluster ControlPlaneReadyCondition
      then deploy_loop d r policy deployed False rest
      else if \<not> HasAnnotation (cl_Meta cluster) KubewardenInstalledAnnotation
      then deploy_loop d r policy deployed False rest
      else io_try (getRemoteClient r cluster)
             (\<lambda>err. deploy_loop d r policy deployed False rest)
             (\<lambda>remoteClient.
                io_bind (deployPolicy d remoteClient policy cluster) (\<lambda>(policyStatus, err).
                case err of
                  Some e \<Rightarrow>
                    deploy_loop d r policy
                      (deployed @ [policyStatus\<lparr>dps_Active := False, dps_Message := Error e\<rparr>]) False rest
                | None \<Rightarrow> deploy_loop d r policy (deployed @ [policyStatus]) allReady rest)))"

definition statusUpdate ::
  "'s Reconciler \<Rightarrow> KubewardenPolicy \<Rightarrow> Result \<Rightarrow> ('s world, Result \<times> go_error option) io" where
  "statusUpdate r policy res =
     io_try (ext_call (mc_StatusUpdatePolicy (r_Client r) policy))
       (\<lambda>err. io_return (emptyResult, Some err))
       (\<lambda>_. io_return (res, None))"

definition policy_reconcileNormal ::
  "'s Deps \<Rightarrow> 's Reconciler \<Rightarrow> KubewardenPolicy \<Rightarrow> ('s world, Result \<times> go_error option) io" where
  "policy_reconcileNormal d r policy =
     io_try (getMatchingClusters d r policy)
       (\<lambda>err. io_return (emptyResult, Some err))
       (\<lambda>clusters.
     if length clusters = 0
     then statusUpdate r
            (policy\<lparr>kp_Status := (kp_Status policy)\<lparr>kpst_Ready := False, kpst_DeployedPolicies := []\<rparr>\<rparr>)
            (requeueAfter defaultRequeueDuration)
     else (let policy1 = Policy_SetMatchingClusters clusters policy in
           io_bind (deploy_loop d r policy1 [] True clusters) (\<lambda>(deployedPolicies, allReady).
           statusUpdate r
             (policy1\<lparr>kp_Status := (kp_Status policy1)
                \<lparr>kpst_Ready := allReady, kpst_DeployedPolicies := deployedPolicies\<rparr>\<rparr>)
             (requeueAfter (5 * minute)))))"

text \<open>The loop of \<open>reconcileDelete\<close>: every error is only logged.\<close>

fun delete_loop ::
  "'s Deps \<Rightarrow> 's Reconciler \<Rightarrow> KubewardenPolicy \<Rightarrow> Cluster list \<Rightarrow> ('s world, unit) io" where
  "delete_loop d r policy [] = io_return ()"
| "delete_loop d r policy (cluster # rest) =
     io_try (getRemoteClient r cluster)
       (\<lambda>err. delete_loop d r policy rest)
       (\<lambda>remoteClient.
          io_try (deletePolicy d remoteClient policy)
            (\<lambda>err. delete_loop d r policy rest)
            (\<lambda>_. delete_loop d r policy rest))"

definition policy_reconcileDelete ::
  "'s Deps \<Rightarrow> 's Reconciler \<Rightarrow> KubewardenPolicy \<Rightarrow> ('s world, Result \<times> go_error option) io" where
  "policy_reconcileDelete d r policy =
     io_try (getMatchingClusters d r policy)
       (\<lambda>err. io_return (emptyResult, Some err))
       (\<lambda>clusters. io_bind (delete_loop d r policy clusters) (\<lambda>_. io_return (emptyResult, None)))"

definition policy_Reconcile ::
  "'s Deps \<Rightarrow> 's Reconciler \<Rightarrow> NamespacedName \<Rightarrow> ('s world, Result \<times> go_error option) io" where
  "policy_Reconcile d r req =
     io_try (ext_call (mc_GetPolicy (r_Client r) req))
       (\<lambda>err. if d_IsNotFound d err then io_return (emptyResult, None)
              else io_return (emptyResult, Some err))
       (\<lambda>policy. if om_DeletionTimestamp (kp_Meta policy) \<noteq> None then policy_reconcileDelete d r policy
                 else policy_reconcileNormal d r policy)"

section \<open>Watch handler\<close>

text \<open>An object that is not a cluster is \<open>None\<close>.\<close>

fun request_loop ::
  "'s Deps \<Rightarrow> Cluster \<Rightarrow> NamespacedName list \<Rightarrow> KubewardenPolicy list \<Rightarrow> NamespacedName list" where
  "request_loop d cluster requests [] = requests"
| "request_loop d cluster requests (policy # rest) =
     (case d_LabelSelectorAsSelector d (kps_ClusterSelector (kp_Spec policy)) of
        Inl err \<Rightarrow> request_loop d cluster requests rest
      | Inr selector \<Rightarrow>
          if selector (cl_Labels cluster)
          then request_loop d cluster
                 (requests @ [\<lparr>nn_Namespace = om_Namespace (kp_Meta policy),
                               nn_Name = om_Name (kp_Meta policy)\<rparr>]) rest
          else request_loop d cluster requests rest)"

definition clusterToKubewardenPolicy ::
  "'s Deps \<Rightarrow> 's Reconciler \<Rightarrow> Cluster option \<Rightarrow> ('s world, NamespacedName list) io" where
  "clusterToKubewardenPolicy d r ob =
     (case ob of
        None \<Rightarrow> io_return []
      | Some cluster \<Rightarrow>
          io_try (ext_call (mc_ListPolicies (r_Client r) (cl_Namespace cluster)))
            (\<lambda>_. io_return [])
            (\<lambda>policies. io_return (request_loop d cluster [] policies)))"

end
