(* ===== verification/Manager.thy ===== *)
theory Manager
  imports Addon_Controller Policy_Controller
begin

text \<open>
  The process: \<open>cmd/main.go\<close>, the \<open>SetupWithManager\<close> methods of both reconcilers, the registration of the webhooks, and
  the constants of the API package.  The command line is parsed as Go's \<open>flag\<close> package does; the flags that the
  logging library adds are a parameter, and so is the controller runtime.
\<close>

section \<open>API group, scheme and condition constants\<close>

record GroupVersion =
  gv_Group :: string
  gv_Version :: string

definition GroupVersionInfo :: GroupVersion where
  "GroupVersionInfo = \<lparr>gv_Group = ''addon.cluster.x-k8s.io'', gv_Version = ''v1alpha1''\<rparr>"

text \<open>
  The builder of schemes is a library: what it makes of a group version, how types are registered with it, and how it adds
  them to a scheme.
\<close>

record 'b SchemeTools =
  st_Builder :: "GroupVersion \<Rightarrow> 'b"
  st_Register :: "string list \<Rightarrow> 'b \<Rightarrow> 'b"
  st_AddToScheme :: "'b \<Rightarrow> Scheme \<Rightarrow> go_error + Scheme"

text \<open>The \<open>init\<close> functions of the two files of types, which run in the order of the file names after the variables are set.\<close>

definition addon_init :: "'b SchemeTools \<Rightarrow> 'b \<Rightarrow> 'b" where
  "addon_init st b = st_Register st [''KubewardenAddon'', ''KubewardenAddonList''] b"

definition policy_init :: "'b SchemeTools \<Rightarrow> 'b \<Rightarrow> 'b" where
  "policy_init st b = st_Register st [''KubewardenPolicy'', ''KubewardenPolicyList''] b"

definition SchemeBuilder :: "'b SchemeTools \<Rightarrow> 'b" where
  "SchemeBuilder st = policy_init st (addon_init st (st_Builder st GroupVersionInfo))"

definition AddToScheme :: "'b SchemeTools \<Rightarrow> Scheme \<Rightarrow> go_error + Scheme" where
  "AddToScheme st = st_AddToScheme st (SchemeBuilder st)"

text \<open>Condition types and reasons.\<close>

definition KubewardenAddonSpecsUpToDateCondition :: string where
  "KubewardenAddonSpecsUpToDateCondition = ''KubewardenAddonSpecsUpToDate''"

definition KubewardenAddonSpecsUpdatingReason :: string where
  "KubewardenAddonSpecsUpdatingReason = ''KubewardenAddonSpecsUpdating''"

definition KubewardenAddonCreationFailedReason :: string where
  "KubewardenAddonCreationFailedReason = ''KubewardenAddonCreationFailed''"

definition KubewardenAddonDeletionFailedReason :: string where
  "KubewardenAddonDeletionFailedReason = ''KubewardenAddonDeletionFailed''"

definition KubewardenAddonReinstallingReason :: string where
  "KubewardenAddonReinstallingReason = ''KubewardenAddonReinstalling''"

definition ClusterSelectionFailedReason :: string where
  "ClusterSelectionFailedReason = ''ClusterSelectionFailed''"

definition KubewardenAddonsReadyCondition :: string where
  "KubewardenAddonsReadyCondition = ''KubewardenAddonReady''"

definition KubewardenPolicyReadyCondition :: string where
  "KubewardenPolicyReadyCondition = ''KubewardenPolicyReady''"

definition KubewardenPolicyDeploymentFailedReason :: string where
  "KubewardenPolicyDeploymentFailedReason = ''KubewardenPolicyDeploymentFailed''"

definition KubewardenPolicyDeletionFailedReason :: string where
  "KubewardenPolicyDeletionFailedReason = ''KubewardenPolicyDeletionFailed''"

definition KubewardenNotInstalledReason :: string where
  "KubewardenNotInstalledReason = ''KubewardenNotInstalled''"

definition PolicyNotActiveReason :: string where
  "PolicyNotActiveReason = ''PolicyNotActive''"

text \<open>
  \<open>init\<close> of the command: the schemes that are added, in order; a failing one panics (\<open>utilruntime.Must\<close>).  All but the
  scheme of the API package are libraries.
\<close>

definition schemes :: "string list" where
  "schemes = [''clientgo'', ''clusterv1'', ''addonv1alpha1'', ''policiesv1'', ''apiextensionsv1'']"

definition adder :: "'b SchemeTools \<Rightarrow> (string \<Rightarrow> Scheme \<Rightarrow> go_error + Scheme) \<Rightarrow> string \<Rightarrow> Scheme \<Rightarrow> go_error + Scheme" where
  "adder st others x = (if x = ''addonv1alpha1'' then AddToScheme st else others x)"

fun init_scheme :: "(string \<Rightarrow> Scheme \<Rightarrow> go_error + Scheme) \<Rightarrow> string list \<Rightarrow> Scheme \<Rightarrow> Scheme outcome" where
  "init_scheme add [] sch = Ok sch"
| "init_scheme add (x # xs) sch =
     (case add x sch of Inl e \<Rightarrow> Panic (Error e) | Inr sch' \<Rightarrow> init_scheme add xs sch')"

section \<open>The command line\<close>

record Flags =
  metricsAddr :: string
  probeAddr :: string
  enableLeaderElection :: bool
  secureMetrics :: bool
  enableHTTP2 :: bool

definition defaultFlags :: Flags where
  "defaultFlags =
     \<lparr>metricsAddr = ''0'', probeAddr = '':8081'', enableLeaderElection = False, secureMetrics = True,
      enableHTTP2 = False\<rparr>"

text \<open>A flag of another package: whether it is boolean, and which values it accepts.\<close>

type_synonym foreignFlags = "string \<Rightarrow> (bool \<times> (string \<Rightarrow> bool)) option"

text \<open>\<open>strconv.ParseBool\<close>.\<close>

definition parseBool :: "string \<Rightarrow> bool option" where
  "parseBool s =
     (if s \<in> {''1'', ''t'', ''T'', ''TRUE'', ''true'', ''True''} then Some True
      else if s \<in> {''0'', ''f'', ''F'', ''FALSE'', ''false'', ''False''} then Some False
      else None)"

datatype flagKind = BoolFlag | StringFlag

definition flagKind :: "foreignFlags \<Rightarrow> string \<Rightarrow> flagKind option" where
  "flagKind foreign name =
     (if name \<in> {''leader-elect'', ''metrics-secure'', ''enable-http2''} then Some BoolFlag
      else if name \<in> {''metrics-bind-address'', ''health-probe-bind-address''} then Some StringFlag
      else (case foreign name of None \<Rightarrow> None | Some (b, _) \<Rightarrow> Some (if b then BoolFlag else StringFlag)))"

text \<open>Setting a flag: \<open>None\<close> is an invalid value.\<close>

definition setFlag :: "foreignFlags \<Rightarrow> string \<Rightarrow> string \<Rightarrow> Flags \<Rightarrow> Flags option" where
  "setFlag foreign name value f =
     (if name = ''leader-elect'' then map_option (\<lambda>b. f\<lparr>enableLeaderElection := b\<rparr>) (parseBool value)
      else if name = ''metrics-secure'' then map_option (\<lambda>b. f\<lparr>secureMetrics := b\<rparr>) (parseBool value)
      else if name = ''enable-http2'' then map_option (\<lambda>b. f\<lparr>enableHTTP2 := b\<rparr>) (parseBool value)
      else if name = ''metrics-bind-address'' then Some (f\<lparr>metricsAddr := value\<rparr>)
      else if name = ''health-probe-bind-address'' then Some (f\<lparr>probeAddr := value\<rparr>)
      else (case foreign name of None \<Rightarrow> None | Some (_, ok) \<Rightarrow> if ok value then Some f else None))"

text \<open>One argument: the name after one or two dashes, and the value after an equals sign when there is one.\<close>

definition splitFlag :: "string \<Rightarrow> string \<times> string option" where
  "splitFlag s =
     (let name = takeWhile (\<lambda>c. c \<noteq> CHR ''='') s in
      if length name < length s then (name, Some (drop (Suc (length name)) s)) else (name, None))"

datatype parseResult = Parsed Flags | Help | BadUsage

function parseFlags :: "foreignFlags \<Rightarrow> Flags \<Rightarrow> string list \<Rightarrow> parseResult" where
  "parseFlags foreign f [] = Parsed f"
| "parseFlags foreign f (s # args) =
     (if length s < 2 \<or> hd s \<noteq> CHR ''-'' then Parsed f
      else if s = ''--'' then Parsed f
      else
        (let flag = (if s ! 1 = CHR ''-'' then drop 2 s else drop 1 s) in
         if flag = '''' \<or> hd flag = CHR ''-'' \<or> hd flag = CHR ''='' then BadUsage
         else
           (case splitFlag flag of (name, value) \<Rightarrow>
             (case flagKind foreign name of
                None \<Rightarrow> if name = ''help'' \<or> name = ''h'' then Help
                        else BadUsage
              | Some BoolFlag \<Rightarrow>
                  (case setFlag foreign name (case value of None \<Rightarrow> ''true'' | Some v \<Rightarrow> v) f of
                     None \<Rightarrow> BadUsage
                   | Some f' \<Rightarrow> parseFlags foreign f' args)
              | Some StringFlag \<Rightarrow>
                  (case value of
                     Some v \<Rightarrow>
                       (case setFlag foreign name v f of
                          None \<Rightarrow> BadUsage
                        | Some f' \<Rightarrow> parseFlags foreign f' args)
                   | None \<Rightarrow>
                       (case args of
                          [] \<Rightarrow> BadUsage
                        | v # args' \<Rightarrow>
                            (case setFlag foreign name v f of
                               None \<Rightarrow> BadUsage
                             | Some f' \<Rightarrow> parseFlags foreign f' args')))))))"
  by pat_completeness auto
termination
  by (relation "measure (\<lambda>(_, _, args). length args)") auto

section \<open>Options of the servers\<close>

record TlsConfig =
  NextProtos :: "string list"

definition disableHTTP2 :: "TlsConfig \<Rightarrow> TlsConfig" where
  "disableHTTP2 c = c\<lparr>NextProtos := [''http/1.1'']\<rparr>"

definition tlsOptions :: "Flags \<Rightarrow> (TlsConfig \<Rightarrow> TlsConfig) list" where
  "tlsOptions f = (if \<not> enableHTTP2 f then [disableHTTP2] else [])"

record MetricsOptions =
  mo_BindAddress :: string
  mo_SecureServing :: bool
  mo_TLSOpts :: "(TlsConfig \<Rightarrow> TlsConfig) list"
  mo_FilterProvider :: "string option"

record ManagerOptions =
  mgo_Scheme :: Scheme
  mgo_Metrics :: MetricsOptions
  mgo_WebhookTLSOpts :: "(TlsConfig \<Rightarrow> TlsConfig) list"
  mgo_HealthProbeBindAddress :: string
  mgo_LeaderElection :: bool
  mgo_LeaderElectionID :: string

definition managerOptions :: "Scheme \<Rightarrow> Flags \<Rightarrow> ManagerOptions" where
  "managerOptions sch f =
     \<lparr>mgo_Scheme = sch,
      mgo_Metrics =
        \<lparr>mo_BindAddress = metricsAddr f, mo_SecureServing = secureMetrics f, mo_TLSOpts = tlsOptions f,
         mo_FilterProvider = (if secureMetrics f then Some ''WithAuthenticationAndAuthorization'' else None)\<rparr>,
      mgo_WebhookTLSOpts = tlsOptions f,
      mgo_HealthProbeBindAddress = probeAddr f,
      mgo_LeaderElection = enableLeaderElection f,
      mgo_LeaderElectionID = ''1cda3667.cluster.x-k8s.io''\<rparr>"

text \<open>A server applies its options, in order, to its configuration.\<close>

definition served_protos :: "(TlsConfig \<Rightarrow> TlsConfig) list \<Rightarrow> TlsConfig \<Rightarrow> string list" where
  "served_protos opts c = NextProtos (fold (\<lambda>g. g) opts c)"

section \<open>Start-up\<close>

text \<open>
  The controller runtime.  \<open>rt_BuildController\<close> registers a reconciler for a kind, \<open>rt_WatchClusters\<close> the handler of
  cluster events of that controller, and \<open>rt_Start\<close> runs the manager until it stops.
\<close>

type_synonym 's requestHandler = "Cluster option \<Rightarrow> ('s world, NamespacedName list) io"

record 's Runtime =
  rt_GetConfig :: "('s, unit) call"
  rt_NewManager :: "ManagerOptions \<Rightarrow> ('s, 's MgmtClient) call"
  rt_BuildController :: "string \<Rightarrow> 's Reconciler \<Rightarrow> ('s, unit) call"
  rt_WatchClusters :: "string \<Rightarrow> 's requestHandler \<Rightarrow> ('s, unit) call"
  rt_CompleteWebhook :: "string \<Rightarrow> ('s, unit) call"
  rt_AddHealthzCheck :: "string \<Rightarrow> ('s, unit) call"
  rt_AddReadyzCheck :: "string \<Rightarrow> ('s, unit) call"
  rt_Start :: "('s, unit) call"

text \<open>The default of the getter, the first lines of both \<open>SetupWithManager\<close> methods.\<close>

definition withGetter :: "'s Deps \<Rightarrow> 's Reconciler \<Rightarrow> 's Reconciler" where
  "withGetter d r = (if r_RemoteClientGetter r = None then r\<lparr>r_RemoteClientGetter := Some (d_NewClusterClient d)\<rparr> else r)"

definition addon_SetupWithManager :: "'s Deps \<Rightarrow> 's Runtime \<Rightarrow> 's Reconciler \<Rightarrow> ('s world, 's Reconciler) io" where
  "addon_SetupWithManager d rt r =
     (let r' = withGetter d r in
      io_bind (io_wrap ''creating new controller'' (ext_call (rt_BuildController rt ''KubewardenAddon'' r'))) (\<lambda>_.
      io_bind (io_wrap ''adding watch for cluster upgrade group''
        (ext_call (rt_WatchClusters rt ''KubewardenAddon'' (clusterToKubewardenAddon r')))) (\<lambda>_.
      io_return r')))"

definition policy_SetupWithManager :: "'s Deps \<Rightarrow> 's Runtime \<Rightarrow> 's Reconciler \<Rightarrow> ('s world, 's Reconciler) io" where
  "policy_SetupWithManager d rt r =
     (let r' = withGetter d r in
      io_bind (io_wrap ''creating new controller'' (ext_call (rt_BuildController rt ''KubewardenPolicy'' r'))) (\<lambda>_.
      io_bind (io_wrap ''adding watch for clusters''
        (ext_call (rt_WatchClusters rt ''KubewardenPolicy'' (clusterToKubewardenPolicy d r')))) (\<lambda>_.
      io_return r')))"

definition Addon_SetupWebhookWithManager :: "'s Runtime \<Rightarrow> ('s world, unit) io" where
  "Addon_SetupWebhookWithManager rt = ext_call (rt_CompleteWebhook rt ''KubewardenAddon'')"

definition Policy_SetupWebhookWithManager :: "'s Runtime \<Rightarrow> ('s world, unit) io" where
  "Policy_SetupWebhookWithManager rt = ext_call (rt_CompleteWebhook rt ''KubewardenPolicy'')"

text \<open>
  The steps of \<open>main\<close> after the flags are parsed; every failing step ends the process with status 1, and so does a
  configuration that cannot be read (\<open>GetConfigOrDie\<close>).
\<close>

definition newReconciler :: "Scheme \<Rightarrow> 's MgmtClient \<Rightarrow> 's Reconciler" where
  "newReconciler sch cl = \<lparr>r_Client = cl, r_Scheme = sch, r_RemoteClientGetter = None\<rparr>"

definition startManager :: "'s Deps \<Rightarrow> 's Runtime \<Rightarrow> Scheme \<Rightarrow> Flags \<Rightarrow> ('s world, unit) io" where
  "startManager d rt sch f =
     io_bind (ext_call (rt_GetConfig rt)) (\<lambda>_.
     io_bind (ext_call (rt_NewManager rt (managerOptions sch f))) (\<lambda>cl.
     io_bind (addon_SetupWithManager d rt (newReconciler sch cl)) (\<lambda>_.
     io_bind (policy_SetupWithManager d rt (newReconciler sch cl)) (\<lambda>_.
     io_bind (Addon_SetupWebhookWithManager rt) (\<lambda>_.
     io_bind (Policy_SetupWebhookWithManager rt) (\<lambda>_.
     io_bind (ext_call (rt_AddHealthzCheck rt ''healthz'')) (\<lambda>_.
     io_bind (ext_call (rt_AddReadyzCheck rt ''readyz'')) (\<lambda>_.
     ext_call (rt_Start rt)))))))))"

text \<open>The process: its exit status.  Bad usage exits with 2 and a request for help with 0, as \<open>flag.ExitOnError\<close> does.\<close>

definition main ::
  "'s Deps \<Rightarrow> 's Runtime \<Rightarrow> foreignFlags \<Rightarrow> 'b SchemeTools \<Rightarrow> (string \<Rightarrow> Scheme \<Rightarrow> go_error + Scheme) \<Rightarrow>
     string list \<Rightarrow> ('s world, nat) io" where
  "main d rt foreign st others args =
     (case init_scheme (adder st others) schemes [] of
        Panic s \<Rightarrow> io_panic s
      | Err e \<Rightarrow> io_fail e
      | Ok sch \<Rightarrow>
          (case parseFlags foreign defaultFlags args of
             Help \<Rightarrow> io_return 0
           | BadUsage \<Rightarrow> io_return 2
           | Parsed f \<Rightarrow> io_try (startManager d rt sch f) (\<lambda>_. io_return 1) (\<lambda>_. io_return 0)))"

end
