(* ===== verification/Cluster_Laws.thy ===== *)
theory Cluster_Laws
  imports Environment
begin

text \<open>
  The documented behaviour of the Kubernetes API servers the proofs rely on, as predicates on the
  clients that are parameters of the model.  They speak of the outside state through a view:
  \<open>sto s (c, k, n)\<close> is the policy of kind \<open>k\<close> and name \<open>n\<close> stored in the workload cluster \<open>c\<close>, and
  \<open>adm\<close> is what the admission of that cluster makes of a specification (its defaulting).  No law says
  that a call succeeds.
\<close>

type_synonym slot = "NamespacedName \<times> policyKind \<times> NamespacedName"
type_synonym 's policyView = "'s \<Rightarrow> slot \<Rightarrow> WorkloadPolicy option"

abbreviation wp_Key :: "WorkloadPolicy \<Rightarrow> NamespacedName" where
  "wp_Key x \<equiv> ObjectKeyFromObject (wp_Meta x)"

text \<open>Reads do not change the store; a found object is the stored one, under its own key.\<close>

definition get_law :: "'s Deps \<Rightarrow> 's RemoteClient \<Rightarrow> NamespacedName \<Rightarrow> 's policyView \<Rightarrow> bool" where
  "get_law d rc c sto \<longleftrightarrow>
     (\<forall>k n s res s'. rc_Get rc k n s = (res, s') \<longrightarrow> sto s' = sto s \<and>
        (case res of Inr x \<Rightarrow> sto s (c, k, n) = Some x \<and> wp_Key x = n
                   | Inl e \<Rightarrow> d_IsNotFound d e \<longrightarrow> sto s (c, k, n) = None))"

text \<open>A successful create or update stores the admitted specification; a failed one stores nothing.\<close>

definition write_law :: "'s RemoteClient \<Rightarrow> NamespacedName \<Rightarrow> 's policyView \<Rightarrow> (PolicySpec \<Rightarrow> PolicySpec) \<Rightarrow> bool" where
  "write_law rc c sto adm \<longleftrightarrow>
     (\<forall>k x s res s'. rc_Create rc (PolicyObject k x) s = (res, s') \<or> rc_Update rc k x s = (res, s') \<longrightarrow>
        (case res of Inr u \<Rightarrow> (\<exists>y. sto s' = (sto s)((c, k, wp_Key x) \<mapsto> y) \<and> wp_Spec y = adm (wp_Spec x))
                   | Inl e \<Rightarrow> sto s' = sto s))"

text \<open>A successful delete removes the object or, when it has finalizers, marks it for deletion.\<close>

definition delete_law :: "'s Deps \<Rightarrow> 's RemoteClient \<Rightarrow> NamespacedName \<Rightarrow> 's policyView \<Rightarrow> bool" where
  "delete_law d rc c sto \<longleftrightarrow>
     (\<forall>k n s res s'. rc_Delete rc k n s = (res, s') \<longrightarrow>
        (case res of Inr u \<Rightarrow> (\<exists>y. sto s' = (sto s)((c, k, n) := y) \<and>
                                 (case y of None \<Rightarrow> True | Some x \<Rightarrow> om_DeletionTimestamp (wp_Meta x) \<noteq> None))
                   | Inl e \<Rightarrow> sto s' = sto s \<and> (d_IsNotFound d e \<longrightarrow> sto s (c, k, n) = None)))"

definition policy_client ::
  "'s Deps \<Rightarrow> 's RemoteClient \<Rightarrow> NamespacedName \<Rightarrow> 's policyView \<Rightarrow> (PolicySpec \<Rightarrow> PolicySpec) \<Rightarrow> bool" where
  "policy_client d rc c sto adm \<longleftrightarrow>
     get_law d rc c sto \<and> write_law rc c sto adm \<and> delete_law d rc c sto"

text \<open>The getter of workload clients changes no workload cluster and yields a client of its cluster.\<close>

definition fleet ::
  "'s Deps \<Rightarrow> 's Reconciler \<Rightarrow> 's policyView \<Rightarrow> (PolicySpec \<Rightarrow> PolicySpec) \<Rightarrow> bool" where
  "fleet d r sto adm \<longleftrightarrow>
     (\<exists>get. r_RemoteClientGetter r = Some get \<and>
       (\<forall>name c s res s'. get name c s = (res, s') \<longrightarrow> sto s' = sto s \<and>
          (case res of Inr rc \<Rightarrow> policy_client d rc c sto adm | Inl e \<Rightarrow> True)))"

text \<open>
  The management cluster.  \<open>pol s n\<close> is the status stored for the policy resource \<open>n\<close>.  A
  successful status update stores the status; neither listing clusters nor a status update touches
  a workload cluster.
\<close>

type_synonym 's statusView = "'s \<Rightarrow> NamespacedName \<Rightarrow> KubewardenPolicyStatus option"

definition status_law :: "'s Reconciler \<Rightarrow> 's policyView \<Rightarrow> 's statusView \<Rightarrow> bool" where
  "status_law r sto pol \<longleftrightarrow>
     (\<forall>p s res s'. mc_StatusUpdatePolicy (r_Client r) p s = (res, s') \<longrightarrow> sto s' = sto s \<and>
        (case res of Inr u \<Rightarrow> pol s' = (pol s)(ObjectKeyFromObject (kp_Meta p) \<mapsto> kp_Status p)
                   | Inl e \<Rightarrow> pol s' = pol s))"

definition list_law :: "'s Reconciler \<Rightarrow> 's policyView \<Rightarrow> bool" where
  "list_law r sto \<longleftrightarrow> (\<forall>ns sel s. sto (snd (mc_ListClusters (r_Client r) ns sel s)) = sto s)"

text \<open>
  The objects a cluster holds, by kind and key.  Creating an object of an installation (a
  namespace or a decoded manifest): success adds it, a failure adds nothing, and the error
  \<open>AlreadyExists\<close> is reported only for an object that is there.  Neither a create nor a patch removes
  an object.
\<close>

type_synonym objectId = "string \<times> NamespacedName"

fun ident :: "clientObject \<Rightarrow> objectId" where
  "ident (NamespaceObject n) = (''Namespace'', \<lparr>nn_Namespace = '''', nn_Name = n\<rparr>)"
| "ident (PolicyObject k x) =
     (case k of ClusterAdmissionPolicy \<Rightarrow> ''ClusterAdmissionPolicy'' | AdmissionPolicy \<Rightarrow> ''AdmissionPolicy'', wp_Key x)"
| "ident (DecodedObject m) = (mo_Kind m, mo_Key m)"

fun installed_kind :: "clientObject \<Rightarrow> bool" where
  "installed_kind (PolicyObject k x) = False"
| "installed_kind _ = True"

definition create_law :: "'s Deps \<Rightarrow> 's RemoteClient \<Rightarrow> ('s \<Rightarrow> objectId set) \<Rightarrow> bool" where
  "create_law d rc obs \<longleftrightarrow>
     (\<forall>ob s res s'. installed_kind ob \<and> rc_Create rc ob s = (res, s') \<longrightarrow>
        (case res of Inr _ \<Rightarrow> obs s' = insert (ident ob) (obs s)
                   | Inl e \<Rightarrow> obs s' = obs s \<and> (d_IsAlreadyExists d e \<longrightarrow> ident ob \<in> obs s))) \<and>
     (\<forall>ob s. obs s \<subseteq> obs (snd (rc_Create rc ob s))) \<and>
     (\<forall>t ty j s. obs s \<subseteq> obs (snd (rc_Patch rc t ty j s)))"

text \<open>
  The annotations of the clusters in the management cluster, and what a merge patch does to them: the entries
  in which the base and the object differ are set, all other entries stay.
\<close>

type_synonym 's annotationView = "'s \<Rightarrow> NamespacedName \<Rightarrow> labels"

definition annotations_of :: "ObjectMeta \<Rightarrow> labels" where
  "annotations_of m = (case om_Annotations m of None \<Rightarrow> Map.empty | Some a \<Rightarrow> a)"

definition merge_labels :: "labels \<Rightarrow> labels \<Rightarrow> labels \<Rightarrow> labels" where
  "merge_labels base new old = (\<lambda>k. if base k = new k then old k else new k)"

definition patch_law :: "'s Reconciler \<Rightarrow> 's annotationView \<Rightarrow> bool" where
  "patch_law r ann \<longleftrightarrow>
     (\<forall>base x s res s'. mc_PatchCluster (r_Client r) base x s = (res, s') \<longrightarrow>
        (case res of
           Inr u \<Rightarrow> ann s' = (ann s)(ObjectKeyFromObject (cl_Meta x) :=
             merge_labels (annotations_of (cl_Meta base)) (annotations_of (cl_Meta x))
               (ann s (ObjectKeyFromObject (cl_Meta x))))
         | Inl e \<Rightarrow> ann s' = ann s))"

text \<open>
  The stored status of the addons under a merge patch of the status: a field in which the base and the object differ is
  set, every other field stays.
\<close>

type_synonym 's addonStatusView = "'s \<Rightarrow> NamespacedName \<Rightarrow> KubewardenAddonStatus"

definition merge_status ::
  "KubewardenAddonStatus \<Rightarrow> KubewardenAddonStatus \<Rightarrow> KubewardenAddonStatus \<Rightarrow> KubewardenAddonStatus" where
  "merge_status base new old =
     \<lparr>kast_Ready = (if kast_Ready base = kast_Ready new then kast_Ready old else kast_Ready new),
      kast_Conditions = (if kast_Conditions base = kast_Conditions new then kast_Conditions old else kast_Conditions new),
      kast_MatchingClusters = (if kast_MatchingClusters base = kast_MatchingClusters new
        then kast_MatchingClusters old else kast_MatchingClusters new)\<rparr>"

definition status_patch_law :: "'s Reconciler \<Rightarrow> 's addonStatusView \<Rightarrow> bool" where
  "status_patch_law r ast \<longleftrightarrow>
     (\<forall>base x s res s'. mc_StatusPatchAddon (r_Client r) base x s = (res, s') \<longrightarrow>
        (case res of
           Inr u \<Rightarrow> ast s' = (ast s)(ObjectKeyFromObject (ka_Meta x) :=
             merge_status (ka_Status base) (ka_Status x) (ast s (ObjectKeyFromObject (ka_Meta x))))
         | Inl e \<Rightarrow> ast s' = ast s))"

section \<open>The laws as rules on computations\<close>

lemma policy_client_Get:
  assumes "policy_client d rc c sto adm"
  shows "ext_call (rc_Get rc k n) w = (Ok x, w') \<Longrightarrow>
      sto (svc w') = sto (svc w) \<and> sto (svc w) (c, k, n) = Some x \<and> wp_Key x = n"
    and "ext_call (rc_Get rc k n) w = (Err e, w') \<Longrightarrow>
      sto (svc w') = sto (svc w) \<and> (d_IsNotFound d e \<longrightarrow> sto (svc w) (c, k, n) = None)"
  using assms unfolding policy_client_def get_law_def
  by (fastforce simp: ext_call_Ok ext_call_Err)+

lemma policy_client_write:
  assumes "policy_client d rc c sto adm"
    and "m = ext_call (rc_Create rc (PolicyObject k x)) \<or> m = ext_call (rc_Update rc k x)"
  shows "m w = (Ok (), w') \<Longrightarrow>
      \<exists>y. sto (svc w') = (sto (svc w))((c, k, wp_Key x) \<mapsto> y) \<and> wp_Spec y = adm (wp_Spec x)"
    and "m w = (Err e, w') \<Longrightarrow> sto (svc w') = sto (svc w)"
  using assms unfolding policy_client_def write_law_def
  by (fastforce simp: ext_call_Ok ext_call_Err)+

lemma policy_client_Delete:
  assumes "policy_client d rc c sto adm"
  shows "ext_call (rc_Delete rc k n) w = (Ok (), w') \<Longrightarrow>
      \<exists>y. sto (svc w') = (sto (svc w))((c, k, n) := y) \<and>
          (case y of None \<Rightarrow> True | Some x \<Rightarrow> om_DeletionTimestamp (wp_Meta x) \<noteq> None)"
    and "ext_call (rc_Delete rc k n) w = (Err e, w') \<Longrightarrow>
      sto (svc w') = sto (svc w) \<and> (d_IsNotFound d e \<longrightarrow> sto (svc w) (c, k, n) = None)"
  using assms unfolding policy_client_def delete_law_def
  by (fastforce simp: ext_call_Ok ext_call_Err)+

lemma fleet_getRemoteClient:
  assumes "fleet d r sto adm"
  shows "getRemoteClient r cluster w = (Ok rc, w') \<Longrightarrow>
      sto (svc w') = sto (svc w) \<and> policy_client d rc (ObjectKeyFromObject (cl_Meta cluster)) sto adm"
    and "getRemoteClient r cluster w = (Err e, w') \<Longrightarrow> sto (svc w') = sto (svc w)"
  using assms unfolding fleet_def getRemoteClient_def
  by (fastforce simp: ext_call_Ok ext_call_Err)+

lemma status_law_update:
  assumes "status_law r sto pol"
  shows "ext_call (mc_StatusUpdatePolicy (r_Client r) p) w = (Ok (), w') \<Longrightarrow>
      sto (svc w') = sto (svc w) \<and>
      pol (svc w') = (pol (svc w))(ObjectKeyFromObject (kp_Meta p) \<mapsto> kp_Status p)"
    and "ext_call (mc_StatusUpdatePolicy (r_Client r) p) w = (Err e, w') \<Longrightarrow>
      sto (svc w') = sto (svc w) \<and> pol (svc w') = pol (svc w)"
  using assms unfolding status_law_def
  by (fastforce simp: ext_call_Ok ext_call_Err)+

lemma list_law_stays: "list_law r sto \<Longrightarrow> stays (same (\<lambda>w. sto (svc w))) (ext_call (mc_ListClusters (r_Client r) ns sel))"
  by (auto simp: list_law_def stays_def same_def ext_call_def split: prod.split sum.split) (metis snd_conv)+

end
