(* ===== verification/Memory_Clusters.thy ===== *)
theory Memory_Clusters
  imports Cluster_Laws Sample_Objects
begin

text \<open>
  A concrete outside world held in memory: management cluster, workload clusters and packages as
  executable functions.  It shows that the laws of \<open>Cluster_Laws\<close> can hold together, and it is the
  world in which the witnesses of the development run the model.
\<close>

record mem =
  m_policies :: "slot \<Rightarrow> WorkloadPolicy option"
  m_objects :: "(NamespacedName \<times> objectId) list"
  m_status :: "NamespacedName \<Rightarrow> KubewardenPolicyStatus option"
  m_clusters :: "Cluster list"
  m_addons :: "KubewardenAddon list"
  m_kpolicies :: "KubewardenPolicy list"
  m_addonStatus :: "NamespacedName \<Rightarrow> KubewardenAddonStatus"
  m_patches :: "(NamespacedName \<times> PatchTarget) list"

definition notFound :: go_error where
  "notFound = External ''NotFound'' ''not found''"

definition alreadyExists :: go_error where
  "alreadyExists = External ''AlreadyExists'' ''already exists''"

text \<open>The policies of the workload clusters, each under its own key.\<close>

definition memView :: "mem policyView" where
  "memView s x = (case m_policies s x of
     None \<Rightarrow> None | Some y \<Rightarrow> if wp_Key y = snd (snd x) then Some y else None)"

definition mem_Get :: "NamespacedName \<Rightarrow> policyKind \<Rightarrow> NamespacedName \<Rightarrow> (mem, WorkloadPolicy) call" where
  "mem_Get c k n s = (case memView s (c, k, n) of None \<Rightarrow> (Inl notFound, s) | Some x \<Rightarrow> (Inr x, s))"

definition mem_Create :: "NamespacedName \<Rightarrow> clientObject \<Rightarrow> (mem, unit) call" where
  "mem_Create c ob s =
     (case ob of
        PolicyObject k x \<Rightarrow>
          (case memView s (c, k, wp_Key x) of
             Some _ \<Rightarrow> (Inl alreadyExists, s)
           | None \<Rightarrow> (Inr (), s\<lparr>m_policies := (m_policies s)((c, k, wp_Key x) \<mapsto> x)\<rparr>))
      | _ \<Rightarrow> if (c, ident ob) \<in> set (m_objects s) then (Inl alreadyExists, s)
             else (Inr (), s\<lparr>m_objects := m_objects s @ [(c, ident ob)]\<rparr>))"

definition mem_Update :: "NamespacedName \<Rightarrow> policyKind \<Rightarrow> WorkloadPolicy \<Rightarrow> (mem, unit) call" where
  "mem_Update c k x s =
     (case memView s (c, k, wp_Key x) of
        None \<Rightarrow> (Inl notFound, s)
      | Some _ \<Rightarrow> (Inr (), s\<lparr>m_policies := (m_policies s)((c, k, wp_Key x) \<mapsto> x)\<rparr>))"

definition mem_Delete :: "NamespacedName \<Rightarrow> policyKind \<Rightarrow> NamespacedName \<Rightarrow> (mem, unit) call" where
  "mem_Delete c k n s =
     (case memView s (c, k, n) of
        None \<Rightarrow> (Inl notFound, s)
      | Some _ \<Rightarrow> (Inr (), s\<lparr>m_policies := (m_policies s)((c, k, n) := None)\<rparr>))"

definition memClient :: "NamespacedName \<Rightarrow> mem RemoteClient" where
  "memClient c =
     \<lparr>rc_Create = mem_Create c, rc_Get = mem_Get c, rc_Update = mem_Update c, rc_Delete = mem_Delete c,
      rc_Patch = (\<lambda>t ty j s. (Inr (), s\<lparr>m_patches := m_patches s @ [(c, t)]\<rparr>))\<rparr>"

definition memGetter :: "mem ClusterClientGetter" where
  "memGetter name c s = (Inr (memClient c), s)"

definition keyed :: "('a \<Rightarrow> ObjectMeta) \<Rightarrow> NamespacedName \<Rightarrow> 'a \<Rightarrow> bool" where
  "keyed meta n x \<longleftrightarrow> ObjectKeyFromObject (meta x) = n"

text \<open>A merge patch of the annotations.\<close>

definition mem_PatchCluster :: "Cluster \<Rightarrow> Cluster \<Rightarrow> (mem, unit) call" where
  "mem_PatchCluster base x s =
     (if list_ex (keyed cl_Meta (ObjectKeyFromObject (cl_Meta x))) (m_clusters s)
      then (Inr (), s\<lparr>m_clusters := map (\<lambda>c. if keyed cl_Meta (ObjectKeyFromObject (cl_Meta x)) c
              then c\<lparr>cl_Meta := (cl_Meta c)\<lparr>om_Annotations := Some (merge_labels
                     (annotations_of (cl_Meta base)) (annotations_of (cl_Meta x)) (annotations_of (cl_Meta c)))\<rparr>\<rparr>
              else c) (m_clusters s)\<rparr>)
      else (Inl notFound, s))"

definition memMgmt :: "mem MgmtClient" where
  "memMgmt =
     \<lparr>mc_GetAddon = (\<lambda>n s. case find (keyed ka_Meta n) (m_addons s) of
        None \<Rightarrow> (Inl notFound, s) | Some a \<Rightarrow> (Inr a, s)),
      mc_GetPolicy = (\<lambda>n s. case find (keyed kp_Meta n) (m_kpolicies s) of
        None \<Rightarrow> (Inl notFound, s) | Some a \<Rightarrow> (Inr a, s)),
      mc_ListClusters = (\<lambda>ns sel s. (Inr (filter (\<lambda>c. cl_Namespace c = ns \<and>
        (case sel of None \<Rightarrow> True | Some m \<Rightarrow> m (cl_Labels c))) (m_clusters s)), s)),
      mc_ListAddons = (\<lambda>s. (Inr (m_addons s), s)),
      mc_ListPolicies = (\<lambda>ns s. (Inr (filter (\<lambda>p. om_Namespace (kp_Meta p) = ns) (m_kpolicies s)), s)),
      mc_PatchCluster = mem_PatchCluster,
      mc_StatusPatchAddon = (\<lambda>base x s. (Inr (), s\<lparr>m_addonStatus :=
        (m_addonStatus s)(ObjectKeyFromObject (ka_Meta x) :=
          merge_status (ka_Status base) (ka_Status x) (m_addonStatus s (ObjectKeyFromObject (ka_Meta x))))\<rparr>)),
      mc_StatusUpdatePolicy = (\<lambda>p s. (Inr (), s\<lparr>m_status :=
        (m_status s)(ObjectKeyFromObject (kp_Meta p) \<mapsto> kp_Status p)\<rparr>))\<rparr>"

definition memReconciler :: "mem Reconciler" where
  "memReconciler = \<lparr>r_Client = memMgmt, r_Scheme = [], r_RemoteClientGetter = Some memGetter\<rparr>"

definition memDeps :: "mem Deps" where
  "memDeps =
     \<lparr>d_IsNotFound = (\<lambda>e. e = notFound), d_IsAlreadyExists = (\<lambda>e. e = alreadyExists),
      d_LabelSelectorAsSelector =
        (\<lambda>sel. Inr (\<lambda>l. list_all (\<lambda>kv. l (fst kv) = Some (snd kv)) (ls_MatchLabels sel))),
      d_IsTrue = (\<lambda>c t. list_ex (\<lambda>x. cond_Type x = t \<and> cond_Status x = ''True'') (cl_Conditions c)),
      d_Now = (\<lambda>s. 0),
      d_httpGet = (\<lambda>url s. (Inr \<lparr>resp_StatusCode = 200, resp_Body = (''crds'', None)\<rparr>, s)),
      d_openTarGz = (\<lambda>content. Inr
        ([\<lparr>te_Name = ''policies.yaml'', te_IsDir = False, te_Body = (content, None)\<rparr>], None)),
      d_actionInit = (\<lambda>ns s. (Inr (), s)),
      d_LocateChart = (\<lambda>url v name s. (Inr name, s)),
      d_loadChart = (\<lambda>path s. (Inr path, s)),
      d_installRun = (\<lambda>opts chart vals s. (Inr chart, s)),
      d_yamlDocs = (\<lambda>content. ([content], None)),
      d_universalDecode = (\<lambda>sch raw.
        (Some (ClientObject \<lparr>mo_Kind = raw, mo_Key = \<lparr>nn_Namespace = '''', nn_Name = raw\<rparr>, mo_Raw = raw\<rparr>),
         Some raw, None)),
      d_NewClusterClient = memGetter\<rparr>"

lemma memView_put [simp]:
  "memView (s\<lparr>m_policies := (m_policies s)((c, k, wp_Key y) \<mapsto> y)\<rparr>) = (memView s)((c, k, wp_Key y) \<mapsto> y)"
  by (rule ext) (auto simp: memView_def split: option.split)

lemma memView_delete [simp]:
  "memView (s\<lparr>m_policies := (m_policies s)(x := None)\<rparr>) = (memView s)(x := None)"
  by (rule ext) (auto simp: memView_def split: option.split)

lemma memView_key: "memView s (c, k, n) = Some x \<Longrightarrow> wp_Key x = n"
  by (auto simp: memView_def split: option.splits if_splits)

lemma memView_other [simp]:
  "memView (s\<lparr>m_objects := x\<rparr>) = memView s" "memView (s\<lparr>m_status := y\<rparr>) = memView s"
  by (simp_all add: memView_def fun_eq_iff)

lemma mem_policy_client: "policy_client memDeps (memClient c) c memView (\<lambda>x. x)"
  unfolding policy_client_def
proof (intro conjI)
  show "get_law memDeps (memClient c) c memView"
    by (auto simp: get_law_def memClient_def mem_Get_def memView_key memDeps_def split: option.splits sum.splits)
  show "write_law (memClient c) c memView (\<lambda>x. x)"
    by (auto simp: write_law_def memClient_def mem_Create_def mem_Update_def split: option.splits sum.splits)
  show "delete_law memDeps (memClient c) c memView"
    by (auto simp: delete_law_def memClient_def mem_Delete_def memDeps_def
        split: option.splits sum.splits intro!: exI [of _ None])
qed

text \<open>The objects of one cluster.\<close>

definition memObjects :: "NamespacedName \<Rightarrow> mem \<Rightarrow> objectId set" where
  "memObjects c s = {i. (c, i) \<in> set (m_objects s)}"

lemma mem_create_law: "create_law memDeps (memClient c) (memObjects c)"
proof -
  have "case res of Inr _ \<Rightarrow> memObjects c s' = insert (ident ob) (memObjects c s)
      | Inl e \<Rightarrow> memObjects c s' = memObjects c s \<and> (d_IsAlreadyExists memDeps e \<longrightarrow> ident ob \<in> memObjects c s)"
    if "installed_kind ob" "rc_Create (memClient c) ob s = (res, s')" for ob s res s'
    using that by (cases ob) (auto simp: memClient_def mem_Create_def memObjects_def split: if_splits)
  moreover have "memObjects c s \<subseteq> memObjects c (snd (rc_Create (memClient c) ob s))" for ob s
    by (auto simp: memClient_def mem_Create_def memObjects_def split: clientObject.split option.split)
  ultimately show ?thesis
    unfolding create_law_def by (simp add: memClient_def memObjects_def)
qed

lemma mem_fleet: "fleet memDeps memReconciler memView (\<lambda>x. x)"
  by (simp add: fleet_def memReconciler_def memGetter_def mem_policy_client)

lemma mem_status_law: "status_law memReconciler memView m_status"
  by (simp add: status_law_def memReconciler_def memMgmt_def)

lemma mem_list_law: "list_law memReconciler memView"
  by (simp add: list_law_def memReconciler_def memMgmt_def)

text \<open>The annotations of the clusters.\<close>

definition memAnnotations :: "mem annotationView" where
  "memAnnotations s n = (case find (keyed cl_Meta n) (m_clusters s) of
     None \<Rightarrow> Map.empty | Some c \<Rightarrow> annotations_of (cl_Meta c))"

lemma find_map_keyed:
  assumes "\<And>c. keyed meta n (f c) = keyed meta n c"
  shows "find (keyed meta n) (map f xs) = map_option f (find (keyed meta n) xs)"
  by (induction xs) (simp_all add: assms)

lemma list_ex_find: "list_ex P xs \<Longrightarrow> \<exists>x. find P xs = Some x \<and> P x"
  by (induction xs) auto

lemma mem_patch_law: "patch_law memReconciler memAnnotations"
  unfolding patch_law_def
proof (intro allI impI)
  fix base x :: Cluster and s res s'
  let ?k = "ObjectKeyFromObject (cl_Meta x)"
  let ?f = "\<lambda>c :: Cluster. if keyed cl_Meta ?k c then c\<lparr>cl_Meta := (cl_Meta c)\<lparr>om_Annotations := Some (merge_labels
     (annotations_of (cl_Meta base)) (annotations_of (cl_Meta x)) (annotations_of (cl_Meta c)))\<rparr>\<rparr> else c"
  assume run: "mc_PatchCluster (r_Client memReconciler) base x s = (res, s')"
  have key: "keyed cl_Meta n (?f c) = keyed cl_Meta n c" for n and c :: Cluster
    by (simp add: keyed_def ObjectKeyFromObject_def)
  have "find (keyed cl_Meta n) (map ?f (m_clusters s)) = map_option ?f (find (keyed cl_Meta n) (m_clusters s))" for n
    by (rule find_map_keyed) (rule key)
  moreover have "keyed cl_Meta n c" if "find (keyed cl_Meta n) (m_clusters s) = Some c" for n c
    using that by (auto simp: find_Some_iff)
  ultimately show "case res of Inr u \<Rightarrow> memAnnotations s' = (memAnnotations s)(?k :=
       merge_labels (annotations_of (cl_Meta base)) (annotations_of (cl_Meta x)) (memAnnotations s ?k))
     | Inl e \<Rightarrow> memAnnotations s' = memAnnotations s"
    using run list_ex_find [of "keyed cl_Meta ?k" "m_clusters s"]
    by (fastforce simp: memReconciler_def memMgmt_def mem_PatchCluster_def memAnnotations_def fun_eq_iff
        keyed_def annotations_of_def split: if_splits option.split)
qed

lemma mem_status_patch_law: "status_patch_law memReconciler m_addonStatus"
  by (simp add: status_patch_law_def memReconciler_def memMgmt_def)

text \<open>A machine on which no system call fails, and an outside world with given clusters.\<close>

definition emptyMem :: mem where
  "emptyMem =
     \<lparr>m_policies = Map.empty, m_objects = [], m_status = Map.empty, m_clusters = [], m_addons = [],
      m_kpolicies = [], m_addonStatus = (\<lambda>n. \<lparr>kast_Ready = False, kast_Conditions = [], kast_MatchingClusters = []\<rparr>), m_patches = []\<rparr>"

definition memWorld :: "mem \<Rightarrow> mem world" where
  "memWorld s =
     \<lparr>fs = [((True, [''tmp'']), Dir)], tmpdir = ''/tmp'', rnd = (\<lambda>n. n), faults = (\<lambda>n. None),
      short = (\<lambda>n. 0), tick = 0, svc = s\<rparr>"

lemmas mem_client_simps =
  memClient_def mem_Get_def mem_Create_def mem_Update_def mem_Delete_def memGetter_def
  memReconciler_def memMgmt_def mem_PatchCluster_def memDeps_def emptyMem_def memWorld_def

end
