(* ===== verification/File_Proofs.thy ===== *)
theory File_Proofs
  imports Helpers Memory_Clusters
begin

text \<open>
  What the helpers do to the file system: the outcome of every system call on the node store, the
  invariant that every node lies in a directory, containment of the archive extraction and its
  failure for names that climb out of the target directory, and the content of downloaded and rendered
  files.
\<close>

section \<open>Outcome of the system calls\<close>

declare update_conv' [simp]

lemma os_call_Ok:
  "os_call m w = (Ok a, w') \<longleftrightarrow> faults w (tick w) = None \<and> m (w\<lparr>tick := Suc (tick w)\<rparr>) = (Ok a, w')"
  by (simp add: os_call_def Let_def split: option.split)

lemma temp_search_Some:
  "temp_search w pre suf n i = Some name \<Longrightarrow>
     node_at w (pkey name) = None \<and> (\<exists>j. name = joinPath (tmpdir w) pre @ decimal (rnd w j) @ suf)"
proof (induction n arbitrary: i)
  case 0
  then show ?case by (simp add: temp_search.simps)
next
  case (Suc n)
  then show ?case
    by (subst (asm) (2) temp_search.simps) (auto simp: Let_def split: if_splits)
qed

lemma is_dir_tick [simp]: "is_dir (w\<lparr>tick := t\<rparr>) k = is_dir w k"
  by (simp add: is_dir_def)

lemma temp_search_tick [simp]: "temp_search (w\<lparr>tick := t\<rparr>) pre suf n i = temp_search w pre suf n i"
proof (induction n arbitrary: i)
  case 0
  then show ?case by (simp add: temp_search.simps)
next
  case (Suc n)
  show ?case by (subst (1 2) temp_search.simps) (simp add: Suc.IH Let_def)
qed

lemma make_temp_Ok:
  assumes "make_temp n pre suf w = (Ok name, w')"
  shows "node_at w (pkey name) = None" and "node_at w' = (node_at w)(pkey name \<mapsto> n)"
    and "is_dir w (parent (pkey name))" and "\<exists>j. name = joinPath (tmpdir w) pre @ decimal (rnd w j) @ suf"
    and "faults w' = faults w" and "tmpdir w' = tmpdir w" and "svc w' = svc w"
  using assms
  by (auto simp: make_temp_def os_call_Ok dest: temp_search_Some split: option.splits if_splits)

text \<open>A temporary name is a plain name in some directory.\<close>

definition temp_prefix :: "string \<Rightarrow> string \<Rightarrow> bool" where
  "temp_prefix pre suf \<longleftrightarrow> pre \<noteq> '''' \<and> hd pre \<noteq> CHR ''.'' \<and> slash \<notin> set pre \<and> slash \<notin> set suf"

lemma joinPath_split: "\<exists>e. joinPath d name = e @ slash # name"
  by (cases d rule: rev_cases) (auto simp: joinPath_def)

lemma make_temp_key:
  assumes "temp_prefix pre suf" and "make_temp n pre suf w = (Ok name, w')"
  shows "name \<noteq> ''''" and "\<exists>X c. snd (pkey name) = X @ [c] \<and> plain c"
proof -
  obtain j where j: "name = joinPath (tmpdir w) pre @ decimal (rnd w j) @ suf"
    using make_temp_Ok(4) [OF assms(2)] by blast
  obtain e where e: "joinPath (tmpdir w) pre = e @ slash # pre" using joinPath_split by blast
  have "plain (pre @ decimal (rnd w j) @ suf)"
    using assms(1) decimal_digits [of slash "rnd w j"] by (cases pre) (auto simp: temp_prefix_def plain_def)
  then show "name \<noteq> ''''" and "\<exists>X c. snd (pkey name) = X @ [c] \<and> plain c"
    using pkey_append_plain [of "pre @ decimal (rnd w j) @ suf" e] j e by auto
qed

lemma os_Open_Ok:
  assumes "os_Open p w = (Ok n, w')"
  shows "node_at w (pkey p) = Some n" and "fs w' = fs w" and "faults w' = faults w" and "svc w' = svc w"
  using assms by (auto simp: os_Open_def os_call_Ok split: option.splits)

lemma os_Create_Ok:
  assumes "os_Create p w = (Ok u, w')"
  shows "node_at w' = (node_at w)(pkey p \<mapsto> File '''')" and "is_dir w (parent (pkey p))"
    and "\<not> is_dir w (pkey p)" and "faults w' = faults w" and "svc w' = svc w"
  using assms by (auto simp: os_Create_def os_call_Ok split: if_splits)

lemma file_Write_Ok:
  assumes "file_Write p s w = (Ok u, w')"
  shows "node_at w' = (case node_at w (pkey p) of Some (File c) \<Rightarrow> (node_at w)(pkey p \<mapsto> File (c @ s)) | _ \<Rightarrow> node_at w)"
    and "faults w' = faults w" and "svc w' = svc w"
  using assms
  by (auto simp: file_Write_def Let_def fun_eq_iff node_at_append_file split: option.splits node.splits)

lemma io_Copy_Ok:
  assumes "io_Copy p rd w = (Ok u, w')"
  shows "file_Write p (fst rd) w = (Ok (), w') \<and> snd rd = None"
  using assms by (auto simp: io_Copy_def io_simps split: prod.splits outcome.splits option.splits)

lemma create_copy_Ok:
  assumes "os_Create p w = (Ok u, v)" and "io_Copy p rd v = (Ok u', w')"
  shows "node_at w' = (node_at w)(pkey p \<mapsto> File (fst rd))" and "snd rd = None"
proof -
  have "node_at v = (node_at w)(pkey p \<mapsto> File '''')" using os_Create_Ok(1) [OF assms(1)] .
  moreover have "file_Write p (fst rd) v = (Ok (), w')" and "snd rd = None" using io_Copy_Ok [OF assms(2)] by simp_all
  ultimately show "node_at w' = (node_at w)(pkey p \<mapsto> File (fst rd))" and "snd rd = None"
    using file_Write_Ok(1) [of p "fst rd" v _ w'] by simp_all
qed

lemma temp_write_Ok:
  assumes "make_temp (File '''') pre suf w = (Ok name, v)" and "file_Write name s v = (Ok u, w')"
  shows "node_at w' = (node_at w)(pkey name \<mapsto> File s)"
  using make_temp_Ok(2) [OF assms(1)] file_Write_Ok(1) [OF assms(2)] by simp

section \<open>Containment\<close>

definition only_under :: "key \<Rightarrow> 's world \<Rightarrow> 's world \<Rightarrow> bool" where
  "only_under d w w' \<longleftrightarrow> (\<forall>k. \<not> under d k \<longrightarrow> node_at w' k = node_at w k)"

lemma only_underD: "only_under d w w' \<Longrightarrow> \<not> under d k \<Longrightarrow> node_at w' k = node_at w k"
  unfolding only_under_def by blast

interpretation contained: step_relation "only_under d"
  by unfold_locales (simp_all add: only_under_def)

lemma only_under_os_call:
  "(\<And>w. only_under d w (snd (m w))) \<Longrightarrow> stays (only_under d) (os_call m)"
  by (auto simp: stays_def os_call_def Let_def only_under_def split: option.split)

lemma contained_Create: "under d (pkey p) \<Longrightarrow> stays (only_under d) (os_Create p)"
  unfolding os_Create_def by (rule only_under_os_call) (auto simp: only_under_def)

lemma contained_Write: "under d (pkey p) \<Longrightarrow> stays (only_under d) (file_Write p s)"
  by (auto simp: stays_def only_under_def file_Write_def Let_def node_at_append_file split: option.split)

lemma contained_Copy: "under d (pkey p) \<Longrightarrow> stays (only_under d) (io_Copy p rd)"
  unfolding io_Copy_def
  by (cases "snd rd") (auto intro!: contained.stays_bind contained_Write contained.stays_return contained.stays_fail)

lemma Join_local_under: "dir \<noteq> '''' \<Longrightarrow> local_name n \<Longrightarrow> under (pkey dir) (pkey (Join [dir, n]))"
  by (simp add: pkey_Join_local under_def)

lemma extract_contained:
  assumes "dir \<noteq> ''''" and "list_all (\<lambda>e. te_IsDir e \<or> local_name (te_Name e)) entries"
  shows "stays (only_under (pkey dir)) (extract_entries dir entries ending)"
  using assms(2)
proof (induction entries)
  case Nil
  then show ?case by (auto intro!: contained.stays_return contained.stays_fail split: option.split)
next
  case (Cons e es)
  then show ?case
    using Join_local_under [OF assms(1)]
    by (auto simp: Let_def intro!: contained.stays_bind contained.stays_wrap contained_Create contained_Copy)
qed

section \<open>The invariant of the node store\<close>

text \<open>Every node lies in a directory.\<close>

definition tree_ok :: "'s world \<Rightarrow> bool" where
  "tree_ok w \<longleftrightarrow> (\<forall>k n. node_at w k = Some n \<longrightarrow> snd k \<noteq> [] \<and> is_dir w (parent k))"

lemma tree_ok_cong: "node_at w' = node_at w \<Longrightarrow> tree_ok w' = tree_ok w"
  by (simp add: tree_ok_def is_dir_def)

lemma tree_ok_upd:
  assumes "tree_ok w" and "node_at w' = (node_at w)(k \<mapsto> n)" and "snd k \<noteq> []" and "is_dir w (parent k)"
    and "node_at w k = Some Dir \<longrightarrow> n = Dir"
  shows "tree_ok w'"
proof -
  have mono: "is_dir w' j" if "is_dir w j" for j
    using that assms(2,5) by (auto simp: is_dir_def)
  show ?thesis using assms mono unfolding tree_ok_def by (auto split: if_splits)
qed

text \<open>Below a name that is not in use there is nothing.\<close>

lemma tree_ok_fresh:
  assumes "tree_ok w" and "node_at w d = None" and "snd d = X @ [c]" and "plain c" and "under d k"
  shows "node_at w k = None"
proof -
  obtain ys where k: "k = (fst d, snd d @ ys)"
    using assms(5) by (cases k) (auto simp: under_def prefix_def)
  have "node_at w (fst d, snd d @ ys) = None"
  proof (induction ys rule: rev_induct)
    case Nil
    then show ?case using assms(2) by simp
  next
    case (snoc y ys)
    have "\<not> is_dir w (fst d, snd d @ ys)"
      using snoc assms(3,4) by (auto simp: is_dir_def)
    moreover have "parent (fst d, snd d @ ys @ [y]) = (fst d, snd d @ ys)"
      by (simp add: parent_def butlast_append)
    ultimately show ?case
      using assms(1) unfolding tree_ok_def by (metis not_None_eq)
  qed
  then show ?thesis using k by simp
qed

section \<open>What an extraction writes\<close>

text \<open>The path and content an archive entry is written to.\<close>

definition entry_file :: "string \<Rightarrow> TarEntry \<Rightarrow> key \<times> node" where
  "entry_file dir e = (pkey (Join [dir, te_Name e]), File (fst (te_Body e)))"

lemma extract_entries_ConsE:
  assumes "extract_entries dir (e # es) ending w = (Ok u, w')"
  obtains (directory) "te_IsDir e" and "extract_entries dir es ending w = (Ok u, w')"
  | (written) v v' where "\<not> te_IsDir e" and "os_Create (Join [dir, te_Name e]) w = (Ok (), v)"
      and "io_Copy (Join [dir, te_Name e]) (te_Body e) v = (Ok (), v')"
      and "extract_entries dir es ending v' = (Ok u, w')"
  using assms by (cases "te_IsDir e") (auto simp: Let_def io_simps split: prod.splits outcome.splits)

lemma extract_entries_exact:
  assumes "extract_entries dir entries ending w = (Ok u, w')"
  shows "ending = None \<and> list_all (\<lambda>e. te_IsDir e \<or> snd (te_Body e) = None) entries \<and>
    node_at w' = node_at w ++ map_of (rev (map (entry_file dir) (filter (\<lambda>e. \<not> te_IsDir e) entries)))"
  using assms
proof (induction entries arbitrary: w)
  case Nil
  then show ?case by (auto simp: io_simps split: option.splits)
next
  case (Cons e es)
  from Cons.prems show ?case
  proof (cases rule: extract_entries_ConsE)
    case directory
    then show ?thesis using Cons.IH by simp
  next
    case (written v v')
    then show ?thesis
      using Cons.IH [OF written(4)] create_copy_Ok [OF written(2,3)]
      by (simp add: entry_file_def map_add_def fun_eq_iff split: option.split)
  qed
qed

lemma extractTarGz_Ok:
  assumes "extractTarGz d path w = (Ok dir, w')"
  obtains content entries v v' where "node_at w (pkey path) = Some (File content)"
    and "d_openTarGz d content = Inr (entries, None)" and "fs v = fs w" and "faults v = faults w"
    and "make_temp Dir ''kubewarden-crds-'' '''' v = (Ok dir, v')"
    and "extract_entries dir entries None v' = (Ok (), w')"
proof -
  obtain opened v archive v2 v' u where 1: "os_Open path w = (Ok opened, v)"
    and 2: "io_bind (io_pure (read_file opened)) (\<lambda>content. io_pure (d_openTarGz d content)) v = (Ok archive, v2)"
    and 3: "make_temp Dir ''kubewarden-crds-'' '''' v2 = (Ok dir, v')"
    and 4: "extract_entries dir (fst archive) (snd archive) v' = (Ok u, w')"
    using assms unfolding extractTarGz_def os_MkdirTemp_def
    by (elim io_bind_OkE) (auto simp: io_wrap_Ok_iff io_return_def)
  from 2 obtain content where c: "opened = File content" "d_openTarGz d content = Inr archive" "v2 = v"
    by (cases opened; cases "d_openTarGz d (case opened of File c \<Rightarrow> c | Dir \<Rightarrow> '''')")
      (auto simp: io_simps read_file_def)
  obtain entries where "archive = (entries, None)"
    using extract_entries_exact [OF 4] by (cases archive) simp
  then show thesis
    using that [of content entries v v'] os_Open_Ok [OF 1] c 3 4 by simp
qed

lemma tar_prefix: "temp_prefix ''kubewarden-crds-'' ''''" "temp_prefix ''kubewarden-'' ''.tar.gz''"
    "temp_prefix ''kubewarden-helm-rendered-'' ''.yaml''"
  by (simp_all add: temp_prefix_def)

text \<open>The store after an extraction, and containment whatever the outcome.\<close>

lemma extractTarGz_store:
  assumes "extractTarGz d path w = (Ok dir, w')"
  shows "\<exists>content entries. node_at w (pkey path) = Some (File content) \<and>
    d_openTarGz d content = Inr (entries, None) \<and> node_at w (pkey dir) = None \<and>
    node_at w' = (node_at w)(pkey dir \<mapsto> Dir) ++
      map_of (rev (map (entry_file dir) (filter (\<lambda>e. \<not> te_IsDir e) entries)))"
  using assms
proof (cases rule: extractTarGz_Ok)
  case (1 content entries v v')
  then show ?thesis
    using make_temp_Ok(1,2) [OF 1(5)] extract_entries_exact [OF 1(6)] by auto
qed

text \<open>A condition on the archive a file holds, and the archives whose names do not climb out of the target.\<close>

definition archive_at :: "(TarEntry list \<Rightarrow> bool) \<Rightarrow> 's Deps \<Rightarrow> string \<Rightarrow> 's world \<Rightarrow> bool" where
  "archive_at P d path w \<longleftrightarrow>
     (case node_at w (pkey path) of
        Some (File content) \<Rightarrow> (case d_openTarGz d content of Inr (entries, _) \<Rightarrow> P entries | Inl _ \<Rightarrow> True)
      | _ \<Rightarrow> True)"

definition local_archive :: "TarEntry list \<Rightarrow> bool" where
  "local_archive entries \<longleftrightarrow> list_all (\<lambda>e. te_IsDir e \<or> local_name (te_Name e)) entries"

lemma archive_atD:
  "archive_at P d path w \<Longrightarrow> node_at w (pkey path) = Some (File content) \<Longrightarrow>
     d_openTarGz d content = Inr (entries, ending) \<Longrightarrow> P entries"
  by (simp add: archive_at_def)

lemma fresh_extract_keeps:
  assumes "tree_ok v" and "temp_prefix pre ''''" and "make_temp Dir pre '''' v = (Ok dir, v')"
    and "local_archive entries" and "node_at v k = Some n"
  shows "node_at (snd (extract_entries dir entries ending v')) k = Some n"
proof -
  obtain X c where X: "snd (pkey dir) = X @ [c]" "plain c" using make_temp_key(2) [OF assms(2,3)] by blast
  note t = make_temp_Ok(1,2) [OF assms(3)]
  have "\<not> under (pkey dir) k"
    using tree_ok_fresh [OF assms(1) t(1) X, of k] assms(5) by auto
  moreover have "only_under (pkey dir) v' (snd (extract_entries dir entries ending v'))"
    by (rule extract_contained [unfolded stays_def, rule_format, OF make_temp_key(1) [OF assms(2,3)] assms(4) [unfolded local_archive_def]])
  ultimately have "node_at (snd (extract_entries dir entries ending v')) k = node_at v' k"
    by (intro only_underD)
  then show ?thesis using t assms(5) by auto
qed

lemma make_temp_fs: "make_temp n pre suf w = (r, w') \<Longrightarrow> (\<exists>name. r = Ok name) \<or> fs w' = fs w"
  by (auto simp: make_temp_def os_call_def Let_def split: option.splits if_splits)

lemma os_Open_fs: "os_Open p w = (r, w') \<Longrightarrow> fs w' = fs w"
  by (auto simp: os_Open_def os_call_def Let_def split: option.splits)

lemma extractTarGz_run:
  "fs (snd (extractTarGz d path w)) = fs w \<or>
   (\<exists>content entries ending v dir v'. node_at w (pkey path) = Some (File content) \<and> d_openTarGz d content = Inr (entries, ending) \<and> fs v = fs w \<and>
      make_temp Dir ''kubewarden-crds-'' '''' v = (Ok dir, v') \<and>
      snd (extractTarGz d path w) = snd (extract_entries dir entries ending v'))"
proof -
  obtain r v where o': "os_Open path w = (r, v)" by fastforce
  then have fs: "fs v = fs w" by (rule os_Open_fs)
  obtain t v' where t: "make_temp Dir ''kubewarden-crds-'' '''' v = (t, v')" by fastforce
  show ?thesis
  proof (cases "\<exists>content entries ending dir. r = Ok (File content) \<and>
      d_openTarGz d content = Inr (entries, ending) \<and> t = Ok dir")
    case True
    then obtain content entries ending dir where *: "r = Ok (File content)"
      "d_openTarGz d content = Inr (entries, ending)" "t = Ok dir" by blast
    then have "snd (extractTarGz d path w) = snd (extract_entries dir entries ending v')"
      using o' t by (simp add: extractTarGz_def os_MkdirTemp_def io_simps read_file_def split: prod.split outcome.split)
    then show ?thesis using * t fs os_Open_Ok [of path w "File content" v] o' by blast
  next
    case False
    then have "fs (snd (extractTarGz d path w)) = fs w"
      using o' t fs make_temp_fs [OF t]
      by (auto simp: extractTarGz_def os_MkdirTemp_def io_simps read_file_def split: outcome.splits node.splits sum.splits)
    then show ?thesis ..
  qed
qed

section \<open>Properties\<close>

text \<open>C16: unpacking a file that holds an archive whose names do not climb out of the target (no component \<open>..\<close>) never
  changes a file or directory that exists already, whatever the outcome: everything it writes is in a
  directory that is new.  On success the archive ended properly, and the store is the old one plus
  the new directory and one file for each entry that is not a directory, with the full content of the entry;
  of two entries with the same path the later one wins.\<close>

theorem extract_writes_only_new_files:
  assumes "tree_ok w" and "archive_at local_archive d path w"
  shows "(\<forall>k n. node_at w k = Some n \<longrightarrow> node_at (snd (extractTarGz d path w)) k = Some n) \<and>
    (\<forall>dir. fst (extractTarGz d path w) = Ok dir \<longrightarrow> node_at w (pkey dir) = None \<and>
       (\<exists>content entries. node_at w (pkey path) = Some (File content) \<and> d_openTarGz d content = Inr (entries, None) \<and>
          node_at (snd (extractTarGz d path w)) = (node_at w)(pkey dir \<mapsto> Dir) ++
            map_of (rev (map (entry_file dir) (filter (\<lambda>e. \<not> te_IsDir e) entries)))))"
proof (intro conjI allI impI)
  fix k n assume k: "node_at w k = Some n"
  show "node_at (snd (extractTarGz d path w)) k = Some n"
    using extractTarGz_run [of d path w]
  proof (elim disjE exE conjE)
    fix content entries ending v dir v'
    assume c: "node_at w (pkey path) = Some (File content)" and *: "d_openTarGz d content = Inr (entries, ending)" "fs v = fs w"
      "make_temp Dir ''kubewarden-crds-'' '''' v = (Ok dir, v')"
      "snd (extractTarGz d path w) = snd (extract_entries dir entries ending v')"
    have "tree_ok v" using assms(1) *(2) tree_ok_cong [of v w] by simp
    moreover have "local_archive entries" by (rule archive_atD [OF assms(2) c *(1)])
    ultimately show "node_at (snd (extractTarGz d path w)) k = Some n"
      using fresh_extract_keeps [OF _ tar_prefix(1) *(3), of entries k n ending] *(2,4) k by simp
  qed (simp add: k)
next
  fix dir assume "fst (extractTarGz d path w) = Ok dir"
  then have "extractTarGz d path w = (Ok dir, snd (extractTarGz d path w))" by (metis prod.collapse)
  from extractTarGz_store [OF this]
  show "node_at w (pkey dir) = None"
    and "\<exists>content entries. node_at w (pkey path) = Some (File content) \<and> d_openTarGz d content = Inr (entries, None) \<and>
          node_at (snd (extractTarGz d path w)) = (node_at w)(pkey dir \<mapsto> Dir) ++
            map_of (rev (map (entry_file dir) (filter (\<lambda>e. \<not> te_IsDir e) entries)))" by blast+
qed

text \<open>A machine that holds a downloaded archive.\<close>

definition archiveWorld :: "mem world" where
  "archiveWorld = (memWorld emptyMem)\<lparr>fs := [((True, [''tmp'']), Dir), ((True, [''tmp'', ''crds.tar.gz'']), File ''crds'')]\<rparr>"

lemma archiveWorld_ok: "tree_ok archiveWorld"
  by (auto simp: tree_ok_def archiveWorld_def is_dir_def parent_def split: if_splits)

lemma mem_local_archive: "archive_at local_archive memDeps path w"
  by (simp add: archive_at_def local_archive_def memDeps_def local_name_def split: option.split node.split)

theorem extract_writes_only_new_files_witness:
  "node_at (snd (extractTarGz memDeps ''/tmp/crds.tar.gz'' archiveWorld)) (True, [''tmp'', ''crds.tar.gz'']) =
     Some (File ''crds'')"
proof -
  have "node_at archiveWorld (True, [''tmp'', ''crds.tar.gz'']) = Some (File ''crds'')"
    by (simp add: archiveWorld_def)
  then show ?thesis
    using extract_writes_only_new_files [OF archiveWorld_ok mem_local_archive, of "''/tmp/crds.tar.gz''"] by blast
qed

text \<open>C28: a name that climbs out of the target is not rejected: extracting an entry \<open>../x\<close> without an
  error writes the file \<open>x\<close> next to the target directory, and the hypothesis on names of the property above
  cannot be dropped.\<close>

theorem extract_follows_parent_names:
  assumes "dir \<noteq> ''''" and "snd (pkey dir) = ds @ [c]" and "plain c" and "plain x" and "x \<noteq> c"
    and "extract_entries dir [\<lparr>te_Name = ''../'' @ x, te_IsDir = False, te_Body = (content, None)\<rparr>] None w = (Ok (), w')"
  shows "node_at w' = (node_at w)((fst (pkey dir), ds @ [x]) \<mapsto> File content) \<and>
    \<not> under (pkey dir) (fst (pkey dir), ds @ [x])"
proof -
  have split: "split_on slash (''../'' @ x) = [''..'', x]"
    using split_on_append_sep [of slash "''..''" x] split_plain [OF assms(4)] by (simp add: split_on_no_sep)
  have "pkey (Join [dir, ''../'' @ x]) = (fst (pkey dir), ds @ [x])"
    using assms(2,3,4) clean_comps_last_plain [OF assms(4), of _ "rev ds" "[]"]
    unfolding pkey_Join [OF assms(1)] split by (auto simp: pkey_def plain_def)
  then show ?thesis
    using extract_entries_exact [OF assms(6)] assms(2,5) by (simp add: entry_file_def under_def)
qed

theorem extract_follows_parent_names_witness:
  "\<exists>w'. extract_entries ''/tmp/kubewarden-crds-1'' [\<lparr>te_Name = ''../evil'', te_IsDir = False, te_Body = (''boo'', None)\<rparr>] None
       ((memWorld emptyMem)\<lparr>fs := [((True, [''tmp'']), Dir), ((True, [''tmp'', ''kubewarden-crds-1'']), Dir)]\<rparr>) = (Ok (), w') \<and>
     node_at w' (True, [''tmp'', ''evil'']) = Some (File ''boo'')"
proof -
  let ?w = "(memWorld emptyMem)\<lparr>fs := [((True, [''tmp'']), Dir), ((True, [''tmp'', ''kubewarden-crds-1'']), Dir)]\<rparr>"
  have key: "pkey ''/tmp/kubewarden-crds-1'' = (True, [''tmp''] @ [''kubewarden-crds-1''])"
    "pkey (Join [''/tmp/kubewarden-crds-1'', ''../evil'']) = (True, [''tmp'', ''evil''])"
    by (simp_all add: pkey_def is_rooted_def Join_def Clean_def)
  have "\<exists>w'. extract_entries ''/tmp/kubewarden-crds-1'' [\<lparr>te_Name = ''../evil'', te_IsDir = False, te_Body = (''boo'', None)\<rparr>] None
       ?w = (Ok (), w')"
    by (simp add: Let_def io_simps os_Create_def os_call_def io_Copy_def file_Write_def key memWorld_def is_dir_def parent_def)
  then show ?thesis
    using extract_follows_parent_names [of "''/tmp/kubewarden-crds-1''" "[''tmp'']" "''kubewarden-crds-1''" "''evil''" "''boo''" ?w] key
    by (auto simp: plain_def)
qed

text \<open>An archive that turns out to be damaged after its header leaves the directory made for it behind, and the caller does not
  learn its name.\<close>

lemma damaged_archive_leaves_directory:
  assumes "node_at w (pkey path) = Some (File c)" and "faults w (tick w) = None" and "d_openTarGz d c = Inr ([], Some e)"
    and "os_MkdirTemp ''kubewarden-crds-'' (w\<lparr>tick := Suc (tick w)\<rparr>) = (Ok dir, v)"
  shows "extractTarGz d path w = (Err (Wrapf ''failed to read tar header'' e), v) \<and>
    node_at w (pkey dir) = None \<and> node_at v (pkey dir) = Some Dir"
proof -
  have "os_Open path w = (Ok (File c), w\<lparr>tick := Suc (tick w)\<rparr>)" using assms(1,2) by (simp add: os_Open_def os_call_def)
  then have "extractTarGz d path w = (Err (Wrapf ''failed to read tar header'' e), v)"
    using assms(3,4) by (simp add: extractTarGz_def io_simps read_file_def)
  then show ?thesis using make_temp_Ok [OF assms(4) [unfolded os_MkdirTemp_def]] by auto
qed

end
