(* ===== verification/Install_Files.thy ===== *)
theory Install_Files
  imports File_Proofs Install "HOL-Library.Code_Target_Nat"
begin

text \<open>
  The file system side of the installation: every step keeps the invariant of the node store, the
  temporary files of the CRD installation are removed, the rendered charts are not.
\<close>

section \<open>The invariant of the node store\<close>

definition tree_step :: "'s world \<Rightarrow> 's world \<Rightarrow> bool" where
  "tree_step w w' \<longleftrightarrow> (tree_ok w \<longrightarrow> tree_ok w')"

interpretation tree: step_relation tree_step
  by unfold_locales (simp_all add: tree_step_def)

lemma tree_step_same: "fs w' = fs w \<Longrightarrow> tree_step w w'"
  using tree_ok_cong [of w' w] by (simp add: tree_step_def)

lemma map_of_filter_keys: "map_of (filter (\<lambda>kn. P (fst kn)) xs) k = (if P k then map_of xs k else None)"
  by (induction xs) auto

lemma tree_tick: "tree_step (w\<lparr>tick := t\<rparr>) w' \<Longrightarrow> tree_step w w'"
  by (rule tree.step_trans [OF tree_step_same]) simp_all

lemma tree_os_call: "(\<And>w. tree_step w (snd (m w))) \<Longrightarrow> stays tree_step (os_call m)"
  by (auto simp: stays_def os_call_def Let_def intro: tree_step_same tree_tick split: option.split)

lemma tree_put:
  assumes "is_dir w (parent k)" and "snd k \<noteq> []" and "node_at w k = Some Dir \<longrightarrow> n = Dir"
  shows "tree_step w (put k n w)"
proof -
  have "node_at (put k n w) = (node_at w)(k \<mapsto> n)" by simp
  then show ?thesis using tree_ok_upd [of w "put k n w", OF _ _ assms(2,1,3)] unfolding tree_step_def by blast
qed

lemma tree_Create: "stays tree_step (os_Create p)"
  unfolding os_Create_def
proof (rule tree_os_call)
  fix w :: "'a world"
  have "tree_step w (put (pkey p) (File '''') w)" if "is_dir w (parent (pkey p))" "\<not> is_dir w (pkey p)"
    using that by (intro tree_put) (auto simp: is_dir_def)
  then show "tree_step w (snd (if \<not> is_dir w (parent (pkey p))
     then (Err (External ''ErrNotExist'' (''open '' @ p @ '': no such file or directory'')), w)
     else if is_dir w (pkey p)
     then (Err (External ''EISDIR'' (''open '' @ p @ '': is a directory'')), w)
     else (Ok (), put (pkey p) (File '''') w)))" by (simp add: tree.step_refl)
qed

lemma tree_make_temp:
  assumes "temp_prefix pre suf"
  shows "stays tree_step (make_temp n pre suf)"
proof (rule staysI)
  fix w :: "'a world"
  obtain r w' where run: "make_temp n pre suf w = (r, w')" by fastforce
  show "tree_step w (snd (make_temp n pre suf w))"
  proof (cases "\<exists>name. r = Ok name")
    case True
    then obtain name where ok: "make_temp n pre suf w = (Ok name, w')" using run by blast
    note t = make_temp_Ok [OF ok] make_temp_key(2) [OF assms ok]
    have "tree_ok w \<Longrightarrow> tree_ok w'"
      by (rule tree_ok_upd [OF _ t(2) _ t(3)]) (use t(1,8) in auto)
    then show ?thesis using run by (simp add: tree_step_def)
  next
    case False
    then show ?thesis using make_temp_fs [OF run] run by (auto intro: tree_step_same)
  qed
qed

lemma tree_append: "tree_step w (append_file k s w)"
proof (cases "\<exists>c. node_at w k = Some (File c)")
  case True
  then obtain c where c: "node_at w k = Some (File c)" by blast
  have "node_at (append_file k s w) = (node_at w)(k \<mapsto> File (c @ s))"
    using c by (simp add: append_file_def)
  then show ?thesis
    using c tree_ok_upd [of w "append_file k s w" k "File (c @ s)"] unfolding tree_step_def
    by (metis node.distinct(1) option.inject tree_ok_def)
next
  case False
  then have "append_file k s w = w" by (auto simp: append_file_def split: option.split node.split)
  then show ?thesis by (simp add: tree.step_refl)
qed

lemma tree_Write: "stays tree_step (file_Write p s)"
  by (auto simp: stays_def file_Write_def Let_def intro: tree_tick tree_append split: option.split)

lemma tree_delete:
  assumes "\<And>k. node_at w' k = (if P k then None else node_at w k)"
    and "\<And>k. P (parent k) \<Longrightarrow> node_at w k \<noteq> None \<Longrightarrow> P k"
  shows "tree_step w w'"
proof -
  have "is_dir w' j" if "is_dir w j" "\<not> P j" for j
    using that assms(1) [of j] by (simp add: is_dir_def)
  then show ?thesis
    using assms unfolding tree_step_def tree_ok_def by (metis option.distinct(1))
qed

lemma under_parent: "under d (parent k) \<Longrightarrow> under d k"
  by (auto simp: under_def parent_def intro: prefix_order.trans prefixeq_butlast)

lemma tree_RemoveAll: "stays tree_step (os_RemoveAll p)"
  unfolding os_RemoveAll_def
  by (rule tree_os_call, simp, rule tree_delete [where P = "under (pkey p)"])
    (auto simp: map_of_filter_keys [where P = "\<lambda>k. \<not> under (pkey p) k"] intro: under_parent)

lemma tree_Remove: "stays tree_step (os_Remove p)"
  unfolding os_Remove_def
proof (rule tree_os_call)
  fix w :: "'a world"
  have "tree_step w (w\<lparr>fs := AList.delete (pkey p) (fs w)\<rparr>)"
    if alone: "\<not> (\<exists>k \<in> set (map fst (fs w)). under (pkey p) k \<and> k \<noteq> pkey p)"
  proof (rule tree_delete [where P = "\<lambda>k. k = pkey p"])
    fix k assume "parent k = pkey p" "node_at w k \<noteq> None"
    then have "under (pkey p) k" "k \<in> set (map fst (fs w))"
      by (auto simp: under_def parent_def prefixeq_butlast map_of_eq_None_iff dest: sym)
    then show "k = pkey p" using alone by blast
  qed (simp add: delete_conv')
  then show "tree_step w (snd (if node_at w (pkey p) = None
     then (Err (External ''ErrNotExist'' (''remove '' @ p @ '': no such file or directory'')), w)
     else if \<exists>k \<in> set (map fst (fs w)). under (pkey p) k \<and> k \<noteq> pkey p
     then (Err (External ''ENOTEMPTY'' (''remove '' @ p @ '': directory not empty'')), w)
     else (Ok (), w\<lparr>fs := AList.delete (pkey p) (fs w)\<rparr>)))" by (simp add: tree.step_refl)
qed

lemma tree_reads: "stays tree_step (os_Open p)" "stays tree_step (Glob_yaml p)" "stays tree_step (ext_call c)"
proof -
  show "stays tree_step (os_Open p)" by (rule staysI) (metis os_Open_fs prod.collapse tree_step_same)
  show "stays tree_step (Glob_yaml p)"
    by (auto simp: stays_def Glob_yaml_def Let_def intro: tree_step_same split: option.split)
  show "stays tree_step (ext_call c)"
    by (auto simp: stays_def ext_call_def intro: tree_step_same split: prod.split sum.split)
qed

lemma tree_Copy: "stays tree_step (io_Copy p rd)"
  unfolding io_Copy_def
  by (cases "snd rd") (auto intro!: tree.stays_bind tree.stays_return tree.stays_fail tree_Write)

lemma tree_temp:
  "stays tree_step (os_CreateTemp ''kubewarden-'' ''.tar.gz'')" "stays tree_step (os_MkdirTemp ''kubewarden-crds-'')"
  "stays tree_step (os_CreateTemp ''kubewarden-helm-rendered-'' ''.yaml'')"
  unfolding os_CreateTemp_def os_MkdirTemp_def by (intro tree_make_temp tar_prefix)+

lemmas tree_intros = tree.stays_return tree.stays_fail tree.stays_panic tree.stays_try tree.stays_bind
  tree.stays_wrap tree.stays_defer tree.stays_foreach tree.stays_pure
  tree_Create tree_Write tree_Copy tree_temp tree_RemoveAll tree_Remove tree_reads

lemma tree_extract_entries: "stays tree_step (extract_entries dir entries ending)"
  by (induction entries) (auto simp: Let_def intro!: tree_intros split: option.split)

lemma tree_apply_documents: "stays tree_step (apply_documents d r rc docs ending)"
  by (induction docs) (auto intro!: tree_intros split: prod.split option.split runtimeObject.split)

lemma tree_applyManifest: "stays tree_step (applyManifest d r rc path)"
  unfolding applyManifest_def by (auto intro!: tree_intros tree_apply_documents split: node.split)

lemma tree_helpers:
  "stays tree_step (downloadFile d url)" "stays tree_step (extractTarGz d path)"
  "stays tree_step (renderHelmChart d name ver vals)"
  unfolding downloadFile_def extractTarGz_def renderHelmChart_def createActionConfig_def getChart_def helmTemplate_def
  by (auto intro!: tree_intros tree_extract_entries)

lemma tree_installs:
  "stays tree_step (createKubewardenNamespace d rc)" "stays tree_step (installKubewardenCRDs d r ver rc)"
  "stays tree_step (installKubewardenController d r rc addon)" "stays tree_step (installKubewardenDefaults d r rc addon)"
  "stays tree_step (applyControlPlaneTolerations rc)"
  unfolding createKubewardenNamespace_def installKubewardenCRDs_def installKubewardenController_def
    installKubewardenDefaults_def applyControlPlaneTolerations_def Let_def
  by (auto intro!: tree_intros tree_helpers tree_applyManifest)

section \<open>Reading a manifest changes no file\<close>

text \<open>The files and the fault schedule: what the clean-up of a later step depends on.\<close>

definition disk :: "'s world \<Rightarrow> (key \<times> node) list \<times> (nat \<Rightarrow> go_error option)" where
  "disk w = (fs w, faults w)"

lemma disk_reads: "stays (same disk) (os_Open p)" "stays (same disk) (Glob_yaml p)" "stays (same disk) (ext_call c)"
  by (auto simp: stays_def same_def disk_def os_Open_def os_call_def Glob_yaml_def ext_call_def Let_def
      split: option.split prod.split sum.split)

lemmas disk_intros = same_view.stays_return same_view.stays_fail same_view.stays_try same_view.stays_bind
  same_view.stays_wrap same_view.stays_foreach same_view.stays_pure disk_reads

lemma disk_apply_documents: "stays (same disk) (apply_documents d r rc docs ending)"
  by (induction docs) (auto intro!: disk_intros split: prod.split option.split runtimeObject.split)

lemma disk_applyManifest: "stays (same disk) (applyManifest d r rc path)"
  unfolding applyManifest_def by (auto intro!: disk_intros disk_apply_documents split: node.split)

text \<open>No system call ever changes the fault schedule.\<close>

lemma faults_os_call: "(\<And>v. faults (snd (m v)) = faults v) \<Longrightarrow> stays (same faults) (os_call m)"
  by (auto simp: stays_def same_def os_call_def Let_def split: option.split)

lemma faults_os:
  "stays (same faults) (os_Open p)" "stays (same faults) (os_Create p)" "stays (same faults) (make_temp n pre suf)"
  "stays (same faults) (file_Write p s)" "stays (same faults) (ext_call c)"
  unfolding os_Open_def os_Create_def make_temp_def
  by (rule faults_os_call; simp split: option.split)+
    (auto simp: stays_def same_def file_Write_def ext_call_def Let_def split: option.split prod.split sum.split)

lemma faults_Copy: "stays (same faults) (io_Copy p rd)"
  unfolding io_Copy_def
  by (cases "snd rd") (auto intro!: same_view.stays_bind same_view.stays_return same_view.stays_fail faults_os)

lemmas fault_intros = same_view.stays_return same_view.stays_fail same_view.stays_try same_view.stays_bind
  same_view.stays_wrap same_view.stays_foreach same_view.stays_pure faults_os faults_Copy

lemma faults_extract: "stays (same faults) (extractTarGz d path)"
proof -
  have "stays (same faults) (extract_entries dir entries ending)" for dir entries ending
    by (induction entries) (auto simp: Let_def intro!: fault_intros split: option.split)
  then show ?thesis
    unfolding extractTarGz_def os_MkdirTemp_def by (auto intro!: fault_intros)
qed

lemma faults_download: "stays (same faults) (downloadFile d url)"
  unfolding downloadFile_def os_CreateTemp_def by (auto intro!: fault_intros)

section \<open>Downloads and rendered charts\<close>

text \<open>A path that ends in a plain name, as every temporary path does.\<close>

definition named :: "string \<Rightarrow> bool" where
  "named p \<longleftrightarrow> (\<exists>X c. snd (pkey p) = X @ [c] \<and> plain c)"

lemma downloadFile_Ok:
  assumes "downloadFile d url w = (Ok p, w')"
  shows "\<exists>resp s. d_httpGet d url (svc w) = (Inr resp, s) \<and> resp_StatusCode resp = 200 \<and>
      snd (resp_Body resp) = None \<and> node_at w' = (node_at w)(pkey p \<mapsto> File (fst (resp_Body resp)))"
    and "node_at w (pkey p) = None" and "named p" and "svc w' = snd (d_httpGet d url (svc w))"
proof -
  obtain resp v where get: "ext_call (d_httpGet d url) w = (Ok resp, v)"
    and rest: "(if resp_StatusCode resp \<noteq> 200
      then io_fail (Errorf (''failed to download file: HTTP '' @ decimal (resp_StatusCode resp)))
      else io_bind (io_wrap ''failed to create temp file'' (os_CreateTemp ''kubewarden-'' ''.tar.gz'')) (\<lambda>tempFile.
          io_bind (io_wrap ''failed to write file'' (io_Copy tempFile (resp_Body resp))) (\<lambda>_.
          io_return tempFile))) v = (Ok p, w')"
    using assms unfolding downloadFile_def io_bind_def [of "io_wrap ''failed to download file'' _"]
    by (auto simp: io_try_def io_fail_def io_wrap_Ok_iff split: prod.splits outcome.splits)
  then have code: "resp_StatusCode resp = 200" by (auto simp: io_fail_def split: if_splits)
  with rest obtain u v' where t: "make_temp (File '''') ''kubewarden-'' ''.tar.gz'' v = (Ok p, v')"
    and cp: "io_Copy p (resp_Body resp) v' = (Ok u, w')"
    by (auto simp: io_wrap_Ok_iff io_return_def os_CreateTemp_def elim!: io_bind_OkE)
  obtain s where s: "d_httpGet d url (svc w) = (Inr resp, s)" "v = w\<lparr>svc := s\<rparr>"
    using get by (auto simp: ext_call_Ok)
  note wr = io_Copy_Ok [OF cp]
  show "node_at w (pkey p) = None" using make_temp_Ok(1) [OF t] s(2) by simp
  show "named p" using make_temp_key(2) [OF tar_prefix(2) t] by (simp add: named_def)
  show "svc w' = snd (d_httpGet d url (svc w))"
    using make_temp_Ok(7) [OF t] file_Write_Ok(3) [OF conjunct1 [OF wr]] s by simp
  show "\<exists>resp s. d_httpGet d url (svc w) = (Inr resp, s) \<and> resp_StatusCode resp = 200 \<and>
      snd (resp_Body resp) = None \<and> node_at w' = (node_at w)(pkey p \<mapsto> File (fst (resp_Body resp)))"
    using temp_write_Ok [OF t conjunct1 [OF wr]] wr s code by auto
qed

text \<open>The Helm options of every rendering, and the calls a successful rendering made.\<close>

definition render_options :: InstallOptions where
  "render_options =
     \<lparr>iopt_ClientOnly = True, iopt_DryRun = True, iopt_ReleaseName = kubewardenHelmReleaseName,
      iopt_IncludeCRDs = False, iopt_Namespace = kubewardenNamespace, iopt_DisableHooks = True\<rparr>"

lemma renderHelmChart_Ok:
  assumes "renderHelmChart d name ver vals w = (Ok p, w')"
  shows "\<exists>s1 path s2 chart s3 rendered s4.
      d_LocateChart d kubewardenHelmChartURL '''' name s1 = (Inr path, s2) \<and>
      d_loadChart d path s2 = (Inr chart, s3) \<and>
      d_installRun d render_options chart vals s3 = (Inr rendered, s4) \<and> svc w' = s4 \<and>
      node_at w' = (node_at w)(pkey p \<mapsto> File rendered)"
    and "node_at w (pkey p) = None" and "named p"
proof -
  obtain path v1 v2 v3 chart v4 rendered v5 u where init: "ext_call (d_actionInit d kubewardenNamespace) w = (Ok u, v1)"
    and loc: "ext_call (d_LocateChart d kubewardenHelmChartURL '''' name) v1 = (Ok path, v2)"
    and load: "ext_call (d_loadChart d path) v2 = (Ok chart, v3)"
    and run: "ext_call (d_installRun d render_options chart vals) v3 = (Ok rendered, v4)"
    and t: "make_temp (File '''') ''kubewarden-helm-rendered-'' ''.yaml'' v4 = (Ok p, v5)"
    and wr: "file_Write p rendered v5 = (Ok (), w')"
    using assms unfolding renderHelmChart_def createActionConfig_def getChart_def helmTemplate_def os_CreateTemp_def
    by (elim io_bind_OkE) (auto simp: io_wrap_Ok_iff io_return_def resolveChartVersion_def render_options_def)
  have "fs v4 = fs w" using init loc load run by (auto simp: ext_call_Ok)
  moreover note temp_write_Ok [OF t wr] make_temp_Ok(1,7) [OF t] file_Write_Ok(3) [OF wr]
  ultimately show "node_at w (pkey p) = None"
    and "\<exists>s1 path s2 chart s3 rendered s4.
      d_LocateChart d kubewardenHelmChartURL '''' name s1 = (Inr path, s2) \<and>
      d_loadChart d path s2 = (Inr chart, s3) \<and>
      d_installRun d render_options chart vals s3 = (Inr rendered, s4) \<and> svc w' = s4 \<and>
      node_at w' = (node_at w)(pkey p \<mapsto> File rendered)"
    using loc load run by (fastforce simp: ext_call_Ok)+
  show "named p" using make_temp_key(2) [OF tar_prefix(3) t] by (simp add: named_def)
qed

section \<open>Clean-up of the CRD installation\<close>

lemma RemoveAll_store:
  "faults w (tick w) = None \<Longrightarrow>
     node_at (snd (os_RemoveAll p w)) k = (if under (pkey p) k then None else node_at w k)"
  by (simp add: os_RemoveAll_def os_call_def map_of_filter_keys [where P = "\<lambda>k. \<not> under (pkey p) k"])

lemma RemoveAll_faults: "faults (snd (os_RemoveAll p w)) = faults w"
  by (simp add: os_RemoveAll_def os_call_def Let_def split: option.split)

lemma Remove_store:
  assumes "faults w (tick w) = None" and "node_at w (pkey p) \<noteq> None"
    and "\<And>k. under (pkey p) k \<Longrightarrow> k \<noteq> pkey p \<Longrightarrow> node_at w k = None"
  shows "node_at (snd (os_Remove p w)) = (node_at w)(pkey p := None)"
proof -
  have "\<not> (\<exists>k \<in> set (map fst (fs w)). under (pkey p) k \<and> k \<noteq> pkey p)"
    using assms(3) by (metis map_of_eq_None_iff set_map)
  then show ?thesis
    using assms(1,2) by (auto simp: os_Remove_def os_call_def Let_def delete_conv')
qed

text \<open>What is left after extraction and removal of the directory: the store before the extraction.\<close>

lemma extract_remove_store:
  assumes "tree_ok w" and "archive_at local_archive d path w" and "extractTarGz d path w = (Ok dir, v)"
    and "fs u = fs v" and "faults u (tick u) = None"
  shows "node_at (snd (os_RemoveAll dir u)) = node_at w"
  using assms(3)
proof (cases rule: extractTarGz_Ok)
  case (1 content entries x y)
  have named: "\<exists>X c. snd (pkey dir) = X @ [c] \<and> plain c" and ne: "dir \<noteq> ''''"
    using make_temp_key [OF tar_prefix(1) 1(5)] by auto
  have dir: "node_at w (pkey dir) = None" and y: "node_at y = (node_at w)(pkey dir \<mapsto> Dir)"
    using make_temp_Ok(1,2) [OF 1(5)] 1(3) by simp_all
  have ents: "list_all (\<lambda>e. te_IsDir e \<or> local_name (te_Name e)) entries"
    using archive_atD [OF assms(2) 1(1,2)] by (simp add: local_archive_def)
  have under: "only_under (pkey dir) y v"
    using staysD [OF extract_contained [OF ne ents] 1(6)] .
  show ?thesis
  proof (rule ext)
    fix k
    show "node_at (snd (os_RemoveAll dir u)) k = node_at w k"
    proof (cases "under (pkey dir) k")
      case True
      then show ?thesis
        using tree_ok_fresh [OF assms(1) dir, of _ _ k] named RemoveAll_store [OF assms(5), of dir k] by auto
    next
      case False
      then have "k \<noteq> pkey dir" by (auto simp: under_def)
      then show ?thesis
        using False only_underD [OF under False] y RemoveAll_store [OF assms(5), of dir k] assms(4) by simp
    qed
  qed
qed

lemma installCRDs_run:
  assumes "downloadFile d (crdsURL ver) w = (Ok p, v)" and "extractTarGz d p v = (Ok dir, x)"
  shows "\<exists>res u. disk u = disk x \<and>
    installKubewardenCRDs d r ver rc w = (res, snd (os_Remove p (snd (os_RemoveAll dir u))))"
proof -
  let ?loop = "io_bind (io_wrap ''list extracted files'' (Glob_yaml dir)) (\<lambda>files.
     io_foreach (\<lambda>file. io_wrap (''apply CRD from file '' @ file) (applyManifest d r rc file)) files)"
  obtain res u where loop: "?loop x = (res, u)" by fastforce
  have "stays (same disk) ?loop" by (auto intro!: disk_intros disk_applyManifest)
  from staysD [OF this loop] have "disk u = disk x" by (simp add: same_def)
  moreover have "installKubewardenCRDs d r ver rc w = (res, snd (os_Remove p (snd (os_RemoveAll dir u))))"
    by (simp only: installKubewardenCRDs_def io_defer_def loop prod.case
        io_bind_wrap_Ok [where m = "downloadFile d (crdsURL ver)", OF assms(1)]
        io_bind_wrap_Ok [where m = "extractTarGz d p", OF assms(2)])
  ultimately show ?thesis by blast
qed

section \<open>Properties\<close>

text \<open>C17: the installation of the CRDs cleans up after itself.  On a machine where no system call fails, when the
  archive that was downloaded has no name that climbs out of the target, once the tarball is downloaded and unpacked the
  installation leaves exactly the files it found, whether the manifests could be applied or not.\<close>

theorem install_crds_cleans_up:
  assumes "tree_ok w" and "faults w = (\<lambda>_. None)" and "archive_at local_archive d p v"
    and "downloadFile d (crdsURL ver) w = (Ok p, v)" and "extractTarGz d p v = (Ok dir, x)"
  shows "node_at (snd (installKubewardenCRDs d r ver rc w)) = node_at w"
proof -
  obtain res u where disk: "disk u = disk x"
    and run: "installKubewardenCRDs d r ver rc w = (res, snd (os_Remove p (snd (os_RemoveAll dir u))))"
    using installCRDs_run [OF assms(4,5)] by blast
  obtain c where v: "node_at v = (node_at w)(pkey p \<mapsto> File c)" using downloadFile_Ok(1) [OF assms(4)] by blast
  have "faults v = (\<lambda>_. None)" using staysD [OF faults_download assms(4)] assms(2) by (simp add: same_def)
  then have "faults x = (\<lambda>_. None)" using staysD [OF faults_extract assms(5)] by (simp add: same_def)
  then have fu: "faults u = (\<lambda>_. None)" "fs u = fs x" using disk by (simp_all add: disk_def)
  have "tree_ok v" using staysD [OF tree_helpers(1) assms(4)] assms(1) by (simp add: tree_step_def)
  then have y: "node_at (snd (os_RemoveAll dir u)) = (node_at w)(pkey p \<mapsto> File c)"
    using extract_remove_store [OF _ assms(3,5) fu(2)] fu(1) v by simp
  obtain X n where "snd (pkey p) = X @ [n]" "plain n" using downloadFile_Ok(3) [OF assms(4)] by (auto simp: named_def)
  note below = tree_ok_fresh [OF assms(1) downloadFile_Ok(2) [OF assms(4)] this]
  have "node_at (snd (os_Remove p (snd (os_RemoveAll dir u)))) = (node_at (snd (os_RemoveAll dir u)))(pkey p := None)"
    by (rule Remove_store) (simp_all add: y fu(1) RemoveAll_faults below)
  then show ?thesis using run y downloadFile_Ok(2) [OF assms(4)] by (simp add: fun_upd_idem)
qed

lemma memWorld_ok: "tree_ok (memWorld s)"
  by (auto simp: tree_ok_def memWorld_def is_dir_def parent_def split: if_splits)

text \<open>A run of the download and the extraction in memory.\<close>

abbreviation crdsDownload :: "string outcome \<times> mem world" where
  "crdsDownload \<equiv> downloadFile memDeps (crdsURL ''v1.18.0'') (memWorld emptyMem)"

abbreviation crdsExtract :: "string outcome \<times> mem world" where
  "crdsExtract \<equiv> extractTarGz memDeps ''/tmp/kubewarden-1.tar.gz'' (snd crdsDownload)"

lemma crds_run:
  "fst crdsDownload = Ok ''/tmp/kubewarden-1.tar.gz''"
  "fst crdsExtract = Ok ''/tmp/kubewarden-crds-4''"
  "node_at (snd crdsExtract) (True, [''tmp'', ''kubewarden-crds-4'', ''policies.yaml'']) = Some (File ''crds'')"
  by code_simp+

theorem install_crds_cleans_up_witness:
  "node_at (snd crdsExtract) (True, [''tmp'', ''kubewarden-crds-4'', ''policies.yaml'']) = Some (File ''crds'') \<and>
   node_at (snd (installKubewardenCRDs memDeps memReconciler ''v1.18.0''
     (memClient (ObjectKeyFromObject (sampleMeta ''prod''))) (memWorld emptyMem))) = node_at (memWorld emptyMem)"
proof -
  have f: "faults (memWorld emptyMem) = (\<lambda>_. None)" by (simp add: memWorld_def)
  have "crdsDownload = (Ok ''/tmp/kubewarden-1.tar.gz'', snd crdsDownload)"
    and "crdsExtract = (Ok ''/tmp/kubewarden-crds-4'', snd crdsExtract)"
    using crds_run(1,2) by (simp_all add: prod_eq_iff)
  from install_crds_cleans_up [OF memWorld_ok f mem_local_archive this]
  show ?thesis using crds_run(3) by blast
qed

end
