(* ===== verification/Install_Proofs.thy ===== *)
theory Install_Proofs
  imports Install_Files
begin

text \<open>
  What the installation steps do to the outside world.  Frames are proved once, for every reflexive
  and transitive relation on the outside state (locale \<open>outside_relation\<close>); they are used for
  equality of a view (nothing changes) and for growth of the set of objects of a cluster (nothing is
  removed).  On top of them: what a manifest that was applied left in the cluster, and what a chart
  installation left there (locale \<open>chart_install\<close>).
\<close>

section \<open>Relations on the outside state\<close>

definition moves :: "('s \<Rightarrow> 's \<Rightarrow> bool) \<Rightarrow> ('s, 'a) call \<Rightarrow> bool" where
  "moves R c \<longleftrightarrow> (\<forall>s. R s (snd (c s)))"

definition svc_rel :: "('s \<Rightarrow> 's \<Rightarrow> bool) \<Rightarrow> 's world \<Rightarrow> 's world \<Rightarrow> bool" where
  "svc_rel R w w' \<longleftrightarrow> R (svc w) (svc w')"

definition remote_moves :: "('s \<Rightarrow> 's \<Rightarrow> bool) \<Rightarrow> 's RemoteClient \<Rightarrow> bool" where
  "remote_moves R rc \<longleftrightarrow> (\<forall>ob. moves R (rc_Create rc ob)) \<and> (\<forall>t ty j. moves R (rc_Patch rc t ty j))"

definition tools_move :: "('s \<Rightarrow> 's \<Rightarrow> bool) \<Rightarrow> 's Deps \<Rightarrow> bool" where
  "tools_move R d \<longleftrightarrow>
     (\<forall>u. moves R (d_httpGet d u)) \<and> (\<forall>n. moves R (d_actionInit d n)) \<and>
     (\<forall>u v n. moves R (d_LocateChart d u v n)) \<and> (\<forall>p. moves R (d_loadChart d p)) \<and>
     (\<forall>opts c j. moves R (d_installRun d opts c j))"

locale outside_relation =
  fixes R :: "'s \<Rightarrow> 's \<Rightarrow> bool"
  assumes R_refl: "R s s"
    and R_trans: "R s t \<Longrightarrow> R t u \<Longrightarrow> R s u"

sublocale outside_relation \<subseteq> moved: step_relation "svc_rel R"
  by unfold_locales (auto simp: svc_rel_def R_refl intro: R_trans)

context outside_relation
begin

lemma stays_ext: "moves R c \<Longrightarrow> stays (svc_rel R) (ext_call c)"
  by (auto simp: moves_def stays_def svc_rel_def ext_call_def split: prod.split sum.split) (metis snd_conv)+

lemma stays_os: "stays (same svc) m \<Longrightarrow> stays (svc_rel R) m"
  by (simp add: stays_def same_def svc_rel_def R_refl)

lemmas frame_intros = moved.stays_return moved.stays_fail moved.stays_panic moved.stays_try moved.stays_bind
  moved.stays_wrap moved.stays_defer moved.stays_foreach moved.stays_pure stays_ext

lemmas os_frames = stays_svc_os [THEN stays_os] stays_svc_os2 [THEN stays_os] stays_svc_temp [THEN stays_os]
  stays_svc_Copy [THEN stays_os]

lemma stays_namespace: "remote_moves R rc \<Longrightarrow> stays (svc_rel R) (createKubewardenNamespace d rc)"
  unfolding createKubewardenNamespace_def by (auto simp: remote_moves_def intro!: frame_intros)

lemma stays_apply_documents:
  "remote_moves R rc \<Longrightarrow> stays (svc_rel R) (apply_documents d r rc docs ending)"
proof (induction docs)
  case (Cons raw rest)
  then show ?case
    by (auto simp: remote_moves_def intro!: frame_intros split: prod.split option.split runtimeObject.split)
qed (auto intro!: frame_intros split: option.split)

lemma stays_applyManifest: "remote_moves R rc \<Longrightarrow> stays (svc_rel R) (applyManifest d r rc path)"
  unfolding applyManifest_def
  by (auto intro!: frame_intros os_frames stays_apply_documents split: node.split)

lemma stays_render: "tools_move R d \<Longrightarrow> stays (svc_rel R) (renderHelmChart d name ver vals)"
  unfolding renderHelmChart_def createActionConfig_def getChart_def helmTemplate_def
  by (auto simp: tools_move_def intro!: frame_intros os_frames)

lemma stays_download: "tools_move R d \<Longrightarrow> stays (svc_rel R) (downloadFile d url)"
  unfolding downloadFile_def by (auto simp: tools_move_def intro!: frame_intros os_frames)

lemma stays_extract_entries: "stays (svc_rel R) (extract_entries dir entries ending)"
  by (induction entries) (auto simp: Let_def intro!: frame_intros os_frames split: option.split)

lemma stays_extract: "stays (svc_rel R) (extractTarGz d path)"
  unfolding extractTarGz_def by (auto intro!: frame_intros os_frames stays_extract_entries)

lemma stays_CRDs:
  "remote_moves R rc \<Longrightarrow> tools_move R d \<Longrightarrow> stays (svc_rel R) (installKubewardenCRDs d r ver rc)"
  unfolding installKubewardenCRDs_def
  by (auto intro!: frame_intros os_frames stays_download stays_extract stays_applyManifest)

lemma stays_charts:
  "remote_moves R rc \<Longrightarrow> tools_move R d \<Longrightarrow> stays (svc_rel R) (installKubewardenController d r rc addon)"
  "remote_moves R rc \<Longrightarrow> tools_move R d \<Longrightarrow> stays (svc_rel R) (installKubewardenDefaults d r rc addon)"
  unfolding installKubewardenController_def installKubewardenDefaults_def Let_def
  by (auto intro!: frame_intros stays_render stays_applyManifest)

lemma stays_tolerations: "remote_moves R rc \<Longrightarrow> stays (svc_rel R) (applyControlPlaneTolerations rc)"
  unfolding applyControlPlaneTolerations_def by (auto simp: remote_moves_def intro!: frame_intros)

lemmas install_frames = stays_namespace stays_CRDs stays_charts stays_tolerations

end

interpretation unchanged: outside_relation "same v"
  for v :: "'s \<Rightarrow> 'b"
  by unfold_locales (simp_all add: same_def)

text \<open>Growth of the set of objects of a cluster: none was removed.\<close>

definition grows :: "('s \<Rightarrow> 'a set) \<Rightarrow> 's \<Rightarrow> 's \<Rightarrow> bool" where
  "grows obs s s' \<longleftrightarrow> obs s \<subseteq> obs s'"

interpretation growing: outside_relation "grows obs"
  for obs :: "'s \<Rightarrow> 'a set"
  by unfold_locales (auto simp: grows_def)

section \<open>No panics\<close>

lemma apply_documents_safe: "safe (apply_documents d r rc docs ending)"
  by (induction docs) (auto intro!: safe_intros split: prod.split option.split runtimeObject.split)

lemma applyManifest_safe [safe_intros]: "safe (applyManifest d r rc path)"
  unfolding applyManifest_def by (auto intro!: safe_intros apply_documents_safe split: node.split)

lemma extract_entries_safe: "safe (extract_entries dir entries ending)"
  by (induction entries) (auto simp: Let_def intro!: safe_intros split: option.split)

lemma renderHelmChart_safe [safe_intros]: "safe (renderHelmChart d name ver vals)"
  unfolding renderHelmChart_def createActionConfig_def getChart_def helmTemplate_def
  by (intro safe_intros)

lemma install_steps_safe [safe_intros]:
  "safe (createKubewardenNamespace d rc)" "safe (installKubewardenCRDs d r ver rc)"
  "safe (installKubewardenController d r rc addon)" "safe (installKubewardenDefaults d r rc addon)"
  "safe (applyControlPlaneTolerations rc)"
  unfolding createKubewardenNamespace_def installKubewardenCRDs_def installKubewardenController_def
    installKubewardenDefaults_def applyControlPlaneTolerations_def downloadFile_def extractTarGz_def Let_def
  by (auto intro!: safe_intros extract_entries_safe)

section \<open>Objects of a manifest\<close>

lemma create_law_run:
  assumes "create_law d rc obs" and "installed_kind ob"
  shows "ext_call (rc_Create rc ob) w = (Ok u, w') \<Longrightarrow> obs (svc w') = insert (ident ob) (obs (svc w))"
    and "ext_call (rc_Create rc ob) w = (Err e, w') \<Longrightarrow>
      obs (svc w') = obs (svc w) \<and> (d_IsAlreadyExists d e \<longrightarrow> ident ob \<in> obs (svc w))"
  using assms unfolding create_law_def by (fastforce simp: ext_call_Ok ext_call_Err)+

lemma create_law_grows: "create_law d rc obs \<Longrightarrow> remote_moves (grows obs) rc"
  unfolding remote_moves_def by (simp add: create_law_def moves_def grows_def)

text \<open>The documents up to the first one without a kind, and the objects they decode to.\<close>

definition has_kind :: "'s Deps \<Rightarrow> 's Reconciler \<Rightarrow> string \<Rightarrow> bool" where
  "has_kind d r raw \<longleftrightarrow> fst (snd (d_universalDecode d (r_Scheme r) raw)) \<noteq> None"

definition decoded :: "'s Deps \<Rightarrow> 's Reconciler \<Rightarrow> string \<Rightarrow> objectId option" where
  "decoded d r raw =
     (case fst (d_universalDecode d (r_Scheme r) raw) of
        Some (ClientObject ob) \<Rightarrow> Some (ident (DecodedObject ob)) | _ \<Rightarrow> None)"

definition manifest_objects :: "'s Deps \<Rightarrow> 's Reconciler \<Rightarrow> string list \<Rightarrow> objectId list" where
  "manifest_objects d r docs = List.map_filter (decoded d r) (takeWhile (has_kind d r) docs)"

lemma manifest_objects_simps [simp]:
  "manifest_objects d r [] = []"
  "\<not> has_kind d r x \<Longrightarrow> manifest_objects d r (x # xs) = []"
  "has_kind d r x \<Longrightarrow> manifest_objects d r (x # xs) =
     (case decoded d r x of None \<Rightarrow> manifest_objects d r xs | Some i \<Rightarrow> i # manifest_objects d r xs)"
  by (simp_all add: manifest_objects_def List.map_filter_def split: option.split)

text \<open>One round of the loop.\<close>

lemma apply_documents_Cons:
  "apply_documents d r rc (raw # rest) ending w =
     (if \<not> has_kind d r raw then (Ok (), w)
      else case d_universalDecode d (r_Scheme r) raw of
        (_, _, Some e) \<Rightarrow> (Err (Wrapf ''failed to decode runtime object'' e), w)
      | (Some (ClientObject ob), _, None) \<Rightarrow>
          (case ext_call (rc_Create rc (DecodedObject ob)) w of
             (Ok _, v) \<Rightarrow> apply_documents d r rc rest ending v
           | (Err e, v) \<Rightarrow> if d_IsAlreadyExists d e then apply_documents d r rc rest ending v
                          else (Err (Wrapf ''failed to apply resource'' e), v)
           | (Panic s, v) \<Rightarrow> (Panic s, v))
      | _ \<Rightarrow> (Err (Errorf ''failed to cast runtime object to client.Object''), w))"
proof -
  obtain x k e where "d_universalDecode d (r_Scheme r) raw = (x, k, e)" by (metis prod_cases3)
  then show ?thesis
    by (simp add: io_simps has_kind_def split: option.split runtimeObject.split prod.split outcome.split)
qed

declare apply_documents.simps(2) [simp del]

lemma apply_documents_cases:
  obtains (stop) "\<not> has_kind d r raw" and "apply_documents d r rc (raw # rest) ending w = (Ok (), w)"
  | (bad) e where "apply_documents d r rc (raw # rest) ending w = (Err e, w)"
  | (failed) ob e e' v where "ext_call (rc_Create rc ob) w = (Err e', v)" and "installed_kind ob"
      and "apply_documents d r rc (raw # rest) ending w = (Err e, v)"
  | (step) ob c v where "has_kind d r raw" and "installed_kind ob" and "decoded d r raw = Some (ident ob)"
      and "ext_call (rc_Create rc ob) w = (c, v)" and "case c of Err e \<Rightarrow> d_IsAlreadyExists d e | _ \<Rightarrow> True"
      and "apply_documents d r rc (raw # rest) ending w = apply_documents d r rc rest ending v"
proof (cases "\<exists>ob k. has_kind d r raw \<and> d_universalDecode d (r_Scheme r) raw = (Some (ClientObject ob), k, None)")
  case False
  obtain x k e where dec: "d_universalDecode d (r_Scheme r) raw = (x, k, e)" by (metis prod_cases3)
  have "\<exists>e. apply_documents d r rc (raw # rest) ending w = (Err e, w)" if "has_kind d r raw"
    using that dec False by (auto simp: apply_documents_Cons split: option.split runtimeObject.split)
  then show thesis using stop bad by (cases "has_kind d r raw") (auto simp: apply_documents_Cons)
next
  case True
  then obtain ob k where *: "has_kind d r raw" "d_universalDecode d (r_Scheme r) raw = (Some (ClientObject ob), k, None)"
    by blast
  then have dec: "decoded d r raw = Some (ident (DecodedObject ob))" by (simp add: decoded_def)
  obtain c v where c: "ext_call (rc_Create rc (DecodedObject ob)) w = (c, v)" by fastforce
  note run = apply_documents_Cons [of d r rc raw rest ending w]
  show thesis
  proof (cases c)
    case (Ok u)
    then show thesis using * c by (intro step [OF *(1) _ dec c]) (simp_all add: run)
  next
    case (Err e)
    show thesis
    proof (cases "d_IsAlreadyExists d e")
      case True
      then show thesis using * c Err by (intro step [OF *(1) _ dec c]) (simp_all add: run)
    next
      case False
      then show thesis using * c Err by (intro failed [of "DecodedObject ob" e v]) (simp_all add: run)
    qed
  next
    case (Panic u)
    then show thesis using ext_call_no_panic [of "rc_Create rc (DecodedObject ob)" w] c by simp
  qed
qed

lemma apply_documents_store:
  assumes law: "create_law d rc obs" and run: "apply_documents d r rc docs ending w = (res, w')"
  shows "\<exists>n. obs (svc w') = obs (svc w) \<union> set (take n (manifest_objects d r docs)) \<and>
    (res = Ok () \<longrightarrow> length (manifest_objects d r docs) \<le> n)"
  using run
proof (induction docs arbitrary: w)
  case Nil
  then show ?case by (auto simp: io_simps split: option.splits)
next
  case (Cons raw rest)
  show ?case
  proof (cases rule: apply_documents_cases [of d r raw rc rest ending w])
    case stop
    then show ?thesis using Cons.prems by simp
  next
    case (bad e)
    then show ?thesis using Cons.prems by (auto intro: exI [of _ 0])
  next
    case (failed ob e e' v)
    then show ?thesis using Cons.prems create_law_run(2) [OF law failed(2,1)] by (auto intro: exI [of _ 0])
  next
    case (step ob c v)
    have v: "obs (svc v) = insert (ident ob) (obs (svc w))"
    proof (cases c)
      case (Ok u)
      then show ?thesis using create_law_run(1) [OF law step(2)] step(4) by simp
    next
      case (Err e)
      then have "obs (svc v) = obs (svc w)" "ident ob \<in> obs (svc w)"
        using create_law_run(2) [OF law step(2), of w e v] step(4,5) by simp_all
      then show ?thesis by (simp add: insert_absorb)
    next
      case (Panic u)
      then show ?thesis using ext_call_no_panic [of "rc_Create rc ob" w] step(4) by simp
    qed
    obtain n where "obs (svc w') = obs (svc v) \<union> set (take n (manifest_objects d r rest))"
      "res = Ok () \<longrightarrow> length (manifest_objects d r rest) \<le> n"
      using Cons.IH [of v] Cons.prems step(6) by auto
    then show ?thesis using v step(1,3) by (intro exI [of _ "Suc n"]) auto
  qed
qed

lemma applyManifest_run:
  assumes "applyManifest d r rc path w = (res, w')"
  shows "(\<exists>e. res = Err e \<and> svc w' = svc w) \<or>
    (\<exists>content v. node_at w (pkey path) = Some (File content) \<and> svc v = svc w \<and>
       apply_documents d r rc (fst (d_yamlDocs d content)) (snd (d_yamlDocs d content)) v = (res, w'))"
proof -
  obtain g v where o': "os_Open path w = (g, v)" by fastforce
  have v: "svc v = svc w" using staysD [OF stays_svc_os(1) o'] by (simp add: same_def)
  show ?thesis
  proof (cases "\<exists>content. g = Ok (File content)")
    case True
    then obtain content where g: "g = Ok (File content)" by blast
    then have "node_at w (pkey path) = Some (File content)" using os_Open_Ok(1) o' by blast
    then show ?thesis using assms o' g v by (auto simp: applyManifest_def io_simps)
  next
    case False
    then show ?thesis
      using assms o' v safeD [OF safe_os(1), of path w]
      by (cases g; cases "case g of Ok n \<Rightarrow> n | _ \<Rightarrow> Dir") (auto simp: applyManifest_def io_simps)
  qed
qed

lemma applyManifest_store:
  assumes "create_law d rc obs" and "applyManifest d r rc path w = (Ok (), w')"
  shows "\<exists>content. node_at w (pkey path) = Some (File content) \<and>
    obs (svc w') = obs (svc w) \<union> set (manifest_objects d r (fst (d_yamlDocs d content)))"
  using applyManifest_run [OF assms(2)] apply_documents_store [OF assms(1)] by fastforce

section \<open>Charts\<close>

text \<open>
  Both charts are installed the same way: render, then apply the rendered file.  The contract gives
  what a successful installation has done.
\<close>

locale chart_install =
  fixes d :: "'s Deps" and r :: "'s Reconciler" and rc :: "'s RemoteClient"
    and chart_name :: string and vals :: json and install :: "('s world, unit) io"
  assumes install_shape: "\<exists>m1 m2 ver. install =
    io_bind (io_wrap m1 (renderHelmChart d chart_name ver vals)) (\<lambda>p. io_wrap m2 (applyManifest d r rc p))"
begin

lemma install_Ok:
  assumes law: "create_law d rc obs" and ok: "install w = (Ok (), w')"
  shows "\<exists>s1 path s2 chart s3 rendered s4 p.
    d_LocateChart d kubewardenHelmChartURL '''' chart_name s1 = (Inr path, s2) \<and>
    d_loadChart d path s2 = (Inr chart, s3) \<and> d_installRun d render_options chart vals s3 = (Inr rendered, s4) \<and>
    set (manifest_objects d r (fst (d_yamlDocs d rendered))) \<subseteq> obs (svc w') \<and>
    node_at w (pkey p) = None \<and> node_at w' = (node_at w)(pkey p \<mapsto> File rendered)"
proof -
  obtain p v ver where ren: "renderHelmChart d chart_name ver vals w = (Ok p, v)"
    and app: "applyManifest d r rc p v = (Ok (), w')"
    using install_shape ok by (elim exE) (auto simp: io_wrap_Ok_iff elim!: io_bind_OkE)
  have "node_at w' = node_at v" using staysD [OF disk_applyManifest app] by (simp add: same_def disk_def)
  then show ?thesis
    using renderHelmChart_Ok(1,2) [OF ren] applyManifest_store [OF law app] by fastforce
qed

end

definition controllerValues :: json where
  "controllerValues = JObj [(''tolerations'', JArr [controlPlaneToleration])]"

definition defaultsValues :: json where
  "defaultsValues = JObj [(''policyServer'', JObj [(''tolerations'', JArr [controlPlaneToleration])])]"

interpretation controller_chart: chart_install d r rc "''kubewarden-controller''" controllerValues
    "installKubewardenController d r rc addon"
  for d :: "'s Deps" and r rc addon
  by unfold_locales (unfold installKubewardenController_def controllerValues_def Let_def, blast)

interpretation defaults_chart: chart_install d r rc "''kubewarden-defaults''" defaultsValues
    "installKubewardenDefaults d r rc addon"
  for d :: "'s Deps" and r rc addon
  by unfold_locales (unfold installKubewardenDefaults_def defaultsValues_def Let_def, blast)

section \<open>Properties\<close>

text \<open>C15: applying a manifest is exact.  Whatever happens, the objects added to the cluster are those of a
  prefix of the documents; when the function returns without error they are the objects of all documents up to the first
  one for which the deserializer reports no kind, and nothing else.\<close>

theorem apply_manifest_exact:
  assumes "create_law d rc obs" and "applyManifest d r rc path w = (res, w')"
  shows "(obs (svc w') = obs (svc w) \<or>
      (\<exists>content n. node_at w (pkey path) = Some (File content) \<and>
         obs (svc w') = obs (svc w) \<union> set (take n (manifest_objects d r (fst (d_yamlDocs d content)))))) \<and>
    (res = Ok () \<longrightarrow> (\<exists>content. node_at w (pkey path) = Some (File content) \<and>
         obs (svc w') = obs (svc w) \<union> set (manifest_objects d r (fst (d_yamlDocs d content)))))"
proof (rule conjI)
  show "obs (svc w') = obs (svc w) \<or> (\<exists>content n. node_at w (pkey path) = Some (File content) \<and>
      obs (svc w') = obs (svc w) \<union> set (take n (manifest_objects d r (fst (d_yamlDocs d content)))))"
    using applyManifest_run [OF assms(2)]
  proof (elim disjE exE conjE)
    fix content v
    assume *: "node_at w (pkey path) = Some (File content)" "svc v = svc w"
      "apply_documents d r rc (fst (d_yamlDocs d content)) (snd (d_yamlDocs d content)) v = (res, w')"
    show ?thesis using apply_documents_store [OF assms(1) *(3)] *(1,2) by auto
  qed simp
  show "res = Ok () \<longrightarrow> (\<exists>content. node_at w (pkey path) = Some (File content) \<and>
      obs (svc w') = obs (svc w) \<union> set (manifest_objects d r (fst (d_yamlDocs d content))))"
    using applyManifest_store [OF assms(1)] assms(2) by blast
qed

text \<open>A machine with a manifest on disk.\<close>

definition manifestWorld :: "mem world" where
  "manifestWorld = (memWorld emptyMem)\<lparr>fs := [((True, [''tmp'']), Dir), ((True, [''tmp'', ''m.yaml'']), File ''ConfigMap'')]\<rparr>"

theorem apply_manifest_exact_witness:
  "\<exists>w'. applyManifest memDeps memReconciler (memClient (ObjectKeyFromObject (sampleMeta ''prod''))) ''/tmp/m.yaml'' manifestWorld = (Ok (), w') \<and>
     memObjects (ObjectKeyFromObject (sampleMeta ''prod'')) (svc w') =
       {(''ConfigMap'', \<lparr>nn_Namespace = '''', nn_Name = ''ConfigMap''\<rparr>)}"
proof -
  let ?run = "applyManifest memDeps memReconciler (memClient (ObjectKeyFromObject (sampleMeta ''prod''))) ''/tmp/m.yaml'' manifestWorld"
  have "fst ?run = Ok ()" by code_simp
  then have run: "?run = (Ok (), snd ?run)" by (simp add: prod_eq_iff)
  have stored: "node_at manifestWorld (pkey ''/tmp/m.yaml'') = Some (File ''ConfigMap'')" by code_simp
  have "memObjects (ObjectKeyFromObject (sampleMeta ''prod'')) (svc manifestWorld) = {}"
    by (simp add: memObjects_def manifestWorld_def memWorld_def emptyMem_def)
  then show ?thesis
    using apply_manifest_exact [OF mem_create_law run] run stored
    by (auto simp: manifest_objects_def has_kind_def decoded_def memDeps_def List.map_filter_def)
qed

text \<open>C27: a document without a kind is not skipped, it ends the manifest: whatever follows it, and even a decoding
  error at the end of the file, is ignored, and the loop behaves as if the file ended there.\<close>

theorem invalid_document_ends_manifest:
  "apply_documents d r rc docs ending =
     apply_documents d r rc (takeWhile (has_kind d r) docs) (if list_all (has_kind d r) docs then ending else None)"
proof (induction docs)
  case (Cons raw rest)
  show ?case
  proof (cases "has_kind d r raw")
    case True
    have "apply_documents d r rc (raw # rest) ending w =
      apply_documents d r rc (raw # takeWhile (has_kind d r) rest) (if list_all (has_kind d r) rest then ending else None) w" for w
      unfolding apply_documents_Cons Cons.IH ..
    then show ?thesis using True by (simp add: fun_eq_iff)
  qed (simp add: fun_eq_iff apply_documents_Cons io_simps)
qed simp

text \<open>C21: a successful installation of either chart asked the chart repository for the chart without a version
  (whatever version the addon names), rendered it with the fixed release name and namespace and with the control-plane
  tolerations, and left the objects of the rendered manifest, those of its documents before the first one without a
  kind, in the cluster; the rendered file stays on disk.\<close>

theorem chart_install_applies_rendered:
  assumes "create_law d rc obs"
    and "install = installKubewardenController d r rc addon \<and> name = ''kubewarden-controller'' \<and> vals = controllerValues \<or>
         install = installKubewardenDefaults d r rc addon \<and> name = ''kubewarden-defaults'' \<and> vals = defaultsValues"
    and "install w = (Ok (), w')"
  shows "\<exists>s1 path s2 chart s3 rendered s4 p.
    d_LocateChart d kubewardenHelmChartURL '''' name s1 = (Inr path, s2) \<and>
    d_loadChart d path s2 = (Inr chart, s3) \<and> d_installRun d render_options chart vals s3 = (Inr rendered, s4) \<and>
    set (manifest_objects d r (fst (d_yamlDocs d rendered))) \<subseteq> obs (svc w') \<and>
    node_at w (pkey p) = None \<and> node_at w' = (node_at w)(pkey p \<mapsto> File rendered)"
  using assms(2)
proof (elim disjE conjE)
  assume "install = installKubewardenController d r rc addon" "name = ''kubewarden-controller''" "vals = controllerValues"
  then show ?thesis using controller_chart.install_Ok [OF assms(1)] assms(3) by blast
next
  assume "install = installKubewardenDefaults d r rc addon" "name = ''kubewarden-defaults''" "vals = defaultsValues"
  then show ?thesis using defaults_chart.install_Ok [OF assms(1)] assms(3) by blast
qed

theorem chart_install_applies_rendered_witness:
  "\<exists>w' p rendered. installKubewardenDefaults memDeps memReconciler (memClient (ObjectKeyFromObject (sampleMeta ''prod''))) sampleAddon
       (memWorld emptyMem) = (Ok (), w') \<and> node_at w' = (node_at (memWorld emptyMem))(pkey p \<mapsto> File rendered)"
proof -
  let ?run = "installKubewardenDefaults memDeps memReconciler (memClient (ObjectKeyFromObject (sampleMeta ''prod''))) sampleAddon
       (memWorld emptyMem)"
  have "fst ?run = Ok ()" by code_simp
  then have run: "?run = (Ok (), snd ?run)" by (simp add: prod_eq_iff)
  from chart_install_applies_rendered [where install = "installKubewardenDefaults memDeps memReconciler
      (memClient (ObjectKeyFromObject (sampleMeta ''prod''))) sampleAddon", OF mem_create_law _ run,
      where r = memReconciler and addon = sampleAddon and name = "''kubewarden-defaults''" and vals = defaultsValues]
  show ?thesis using run by blast
qed

end
