(* ===== verification/Policy_Deployment.thy ===== *)
theory Policy_Deployment
  imports Policy_Controller Cluster_Laws Sample_Objects
begin

text \<open>
  Correctness of the operations of the policy reconciler on one workload cluster: the translation
  of the specification loses nothing, both deploy operations are instances of one
  create-or-update contract (locale \<open>upsert\<close>), and deletion removes what deployment created.
\<close>

section \<open>Translation\<close>

definition convert_rule :: "PolicyRule \<Rightarrow> RuleWithOperations" where
  "convert_rule rule =
     \<lparr>rwo_Operations = pr_Operations rule, rwo_APIGroups = pr_APIGroups rule,
      rwo_APIVersions = pr_APIVersions rule, rwo_Resources = pr_Resources rule,
      rwo_Scope = convertScope (pr_Scope rule)\<rparr>"

lemma convert_rules_map: "convert_rules acc rs = acc @ map convert_rule rs"
  by (induction rs arbitrary: acc) (simp_all add: convert_rule_def convertOperations_def)

lemma convert_conditions_id: "convert_conditions acc mcs = acc @ mcs"
  by (induction mcs arbitrary: acc) simp_all

text \<open>Reading a deployed specification back, over the fields that are not translated.\<close>

definition or_empty :: "string option \<Rightarrow> string" where
  "or_empty x = (case x of None \<Rightarrow> '''' | Some s \<Rightarrow> s)"

definition rule_back :: "RuleWithOperations \<Rightarrow> PolicyRule" where
  "rule_back x =
     \<lparr>pr_APIGroups = rwo_APIGroups x, pr_APIVersions = rwo_APIVersions x, pr_Resources = rwo_Resources x,
      pr_Operations = rwo_Operations x, pr_Scope = or_empty (rwo_Scope x)\<rparr>"

definition spec_back :: "PolicySpec \<Rightarrow> KubewardenPolicySpec \<Rightarrow> KubewardenPolicySpec" where
  "spec_back x s =
     s\<lparr>kps_PolicyServer := ps_PolicyServer x, kps_Module := ps_Module x,
       kps_Rules := map rule_back (ps_Rules x), kps_Mutating := ps_Mutating x,
       kps_Settings := ps_Settings x, kps_FailurePolicy := or_empty (ps_FailurePolicy x),
       kps_MatchConditions := ps_MatchConditions x\<rparr>"

lemma rule_back_convert [simp]: "rule_back (convert_rule r) = r"
  by (simp add: rule_back_def convert_rule_def convertScope_def or_empty_def)

lemma spec_back_build:
  "spec_back (buildPolicySpec p) s =
     s\<lparr>kps_PolicyServer := kps_PolicyServer (kp_Spec p), kps_Module := kps_Module (kp_Spec p),
       kps_Rules := kps_Rules (kp_Spec p), kps_Mutating := kps_Mutating (kp_Spec p),
       kps_Settings := kps_Settings (kp_Spec p), kps_FailurePolicy := kps_FailurePolicy (kp_Spec p),
       kps_MatchConditions := kps_MatchConditions (kp_Spec p)\<rparr>"
  by (simp add: spec_back_def buildPolicySpec_def Let_def convert_rules_map convert_conditions_id
      comp_def or_empty_def)

section \<open>Create or update\<close>

definition capObject :: "KubewardenPolicy \<Rightarrow> WorkloadPolicy" where
  "capObject p = \<lparr>wp_Meta = newMeta (kps_PolicyName (kp_Spec p)) '''',
     wp_Spec = buildPolicySpec p, wp_PolicyStatus = ''''\<rparr>"

definition apObject :: "KubewardenPolicy \<Rightarrow> WorkloadPolicy" where
  "apObject p = \<lparr>wp_Meta = newMeta (kps_PolicyName (kp_Spec p)) (kps_TargetNamespace (kp_Spec p)),
     wp_Spec = buildPolicySpec p, wp_PolicyStatus = ''''\<rparr>"

text \<open>
  The contract both deploy operations implement: look the object up; create it when it is not
  found, otherwise replace its specification.  The parameters are the dependencies, the workload
  client, the kind and the wanted object.
\<close>

locale upsert =
  fixes d :: "'s Deps" and rc :: "'s RemoteClient" and kind :: policyKind and obj :: WorkloadPolicy
    and deploy :: "('s world, unit) io"
  assumes deploy_shape: "deploy =
    io_try (ext_call (rc_Get rc kind (wp_Key obj)))
      (\<lambda>err. if d_IsNotFound d err then ext_call (rc_Create rc (PolicyObject kind obj)) else io_fail err)
      (\<lambda>existing. ext_call (rc_Update rc kind (existing\<lparr>wp_Spec := wp_Spec obj\<rparr>)))"
begin

lemma deploy_cases:
  obtains (found) x v where "ext_call (rc_Get rc kind (wp_Key obj)) w = (Ok x, v)"
      and "deploy w = ext_call (rc_Update rc kind (x\<lparr>wp_Spec := wp_Spec obj\<rparr>)) v"
  | (missing) e v where "ext_call (rc_Get rc kind (wp_Key obj)) w = (Err e, v)" and "d_IsNotFound d e"
      and "deploy w = ext_call (rc_Create rc (PolicyObject kind obj)) v"
  | (failed) e v where "ext_call (rc_Get rc kind (wp_Key obj)) w = (Err e, v)" and "\<not> d_IsNotFound d e"
      and "deploy w = (Err e, v)"
proof -
  have np: "\<not> panics (fst (ext_call (rc_Get rc kind (wp_Key obj)) w))" by simp
  show thesis
    using np that unfolding deploy_shape
    by (cases "ext_call (rc_Get rc kind (wp_Key obj)) w"; cases "fst (ext_call (rc_Get rc kind (wp_Key obj)) w)")
      (auto simp: io_simps split: if_splits)
qed

lemma deploy_Ok:
  assumes client: "policy_client d rc c sto adm" and ok: "deploy w = (Ok (), w')"
  shows "\<exists>y. sto (svc w') = (sto (svc w))((c, kind, wp_Key obj) \<mapsto> y) \<and> wp_Spec y = adm (wp_Spec obj)"
proof (cases rule: deploy_cases [of w])
  case (found x v)
  have "wp_Key (x\<lparr>wp_Spec := wp_Spec obj\<rparr>) = wp_Key obj"
    using policy_client_Get(1) [OF client found(1)] by simp
  then show ?thesis
    using policy_client_Get(1) [OF client found(1)] ok found(2)
      policy_client_write(1) [OF client, of _ kind "x\<lparr>wp_Spec := wp_Spec obj\<rparr>" v w'] by auto
next
  case (missing e v)
  then show ?thesis
    using policy_client_Get(2) [OF client missing(1)] ok
      policy_client_write(1) [OF client, of _ kind obj v w'] by auto
next
  case failed
  then show ?thesis using ok by simp
qed

lemma deploy_Err:
  assumes client: "policy_client d rc c sto adm" and err: "deploy w = (Err e, w')"
  shows "sto (svc w') = sto (svc w)"
proof (cases rule: deploy_cases [of w])
  case (found x v)
  then show ?thesis
    using policy_client_Get(1) [OF client found(1)] err
      policy_client_write(2) [OF client, of _ kind "x\<lparr>wp_Spec := wp_Spec obj\<rparr>" v e w'] by auto
next
  case (missing e' v)
  then show ?thesis
    using policy_client_Get(2) [OF client missing(1)] err
      policy_client_write(2) [OF client, of _ kind obj v e w'] by auto
next
  case (failed e' v)
  then show ?thesis using policy_client_Get(2) [OF client failed(1)] err by simp
qed

lemma deploy_safe: "safe deploy"
  unfolding deploy_shape by (auto intro!: safe_intros)

end

interpretation cap: upsert d rc ClusterAdmissionPolicy "capObject p" "deployClusterAdmissionPolicy d rc p"
  for d :: "'s Deps" and rc p
  by unfold_locales (unfold deployClusterAdmissionPolicy_def capObject_def Let_def, simp)

interpretation ap: upsert d rc AdmissionPolicy "apObject p" "deployAdmissionPolicy d rc p"
  for d :: "'s Deps" and rc p
  by unfold_locales (unfold deployAdmissionPolicy_def apObject_def Let_def, simp)

text \<open>The kind and key under which a policy is deployed, by its type.\<close>

definition policy_kind :: "KubewardenPolicy \<Rightarrow> policyKind" where
  "policy_kind p = (if kps_PolicyType (kp_Spec p) = ''ClusterAdmissionPolicy''
     then ClusterAdmissionPolicy else AdmissionPolicy)"

definition policy_key :: "KubewardenPolicy \<Rightarrow> NamespacedName" where
  "policy_key p = \<lparr>nn_Namespace = (if kps_PolicyType (kp_Spec p) = ''ClusterAdmissionPolicy'' then ''''
     else kps_TargetNamespace (kp_Spec p)), nn_Name = kps_PolicyName (kp_Spec p)\<rparr>"

abbreviation policy_slot :: "NamespacedName \<Rightarrow> KubewardenPolicy \<Rightarrow> slot" where
  "policy_slot c p \<equiv> (c, policy_kind p, policy_key p)"

definition deployTyped :: "'s Deps \<Rightarrow> 's RemoteClient \<Rightarrow> KubewardenPolicy \<Rightarrow> ('s world, unit) io" where
  "deployTyped d rc p = (if kps_PolicyType (kp_Spec p) = ''ClusterAdmissionPolicy''
     then deployClusterAdmissionPolicy d rc p else deployAdmissionPolicy d rc p)"

lemma object_keys:
  "kps_PolicyType (kp_Spec p) = ''ClusterAdmissionPolicy'' \<Longrightarrow> wp_Key (capObject p) = policy_key p"
  "kps_PolicyType (kp_Spec p) \<noteq> ''ClusterAdmissionPolicy'' \<Longrightarrow> wp_Key (apObject p) = policy_key p"
  by (simp_all add: capObject_def apObject_def policy_key_def ObjectKeyFromObject_def newMeta_def)

lemma object_specs [simp]: "wp_Spec (capObject p) = buildPolicySpec p" "wp_Spec (apObject p) = buildPolicySpec p"
  by (simp_all add: capObject_def apObject_def)

lemma deployTyped_Ok:
  assumes "policy_client d rc c sto adm" and "deployTyped d rc p w = (Ok (), w')"
  shows "\<exists>y. sto (svc w') = (sto (svc w))(policy_slot c p \<mapsto> y) \<and> wp_Spec y = adm (buildPolicySpec p)"
  using assms cap.deploy_Ok [OF assms(1), of p w w'] ap.deploy_Ok [OF assms(1), of p w w']
  by (auto simp: deployTyped_def policy_kind_def object_keys split: if_splits)

lemma deployTyped_Err:
  assumes "policy_client d rc c sto adm" and "deployTyped d rc p w = (Err e, w')"
  shows "sto (svc w') = sto (svc w)"
  using assms cap.deploy_Err [OF assms(1), of p w e w'] ap.deploy_Err [OF assms(1), of p w e w']
  by (auto simp: deployTyped_def split: if_splits)

lemma deployTyped_safe: "safe (deployTyped d rc p)"
  by (simp add: deployTyped_def cap.deploy_safe ap.deploy_safe)

section \<open>Deploying with status, deleting\<close>

lemma isPolicyActive_shape:
  "isPolicyActive rc p =
     io_bind (ext_call (rc_Get rc (policy_kind p) (policy_key p)))
       (\<lambda>x. io_return (wp_PolicyStatus x = PolicyStatusActive))"
  by (simp add: isPolicyActive_def policy_kind_def policy_key_def)

lemma deletePolicy_shape:
  "deletePolicy d rc p =
     io_try (ext_call (rc_Delete rc (policy_kind p) (policy_key p)))
       (\<lambda>err. if \<not> d_IsNotFound d err then io_fail err else io_return ()) io_return"
  by (simp add: deletePolicy_def policy_kind_def policy_key_def)

lemma isPolicyActive_safe: "safe (isPolicyActive rc p)"
  unfolding isPolicyActive_shape by (intro safe_intros)

lemma deletePolicy_safe: "safe (deletePolicy d rc p)"
  unfolding deletePolicy_shape by (auto intro!: safe_intros)

text \<open>The status a deployment starts from.\<close>

definition initial_status :: "'s Deps \<Rightarrow> KubewardenPolicy \<Rightarrow> Cluster \<Rightarrow> 's world \<Rightarrow> DeployedPolicyStatus" where
  "initial_status d p cl w =
     \<lparr>dps_ClusterName = cl_Name cl, dps_ClusterNamespace = cl_Namespace cl,
      dps_PolicyName = kps_PolicyName (kp_Spec p), dps_PolicyType = kps_PolicyType (kp_Spec p),
      dps_Active = False, dps_LastTransitionTime = Some (d_Now d (svc w)), dps_Message = ''''\<rparr>"

lemma deployPolicy_run:
  "deployPolicy d rc p cl w =
     (case deployTyped d rc p w of
        (Err e, v) \<Rightarrow>
          (Ok ((initial_status d p cl w)\<lparr>dps_Message := ''Failed to deploy: '' @ Error e\<rparr>, Some e), v)
      | (Panic s, v) \<Rightarrow> (Panic s, v)
      | (Ok _, v) \<Rightarrow>
         (case isPolicyActive rc p v of
            (Err e, v') \<Rightarrow>
              (Ok ((initial_status d p cl w)\<lparr>dps_Message := ''Failed to verify status: '' @ Error e\<rparr>, Some e), v')
          | (Panic s, v') \<Rightarrow> (Panic s, v')
          | (Ok a, v') \<Rightarrow>
              (Ok ((initial_status d p cl w)\<lparr>dps_Active := a, dps_Message :=
                     (if a then ''Policy successfully deployed and active''
                      else ''Policy deployed but not yet active'')\<rparr>, None), v')))"
  by (auto simp: deployPolicy_def deployTyped_def initial_status_def io_simps Let_def
      split: prod.split outcome.split)

lemma deployPolicy_safe: "safe (deployPolicy d rc p cl)"
  unfolding deployPolicy_def Let_def
  by (intro safe_intros) (simp_all add: isPolicyActive_safe deployTyped_safe [unfolded deployTyped_def])

lemma deployPolicy_Ok: "\<exists>st err v. deployPolicy d rc p cl w = (Ok (st, err), v)"
proof -
  obtain r v where r: "deployTyped d rc p w = (r, v)" by (cases "deployTyped d rc p w")
  obtain a v' where a: "isPolicyActive rc p v = (a, v')" by (cases "isPolicyActive rc p v")
  have "\<not> panics r" "\<not> panics a"
    using safeD [OF deployTyped_safe, of d rc p w] safeD [OF isPolicyActive_safe, of rc p v] r a by simp_all
  then show ?thesis
    using r a by (cases r; cases a) (simp_all add: deployPolicy_run)
qed

lemma deployPolicy_names:
  assumes "deployPolicy d rc p cl w = (Ok (st, err), w')"
  shows "dps_ClusterName st = cl_Name cl \<and> dps_ClusterNamespace st = cl_Namespace cl \<and>
    dps_PolicyName st = kps_PolicyName (kp_Spec p) \<and> dps_PolicyType st = kps_PolicyType (kp_Spec p)"
  using assms by (auto simp: deployPolicy_run initial_status_def split: prod.splits outcome.splits)

lemma deployPolicy_store:
  assumes client: "policy_client d rc c sto adm"
    and run: "deployPolicy d rc p cl w = (Ok (st, err), w')"
  shows "\<exists>z. sto (svc w') = (sto (svc w))(policy_slot c p := z) \<and>
     (z = sto (svc w) (policy_slot c p) \<or> (\<exists>y. z = Some y \<and> wp_Spec y = adm (buildPolicySpec p))) \<and>
     (err = None \<longrightarrow> (\<exists>y. z = Some y \<and> wp_Spec y = adm (buildPolicySpec p) \<and>
        (dps_Active st \<longleftrightarrow> wp_PolicyStatus y = PolicyStatusActive)))"
proof -
  obtain r v where r: "deployTyped d rc p w = (r, v)" by (cases "deployTyped d rc p w")
  show ?thesis
  proof (cases r)
    case (Err e)
    then have "sto (svc v) = sto (svc w)" using deployTyped_Err [OF client] r by simp
    then show ?thesis using run r Err by (auto simp: deployPolicy_run intro: exI [of _ "sto (svc w) (policy_slot c p)"])
  next
    case (Panic s)
    then show ?thesis using run r by (simp add: deployPolicy_run)
  next
    case (Ok u)
    then obtain y where y: "sto (svc v) = (sto (svc w))(policy_slot c p \<mapsto> y)" "wp_Spec y = adm (buildPolicySpec p)"
      using deployTyped_Ok [OF client] r by (cases u) blast
    obtain g v' where g: "ext_call (rc_Get rc (policy_kind p) (policy_key p)) v = (g, v')"
      by (cases "ext_call (rc_Get rc (policy_kind p) (policy_key p)) v")
    have "w' = v'" "sto (svc v') = sto (svc v)"
      using run r Ok g policy_client_Get [OF client, of "policy_kind p" "policy_key p" v]
      by (auto simp: deployPolicy_run isPolicyActive_shape io_simps split: outcome.splits)
    moreover have "err = None \<Longrightarrow> dps_Active st \<longleftrightarrow> wp_PolicyStatus y = PolicyStatusActive"
      using run r Ok g y policy_client_Get(1) [OF client, of "policy_kind p" "policy_key p" v]
      by (auto simp: deployPolicy_run isPolicyActive_shape io_simps split: outcome.splits)
    ultimately show ?thesis using y by (intro exI [of _ "Some y"]) auto
  qed
qed

lemma deletePolicy_Ok:
  assumes client: "policy_client d rc c sto adm" and ok: "deletePolicy d rc p w = (Ok (), w')"
  shows "\<exists>z. sto (svc w') = (sto (svc w))(policy_slot c p := z) \<and>
     (case z of None \<Rightarrow> True | Some x \<Rightarrow> om_DeletionTimestamp (wp_Meta x) \<noteq> None)"
proof -
  obtain g v where g: "ext_call (rc_Delete rc (policy_kind p) (policy_key p)) w = (g, v)"
    by (cases "ext_call (rc_Delete rc (policy_kind p) (policy_key p)) w")
  show ?thesis
  proof (cases g)
    case (Ok u)
    then show ?thesis
      using g ok policy_client_Delete(1) [OF client, of "policy_kind p" "policy_key p" w]
      by (auto simp: deletePolicy_shape io_simps)
  next
    case (Err e)
    then have "d_IsNotFound d e" "w' = v"
      using g ok by (auto simp: deletePolicy_shape io_simps split: if_splits)
    then have "sto (svc w') = sto (svc w)" "sto (svc w) (policy_slot c p) = None"
      using policy_client_Delete(2) [OF client] g Err by auto
    then show ?thesis by (intro exI [of _ None]) (auto simp: fun_upd_idem)
  next
    case (Panic s)
    then show ?thesis using g ok by (simp add: deletePolicy_shape io_simps)
  qed
qed

lemma deletePolicy_Err:
  assumes client: "policy_client d rc c sto adm" and err: "deletePolicy d rc p w = (Err e, w')"
  shows "sto (svc w') = sto (svc w)"
proof -
  obtain g v where g: "ext_call (rc_Delete rc (policy_kind p) (policy_key p)) w = (g, v)"
    by (cases "ext_call (rc_Delete rc (policy_kind p) (policy_key p)) w")
  then show ?thesis
    using err policy_client_Delete(2) [OF client, of "policy_kind p" "policy_key p" w]
    by (cases g) (auto simp: deletePolicy_shape io_simps split: if_splits)
qed

end
