(* ===== verification/Policy_Reconcile.thy ===== *)
theory Policy_Reconcile
  imports Policy_Deployment Memory_Clusters
begin

text \<open>
  The reconcile loop of policies: the loop refines an attempt per cluster whose results are
  collected, its readiness means that the policy is stored in every matching cluster, and the
  deletion loop is a best effort over all of them.
\<close>

section \<open>The loop as a sequence of attempts\<close>

definition eligible :: "'s Deps \<Rightarrow> Cluster \<Rightarrow> bool" where
  "eligible d c \<longleftrightarrow> cl_ControlPlaneReady c \<and> d_IsTrue d c ControlPlaneReadyCondition \<and>
     HasAnnotation (cl_Meta c) KubewardenInstalledAnnotation"

text \<open>
  One attempt: the entry it adds to the list of deployed policies, if any, and whether the cluster
  counts as ready.
\<close>

definition attempt ::
  "'s Deps \<Rightarrow> 's Reconciler \<Rightarrow> KubewardenPolicy \<Rightarrow> Cluster \<Rightarrow>
     ('s world, DeployedPolicyStatus option \<times> bool) io" where
  "attempt d r p cl =
     (if \<not> eligible d cl then io_return (None, False)
      else io_try (getRemoteClient r cl)
             (\<lambda>_. io_return (None, False))
             (\<lambda>rc. io_bind (deployPolicy d rc p cl)
                (\<lambda>(st, err). io_return
                   (case err of Some e \<Rightarrow> (Some (st\<lparr>dps_Active := False, dps_Message := Error e\<rparr>), False)
                              | None \<Rightarrow> (Some st, True)))))"

definition collect :: "(DeployedPolicyStatus option \<times> bool) list \<Rightarrow> DeployedPolicyStatus list \<times> bool" where
  "collect rs = (List.map_filter fst rs, list_all snd rs)"

lemma deploy_loop_step:
  "deploy_loop d r p ds ar (cl # cls) =
     io_bind (attempt d r p cl) (\<lambda>(o', ok).
       deploy_loop d r p (ds @ (case o' of None \<Rightarrow> [] | Some st \<Rightarrow> [st])) (ar \<and> ok) cls)"
proof (cases "eligible d cl")
  case False
  then show ?thesis by (auto simp: attempt_def eligible_def)
next
  case True
  then show ?thesis
    by (intro ext) (auto simp: attempt_def eligible_def io_simps split: prod.split outcome.split option.split)
qed

lemma deploy_loop_attempts:
  "deploy_loop d r p ds ar cls =
     io_bind (io_map (attempt d r p) cls) (\<lambda>rs. io_return (ds @ fst (collect rs), ar \<and> snd (collect rs)))"
proof (induction cls arbitrary: ds ar)
  case Nil
  then show ?case by (simp add: collect_def List.map_filter_def)
next
  case (Cons cl cls)
  show ?case
    by (rule ext, subst deploy_loop_step, simp only: Cons.IH)
      (auto simp: io_simps collect_def split: prod.split outcome.split option.split)
qed

lemma deploy_loop_flag:
  "deploy_loop d r p ds ar cls w =
     (case deploy_loop d r p ds True cls w of
        (Ok (ds', ready), w') \<Rightarrow> (Ok (ds', ar \<and> ready), w') | x \<Rightarrow> x)"
  by (simp add: deploy_loop_attempts io_simps split: prod.split outcome.split)

section \<open>Results of the attempts\<close>

lemma attempt_never_fails: "attempt d r p cl w \<noteq> (Err e, w')"
proof -
  have "\<not> (\<exists>e v. deployPolicy d rc p cl u = (Err e, v))" for rc u
    using deployPolicy_Ok [of d rc p cl u] by auto
  then show ?thesis
    by (auto simp: attempt_def io_simps split: prod.splits outcome.splits option.splits if_splits)
qed

lemma attempt_result:
  assumes "attempt d r p cl w = (Ok (o', ok), w')"
  shows "ok \<longrightarrow> o' \<noteq> None \<and> eligible d cl"
    and "o' = Some st \<longrightarrow> dps_ClusterName st = cl_Name cl \<and> dps_ClusterNamespace st = cl_Namespace cl \<and>
           eligible d cl \<and> (\<not> ok \<longrightarrow> \<not> dps_Active st)"
  using assms
  by (auto simp: attempt_def io_simps dest: deployPolicy_names
      split: prod.splits outcome.splits option.splits if_splits)

lemma attempt_ineligible: "\<not> eligible d cl \<Longrightarrow> attempt d r p cl w = (Ok (None, False), w)"
  by (simp add: attempt_def io_simps)

text \<open>The policy is stored in a cluster with the admitted translation of its specification.\<close>

definition has_policy ::
  "'s policyView \<Rightarrow> (PolicySpec \<Rightarrow> PolicySpec) \<Rightarrow> KubewardenPolicy \<Rightarrow> 's world \<Rightarrow> NamespacedName \<Rightarrow> bool" where
  "has_policy sto adm p w c \<longleftrightarrow>
     (\<exists>y. sto (svc w) (policy_slot c p) = Some y \<and> wp_Spec y = adm (buildPolicySpec p))"

abbreviation cl_Key :: "Cluster \<Rightarrow> NamespacedName" where
  "cl_Key cl \<equiv> ObjectKeyFromObject (cl_Meta cl)"

lemma attempt_store:
  assumes laws: "fleet d r sto adm" and run: "attempt d r p cl w = (Ok (o', ok), w')"
  shows "has_policy sto adm p w c \<longrightarrow> has_policy sto adm p w' c"
    and "ok \<longrightarrow> has_policy sto adm p w' (cl_Key cl)"
    and "x \<noteq> policy_slot (cl_Key cl) p \<longrightarrow> sto (svc w') x = sto (svc w) x"
proof -
  have "(has_policy sto adm p w c \<longrightarrow> has_policy sto adm p w' c) \<and>
      (ok \<longrightarrow> has_policy sto adm p w' (cl_Key cl)) \<and>
      (x \<noteq> policy_slot (cl_Key cl) p \<longrightarrow> sto (svc w') x = sto (svc w) x)"
  proof (cases "eligible d cl")
    case False
    then show ?thesis using run by (simp add: attempt_ineligible)
  next
    case True
    obtain g v where g: "getRemoteClient r cl w = (g, v)" by (cases "getRemoteClient r cl w")
    show ?thesis
    proof (cases g)
      case (Ok rc)
      then have v: "sto (svc v) = sto (svc w)" and client: "policy_client d rc (cl_Key cl) sto adm"
        using fleet_getRemoteClient(1) [OF laws] g by auto
      obtain st err v' where dep: "deployPolicy d rc p cl v = (Ok (st, err), v')"
        using deployPolicy_Ok by blast
      then have "w' = v'" and "ok \<longleftrightarrow> err = None"
        using run True g Ok by (auto simp: attempt_def io_simps split: option.splits)
      then show ?thesis
        using deployPolicy_store [OF client dep] v by (auto simp: has_policy_def)
    next
      case (Err e)
      then have "sto (svc v) = sto (svc w)" using fleet_getRemoteClient(2) [OF laws] g by simp
      then show ?thesis using run True g Err by (auto simp: attempt_def io_simps has_policy_def)
    next
      case (Panic s)
      then show ?thesis using run True g by (simp add: attempt_def io_simps)
    qed
  qed
  then show "has_policy sto adm p w c \<longrightarrow> has_policy sto adm p w' c"
    and "ok \<longrightarrow> has_policy sto adm p w' (cl_Key cl)"
    and "x \<noteq> policy_slot (cl_Key cl) p \<longrightarrow> sto (svc w') x = sto (svc w) x" by blast+
qed

lemma attempts_store:
  assumes laws: "fleet d r sto adm" and run: "io_map (attempt d r p) cls w = (Ok rs, w')"
  shows "(\<forall>c. has_policy sto adm p w c \<longrightarrow> has_policy sto adm p w' c) \<and>
    list_all2 (\<lambda>cl x. snd x \<longrightarrow> has_policy sto adm p w' (cl_Key cl)) cls rs \<and>
    (\<forall>x. x \<notin> (\<lambda>cl. policy_slot (cl_Key cl) p) ` set cls \<longrightarrow> sto (svc w') x = sto (svc w) x)"
  using run
proof (induction cls arbitrary: w rs)
  case Nil
  then show ?case by (simp add: io_simps)
next
  case (Cons cl cls)
  then obtain b v bs where *: "attempt d r p cl w = (Ok b, v)" "io_map (attempt d r p) cls v = (Ok bs, w')" "rs = b # bs"
    by (elim io_map_ConsE) blast
  then have "attempt d r p cl w = (Ok (fst b, snd b), v)" by simp
  note head = attempt_store [OF laws this]
  show ?case using Cons.IH [OF *(2)] head *(3) by auto
qed

lemma attempts_results:
  assumes "io_map (attempt d r p) cls w = (Ok rs, w')"
  shows "list_all2 (\<lambda>cl x. (snd x \<longrightarrow> fst x \<noteq> None \<and> eligible d cl) \<and>
    (\<forall>st. fst x = Some st \<longrightarrow> dps_ClusterName st = cl_Name cl \<and> eligible d cl)) cls rs"
  by (rule io_map_all2 [OF assms]) (auto dest: attempt_result)

lemma collect_names:
  assumes "list_all2 (\<lambda>cl x. (snd x \<longrightarrow> fst x \<noteq> None \<and> eligible d cl) \<and>
    (\<forall>st. fst x = Some st \<longrightarrow> dps_ClusterName st = cl_Name cl \<and> eligible d cl)) cls rs"
  shows "subseq (map dps_ClusterName (fst (collect rs))) (map cl_Name (filter (eligible d) cls))"
    and "snd (collect rs) \<longrightarrow> map dps_ClusterName (fst (collect rs)) = map cl_Name cls \<and> list_all (eligible d) cls"
  using assms by (induction rule: list_all2_induct) (auto simp: collect_def split: option.split)

section \<open>The whole reconciliation\<close>

lemma getMatchingClusters_stays:
  assumes "list_law r sto"
  shows "stays (same (\<lambda>w. sto (svc w))) (getMatchingClusters d r p)"
  unfolding getMatchingClusters_def
  by (auto intro!: stays_intros list_law_stays [OF assms] split: sum.split)

lemma getMatchingClusters_safe: "safe (getMatchingClusters d r p)"
  unfolding getMatchingClusters_def by (auto intro!: safe_intros split: sum.split)

lemma statusUpdate_None:
  assumes "statusUpdate r p res w = (Ok (x, None), w')"
  shows "ext_call (mc_StatusUpdatePolicy (r_Client r) p) w = (Ok (), w') \<and> x = res"
  using assms by (auto simp: statusUpdate_def io_simps split: prod.splits outcome.splits)

text \<open>The object whose status is written after the loop.\<close>

definition reconciled_policy ::
  "KubewardenPolicy \<Rightarrow> Cluster list \<Rightarrow> DeployedPolicyStatus list \<times> bool \<Rightarrow> KubewardenPolicy" where
  "reconciled_policy p cls x =
     (Policy_SetMatchingClusters cls p)\<lparr>kp_Status := (kp_Status (Policy_SetMatchingClusters cls p))
        \<lparr>kpst_Ready := snd x, kpst_DeployedPolicies := fst x\<rparr>\<rparr>"

lemma reconciled_policy_simps [simp]:
  "kp_Meta (reconciled_policy p cls x) = kp_Meta p"
  "kp_Spec (reconciled_policy p cls x) = kp_Spec p"
  "kpst_Ready (kp_Status (reconciled_policy p cls x)) = snd x"
  "kpst_DeployedPolicies (kp_Status (reconciled_policy p cls x)) = fst x"
  "kpst_MatchingClusters (kp_Status (reconciled_policy p cls x)) = map reference_of cls"
  "kpst_Conditions (kp_Status (reconciled_policy p cls x)) = kpst_Conditions (kp_Status p)"
  by (simp_all add: reconciled_policy_def Policy_SetMatchingClusters_def append_references_map)

lemma policy_SetMatchingClusters_spec [simp]:
  "kp_Spec (Policy_SetMatchingClusters cls p) = kp_Spec p"
  by (simp add: Policy_SetMatchingClusters_def)

lemma policy_slot_cong: "kp_Spec p = kp_Spec q \<Longrightarrow> policy_slot c p = policy_slot c q"
  by (simp add: policy_kind_def policy_key_def)

lemma has_policy_cong: "kp_Spec p = kp_Spec q \<Longrightarrow> has_policy sto adm p w c = has_policy sto adm q w c"
  by (simp add: has_policy_def buildPolicySpec_def policy_kind_def policy_key_def)

text \<open>Case analysis of a reconciliation that reported no error.\<close>

lemma reconcileNormal_success:
  assumes "policy_reconcileNormal d r p w = (Ok (res, None), w')"
  obtains (no_cluster) v where "getMatchingClusters d r p w = (Ok [], v)"
      and "ext_call (mc_StatusUpdatePolicy (r_Client r)
             (p\<lparr>kp_Status := (kp_Status p)\<lparr>kpst_Ready := False, kpst_DeployedPolicies := []\<rparr>\<rparr>)) v = (Ok (), w')"
      and "res = requeueAfter defaultRequeueDuration"
  | (clusters) cls v rs v' where "getMatchingClusters d r p w = (Ok cls, v)" and "cls \<noteq> []"
      and "io_map (attempt d r (Policy_SetMatchingClusters cls p)) cls v = (Ok rs, v')"
      and "ext_call (mc_StatusUpdatePolicy (r_Client r) (reconciled_policy p cls (collect rs))) v' = (Ok (), w')"
      and "res = requeueAfter (5 * minute)"
proof -
  obtain g v where g: "getMatchingClusters d r p w = (g, v)" by (cases "getMatchingClusters d r p w")
  show thesis
  proof (cases g)
    case (Ok cls)
    show thesis
    proof (cases "cls = []")
      case True
      then show thesis
        using assms g Ok by (intro no_cluster [of v])
          (auto simp: policy_reconcileNormal_def io_simps dest: statusUpdate_None)
    next
      case False
      obtain m v' where m: "io_map (attempt d r (Policy_SetMatchingClusters cls p)) cls v = (m, v')"
        by (cases "io_map (attempt d r (Policy_SetMatchingClusters cls p)) cls v")
      then have "\<exists>rs. m = Ok rs \<and>
          statusUpdate r (reconciled_policy p cls (collect rs)) (requeueAfter (5 * minute)) v' = (Ok (res, None), w')"
        using assms g Ok False
        by (cases m) (simp_all add: policy_reconcileNormal_def io_simps Let_def deploy_loop_attempts
            reconciled_policy_def split_beta)
      then show thesis
        using g Ok False m by (auto intro: clusters dest: statusUpdate_None)
    qed
  next
    case (Err e)
    then show thesis using assms g by (simp add: policy_reconcileNormal_def io_simps)
  next
    case (Panic s)
    then show thesis using assms g by (simp add: policy_reconcileNormal_def io_simps)
  qed
qed

lemmas policy_run_simps =
  policy_reconcileNormal_def getMatchingClusters_def deployPolicy_def deployClusterAdmissionPolicy_def
  deployAdmissionPolicy_def isPolicyActive_def statusUpdate_def getRemoteClient_def
  io_simps ext_call_def Let_def ObjectKeyFromObject_def newMeta_def HasAnnotation_def
  KubewardenInstalledAnnotation_def ControlPlaneReadyCondition_def Policy_SetMatchingClusters_def
  policy_reconcileDelete_def deletePolicy_def

text \<open>A world with one cluster that is ready and annotated.\<close>

definition onePolicyWorld :: "mem world" where
  "onePolicyWorld = memWorld (emptyMem\<lparr>m_clusters := [installedCluster ''prod'']\<rparr>)"

text \<open>A well-formed status of a policy.\<close>

definition status_ok :: "KubewardenPolicyStatus \<Rightarrow> bool" where
  "status_ok st \<longleftrightarrow>
     length (kpst_DeployedPolicies st) \<le> length (kpst_MatchingClusters st) \<and>
     subseq (map dps_ClusterName (kpst_DeployedPolicies st)) (map ref_Name (kpst_MatchingClusters st)) \<and>
     (kpst_Ready st \<longrightarrow> kpst_DeployedPolicies st \<noteq> [] \<and>
        map dps_ClusterName (kpst_DeployedPolicies st) = map ref_Name (kpst_MatchingClusters st))"

section \<open>Properties\<close>

text \<open>C1: readiness is truthful.  When a reconciliation of a policy ends without error and leaves
  \<open>Ready\<close> set in the stored status, then the clusters selected by the policy are a non-empty list,
  the status refers to exactly them in order and has one deployment entry for each, every one of
  them is ready and carries the installation annotation, and in every one the policy object is stored
  with the translation of the specification, as admitted there.\<close>

theorem policy_ready_means_deployed:
  assumes "fleet d r sto adm" and "status_law r sto pol"
    and "policy_reconcileNormal d r p w = (Ok (res, None), w')"
    and "pol (svc w') (ObjectKeyFromObject (kp_Meta p)) = Some st" and "kpst_Ready st"
  shows "\<exists>cls v. getMatchingClusters d r p w = (Ok cls, v) \<and> cls \<noteq> [] \<and>
    kpst_MatchingClusters st = map reference_of cls \<and>
    map dps_ClusterName (kpst_DeployedPolicies st) = map cl_Name cls \<and>
    list_all (eligible d) cls \<and> list_all (\<lambda>cl. has_policy sto adm p w' (cl_Key cl)) cls"
  using assms(3)
proof (cases rule: reconcileNormal_success)
  case (no_cluster v)
  then show ?thesis using assms(4,5) status_law_update(1) [OF assms(2) no_cluster(2)] by auto
next
  case (clusters cls v rs v')
  let ?p = "Policy_SetMatchingClusters cls p"
  have st: "st = kp_Status (reconciled_policy p cls (collect rs))" and sto: "sto (svc w') = sto (svc v')"
    using status_law_update(1) [OF assms(2) clusters(4)] assms(4) by auto
  then have ready: "snd (collect rs)" using assms(5) by simp
  have same: "has_policy sto adm ?p v' c = has_policy sto adm p w' c" for c
    using has_policy_cong [of ?p p sto adm v' c] sto by (simp add: has_policy_def)
  have "list_all2 (\<lambda>cl x. snd x \<longrightarrow> has_policy sto adm p w' (cl_Key cl)) cls rs"
    using attempts_store [OF assms(1) clusters(3)] by (simp add: same)
  then have "list_all (\<lambda>cl. has_policy sto adm p w' (cl_Key cl)) cls"
    using ready by (auto intro: list_all2_list_all simp: collect_def)
  then show ?thesis
    using clusters(1,2) st ready collect_names(2) [OF attempts_results [OF clusters(3)]] by auto
qed

theorem policy_ready_means_deployed_witness:
  "\<exists>res w' st. policy_reconcileNormal memDeps memReconciler samplePolicy onePolicyWorld = (Ok (res, None), w') \<and>
     m_status (svc w') (ObjectKeyFromObject (kp_Meta samplePolicy)) = Some st \<and> kpst_Ready st \<and>
     (\<exists>cls. cls \<noteq> [] \<and> list_all (\<lambda>cl. has_policy memView (\<lambda>x. x) samplePolicy w' (cl_Key cl)) cls)"
proof -
  have "\<exists>res w' st. policy_reconcileNormal memDeps memReconciler samplePolicy onePolicyWorld = (Ok (res, None), w') \<and>
     m_status (svc w') (ObjectKeyFromObject (kp_Meta samplePolicy)) = Some st \<and> kpst_Ready st"
    by (simp add: policy_run_simps mem_client_simps sample_defs onePolicyWorld_def memView_def notFound_def)
  then show ?thesis
    using policy_ready_means_deployed [OF mem_fleet mem_status_law] by blast
qed

text \<open>C13: the status a reconciliation stores is well formed, whatever happened in the clusters: there is at most one
  deployment entry for each matching cluster, the entries name matching clusters in their order, and \<open>Ready\<close> is stored only
  when there is an entry for every one and at least one.  Conditions are stored as they were read: none is ever set.  The
  reconciliation is repeated after one minute when no cluster matched and after five otherwise.\<close>

theorem policy_status_well_formed:
  assumes "status_law r sto pol" and "policy_reconcileNormal d r p w = (Ok (res, None), w')"
  shows "\<exists>st. pol (svc w') (ObjectKeyFromObject (kp_Meta p)) = Some st \<and> status_ok st \<and>
    kpst_Conditions st = kpst_Conditions (kp_Status p) \<and> res \<in> {requeueAfter minute, requeueAfter (5 * minute)}"
  using assms(2)
proof (cases rule: reconcileNormal_success)
  case (no_cluster v)
  then show ?thesis
    using status_law_update(1) [OF assms(1) no_cluster(2)] by (simp add: status_ok_def defaultRequeueDuration_def minute_def)
next
  case (clusters cls v rs v')
  note names = collect_names [OF attempts_results [OF clusters(3)]]
  have "subseq (map dps_ClusterName (fst (collect rs))) (map cl_Name cls)"
    by (rule subseq_order.trans [OF names(1)]) (simp add: subseq_map)
  then have "status_ok (kp_Status (reconciled_policy p cls (collect rs)))"
    using names(2) clusters(2) list_emb_length [of "(=)" "map dps_ClusterName (fst (collect rs))" "map cl_Name cls"]
    by (auto simp: status_ok_def reference_of_def comp_def)
  then show ?thesis using status_law_update(1) [OF assms(1) clusters(4)] clusters(5) by auto
qed

theorem policy_status_well_formed_witness:
  "\<exists>res w' st. policy_reconcileNormal memDeps memReconciler samplePolicy onePolicyWorld = (Ok (res, None), w') \<and>
     m_status (svc w') (ObjectKeyFromObject (kp_Meta samplePolicy)) = Some st \<and> status_ok st"
proof -
  have "\<exists>res w'. policy_reconcileNormal memDeps memReconciler samplePolicy onePolicyWorld = (Ok (res, None), w')"
    by (simp add: policy_run_simps mem_client_simps sample_defs onePolicyWorld_def memView_def notFound_def)
  then show ?thesis using policy_status_well_formed [OF mem_status_law] by blast
qed

text \<open>C14: clusters that are not ready or not annotated as installed are never touched: the loop
  behaves as on the eligible clusters alone (same calls, same entries, same world), except that the
  presence of another cluster makes the policy not ready.\<close>

theorem deploy_loop_skips_ineligible:
  "deploy_loop d r p ds ar cls w =
     (case deploy_loop d r p ds ar (filter (eligible d) cls) w of
        (Ok (ds', ready), w') \<Rightarrow> (Ok (ds', ready \<and> list_all (eligible d) cls), w')
      | x \<Rightarrow> x)"
proof (induction cls arbitrary: ds ar w)
  case Nil
  then show ?case by (simp add: io_simps)
next
  case (Cons cl cls)
  show ?case
  proof (cases "eligible d cl")
    case True
    then show ?thesis
      by (simp add: deploy_loop_step Cons.IH io_simps del: deploy_loop.simps split: prod.split outcome.split)
  next
    case False
    then have "deploy_loop d r p ds ar (cl # cls) w = deploy_loop d r p ds False cls w"
      by (simp add: deploy_loop_step attempt_ineligible io_simps del: deploy_loop.simps)
    then show ?thesis
      using False Cons.IH [of ds False w] deploy_loop_flag [of d r p ds False "filter (eligible d) cls" w]
        deploy_loop_flag [of d r p ds ar "filter (eligible d) cls" w]
      by (simp split: prod.split outcome.split)
  qed
qed

text \<open>C9: deploying to one cluster is a create-or-update of exactly one object.  Whatever happens, no
  other stored policy changes; without an error the object is stored with the admitted translation,
  which does not depend on what was stored before (so a manual change of a field the translation leaves
  empty, such as the mode, is undone), and the reported activity is the activity of that object; with an
  error the status is inactive and either nothing was stored or the translation was.\<close>

theorem deploy_policy_upserts:
  assumes "policy_client d rc c sto adm"
    and "deployPolicy d rc p cl w = (Ok (st, err), w')"
  shows "(\<forall>x. x \<noteq> policy_slot c p \<longrightarrow> sto (svc w') x = sto (svc w) x) \<and>
    (err = None \<longrightarrow> (\<exists>y. sto (svc w') (policy_slot c p) = Some y \<and> wp_Spec y = adm (buildPolicySpec p) \<and>
       (dps_Active st \<longleftrightarrow> wp_PolicyStatus y = PolicyStatusActive))) \<and>
    (err \<noteq> None \<longrightarrow> \<not> dps_Active st \<and>
       (sto (svc w') = sto (svc w) \<or> has_policy sto adm p w' c)) \<and>
    ps_Mode (buildPolicySpec p) = ''''"
proof -
  obtain z where z: "sto (svc w') = (sto (svc w))(policy_slot c p := z)"
    "z = sto (svc w) (policy_slot c p) \<or> (\<exists>y. z = Some y \<and> wp_Spec y = adm (buildPolicySpec p))"
    "err = None \<longrightarrow> (\<exists>y. z = Some y \<and> wp_Spec y = adm (buildPolicySpec p) \<and>
        (dps_Active st \<longleftrightarrow> wp_PolicyStatus y = PolicyStatusActive))"
    using deployPolicy_store [OF assms] by blast
  moreover have "err \<noteq> None \<Longrightarrow> \<not> dps_Active st"
    using assms(2) by (auto simp: deployPolicy_run initial_status_def split: prod.splits outcome.splits)
  ultimately show ?thesis
    by (auto simp: has_policy_def buildPolicySpec_def Let_def fun_upd_idem)
qed

text \<open>A cluster in which an operator has switched the policy to monitor mode.\<close>

definition monitorWorld :: "mem world" where
  "monitorWorld = memWorld (emptyMem\<lparr>m_policies := [policy_slot (cl_Key (sampleCluster ''prod'')) samplePolicy
     \<mapsto> (apObject samplePolicy)\<lparr>wp_Spec := (buildPolicySpec samplePolicy)\<lparr>ps_Mode := ''monitor''\<rparr>\<rparr>]\<rparr>)"

theorem deploy_policy_upserts_witness:
  "\<exists>st w' y. deployPolicy memDeps (memClient (cl_Key (sampleCluster ''prod''))) samplePolicy
       (sampleCluster ''prod'') monitorWorld = (Ok (st, None), w') \<and>
     memView (svc w') (policy_slot (cl_Key (sampleCluster ''prod'')) samplePolicy) = Some y \<and>
     ps_Mode (wp_Spec y) = ''''"
proof -
  have "\<exists>st w'. deployPolicy memDeps (memClient (cl_Key (sampleCluster ''prod''))) samplePolicy
       (sampleCluster ''prod'') monitorWorld = (Ok (st, None), w')"
    by (simp add: policy_run_simps mem_client_simps sample_defs monitorWorld_def memView_def notFound_def
        policy_kind_def policy_key_def apObject_def)
  then show ?thesis
    using deploy_policy_upserts [OF mem_policy_client] by fastforce
qed

text \<open>A successful deletion leaves the policy object absent or marked for deletion and touches no
  other stored policy; deleting a policy that is not there succeeds; a failed deletion changes nothing.\<close>

theorem delete_policy_removes:
  assumes "policy_client d rc c sto adm" and "deletePolicy d rc p w = (res, w')"
  shows "(\<forall>x. x \<noteq> policy_slot c p \<longrightarrow> sto (svc w') x = sto (svc w) x) \<and>
    (res = Ok () \<longrightarrow> (\<forall>y. sto (svc w') (policy_slot c p) = Some y \<longrightarrow> om_DeletionTimestamp (wp_Meta y) \<noteq> None)) \<and>
    (res \<noteq> Ok () \<longrightarrow> sto (svc w') = sto (svc w))"
proof (cases res)
  case (Ok u)
  then have "deletePolicy d rc p w = (Ok (), w')" using assms(2) by simp
  then obtain z where "sto (svc w') = (sto (svc w))(policy_slot c p := z)"
    "case z of None \<Rightarrow> True | Some y \<Rightarrow> om_DeletionTimestamp (wp_Meta y) \<noteq> None"
    using deletePolicy_Ok [OF assms(1)] by blast
  then show ?thesis using Ok by (auto split: option.splits)
next
  case (Err e)
  then show ?thesis using deletePolicy_Err [OF assms(1)] assms(2) by auto
next
  case (Panic s)
  then show ?thesis using safeD [OF deletePolicy_safe, of d rc p w] assms(2) by simp
qed

theorem delete_policy_removes_witness:
  "\<exists>w'. deletePolicy memDeps (memClient (cl_Key (sampleCluster ''prod''))) samplePolicy monitorWorld = (Ok (), w') \<and>
     (\<forall>y. memView (svc w') (policy_slot (cl_Key (sampleCluster ''prod'')) samplePolicy) = Some y \<longrightarrow>
        om_DeletionTimestamp (wp_Meta y) \<noteq> None)"
proof -
  have "\<exists>w'. deletePolicy memDeps (memClient (cl_Key (sampleCluster ''prod''))) samplePolicy monitorWorld = (Ok (), w')"
    by (simp add: policy_run_simps mem_client_simps sample_defs monitorWorld_def memView_def notFound_def
        policy_kind_def policy_key_def apObject_def)
  then show ?thesis
    using delete_policy_removes [OF mem_policy_client] by blast
qed

text \<open>C22: the translation of a policy loses nothing: from the translated specification and the four
  fields that decide where the policy goes, the specification is recovered; an empty failure policy and an
  empty scope become absent, never a present empty value.\<close>

theorem build_policy_spec_lossless:
  assumes "kps_ClusterSelector s = kps_ClusterSelector (kp_Spec p)"
    and "kps_PolicyType s = kps_PolicyType (kp_Spec p)"
    and "kps_PolicyName s = kps_PolicyName (kp_Spec p)"
    and "kps_TargetNamespace s = kps_TargetNamespace (kp_Spec p)"
  shows "spec_back (buildPolicySpec p) s = kp_Spec p \<and>
    ps_FailurePolicy (buildPolicySpec p) \<noteq> Some '''' \<and>
    (\<forall>x \<in> set (ps_Rules (buildPolicySpec p)). rwo_Scope x \<noteq> Some '''')"
proof -
  have "spec_back (buildPolicySpec p) s = kp_Spec p"
    using assms unfolding spec_back_build by (cases s; cases "kp_Spec p") simp
  then show ?thesis
    by (auto simp: buildPolicySpec_def Let_def convert_rules_map convert_rule_def convertScope_def)
qed

theorem build_policy_spec_lossless_witness:
  "spec_back (buildPolicySpec samplePolicy) ((kp_Spec samplePolicy)\<lparr>kps_Rules := [], kps_Module := ''''\<rparr>) =
     kp_Spec samplePolicy"
  using build_policy_spec_lossless [of "(kp_Spec samplePolicy)\<lparr>kps_Rules := [], kps_Module := ''''\<rparr>" samplePolicy]
  by simp

end
