(* ===== verification/Policy_Cleanup.thy ===== *)
theory Policy_Cleanup
  imports Policy_Reconcile
begin

text \<open>
  Deletion of a policy resource, the dispatch of \<open>Reconcile\<close>, the absence of panics, and the watch
  handler that turns a cluster event into reconcile requests.
\<close>

section \<open>Deletion on every cluster\<close>

text \<open>What the deletion loop does for one cluster, and whether it succeeded there.\<close>

definition removal ::
  "'s Deps \<Rightarrow> 's Reconciler \<Rightarrow> KubewardenPolicy \<Rightarrow> Cluster \<Rightarrow> ('s world, bool) io" where
  "removal d r p cl =
     io_try (getRemoteClient r cl) (\<lambda>_. io_return False)
       (\<lambda>rc. io_try (deletePolicy d rc p) (\<lambda>_. io_return False) (\<lambda>_. io_return True))"

text \<open>The policy object of a cluster is absent, or marked for deletion by the API server.\<close>

definition gone :: "'s policyView \<Rightarrow> KubewardenPolicy \<Rightarrow> 's world \<Rightarrow> NamespacedName \<Rightarrow> bool" where
  "gone sto p w c \<longleftrightarrow>
     (\<forall>y. sto (svc w) (policy_slot c p) = Some y \<longrightarrow> om_DeletionTimestamp (wp_Meta y) \<noteq> None)"

lemma delete_loop_removals: "delete_loop d r p cls = io_bind (io_map (removal d r p) cls) (\<lambda>_. io_return ())"
proof (induction cls)
  case (Cons cl cls)
  then show ?case
    by (intro ext) (simp add: removal_def io_simps split: prod.split outcome.split)
qed simp

lemma removal_store:
  assumes laws: "fleet d r sto adm" and run: "removal d r p cl w = (Ok ok, w')"
  shows "ok \<longrightarrow> gone sto p w' (cl_Key cl)"
    and "gone sto p w c \<longrightarrow> gone sto p w' c"
    and "x \<noteq> policy_slot (cl_Key cl) p \<longrightarrow> sto (svc w') x = sto (svc w) x"
proof -
  obtain g v where g: "getRemoteClient r cl w = (g, v)" by (cases "getRemoteClient r cl w")
  have "(ok \<longrightarrow> gone sto p w' (cl_Key cl)) \<and> (gone sto p w c \<longrightarrow> gone sto p w' c) \<and>
      (x \<noteq> policy_slot (cl_Key cl) p \<longrightarrow> sto (svc w') x = sto (svc w) x)"
  proof (cases g)
    case (Ok rc)
    then have v: "sto (svc v) = sto (svc w)" and client: "policy_client d rc (cl_Key cl) sto adm"
      using fleet_getRemoteClient(1) [OF laws] g by auto
    obtain e u where del: "deletePolicy d rc p v = (e, u)" by (cases "deletePolicy d rc p v")
    then have "w' = u" and "ok \<longleftrightarrow> e = Ok ()"
      using run g Ok by (auto simp: removal_def io_simps split: outcome.splits)
    then show ?thesis
      using del v deletePolicy_Ok [OF client, of p v u] deletePolicy_Err [OF client, of p v _ u]
        safeD [OF deletePolicy_safe, of d rc p v]
      by (cases e) (auto simp: gone_def split: option.splits if_splits)
  next
    case (Err e)
    then show ?thesis
      using fleet_getRemoteClient(2) [OF laws] g run by (auto simp: removal_def io_simps gone_def)
  next
    case (Panic s)
    then show ?thesis using g run by (simp add: removal_def io_simps)
  qed
  then show "ok \<longrightarrow> gone sto p w' (cl_Key cl)" "gone sto p w c \<longrightarrow> gone sto p w' c"
    "x \<noteq> policy_slot (cl_Key cl) p \<longrightarrow> sto (svc w') x = sto (svc w) x" by blast+
qed

lemma removals_store:
  assumes laws: "fleet d r sto adm" and run: "io_map (removal d r p) cls w = (Ok oks, w')"
  shows "list_all2 (\<lambda>cl ok. ok \<longrightarrow> gone sto p w' (cl_Key cl)) cls oks \<and>
    (\<forall>c. gone sto p w c \<longrightarrow> gone sto p w' c) \<and>
    (\<forall>x. x \<notin> (\<lambda>cl. policy_slot (cl_Key cl) p) ` set cls \<longrightarrow> sto (svc w') x = sto (svc w) x)"
  using run
proof (induction cls arbitrary: w oks)
  case Nil
  then show ?case by (simp add: io_simps)
next
  case (Cons cl cls)
  then obtain b v bs where *: "removal d r p cl w = (Ok b, v)" "io_map (removal d r p) cls v = (Ok bs, w')"
    "oks = b # bs" by (elim io_map_ConsE) blast
  show ?case using Cons.IH [OF *(2)] removal_store [OF laws *(1)] *(3) by auto
qed

section \<open>No panics\<close>

lemma getRemoteClient_safe [safe_intros]:
  "r_RemoteClientGetter r = Some get \<Longrightarrow> safe (getRemoteClient r cl)"
  by (simp add: getRemoteClient_def safe_ext)

lemma removal_safe: "r_RemoteClientGetter r = Some get \<Longrightarrow> safe (removal d r p cl)"
  unfolding removal_def by (intro safe_intros deletePolicy_safe)

lemma attempt_safe: "r_RemoteClientGetter r = Some get \<Longrightarrow> safe (attempt d r p cl)"
  unfolding attempt_def
  by (auto intro!: safe_intros deployPolicy_safe split: option.split)

lemma removals_run:
  assumes "r_RemoteClientGetter r = Some get"
  shows "\<exists>oks w'. io_map (removal d r p) cls w = (Ok oks, w') \<and> length oks = length cls"
proof -
  have "\<not> (\<exists>e v. removal d r p cl u = (Err e, v))" for cl u
    by (auto simp: removal_def io_simps split: prod.splits outcome.splits)
  then have "\<exists>ok v. removal d r p cl u = (Ok ok, v)" for cl u
    using safeD [OF removal_safe [OF assms], of d p cl u]
    by (cases "removal d r p cl u"; cases "fst (removal d r p cl u)") auto
  then show ?thesis
  proof (induction cls arbitrary: w)
    case (Cons cl cls)
    obtain ok v where 1: "removal d r p cl w = (Ok ok, v)" using Cons.prems by blast
    obtain oks w' where 2: "io_map (removal d r p) cls v = (Ok oks, w')" "length oks = length cls"
      using Cons.IH [OF Cons.prems] by blast
    show ?case using 1 2 by (simp add: io_simps)
  qed (simp add: io_simps)
qed

lemma statusUpdate_safe: "safe (statusUpdate r p res)"
  unfolding statusUpdate_def by (intro safe_intros)

lemma policy_reconcileNormal_safe:
  assumes "r_RemoteClientGetter r = Some get"
  shows "safe (policy_reconcileNormal d r p)"
  unfolding policy_reconcileNormal_def Let_def deploy_loop_attempts
  by (auto intro!: safe_intros statusUpdate_safe getMatchingClusters_safe attempt_safe [OF assms] split: prod.split)

lemma policy_reconcileDelete_safe:
  assumes "r_RemoteClientGetter r = Some get"
  shows "safe (policy_reconcileDelete d r p)"
  unfolding policy_reconcileDelete_def delete_loop_removals
  by (intro safe_intros getMatchingClusters_safe removal_safe [OF assms])

lemma statusUpdate_no_Err: "statusUpdate r p res w \<noteq> (Err e, w')"
  by (auto simp: statusUpdate_def io_simps split: prod.splits outcome.splits)

lemma attempts_no_Err: "io_map (attempt d r p) cls w \<noteq> (Err e, w')"
  by (induction cls arbitrary: w)
    (auto simp: io_simps attempt_never_fails split: prod.splits outcome.splits)

lemma policy_reconcileNormal_no_Err: "policy_reconcileNormal d r p w \<noteq> (Err e, w')"
  using statusUpdate_no_Err attempts_no_Err
  by (fastforce simp: policy_reconcileNormal_def deploy_loop_attempts io_simps Let_def
      split: prod.splits outcome.splits if_splits)

lemma policy_reconcileDelete_no_Err: "policy_reconcileDelete d r p w \<noteq> (Err e, w')"
proof -
  have "\<not> (\<exists>e v. removal d r p cl u = (Err e, v))" for cl u
    by (auto simp: removal_def io_simps split: prod.splits outcome.splits)
  then have "\<not> (\<exists>e v. io_map (removal d r p) cls u = (Err e, v))" for cls u
    by (induction cls arbitrary: u) (auto simp: io_simps split: prod.splits outcome.splits)
  then show ?thesis
    by (auto simp: policy_reconcileDelete_def delete_loop_removals io_simps split: prod.splits outcome.splits)
qed

section \<open>The watch handler\<close>

text \<open>A cluster is selected by a policy: the selector converts and matches the labels.\<close>

definition selects :: "'s Deps \<Rightarrow> LabelSelector \<Rightarrow> Cluster \<Rightarrow> bool" where
  "selects d sel cl \<longleftrightarrow>
     (case d_LabelSelectorAsSelector d sel of Inl _ \<Rightarrow> False | Inr matches \<Rightarrow> matches (cl_Labels cl))"

lemma request_loop_filter:
  "request_loop d cl acc ps =
     acc @ map (\<lambda>p. ObjectKeyFromObject (kp_Meta p)) (filter (\<lambda>p. selects d (kps_ClusterSelector (kp_Spec p)) cl) ps)"
  by (induction ps arbitrary: acc) (auto simp: selects_def ObjectKeyFromObject_def split: sum.split)

text \<open>
  Documented behaviour of listing clusters: a successful list returns, of the clusters \<open>cls s\<close> the
  management cluster holds, those in the namespace that match the selector, and changes none of them.
\<close>

definition cluster_list :: "'s Reconciler \<Rightarrow> ('s \<Rightarrow> Cluster list) \<Rightarrow> bool" where
  "cluster_list r cls \<longleftrightarrow>
     (\<forall>ns sel s res s'. mc_ListClusters (r_Client r) ns sel s = (res, s') \<longrightarrow> cls s' = cls s \<and>
        (case res of Inr xs \<Rightarrow> xs = filter (\<lambda>c. cl_Namespace c = ns \<and>
             (case sel of None \<Rightarrow> True | Some matches \<Rightarrow> matches (cl_Labels c))) (cls s)
         | Inl _ \<Rightarrow> True))"

lemma mem_cluster_list: "cluster_list memReconciler m_clusters"
  by (simp add: cluster_list_def memReconciler_def memMgmt_def)

lemma cluster_list_Ok:
  assumes "cluster_list r cls" and "ext_call (mc_ListClusters (r_Client r) ns sel) w = (Ok xs, w')"
  shows "xs = filter (\<lambda>c. cl_Namespace c = ns \<and>
     (case sel of None \<Rightarrow> True | Some matches \<Rightarrow> matches (cl_Labels c))) (cls (svc w)) \<and> cls (svc w') = cls (svc w)"
  using assms unfolding cluster_list_def by (fastforce simp: ext_call_Ok)

lemma getMatchingClusters_Ok:
  assumes "cluster_list r cls" and "getMatchingClusters d r p w = (Ok xs, w')"
  shows "xs = filter (\<lambda>c. cl_Namespace c = om_Namespace (kp_Meta p) \<and> selects d (kps_ClusterSelector (kp_Spec p)) c)
      (cls (svc w)) \<and> cls (svc w') = cls (svc w)"
  using assms(2) cluster_list_Ok [OF assms(1)]
  by (fastforce simp: getMatchingClusters_def selects_def io_wrap_Ok_iff io_fail_def split: sum.splits)

section \<open>Properties\<close>

text \<open>C18: deleting a policy resource is a best effort on every selected cluster.  Once the selected
  clusters are listed, the reconciliation returns no error and no requeue whatever happens in the
  clusters; it tries every cluster in order, from every cluster where the attempt succeeded the
  policy object is gone at the end, and no other stored policy changes.  A cluster where the attempt failed
  is not tried again.\<close>

theorem policy_delete_best_effort:
  assumes "fleet d r sto adm" and "getMatchingClusters d r p w = (Ok cls, v)"
  shows "\<exists>oks w'. policy_reconcileDelete d r p w = (Ok (emptyResult, None), w') \<and>
    io_map (removal d r p) cls v = (Ok oks, w') \<and>
    list_all2 (\<lambda>cl ok. ok \<longrightarrow> gone sto p w' (cl_Key cl)) cls oks \<and>
    (\<forall>x. x \<notin> (\<lambda>cl. policy_slot (cl_Key cl) p) ` set cls \<longrightarrow> sto (svc w') x = sto (svc v) x)"
proof -
  obtain get where "r_RemoteClientGetter r = Some get" using assms(1) by (auto simp: fleet_def)
  then obtain oks w' where run: "io_map (removal d r p) cls v = (Ok oks, w')" using removals_run by blast
  have "policy_reconcileDelete d r p w = (Ok (emptyResult, None), w')"
    by (simp add: policy_reconcileDelete_def delete_loop_removals io_simps assms(2) run)
  then show ?thesis using run removals_store [OF assms(1) run] by blast
qed

text \<open>Two selected clusters, one of which holds the deployed policy.\<close>

definition twoClusterWorld :: "mem world" where
  "twoClusterWorld = memWorld (emptyMem
     \<lparr>m_clusters := [installedCluster ''prod'', sampleCluster ''dev''],
      m_policies := [policy_slot (cl_Key (installedCluster ''prod'')) samplePolicy \<mapsto> apObject samplePolicy]\<rparr>)"

theorem policy_delete_best_effort_witness:
  "\<exists>oks w'. policy_reconcileDelete memDeps memReconciler samplePolicy twoClusterWorld =
       (Ok (emptyResult, None), w') \<and>
     list_all2 (\<lambda>cl ok. ok \<longrightarrow> gone memView samplePolicy w' (cl_Key cl))
       [installedCluster ''prod'', sampleCluster ''dev''] oks"
proof -
  have "\<exists>v. getMatchingClusters memDeps memReconciler samplePolicy twoClusterWorld =
      (Ok [installedCluster ''prod'', sampleCluster ''dev''], v)"
    by (simp add: policy_run_simps mem_client_simps sample_defs twoClusterWorld_def)
  then show ?thesis
    using policy_delete_best_effort [OF mem_fleet] by blast
qed

text \<open>Deployment and deletion are inverse on the store: after a deployment to a cluster without error
  and a successful deletion there, the policy object is gone and every other stored policy is as it was
  before the deployment.\<close>

theorem deploy_delete_roundtrip:
  assumes "policy_client d rc c sto adm"
    and "deployPolicy d rc p cl w = (Ok (st, err), u)" and "deletePolicy d rc p u = (Ok (), w')"
  shows "gone sto p w' c \<and> (\<forall>x. x \<noteq> policy_slot c p \<longrightarrow> sto (svc w') x = sto (svc w) x)"
proof -
  obtain z where "sto (svc u) = (sto (svc w))(policy_slot c p := z)"
    using deployPolicy_store [OF assms(1,2)] by blast
  moreover obtain z' where "sto (svc w') = (sto (svc u))(policy_slot c p := z')"
    "case z' of None \<Rightarrow> True | Some y \<Rightarrow> om_DeletionTimestamp (wp_Meta y) \<noteq> None"
    using deletePolicy_Ok [OF assms(1,3)] by blast
  ultimately show ?thesis by (auto simp: gone_def split: option.splits)
qed

theorem deploy_delete_roundtrip_witness:
  "\<exists>st err u w'. deployPolicy memDeps (memClient (cl_Key (sampleCluster ''prod''))) samplePolicy
       (sampleCluster ''prod'') monitorWorld = (Ok (st, err), u) \<and>
     deletePolicy memDeps (memClient (cl_Key (sampleCluster ''prod''))) samplePolicy u = (Ok (), w') \<and>
     gone memView samplePolicy w' (cl_Key (sampleCluster ''prod''))"
proof -
  have "\<exists>st err u w'. deployPolicy memDeps (memClient (cl_Key (sampleCluster ''prod''))) samplePolicy
       (sampleCluster ''prod'') monitorWorld = (Ok (st, err), u) \<and>
     deletePolicy memDeps (memClient (cl_Key (sampleCluster ''prod''))) samplePolicy u = (Ok (), w')"
    by (simp add: policy_run_simps mem_client_simps sample_defs monitorWorld_def memView_def notFound_def
        policy_kind_def policy_key_def apObject_def)
  then show ?thesis
    using deploy_delete_roundtrip [OF mem_policy_client] by blast
qed

text \<open>C29: when no cluster matches, the stored status becomes not ready with no deployment entry, but
  the list of matching clusters keeps the value it had, so clusters that no longer match stay listed; no
  workload cluster is touched and the policy is looked at again after a minute.\<close>

theorem policy_no_match_keeps_stale_references:
  assumes "status_law r sto pol" and "list_law r sto" and "getMatchingClusters d r p w = (Ok [], v)"
    and "policy_reconcileNormal d r p w = (Ok (res, None), w')"
  shows "pol (svc w') (ObjectKeyFromObject (kp_Meta p)) =
      Some ((kp_Status p)\<lparr>kpst_Ready := False, kpst_DeployedPolicies := []\<rparr>) \<and>
    kpst_MatchingClusters ((kp_Status p)\<lparr>kpst_Ready := False, kpst_DeployedPolicies := []\<rparr>) =
      kpst_MatchingClusters (kp_Status p) \<and>
    sto (svc w') = sto (svc w) \<and> res = requeueAfter (60 * 1000000000)"
  using assms(4)
proof (cases rule: reconcileNormal_success)
  case (no_cluster v')
  have "sto (svc v') = sto (svc w)"
    using staysD [OF getMatchingClusters_stays [OF assms(2)] no_cluster(1)] by (simp add: same_def)
  then show ?thesis
    using status_law_update(1) [OF assms(1) no_cluster(2)] no_cluster(3)
    by (simp add: defaultRequeueDuration_def minute_def)
next
  case (clusters cls v' rs u)
  then show ?thesis using assms(3) by simp
qed

definition stalePolicy :: KubewardenPolicy where
  "stalePolicy = samplePolicy\<lparr>kp_Status := (kp_Status samplePolicy)
     \<lparr>kpst_Ready := True, kpst_MatchingClusters := [reference_of (sampleCluster ''prod'')]\<rparr>\<rparr>"

theorem policy_no_match_keeps_stale_references_witness:
  "\<exists>w' st. m_status (svc w') (ObjectKeyFromObject (kp_Meta stalePolicy)) = Some st \<and> \<not> kpst_Ready st \<and>
     kpst_MatchingClusters st = [reference_of (sampleCluster ''prod'')] \<and>
     policy_reconcileNormal memDeps memReconciler stalePolicy (memWorld emptyMem) =
       (Ok (requeueAfter (60 * 1000000000), None), w')"
proof -
  have "\<exists>v. getMatchingClusters memDeps memReconciler stalePolicy (memWorld emptyMem) = (Ok [], v)"
    and "\<exists>res w'. policy_reconcileNormal memDeps memReconciler stalePolicy (memWorld emptyMem) = (Ok (res, None), w')"
    by (simp_all add: policy_run_simps mem_client_simps sample_defs stalePolicy_def)
  then show ?thesis
    using policy_no_match_keeps_stale_references [OF mem_status_law mem_list_law, of memDeps stalePolicy "memWorld emptyMem"]
    by (fastforce simp: stalePolicy_def)
qed

text \<open>C19: the watch is exact.  After an event of a cluster that the management cluster holds, a policy of the
  list the handler reads is enqueued exactly when that cluster is among the clusters a reconciliation of
  this policy would select; requests keep the order of the list, and an object that is not a cluster or a
  failed list enqueues nothing.\<close>

theorem policy_watch_exact:
  assumes "cluster_list r cls" and "cl \<in> set (cls (svc u))"
    and "ext_call (mc_ListPolicies (r_Client r) (cl_Namespace cl)) w = (Ok ps, w')"
    and "\<forall>p \<in> set ps. om_Namespace (kp_Meta p) = cl_Namespace cl"
  shows "clusterToKubewardenPolicy d r (Some cl) w = (Ok (map (\<lambda>p. ObjectKeyFromObject (kp_Meta p))
       (filter (\<lambda>p. selects d (kps_ClusterSelector (kp_Spec p)) cl) ps)), w') \<and>
    (\<forall>p \<in> set ps. \<forall>xs v. getMatchingClusters d r p u = (Ok xs, v) \<longrightarrow>
       (selects d (kps_ClusterSelector (kp_Spec p)) cl \<longleftrightarrow> cl \<in> set xs)) \<and>
    clusterToKubewardenPolicy d r None w = (Ok [], w) \<and>
    (\<forall>e v v'. ext_call (mc_ListPolicies (r_Client r) (cl_Namespace cl)) v = (Err e, v') \<longrightarrow>
       clusterToKubewardenPolicy d r (Some cl) v = (Ok [], v'))"
proof -
  have "selects d (kps_ClusterSelector (kp_Spec p)) cl \<longleftrightarrow> cl \<in> set xs"
    if "p \<in> set ps" and "getMatchingClusters d r p u = (Ok xs, v)" for p xs v
    using getMatchingClusters_Ok [OF assms(1) that(2)] that(1) assms(2,4) by auto
  then show ?thesis
    using assms(3) by (auto simp: clusterToKubewardenPolicy_def io_simps request_loop_filter)
qed

theorem policy_watch_exact_witness:
  "\<exists>w'. clusterToKubewardenPolicy memDeps memReconciler (Some (sampleCluster ''prod''))
       (memWorld (emptyMem\<lparr>m_clusters := [sampleCluster ''prod''], m_kpolicies := [samplePolicy]\<rparr>)) =
     (Ok [ObjectKeyFromObject (kp_Meta samplePolicy)], w')"
proof -
  let ?w = "memWorld (emptyMem\<lparr>m_clusters := [sampleCluster ''prod''], m_kpolicies := [samplePolicy]\<rparr>)"
  have 1: "sampleCluster ''prod'' \<in> set (m_clusters (svc ?w))" by (simp add: mem_client_simps)
  have 2: "ext_call (mc_ListPolicies (r_Client memReconciler) (cl_Namespace (sampleCluster ''prod''))) ?w = (Ok [samplePolicy], ?w)"
    by (simp add: mem_client_simps sample_defs ext_call_def)
  have 3: "\<forall>p \<in> set [samplePolicy]. om_Namespace (kp_Meta p) = cl_Namespace (sampleCluster ''prod'')"
    by (simp add: sample_defs)
  have 4: "selects memDeps (kps_ClusterSelector (kp_Spec samplePolicy)) (sampleCluster ''prod'')"
    by (simp add: selects_def mem_client_simps sample_defs)
  show ?thesis using policy_watch_exact [OF mem_cluster_list 1 2 3, of memDeps] 4 by auto
qed

text \<open>C20: the dispatch of \<open>Reconcile\<close>, and that it always returns.  With a client getter set (as
  \<open>SetupWithManager\<close> guarantees) a reconciliation never panics; a policy that no longer exists ends it without
  error and without a requeue, any other failure to read the policy is returned, a policy
  being deleted is cleaned up and every other one is reconciled.\<close>

theorem policy_reconcile_dispatch:
  assumes "r_RemoteClientGetter r = Some get"
  shows "\<exists>res err w'. policy_Reconcile d r req w = (Ok (res, err), w') \<and>
    (case mc_GetPolicy (r_Client r) req (svc w) of
       (Inl e, s) \<Rightarrow> w' = w\<lparr>svc := s\<rparr> \<and> res = emptyResult \<and> err = (if d_IsNotFound d e then None else Some e)
     | (Inr p, s) \<Rightarrow> (if om_DeletionTimestamp (kp_Meta p) = None
          then policy_reconcileNormal d r p (w\<lparr>svc := s\<rparr>) = (Ok (res, err), w')
          else policy_reconcileDelete d r p (w\<lparr>svc := s\<rparr>) = (Ok (res, err), w')))"
proof -
  have normal: "\<exists>res err w'. policy_reconcileNormal d r p v = (Ok (res, err), w')" for p v
    using safeD [OF policy_reconcileNormal_safe [OF assms], of d p v] policy_reconcileNormal_no_Err [of d r p v]
    by (cases "policy_reconcileNormal d r p v"; cases "fst (policy_reconcileNormal d r p v)") auto
  have delete: "\<exists>res err w'. policy_reconcileDelete d r p v = (Ok (res, err), w')" for p v
    using safeD [OF policy_reconcileDelete_safe [OF assms], of d p v] policy_reconcileDelete_no_Err [of d r p v]
    by (cases "policy_reconcileDelete d r p v"; cases "fst (policy_reconcileDelete d r p v)") auto
  obtain g s where g: "mc_GetPolicy (r_Client r) req (svc w) = (g, s)" by fastforce
  show ?thesis
    using g normal delete by (cases g) (auto simp: policy_Reconcile_def io_simps ext_call_def)
qed

theorem policy_reconcile_dispatch_witness:
  "\<exists>w'. policy_Reconcile memDeps memReconciler \<lparr>nn_Namespace = ''default'', nn_Name = ''absent''\<rparr> (memWorld emptyMem) =
     (Ok (emptyResult, None), w')"
proof -
  have g: "r_RemoteClientGetter memReconciler = Some memGetter" by (simp add: memReconciler_def)
  have "mc_GetPolicy (r_Client memReconciler) \<lparr>nn_Namespace = ''default'', nn_Name = ''absent''\<rparr>
      (svc (memWorld emptyMem)) = (Inl notFound, emptyMem)"
    by (simp add: memReconciler_def memMgmt_def memWorld_def emptyMem_def)
  moreover have "d_IsNotFound memDeps notFound" by (simp add: memDeps_def)
  ultimately show ?thesis
    using policy_reconcile_dispatch [OF g, of memDeps "\<lparr>nn_Namespace = ''default'', nn_Name = ''absent''\<rparr>" "memWorld emptyMem"]
    by auto
qed

end
