(* ===== verification/Addon_Reconcile.thy ===== *)
theory Addon_Reconcile
  imports Addon_Controller Install_Proofs Policy_Cleanup
begin

text \<open>
  Correctness of the addon reconciler: which clusters the loop works on and where it stops, that a
  cluster is marked as installed exactly when every installation step succeeded, what is written to the
  status, and how the two reconcilers agree on the clusters they select.
\<close>

section \<open>Selection\<close>

lemma select_loop_filter: "select_loop matches acc cls = acc @ filter (\<lambda>c. matches (cl_Labels c)) cls"
  by (induction cls arbitrary: acc) simp_all

lemma selectClusters_Ok:
  "selectClusters d cls sel = Inr xs \<Longrightarrow> xs = filter (selects d sel) cls"
  by (auto simp: selectClusters_def select_loop_filter selects_def split: sum.splits intro!: filter_cong)

lemma getAllCapiClusters_Ok:
  assumes "cluster_list r cls" and "getAllCapiClusters r ns w = (Ok xs, w')"
  shows "xs = filter (\<lambda>c. cl_Namespace c = ns) (cls (svc w)) \<and> cls (svc w') = cls (svc w)"
  using cluster_list_Ok [OF assms(1), of ns None w xs w'] assms(2)
  by (simp add: getAllCapiClusters_def io_wrap_Ok_iff)

section \<open>The installation loop\<close>

text \<open>The three answers of the guards of the loop.\<close>

definition awaiting :: "'s Deps \<Rightarrow> Cluster \<Rightarrow> bool" where
  "awaiting d cl \<longleftrightarrow> \<not> cl_ControlPlaneReady cl \<and> \<not> d_IsTrue d cl ControlPlaneReadyCondition"

definition needs_install :: "'s Deps \<Rightarrow> Cluster \<Rightarrow> bool" where
  "needs_install d cl \<longleftrightarrow> \<not> awaiting d cl \<and> \<not> HasAnnotation (cl_Meta cl) KubewardenInstalledAnnotation"

definition loop_end :: "'s Deps \<Rightarrow> Cluster list \<Rightarrow> (Result \<times> go_error option) option" where
  "loop_end d cls =
     (case cls of
        [] \<Rightarrow> None
      | cl # _ \<Rightarrow> Some (if awaiting d cl then requeueAfter defaultRequeueDuration else emptyResult, None))"

lemma install_loop_prefix:
  "install_loop d r addon cls =
     io_try (io_foreach (installOnCluster d r addon) (takeWhile (needs_install d) cls))
       (\<lambda>err. io_return (Some (emptyResult, Some err)))
       (\<lambda>_. io_return (loop_end d (dropWhile (needs_install d) cls)))"
proof (induction cls)
  case Nil
  then show ?case by (simp add: loop_end_def)
next
  case (Cons cl cls)
  show ?case
  proof (cases "needs_install d cl")
    case True
    then have "install_loop d r addon (cl # cls) = io_try (installOnCluster d r addon cl)
        (\<lambda>err. io_return (Some (emptyResult, Some err))) (\<lambda>_. install_loop d r addon cls)"
      by (auto simp: needs_install_def awaiting_def)
    then show ?thesis
      using True by (intro ext) (simp add: Cons.IH io_simps split: prod.split outcome.split)
  next
    case False
    then show ?thesis by (auto simp: needs_install_def awaiting_def loop_end_def)
  qed
qed

section \<open>No panics, files\<close>

lemma annotateCluster_safe: "safe (annotateCluster r cl)"
  unfolding annotateCluster_def Let_def
  by (auto simp: map_assign_def intro!: safe_intros split: option.split)

lemma installOnCluster_safe:
  "r_RemoteClientGetter r = Some get \<Longrightarrow> safe (installOnCluster d r addon cl)"
  unfolding installOnCluster_def installSteps_def by (intro safe_intros annotateCluster_safe)

lemma install_loop_safe:
  "r_RemoteClientGetter r = Some get \<Longrightarrow> safe (install_loop d r addon cls)"
  unfolding install_loop_prefix by (intro safe_intros installOnCluster_safe)

lemma install_loop_no_Err: "install_loop d r addon cls w \<noteq> (Err e, w')"
  unfolding install_loop_prefix by (auto simp: io_simps split: prod.splits outcome.splits)

lemma addon_reconcileNormal_safe:
  assumes "r_RemoteClientGetter r = Some get"
  shows "safe (addon_reconcileNormal d r addon)"
  unfolding addon_reconcileNormal_def getAllCapiClusters_def Let_def
  by (auto intro!: safe_intros install_loop_safe [OF assms] split: sum.split option.split)

lemma addon_reconcileNormal_no_Err: "addon_reconcileNormal d r addon w \<noteq> (Err e, w')"
  using install_loop_no_Err
  by (fastforce simp: addon_reconcileNormal_def io_simps Let_def split: prod.splits outcome.splits sum.splits option.splits)

lemma tree_annotate: "stays tree_step (annotateCluster r cl)"
  unfolding annotateCluster_def Let_def
  by (auto simp: map_assign_def intro!: tree_intros split: option.split)

lemma tree_addon_Reconcile: "stays tree_step (addon_Reconcile d r req)"
proof -
  have "stays tree_step (installOnCluster d r addon cl)" for addon cl
    unfolding installOnCluster_def installSteps_def getRemoteClient_def
    by (auto intro!: tree_intros tree_installs tree_annotate split: option.split)
  then have "stays tree_step (install_loop d r addon cls)" for addon cls
    unfolding install_loop_prefix by (intro tree_intros)
  then have "stays tree_step (addon_reconcileNormal d r addon)" for addon
    unfolding addon_reconcileNormal_def getAllCapiClusters_def Let_def
    by (auto intro!: tree_intros split: sum.split option.split)
  then show ?thesis
    unfolding addon_Reconcile_def by (auto intro!: tree_intros)
qed

section \<open>Marking a cluster as installed\<close>

definition marked :: "Cluster \<Rightarrow> Cluster" where
  "marked cl = cl\<lparr>cl_Meta := (cl_Meta cl)\<lparr>om_Annotations :=
     Some ((annotations_of (cl_Meta cl))(KubewardenInstalledAnnotation \<mapsto> ''true''))\<rparr>\<rparr>"

lemma annotateCluster_run:
  "annotateCluster r cl = io_wrap ''update cluster annotations'' (ext_call (mc_PatchCluster (r_Client r) cl (marked cl)))"
  by (simp add: annotateCluster_def marked_def map_assign_def annotations_of_def split: option.split)

definition mark :: "Cluster \<Rightarrow> (NamespacedName \<Rightarrow> labels) \<Rightarrow> NamespacedName \<Rightarrow> labels" where
  "mark cl a = a(cl_Key cl := (a (cl_Key cl))(KubewardenInstalledAnnotation \<mapsto> ''true''))"

text \<open>
  The calls of the installation that are not made to the management cluster, and the getter of clients, move the outside
  state along a relation: nothing else than the patch of a cluster changes the annotations of clusters.
\<close>

definition addon_frame :: "('s \<Rightarrow> 's \<Rightarrow> bool) \<Rightarrow> 's Deps \<Rightarrow> 's Reconciler \<Rightarrow> bool" where
  "addon_frame R d r \<longleftrightarrow> tools_move R d \<and>
     (\<exists>get. r_RemoteClientGetter r = Some get \<and> (\<forall>name c s. R s (snd (get name c s)) \<and>
        (case fst (get name c s) of Inr rc \<Rightarrow> remote_moves R rc | Inl _ \<Rightarrow> True)))"

context outside_relation
begin

lemma steps_frame:
  assumes "addon_frame R d r"
  shows "svc_rel R w (snd (installSteps d r addon cl w))"
proof -
  obtain get where get: "r_RemoteClientGetter r = Some get"
    and law: "\<And>name c s. R s (snd (get name c s))"
      "\<And>name c s rc. fst (get name c s) = Inr rc \<Longrightarrow> remote_moves R rc"
    and tools: "tools_move R d"
    using assms unfolding addon_frame_def by (metis (no_types, lifting) sum.simps(6))
  obtain g v where g: "getRemoteClient r cl w = (g, v)" by fastforce
  then have v: "svc_rel R w v"
    using law(1) get by (auto simp: getRemoteClient_def ext_call_def svc_rel_def split: prod.splits sum.splits) (metis snd_conv)+
  show ?thesis
  proof (cases g)
    case (Ok rc)
    then have "remote_moves R rc"
      using law(2) get g by (auto simp: getRemoteClient_def ext_call_def split: prod.splits sum.splits) (metis fst_conv)
    note frames = install_frames [OF this] install_frames(2-4) [OF this tools]
    have "stays (svc_rel R) (io_bind (io_wrap ''creating kubewarden namespace'' (createKubewardenNamespace d rc)) (\<lambda>_.
       io_bind (io_wrap ''creating kubewarden CRDs''
         (installKubewardenCRDs d r
            (if kas_Version (ka_Spec addon) \<noteq> '''' then kas_Version (ka_Spec addon) else kubewardenVersion) rc)) (\<lambda>_.
       io_bind (io_wrap ''installing kubewarden controller'' (installKubewardenController d r rc addon)) (\<lambda>_.
       io_bind (io_wrap ''installing kubewarden defaults'' (installKubewardenDefaults d r rc addon)) (\<lambda>_.
       io_wrap ''applying control-plane tolerations'' (applyControlPlaneTolerations rc))))))"
      by (intro frame_intros frames)
    then show ?thesis
      using v g Ok moved.step_trans unfolding installSteps_def
      by (simp only: io_bind_wrap_Ok [where m = "getRemoteClient r cl"]) (auto simp: stays_def intro: moved.step_trans)
  next
    case (Err e)
    then show ?thesis using v g by (simp add: installSteps_def io_simps)
  next
    case (Panic p)
    then show ?thesis using v g by (simp add: installSteps_def io_simps)
  qed
qed

end

lemma patch_law_run:
  assumes "patch_law r ann" and "\<not> HasAnnotation (cl_Meta cl) KubewardenInstalledAnnotation"
  shows "annotateCluster r cl w = (Ok (), w') \<Longrightarrow> ann (svc w') = mark cl (ann (svc w))"
    and "annotateCluster r cl w = (Err e, w') \<Longrightarrow> ann (svc w') = ann (svc w)"
proof -
  have "annotations_of (cl_Meta cl) KubewardenInstalledAnnotation = None"
    using assms(2) by (auto simp: HasAnnotation_def annotations_of_def split: option.splits)
  then have merge: "merge_labels (annotations_of (cl_Meta cl)) (annotations_of (cl_Meta (marked cl))) a =
      a(KubewardenInstalledAnnotation \<mapsto> ''true'')" for a
    by (auto simp: merge_labels_def marked_def annotations_of_def fun_eq_iff)
  have key: "cl_Key (marked cl) = cl_Key cl" by (simp add: marked_def ObjectKeyFromObject_def)
  note law = assms(1) [unfolded patch_law_def, rule_format, of cl "marked cl"]
  show "annotateCluster r cl w = (Ok (), w') \<Longrightarrow> ann (svc w') = mark cl (ann (svc w))"
    using law by (fastforce simp: annotateCluster_run io_wrap_Ok_iff ext_call_Ok merge key mark_def)
  show "annotateCluster r cl w = (Err e, w') \<Longrightarrow> ann (svc w') = ann (svc w)"
    using law [of "svc w"] by (fastforce simp: annotateCluster_run io_simps ext_call_def split: prod.splits sum.splits)
qed

lemma installOnCluster_marks:
  assumes "addon_frame (same ann) d r" and "patch_law r ann"
    and "\<not> HasAnnotation (cl_Meta cl) KubewardenInstalledAnnotation"
    and "installOnCluster d r addon cl w = (res, w')"
  shows "ann (svc w') = (if res = Ok () then mark cl (ann (svc w)) else ann (svc w))"
proof -
  obtain g v where g: "installSteps d r addon cl w = (g, v)" by fastforce
  have v: "ann (svc v) = ann (svc w)"
    using unchanged.steps_frame [OF assms(1), of w addon cl] g by (simp add: svc_rel_def same_def)
  show ?thesis
  proof (cases g)
    case (Ok u)
    then have a: "annotateCluster r cl v = (res, w')" using assms(4) g by (simp add: installOnCluster_def io_simps)
    show ?thesis
    proof (cases res)
      case (Ok u')
      then show ?thesis using patch_law_run(1) [OF assms(2,3), of v w'] a by (simp add: v)
    next
      case (Err e)
      then show ?thesis using patch_law_run(2) [OF assms(2,3), of v e w'] a by (simp add: v)
    next
      case (Panic p)
      then show ?thesis using safeD [OF annotateCluster_safe, of r cl v] a by simp
    qed
  qed (use assms(4) g v in \<open>auto simp: installOnCluster_def io_simps\<close>)
qed

text \<open>The ways an installation ends: all steps succeed and the cluster is annotated, or one of the two fails.\<close>

lemma installOnCluster_Ok_iff:
  "installOnCluster d r addon cl w = (Ok (), w') \<longleftrightarrow>
     (\<exists>v. installSteps d r addon cl w = (Ok (), v) \<and> annotateCluster r cl v = (Ok (), w'))"
  by (auto simp: installOnCluster_def io_simps split: prod.splits outcome.splits)

lemma installOnCluster_Err_iff:
  "installOnCluster d r addon cl w = (Err e, w') \<longleftrightarrow>
     installSteps d r addon cl w = (Err e, w') \<or>
     (\<exists>v. installSteps d r addon cl w = (Ok (), v) \<and> annotateCluster r cl v = (Err e, w'))"
  by (auto simp: installOnCluster_def io_simps split: prod.splits outcome.splits)

text \<open>Along a trace of the loop body over clusters that are not annotated, each state has the clusters before it marked.\<close>

lemma trace_marks:
  assumes "addon_frame (same ann) d r" and "patch_law r ann"
    and "\<forall>cl \<in> set cls. \<not> HasAnnotation (cl_Meta cl) KubewardenInstalledAnnotation"
    and "n \<le> length cls" and "\<forall>i<n. installOnCluster d r addon (cls ! i) (ws ! i) = (Ok (), ws ! Suc i)"
  shows "i \<le> n \<Longrightarrow> ann (svc (ws ! i)) = fold mark (take i cls) (ann (svc (ws ! 0)))"
proof (induction i)
  case (Suc i)
  then have "ann (svc (ws ! Suc i)) = mark (cls ! i) (ann (svc (ws ! i)))"
    using installOnCluster_marks [OF assms(1,2) _ assms(5) [rule_format]] assms(3,4) by simp
  then show ?case using Suc assms(4) by (simp add: take_Suc_conv_app_nth)
qed simp

text \<open>The trace of the whole loop.\<close>

lemma install_loop_trace:
  assumes "addon_frame (same ann) d r" and "patch_law r ann" and "install_loop d r addon cls w = (Ok ret, w')"
  shows "\<exists>n ws. length ws = Suc n \<and> ws ! 0 = w \<and> list_all (needs_install d) (take n cls) \<and>
    (\<forall>i<n. installOnCluster d r addon (cls ! i) (ws ! i) = (Ok (), ws ! Suc i)) \<and>
    ann (svc w') = fold mark (take n cls) (ann (svc w)) \<and>
    (case ret of
       None \<Rightarrow> n = length cls \<and> w' = ws ! n
     | Some (_, None) \<Rightarrow> n < length cls \<and> \<not> needs_install d (cls ! n) \<and> w' = ws ! n
     | Some (_, Some e) \<Rightarrow> n < length cls \<and> needs_install d (cls ! n) \<and>
         installOnCluster d r addon (cls ! n) (ws ! n) = (Err e, w'))"
proof -
  define pre rest where "pre = takeWhile (needs_install d) cls" and "rest = dropWhile (needs_install d) cls"
  have cls: "cls = pre @ rest" and stop: "rest \<noteq> [] \<Longrightarrow> \<not> needs_install d (hd rest)"
    by (simp_all add: pre_def rest_def hd_dropWhile)
  have needs: "list_all (needs_install d) pre" unfolding pre_def list_all_iff by (blast dest: set_takeWhileD)
  then have bare: "\<forall>cl \<in> set pre. \<not> HasAnnotation (cl_Meta cl) KubewardenInstalledAnnotation"
    by (simp add: list_all_iff needs_install_def)
  obtain g v where g: "io_foreach (installOnCluster d r addon) pre w = (g, v)" by fastforce
  obtain n ws where ws: "length ws = Suc n" "ws ! 0 = w" "n \<le> length pre"
    "\<forall>i<n. installOnCluster d r addon (pre ! i) (ws ! i) = (Ok (), ws ! Suc i)"
    "if g = Ok () then n = length pre \<and> v = ws ! n
     else n < length pre \<and> installOnCluster d r addon (pre ! n) (ws ! n) = (g, v)"
    using io_foreach_trace [OF g] by blast
  have ann: "ann (svc (ws ! n)) = fold mark (take n pre) (ann (svc w))"
    using trace_marks [OF assms(1,2) bare ws(3,4), of n] ws(2) by simp
  have steps: "\<forall>i<n. installOnCluster d r addon (cls ! i) (ws ! i) = (Ok (), ws ! Suc i)"
    using ws(3,4) by (simp add: cls nth_append)
  have run: "install_loop d r addon cls w =
      io_try (io_foreach (installOnCluster d r addon) pre) (\<lambda>err. io_return (Some (emptyResult, Some err)))
        (\<lambda>_. io_return (loop_end d rest)) w"
    by (simp add: install_loop_prefix pre_def rest_def)
  show ?thesis
  proof (cases g)
    case (Ok u)
    then have "w' = ws ! n" "ret = loop_end d rest" "n = length pre"
      using assms(3) g run ws(5) by (simp_all add: io_simps)
    then show ?thesis
      using ws(1,2) steps ann needs stop
      by (intro exI [of _ n] exI [of _ ws]) (cases rest; simp add: cls loop_end_def)
  next
    case (Err e)
    then have w': "w' = v" "ret = Some (emptyResult, Some e)" and n: "n < length pre"
      and failed: "installOnCluster d r addon (pre ! n) (ws ! n) = (Err e, v)"
      using assms(3) g run ws(5) by (auto simp: io_simps)
    have "list_all (needs_install d) (take n pre)" and need: "needs_install d (pre ! n)"
      using needs n by (auto simp: list_all_iff dest: in_set_takeD)
    moreover have "ann (svc v) = ann (svc (ws ! n))"
      using installOnCluster_marks [OF assms(1,2) _ failed] need by (simp add: needs_install_def)
    ultimately show ?thesis
      using ws(1,2) steps ann w' n failed by (intro exI [of _ n] exI [of _ ws]) (simp add: cls nth_append)
  next
    case (Panic p)
    then show ?thesis using assms(3) g run by (simp add: io_simps)
  qed
qed

lemma install_loop_marks:
  assumes "addon_frame (same ann) d r" and "patch_law r ann" and "install_loop d r addon cls w = (Ok None, w')"
  shows "ann (svc w') = fold mark cls (ann (svc w))"
  using install_loop_trace [OF assms] by auto

lemma fold_mark_keeps: "a k KubewardenInstalledAnnotation = Some ''true'' \<Longrightarrow>
    fold mark cls a k KubewardenInstalledAnnotation = Some ''true''"
  by (induction cls arbitrary: a) (auto simp: mark_def)

lemma fold_mark: "cl \<in> set cls \<Longrightarrow> fold mark cls a (cl_Key cl) KubewardenInstalledAnnotation = Some ''true''"
proof (induction cls arbitrary: a)
  case (Cons c cls)
  have "mark c a (cl_Key c) KubewardenInstalledAnnotation = Some ''true''" by (simp add: mark_def)
  then show ?case using fold_mark_keeps [of "mark c a" "cl_Key c" cls] Cons by auto
qed simp

section \<open>The whole reconciliation\<close>

text \<open>
  The laws of the management cluster for the addon reconciler: annotations change by the patch of a cluster, stored
  addon status by the patch of the status, and nothing else the reconciler calls changes either of them.
\<close>

definition addon_management :: "'s Deps \<Rightarrow> 's Reconciler \<Rightarrow> 's annotationView \<Rightarrow> 's addonStatusView \<Rightarrow> bool" where
  "addon_management d r ann ast \<longleftrightarrow>
     patch_law r ann \<and> status_patch_law r ast \<and> addon_frame (same ann) d r \<and> addon_frame (same ast) d r \<and>
     (\<forall>ns sel. moves (same ann) (mc_ListClusters (r_Client r) ns sel) \<and>
               moves (same ast) (mc_ListClusters (r_Client r) ns sel)) \<and>
     (\<forall>b x. moves (same ast) (mc_PatchCluster (r_Client r) b x)) \<and>
     (\<forall>b x. moves (same ann) (mc_StatusPatchAddon (r_Client r) b x))"

context outside_relation
begin

lemma loop_frame:
  assumes "addon_frame R d r" and "\<And>b x. moves R (mc_PatchCluster (r_Client r) b x)"
  shows "stays (svc_rel R) (install_loop d r addon cls)"
proof -
  have "stays (svc_rel R) (installSteps d r addon cl)" for cl
    by (rule staysI) (rule steps_frame [OF assms(1)])
  then have "stays (svc_rel R) (installOnCluster d r addon cl)" for cl
    unfolding installOnCluster_def annotateCluster_run by (intro frame_intros assms(2))
  then show ?thesis unfolding install_loop_prefix by (intro frame_intros)
qed

end

text \<open>The base and the object of the status patch after the loop ran to its end.\<close>

definition patch_base :: "KubewardenAddon \<Rightarrow> Cluster list \<Rightarrow> KubewardenAddon" where
  "patch_base addon xs = Addon_SetMatchingClusters xs addon"

definition patch_object :: "KubewardenAddon \<Rightarrow> Cluster list \<Rightarrow> KubewardenAddon" where
  "patch_object addon xs = (patch_base addon xs)\<lparr>ka_Status := (ka_Status (patch_base addon xs))\<lparr>kast_Ready := xs \<noteq> []\<rparr>\<rparr>"

lemma patch_object_simps [simp]:
  "ka_Meta (patch_object addon xs) = ka_Meta addon" "kast_Ready (ka_Status (patch_object addon xs)) = (xs \<noteq> [])"
  "kast_MatchingClusters (ka_Status (patch_object addon xs)) = kast_MatchingClusters (ka_Status (patch_base addon xs))"
  "kast_Conditions (ka_Status (patch_object addon xs)) = kast_Conditions (ka_Status (patch_base addon xs))"
  by (simp_all add: patch_object_def patch_base_def Addon_SetMatchingClusters_def)

lemma addon_reconcileNormal_cases:
  assumes "addon_reconcileNormal d r addon w = (Ok (res, err), w')"
  obtains (list_failed) e where "getAllCapiClusters r (om_Namespace (ka_Meta addon)) w = (Err e, w')"
      and "err = Some (Wrapf ''getting capi clusters'' e)" and "res = emptyResult"
  | (bad_selector) cls e where "getAllCapiClusters r (om_Namespace (ka_Meta addon)) w = (Ok cls, w')"
      and "selectClusters d cls (kas_ClusterSelector (ka_Spec addon)) = Inl e"
      and "err = Some (Wrapf ''selecting clusters'' e)" and "res = emptyResult"
  | (returned) cls v xs where "getAllCapiClusters r (om_Namespace (ka_Meta addon)) w = (Ok cls, v)"
      and "selectClusters d cls (kas_ClusterSelector (ka_Spec addon)) = Inr xs"
      and "install_loop d r (patch_base addon xs) xs v = (Ok (Some (res, err)), w')"
  | (finished) cls v xs u where "getAllCapiClusters r (om_Namespace (ka_Meta addon)) w = (Ok cls, v)"
      and "selectClusters d cls (kas_ClusterSelector (ka_Spec addon)) = Inr xs"
      and "install_loop d r (patch_base addon xs) xs v = (Ok None, u)"
      and "w' = snd (ext_call (mc_StatusPatchAddon (r_Client r) (patch_base addon xs) (patch_object addon xs)) u)"
      and "res = emptyResult" and "err = None"
proof -
  obtain g v where g: "getAllCapiClusters r (om_Namespace (ka_Meta addon)) w = (g, v)" by fastforce
  show thesis
  proof (cases g)
    case (Ok cls)
    show thesis
    proof (cases "selectClusters d cls (kas_ClusterSelector (ka_Spec addon))")
      case (Inl e)
      then show thesis using assms g Ok by (intro bad_selector) (auto simp: addon_reconcileNormal_def io_simps)
    next
      case (Inr xs)
      obtain l u where l: "install_loop d r (patch_base addon xs) xs v = (l, u)" by fastforce
      note run = assms [unfolded addon_reconcileNormal_def Let_def]
      show thesis
      proof (cases "\<exists>x. l = Ok (Some x)")
        case True
        then have "l = Ok (Some (res, err))" "u = w'"
          using run g Ok Inr l by (auto simp: io_simps patch_base_def)
        then show thesis using returned g Ok Inr l by blast
      next
        case False
        moreover have "\<exists>x. l = Ok x"
          using run g Ok Inr l install_loop_no_Err [of d r "patch_base addon xs" xs v]
          by (cases l) (auto simp: io_simps patch_base_def)
        ultimately have "l = Ok None" by (metis not_None_eq)
        then show thesis
          using run g Ok Inr l ext_call_no_panic [of "mc_StatusPatchAddon (r_Client r) (patch_base addon xs) (patch_object addon xs)" u]
          by (intro finished [of cls v xs u])
            (auto simp: io_simps patch_base_def patch_object_def panics_def split: prod.splits outcome.splits)
      qed
    qed
  next
    case (Err e)
    then show thesis using assms g by (intro list_failed) (auto simp: addon_reconcileNormal_def io_simps)
  next
    case (Panic s)
    then show thesis using assms g by (simp add: addon_reconcileNormal_def io_simps)
  qed
qed

text \<open>The two ways the loop can end, as rules to run a reconciliation.\<close>

lemma addon_reconcileNormal_run:
  assumes "getAllCapiClusters r (om_Namespace (ka_Meta addon)) w = (Ok cls, v)"
    and "selectClusters d cls (kas_ClusterSelector (ka_Spec addon)) = Inr xs"
  shows "install_loop d r (patch_base addon xs) xs v = (Ok (Some x), u) \<Longrightarrow>
      addon_reconcileNormal d r addon w = (Ok x, u)"
    and "install_loop d r (patch_base addon xs) xs v = (Ok None, u) \<Longrightarrow>
      addon_reconcileNormal d r addon w = (Ok (emptyResult, None),
        snd (ext_call (mc_StatusPatchAddon (r_Client r) (patch_base addon xs) (patch_object addon xs)) u))"
  using assms by (auto simp: addon_reconcileNormal_def Let_def io_simps patch_base_def patch_object_def split: prod.splits outcome.splits)

lemma addon_frames:
  assumes "addon_management d r ann ast"
  shows "getAllCapiClusters r ns w = (g, v) \<Longrightarrow> ann (svc v) = ann (svc w) \<and> ast (svc v) = ast (svc w)"
    and "install_loop d r a xs w = (g', u) \<Longrightarrow> ast (svc u) = ast (svc w)"
proof -
  note laws = assms [unfolded addon_management_def]
  have list: "stays (svc_rel (same ann)) (getAllCapiClusters r ns)" "stays (svc_rel (same ast)) (getAllCapiClusters r ns)"
    unfolding getAllCapiClusters_def using laws by (intro unchanged.frame_intros; blast)+
  then show "getAllCapiClusters r ns w = (g, v) \<Longrightarrow> ann (svc v) = ann (svc w) \<and> ast (svc v) = ast (svc w)"
    by (metis same_def staysD svc_rel_def)
  have "stays (svc_rel (same ast)) (install_loop d r a xs)" using laws by (intro unchanged.loop_frame) auto
  then show "install_loop d r a xs w = (g', u) \<Longrightarrow> ast (svc u) = ast (svc w)"
    by (metis same_def staysD svc_rel_def)
qed

end
