(* ===== verification/Install_Complete.thy ===== *)
theory Install_Complete
  imports Addon_Reconcile
begin

text \<open>
  What a cluster holds after an installation that succeeded: the namespace, the objects of every CRD manifest of the
  release archive, and the objects of both rendered charts.
\<close>

section \<open>Listing the unpacked manifests\<close>

lemma Clean_not_empty: "Clean s \<noteq> ''''"
proof (cases "pkey s")
  case (Pair r cs)
  have "cs \<noteq> [] \<Longrightarrow> join_with slash cs \<noteq> ''''"
    using cleaned_elem(2) [OF pkey_cleaned [of s]] Pair by (cases cs; cases "tl cs") auto
  then show ?thesis using Pair by (simp add: Clean_def)
qed

text \<open>An archive whose files lie at its top level, each under its own name.\<close>

definition flat_archive :: "TarEntry list \<Rightarrow> bool" where
  "flat_archive entries \<longleftrightarrow>
     list_all (\<lambda>e. te_IsDir e \<or> plain (te_Name e)) entries \<and>
     distinct (map te_Name (filter (\<lambda>e. \<not> te_IsDir e) entries))"

text \<open>A condition on the archive that is served at one address, at whatever time it is asked for.\<close>

definition served_archive :: "(TarEntry list \<Rightarrow> bool) \<Rightarrow> 's Deps \<Rightarrow> string \<Rightarrow> bool" where
  "served_archive P d url \<longleftrightarrow>
     (\<forall>s resp s' entries ending. d_httpGet d url s = (Inr resp, s') \<longrightarrow>
        d_openTarGz d (fst (resp_Body resp)) = Inr (entries, ending) \<longrightarrow> P entries)"

lemma entry_file_plain:
  "dir \<noteq> '''' \<Longrightarrow> plain (te_Name e) \<Longrightarrow>
     entry_file dir e = ((fst (pkey dir), snd (pkey dir) @ [te_Name e]), File (fst (te_Body e)))"
  by (simp add: entry_file_def pkey_Join_plain)

lemma flat_lookup:
  assumes "dir \<noteq> ''''" and "flat_archive entries" and "e \<in> set entries" and "\<not> te_IsDir e"
  shows "map_of (rev (map (entry_file dir) (filter (\<lambda>e. \<not> te_IsDir e) entries)))
      (fst (pkey dir), snd (pkey dir) @ [te_Name e]) = Some (File (fst (te_Body e)))"
proof -
  let ?es = "filter (\<lambda>e. \<not> te_IsDir e) entries"
  have plain: "\<forall>x \<in> set ?es. plain (te_Name x)" using assms(2) by (auto simp: flat_archive_def list_all_iff)
  have "map fst (map (entry_file dir) ?es) = map (\<lambda>n. (fst (pkey dir), snd (pkey dir) @ [n])) (map te_Name ?es)"
    using plain by (auto simp: entry_file_plain [OF assms(1)])
  moreover have "distinct (map (\<lambda>n. (fst (pkey dir), snd (pkey dir) @ [n])) (map te_Name ?es))"
    using assms(2) by (subst distinct_map) (auto simp: flat_archive_def inj_on_def)
  ultimately have "distinct (map fst (rev (map (entry_file dir) ?es)))"
    by (metis distinct_rev rev_map)
  moreover have "entry_file dir e \<in> set (rev (map (entry_file dir) ?es))" using assms(3,4) by auto
  ultimately show ?thesis
    using entry_file_plain [OF assms(1), of e] plain assms(3,4) by (auto intro!: map_of_is_SomeI)
qed

lemma flat_no_dir:
  assumes "dir \<noteq> ''''" and "flat_archive entries"
  shows "map_of (rev (map (entry_file dir) (filter (\<lambda>e. \<not> te_IsDir e) entries))) (pkey dir) = None"
proof -
  have "fst (entry_file dir e) \<noteq> pkey dir" if "e \<in> set entries" "\<not> te_IsDir e" for e
  proof -
    have "plain (te_Name e)" using that assms(2) by (auto simp: flat_archive_def list_all_iff)
    then show ?thesis by (cases "pkey dir") (simp add: entry_file_plain [OF assms(1)])
  qed
  then have "pkey dir \<notin> fst ` set (rev (map (entry_file dir) (filter (\<lambda>e. \<not> te_IsDir e) entries)))"
    unfolding set_rev set_map set_filter image_image by (metis (mono_tags, lifting) imageE mem_Collect_eq)
  then show ?thesis by (simp only: map_of_eq_None_iff not_False_eq_True)
qed

lemma Glob_yaml_lists:
  assumes "Glob_yaml dir w = (Ok files, w')" and "faults w = (\<lambda>_. None)" and "is_dir w (pkey dir)"
    and "node_at w (fst (pkey dir), snd (pkey dir) @ [n]) \<noteq> None" and "match_yaml n"
  shows "Join [Clean dir, n] \<in> set files"
proof -
  obtain m where "((fst (pkey dir), snd (pkey dir) @ [n]), m) \<in> set (fs w)"
    using assms(4) by (auto dest: map_of_SomeD)
  then have "((fst (pkey dir), snd (pkey dir) @ [n]), m) \<in>
      set (filter (\<lambda>kn. snd (fst kn) \<noteq> [] \<and> parent (fst kn) = pkey dir) (fs w))"
    by (simp add: parent_def)
  then have "n \<in> set (dir_entries w (pkey dir))"
    unfolding dir_entries_def set_sort set_remdups set_map by (rule rev_image_eqI) simp
  then show ?thesis using assms(1,2,3,5) by (auto simp: Glob_yaml_def Let_def)
qed

section \<open>Applying every manifest\<close>

lemma apply_all_store:
  assumes law: "create_law d rc obs"
    and run: "io_foreach (\<lambda>f. io_wrap (msg f) (applyManifest d r rc f)) files w = (Ok (), w')"
  shows "\<forall>f \<in> set files. \<exists>content. node_at w (pkey f) = Some (File content) \<and>
    set (manifest_objects d r (fst (d_yamlDocs d content))) \<subseteq> obs (svc w')"
  using run
proof (induction files arbitrary: w)
  case (Cons f files)
  then obtain v where f: "applyManifest d r rc f w = (Ok (), v)"
    and rest: "io_foreach (\<lambda>f. io_wrap (msg f) (applyManifest d r rc f)) files v = (Ok (), w')"
    by (auto simp: io_wrap_Ok_iff elim!: io_bind_OkE)
  have nodes: "node_at v = node_at w" using staysD [OF disk_applyManifest f] by (simp add: same_def disk_def)
  have "stays (svc_rel (grows obs)) (io_foreach (\<lambda>f. io_wrap (msg f) (applyManifest d r rc f)) files)"
    by (intro growing.frame_intros growing.stays_applyManifest create_law_grows [OF law])
  from staysD [OF this rest] have "obs (svc v) \<subseteq> obs (svc w')" by (simp add: svc_rel_def grows_def)
  then show ?case using applyManifest_store [OF law f] Cons.IH [OF rest] nodes by fastforce
qed simp

text \<open>The objects of the CRD manifests of a release are in the cluster.\<close>

definition has_crds :: "'s Deps \<Rightarrow> 's Reconciler \<Rightarrow> string \<Rightarrow> objectId set \<Rightarrow> bool" where
  "has_crds d r version objects \<longleftrightarrow>
     (\<exists>resp s s' entries. d_httpGet d (crdsURL version) s = (Inr resp, s') \<and> resp_StatusCode resp = 200 \<and>
        d_openTarGz d (fst (resp_Body resp)) = Inr (entries, None) \<and>
        (\<forall>e \<in> set entries. \<not> te_IsDir e \<and> match_yaml (te_Name e) \<longrightarrow>
           set (manifest_objects d r (fst (d_yamlDocs d (fst (te_Body e))))) \<subseteq> objects))"

lemma installCRDs_store:
  assumes law: "create_law d rc obs" and flat: "served_archive flat_archive d (crdsURL ver)" and nf: "faults w = (\<lambda>_. None)"
    and ok: "installKubewardenCRDs d r ver rc w = (Ok (), w')"
  shows "has_crds d r ver (obs (svc w'))"
proof -
  let ?msg = "\<lambda>f. ''apply CRD from file '' @ f"
  obtain p v where dl: "downloadFile d (crdsURL ver) w = (Ok p, v)"
    using ok by (cases "downloadFile d (crdsURL ver) w"; cases "fst (downloadFile d (crdsURL ver) w)")
      (auto simp: installKubewardenCRDs_def io_simps)
  obtain dir x where ex: "extractTarGz d p v = (Ok dir, x)"
    using ok dl by (cases "extractTarGz d p v"; cases "fst (extractTarGz d p v)")
      (auto simp: installKubewardenCRDs_def io_simps split: prod.splits)
  obtain files u y where gl: "Glob_yaml dir x = (Ok files, u)"
    and ap: "io_foreach (\<lambda>f. io_wrap (?msg f) (applyManifest d r rc f)) files u = (Ok (), y)"
    and w': "w' = snd (os_Remove p (snd (os_RemoveAll dir y)))"
    using ok unfolding installKubewardenCRDs_def
      io_bind_wrap_Ok [where m = "downloadFile d (crdsURL ver)", OF dl]
      io_defer_def io_bind_wrap_Ok [where m = "extractTarGz d p", OF ex]
    by (auto split: prod.splits elim!: io_bind_OkE simp: io_wrap_Ok_iff)
  have svc: "svc w' = svc y"
    unfolding w' by (metis same_def stays_def stays_svc_os(4) stays_svc_os(5))
  obtain resp s where get: "d_httpGet d (crdsURL ver) (svc w) = (Inr resp, s)" "resp_StatusCode resp = 200"
    "node_at v (pkey p) = Some (File (fst (resp_Body resp)))" using downloadFile_Ok(1) [OF dl] by auto
  obtain entries where ent: "d_openTarGz d (fst (resp_Body resp)) = Inr (entries, None)"
    and store: "node_at x = (node_at v)(pkey dir \<mapsto> Dir) ++
      map_of (rev (map (entry_file dir) (filter (\<lambda>e. \<not> te_IsDir e) entries)))"
    using extractTarGz_store [OF ex] get(3) by auto
  have flat': "flat_archive entries" using flat get(1) ent unfolding served_archive_def by blast
  have ne: "dir \<noteq> ''''" using ex by (cases rule: extractTarGz_Ok) (rule make_temp_key(1) [OF tar_prefix(1)])
  have nf_x: "faults x = (\<lambda>_. None)"
    using staysD [OF faults_download dl] staysD [OF faults_extract ex] nf by (simp add: same_def)
  have isdir: "is_dir x (pkey dir)"
    using store flat_no_dir [OF ne flat'] by (simp add: is_dir_def map_add_def)
  have u: "node_at u = node_at x" using staysD [OF disk_reads(2) gl] by (simp add: same_def disk_def)
  have "set (manifest_objects d r (fst (d_yamlDocs d (fst (te_Body e))))) \<subseteq> obs (svc w')"
    if e: "e \<in> set entries" "\<not> te_IsDir e" "match_yaml (te_Name e)" for e
  proof -
    have name: "plain (te_Name e)" using flat' e by (auto simp: flat_archive_def list_all_iff)
    have node: "node_at x (fst (pkey dir), snd (pkey dir) @ [te_Name e]) = Some (File (fst (te_Body e)))"
      using store flat_lookup [OF ne flat' e(1,2)] by (simp add: map_add_def)
    have "Join [Clean dir, te_Name e] \<in> set files"
      using Glob_yaml_lists [OF gl nf_x isdir _ e(3)] node by simp
    moreover have "pkey (Join [Clean dir, te_Name e]) = (fst (pkey dir), snd (pkey dir) @ [te_Name e])"
      using pkey_Join_plain [OF Clean_not_empty name] by simp
    ultimately show ?thesis using apply_all_store [OF law ap] node u svc by fastforce
  qed
  then show ?thesis unfolding has_crds_def using get ent by blast
qed

section \<open>A complete installation\<close>

text \<open>The objects of a chart, rendered with the fixed options and the given values, are in the cluster.\<close>

definition has_chart :: "'s Deps \<Rightarrow> 's Reconciler \<Rightarrow> string \<Rightarrow> json \<Rightarrow> objectId set \<Rightarrow> bool" where
  "has_chart d r name vals objects \<longleftrightarrow>
     (\<exists>s path s' chart s'' rendered s'''. d_LocateChart d kubewardenHelmChartURL '''' name s = (Inr path, s') \<and>
        d_loadChart d path s' = (Inr chart, s'') \<and> d_installRun d render_options chart vals s'' = (Inr rendered, s''') \<and>
        set (manifest_objects d r (fst (d_yamlDocs d rendered))) \<subseteq> objects)"

lemma has_mono:
  "has_crds d r ver xs \<Longrightarrow> xs \<subseteq> ys \<Longrightarrow> has_crds d r ver ys"
  "has_chart d r name vals xs \<Longrightarrow> xs \<subseteq> ys \<Longrightarrow> has_chart d r name vals ys"
  unfolding has_crds_def has_chart_def by (meson order_trans)+

lemma createKubewardenNamespace_store:
  assumes "create_law d rc obs" and "createKubewardenNamespace d rc w = (Ok (), w')"
  shows "ident (NamespaceObject kubewardenNamespace) \<in> obs (svc w')"
proof -
  obtain g v where g: "ext_call (rc_Create rc (NamespaceObject kubewardenNamespace)) w = (g, v)" by fastforce
  then show ?thesis
    using assms(2) create_law_run [OF assms(1), of "NamespaceObject kubewardenNamespace" w _ v]
    by (cases g) (auto simp: createKubewardenNamespace_def io_simps split: if_splits)
qed

text \<open>The version of the CRDs: the requested one, or the built-in default.\<close>

definition crds_version :: "KubewardenAddon \<Rightarrow> string" where
  "crds_version addon = (if kas_Version (ka_Spec addon) \<noteq> '''' then kas_Version (ka_Spec addon) else kubewardenVersion)"

lemma installSteps_Ok:
  assumes "installSteps d r addon cl w = (Ok (), w')"
  obtains rc v0 v1 v2 v3 v4 where "getRemoteClient r cl w = (Ok rc, v0)"
    and "createKubewardenNamespace d rc v0 = (Ok (), v1)"
    and "installKubewardenCRDs d r (crds_version addon) rc v1 = (Ok (), v2)"
    and "installKubewardenController d r rc addon v2 = (Ok (), v3)"
    and "installKubewardenDefaults d r rc addon v3 = (Ok (), v4)"
    and "applyControlPlaneTolerations rc v4 = (Ok (), w')"
  using assms unfolding installSteps_def crds_version_def [symmetric]
  by (elim io_bind_OkE) (auto simp: io_wrap_Ok_iff)

lemma grown:
  assumes "create_law d rc obs" and "tools_move (grows obs) d"
  shows "installKubewardenCRDs d r ver rc w = (g, w') \<Longrightarrow> obs (svc w) \<subseteq> obs (svc w')"
    and "installKubewardenController d r rc addon w = (g, w') \<Longrightarrow> obs (svc w) \<subseteq> obs (svc w')"
    and "installKubewardenDefaults d r rc addon w = (g, w') \<Longrightarrow> obs (svc w) \<subseteq> obs (svc w')"
    and "applyControlPlaneTolerations rc w = (g, w') \<Longrightarrow> obs (svc w) \<subseteq> obs (svc w')"
proof -
  note frames = growing.install_frames(2-4) [OF create_law_grows [OF assms(1)] assms(2)]
    growing.install_frames(5) [OF create_law_grows [OF assms(1)]]
  show "installKubewardenCRDs d r ver rc w = (g, w') \<Longrightarrow> obs (svc w) \<subseteq> obs (svc w')"
    using staysD [OF frames(1)] by (simp add: svc_rel_def grows_def)
  show "installKubewardenController d r rc addon w = (g, w') \<Longrightarrow> obs (svc w) \<subseteq> obs (svc w')"
    using staysD [OF frames(2)] by (simp add: svc_rel_def grows_def)
  show "installKubewardenDefaults d r rc addon w = (g, w') \<Longrightarrow> obs (svc w) \<subseteq> obs (svc w')"
    using staysD [OF frames(3)] by (simp add: svc_rel_def grows_def)
  show "applyControlPlaneTolerations rc w = (g, w') \<Longrightarrow> obs (svc w) \<subseteq> obs (svc w')"
    using staysD [OF frames(4)] by (simp add: svc_rel_def grows_def)
qed

lemma faults_first_steps:
  "stays (same faults) (getRemoteClient r cl)" "stays (same faults) (createKubewardenNamespace d rc)"
  unfolding getRemoteClient_def createKubewardenNamespace_def
  by (auto intro!: fault_intros same_view.stays_panic split: option.split)

end
