(* ===== verification/Addon_Properties.thy ===== *)
theory Addon_Properties
  imports Install_Complete
begin

text \<open>
  The properties of the addon reconciler, with the worlds in memory in which their witnesses run.
\<close>

section \<open>Worlds\<close>

lemma mem_annotations_frame [simp]:
  "memAnnotations (s\<lparr>m_policies := x\<rparr>) = memAnnotations s" "memAnnotations (s\<lparr>m_objects := y\<rparr>) = memAnnotations s"
  "memAnnotations (s\<lparr>m_patches := z\<rparr>) = memAnnotations s" "memAnnotations (s\<lparr>m_addonStatus := st\<rparr>) = memAnnotations s"
  by (simp_all add: memAnnotations_def fun_eq_iff)

lemma mem_addon_frame:
  assumes "\<And>s x. v (s\<lparr>m_policies := x\<rparr>) = v s" "\<And>s x. v (s\<lparr>m_objects := x\<rparr>) = v s" "\<And>s x. v (s\<lparr>m_patches := x\<rparr>) = v s"
  shows "addon_frame (same v) memDeps memReconciler"
proof -
  have "remote_moves (same v) (memClient c)" for c
    by (auto simp: remote_moves_def moves_def same_def memClient_def mem_Create_def assms split: clientObject.split option.split)
  moreover have "tools_move (same v) memDeps" by (simp add: tools_move_def moves_def same_def memDeps_def)
  ultimately show ?thesis
    unfolding addon_frame_def by (simp add: memReconciler_def memGetter_def same_def)
qed

lemma mem_addon_management: "addon_management memDeps memReconciler memAnnotations m_addonStatus"
  unfolding addon_management_def
proof (intro conjI allI)
  show "patch_law memReconciler memAnnotations" by (rule mem_patch_law)
  show "status_patch_law memReconciler m_addonStatus" by (rule mem_status_patch_law)
  show "addon_frame (same memAnnotations) memDeps memReconciler" by (rule mem_addon_frame) simp_all
  show "addon_frame (same m_addonStatus) memDeps memReconciler" by (rule mem_addon_frame) simp_all
qed (simp_all add: moves_def same_def memReconciler_def memMgmt_def mem_PatchCluster_def)

text \<open>One cluster to install on, and one on which the addon is installed, before another that still needs it.\<close>

definition oneClusterWorld :: "mem world" where
  "oneClusterWorld = memWorld (emptyMem\<lparr>m_clusters := [sampleCluster ''prod'']\<rparr>)"

definition mixedWorld :: "mem world" where
  "mixedWorld = memWorld (emptyMem\<lparr>m_clusters := [installedCluster ''prod'', sampleCluster ''dev'']\<rparr>)"

text \<open>A run of the loop on the first world, and the reconciliation it is part of.\<close>

abbreviation prodCluster :: Cluster where
  "prodCluster \<equiv> sampleCluster ''prod''"

abbreviation addonLoop :: "(Result \<times> go_error option) option outcome \<times> mem world" where
  "addonLoop \<equiv> install_loop memDeps memReconciler (patch_base sampleAddon [prodCluster]) [prodCluster] oneClusterWorld"

lemma addon_loop_run: "fst addonLoop = Ok None"
  by code_simp

lemma addon_loop_eq: "addonLoop = (Ok None, snd addonLoop)"
  using addon_loop_run by (simp add: prod_eq_iff)

text \<open>A loop that ran to its end has installed on every cluster.\<close>

lemma installs_of_loop:
  assumes "list_all (needs_install d) xs" and "install_loop d r addon xs w = (Ok None, u)"
  shows "io_foreach (installOnCluster d r addon) xs w = (Ok (), u)"
proof -
  have all: "takeWhile (needs_install d) xs = xs" using assms(1) by (simp add: list_all_iff)
  show ?thesis
    using assms(2) unfolding install_loop_prefix all by (auto simp: io_simps split: prod.splits outcome.splits)
qed

lemma one_list: "getAllCapiClusters memReconciler (om_Namespace (ka_Meta sampleAddon)) oneClusterWorld = (Ok [prodCluster], oneClusterWorld)"
  by (simp add: getAllCapiClusters_def oneClusterWorld_def mem_client_simps sample_defs ext_call_def io_simps)

lemma one_select: "selectClusters memDeps [prodCluster] (kas_ClusterSelector (ka_Spec sampleAddon)) = Inr [prodCluster]"
  by (simp add: selectClusters_def mem_client_simps sample_defs)

lemma addon_run:
  "\<exists>w'. addon_reconcileNormal memDeps memReconciler sampleAddon oneClusterWorld = (Ok (emptyResult, None), w') \<and>
     kast_Ready (m_addonStatus (svc w') (ObjectKeyFromObject (ka_Meta sampleAddon)))"
proof -
  have frame: "addon_frame (same m_addonStatus) memDeps memReconciler" by (rule mem_addon_frame) simp_all
  have "stays (svc_rel (same m_addonStatus)) (install_loop memDeps memReconciler a xs)" for a xs
    by (rule unchanged.loop_frame [OF frame]) (simp add: moves_def same_def memReconciler_def memMgmt_def mem_PatchCluster_def)
  show ?thesis
    unfolding addon_reconcileNormal_run(2) [OF one_list one_select addon_loop_eq]
    by (simp add: ext_call_def memReconciler_def memMgmt_def merge_status_def)
      (simp add: patch_base_def Addon_SetMatchingClusters_def sampleAddon_def)
qed

lemma mixed_list: "getAllCapiClusters memReconciler ''default'' mixedWorld =
    (Ok [installedCluster ''prod'', sampleCluster ''dev''], mixedWorld)"
  by (simp add: getAllCapiClusters_def mixedWorld_def mem_client_simps sample_defs ext_call_def io_simps)

lemma mixed_select: "selectClusters memDeps [installedCluster ''prod'', sampleCluster ''dev'']
    (kas_ClusterSelector (ka_Spec sampleAddon)) = Inr [installedCluster ''prod'', sampleCluster ''dev'']"
  by (simp add: selectClusters_def mem_client_simps sample_defs)

section \<open>Readiness\<close>

lemma addon_ready_marks:
  assumes "addon_management d r ann ast" and "addon_reconcileNormal d r addon w = (Ok (res, err), w')"
    and "\<not> kast_Ready (ast (svc w) (ObjectKeyFromObject (ka_Meta addon)))"
    and "kast_Ready (ast (svc w') (ObjectKeyFromObject (ka_Meta addon)))"
  shows "\<exists>cls v xs. getAllCapiClusters r (om_Namespace (ka_Meta addon)) w = (Ok cls, v) \<and>
    selectClusters d cls (kas_ClusterSelector (ka_Spec addon)) = Inr xs \<and> xs \<noteq> [] \<and>
    list_all (\<lambda>cl. ann (svc w') (cl_Key cl) KubewardenInstalledAnnotation = Some ''true'') xs"
proof -
  note laws = assms(1) [unfolded addon_management_def]
  note list = addon_frames(1) [OF assms(1)] and loop = addon_frames(2) [OF assms(1)]
  from assms(2) show ?thesis
  proof (cases rule: addon_reconcileNormal_cases)
    case (finished cls v xs u)
    have ast: "ast (svc u) = ast (svc w)" using loop [OF finished(3)] list [OF finished(1)] by simp
    obtain g s' where g: "mc_StatusPatchAddon (r_Client r) (patch_base addon xs) (patch_object addon xs) (svc u) = (g, s')"
      by fastforce
    then have w': "svc w' = s'" using finished(4) by (auto simp: ext_call_def split: sum.split)
    have "ann s' = ann (svc u)" using laws g by (auto simp: moves_def same_def) (metis snd_conv)
    moreover have "ann (svc u) = fold mark xs (ann (svc v))"
      using install_loop_marks [OF _ _ finished(3)] laws by blast
    ultimately have "list_all (\<lambda>cl. ann (svc w') (cl_Key cl) KubewardenInstalledAnnotation = Some ''true'') xs"
      using w' by (simp add: list_all_iff fold_mark)
    moreover have "xs \<noteq> []"
    proof
      assume "xs = []"
      then have "\<not> kast_Ready (ka_Status (patch_object addon xs))" by simp
      then show False
        using laws g w' ast assms(3,4) unfolding status_patch_law_def
        by (cases g) (fastforce simp: merge_status_def split: if_splits)+
    qed
    ultimately show ?thesis using finished(1,2) by blast
  qed (use assms(3,4) list loop in \<open>fastforce+\<close>)
qed

section \<open>Properties\<close>

text \<open>C2: a cluster is marked as installed exactly when all of its installation steps succeeded.  There are states \<open>ws\<close>,
  from the state before the loop on, such that on each of the first \<open>n\<close> clusters, which were ready and not yet
  marked, every installation step succeeded in the state the cluster before left, then the annotation of that
  cluster was accepted, and the next state is the one this left.  The loop marks these \<open>n\<close> clusters and changes no other annotation of any
  cluster.  When the loop runs to its end these are all clusters; when it returns early without an error, the next
  cluster is one that needs no installation now; when it returns an error, it is the error of an installation step or
  of the annotation of the next cluster, which is not marked.\<close>

theorem addon_marks_exactly_installed:
  assumes "addon_frame (same ann) d r" and "patch_law r ann" and "install_loop d r addon cls w = (Ok ret, w')"
  shows "\<exists>n ws. length ws = Suc n \<and> ws ! 0 = w \<and> list_all (needs_install d) (take n cls) \<and>
    (\<forall>i<n. \<exists>v. installSteps d r addon (cls ! i) (ws ! i) = (Ok (), v) \<and>
       annotateCluster r (cls ! i) v = (Ok (), ws ! Suc i)) \<and>
    ann (svc w') = fold mark (take n cls) (ann (svc w)) \<and>
    (case ret of
       None \<Rightarrow> n = length cls \<and> w' = ws ! n
     | Some (_, None) \<Rightarrow> n < length cls \<and> \<not> needs_install d (cls ! n) \<and> w' = ws ! n
     | Some (_, Some e) \<Rightarrow> n < length cls \<and> needs_install d (cls ! n) \<and>
         (installSteps d r addon (cls ! n) (ws ! n) = (Err e, w') \<or>
          (\<exists>v. installSteps d r addon (cls ! n) (ws ! n) = (Ok (), v) \<and>
            annotateCluster r (cls ! n) v = (Err e, w'))))"
  using install_loop_trace [OF assms] unfolding installOnCluster_Ok_iff installOnCluster_Err_iff .

theorem addon_marks_exactly_installed_witness:
  "memAnnotations (svc (snd addonLoop)) = mark prodCluster (memAnnotations (svc oneClusterWorld)) \<and>
   (\<exists>v. installSteps memDeps memReconciler (patch_base sampleAddon [prodCluster]) prodCluster oneClusterWorld = (Ok (), v))"
proof -
  have frame: "addon_frame (same memAnnotations) memDeps memReconciler" by (rule mem_addon_frame) simp_all
  from addon_marks_exactly_installed [OF frame mem_patch_law addon_loop_eq] show ?thesis by auto
qed

text \<open>C3: \<open>Ready\<close> of an addon is truthful when it is set: a reconciliation that turns the stored \<open>Ready\<close> on has selected at
  least one cluster, and at its end every selected cluster carries the installation annotation.\<close>

theorem addon_ready_means_marked:
  assumes "addon_management d r ann ast" and "addon_reconcileNormal d r addon w = (Ok (res, err), w')"
    and "\<not> kast_Ready (ast (svc w) (ObjectKeyFromObject (ka_Meta addon)))"
    and "kast_Ready (ast (svc w') (ObjectKeyFromObject (ka_Meta addon)))"
  shows "\<exists>cls v xs. getAllCapiClusters r (om_Namespace (ka_Meta addon)) w = (Ok cls, v) \<and>
    selectClusters d cls (kas_ClusterSelector (ka_Spec addon)) = Inr xs \<and> xs \<noteq> [] \<and>
    list_all (\<lambda>cl. ann (svc w') (cl_Key cl) KubewardenInstalledAnnotation = Some ''true'') xs"
  by (rule addon_ready_marks [OF assms])

theorem addon_ready_means_marked_witness:
  "\<exists>w'. addon_reconcileNormal memDeps memReconciler sampleAddon oneClusterWorld = (Ok (emptyResult, None), w') \<and>
     memAnnotations (svc w') (cl_Key prodCluster) KubewardenInstalledAnnotation = Some ''true''"
proof -
  obtain w' where w': "addon_reconcileNormal memDeps memReconciler sampleAddon oneClusterWorld = (Ok (emptyResult, None), w')"
    "kast_Ready (m_addonStatus (svc w') (ObjectKeyFromObject (ka_Meta sampleAddon)))" using addon_run by blast
  have "\<not> kast_Ready (m_addonStatus (svc oneClusterWorld) (ObjectKeyFromObject (ka_Meta sampleAddon)))"
    by (simp add: oneClusterWorld_def memWorld_def emptyMem_def)
  from addon_ready_means_marked [OF mem_addon_management w'(1) this w'(2)]
  show ?thesis using w'(1) one_list one_select by auto
qed

text \<open>C11: an addon becomes ready.  When every selected cluster still needs the installation, the installation succeeds on
  each of them in order and the API server accepts the status patch of an addon that was read up to date, then the
  reconciliation ends without error and without a requeue, exactly the selected clusters have been marked, and the
  stored status is ready if there is at least one of them.\<close>

theorem addon_becomes_ready:
  assumes "addon_management d r ann ast"
    and "getAllCapiClusters r (om_Namespace (ka_Meta addon)) w = (Ok cls, v)"
    and "selectClusters d cls (kas_ClusterSelector (ka_Spec addon)) = Inr xs" and "list_all (needs_install d) xs"
    and "io_foreach (installOnCluster d r (patch_base addon xs)) xs v = (Ok (), u)"
    and "\<forall>b x s. fst (mc_StatusPatchAddon (r_Client r) b x s) = Inr ()"
    and "kast_Ready (ast (svc w) (ObjectKeyFromObject (ka_Meta addon))) = kast_Ready (ka_Status addon)"
  shows "\<exists>w'. addon_reconcileNormal d r addon w = (Ok (emptyResult, None), w') \<and>
    ann (svc w') = fold mark xs (ann (svc w)) \<and>
    (kast_Ready (ast (svc w') (ObjectKeyFromObject (ka_Meta addon))) \<longleftrightarrow> xs \<noteq> [])"
proof -
  note laws = assms(1) [unfolded addon_management_def]
  have all: "takeWhile (needs_install d) xs = xs" "dropWhile (needs_install d) xs = []"
    using assms(4) by (simp_all add: list_all_iff)
  have loop: "install_loop d r (patch_base addon xs) xs v = (Ok None, u)"
    using assms(5) by (simp add: install_loop_prefix all loop_end_def io_simps)
  obtain s where s: "mc_StatusPatchAddon (r_Client r) (patch_base addon xs) (patch_object addon xs) (svc u) = (Inr (), s)"
    using assms(6) by (metis (full_types) prod.collapse)
  have "ann s = ann (svc u)" using laws s by (auto simp: moves_def same_def) (metis snd_conv)
  moreover have "ann (svc u) = fold mark xs (ann (svc v))" using install_loop_marks [OF _ _ loop] laws by blast
  ultimately have ann: "ann s = fold mark xs (ann (svc w))" using addon_frames(1) [OF assms(1,2)] by simp
  have "ast (svc u) = ast (svc w)" using addon_frames [OF assms(1)] assms(2) loop by metis
  moreover have "ast s = (ast (svc u))(ObjectKeyFromObject (ka_Meta addon) := merge_status (ka_Status (patch_base addon xs))
      (ka_Status (patch_object addon xs)) (ast (svc u) (ObjectKeyFromObject (ka_Meta addon))))"
    using laws s unfolding status_patch_law_def by fastforce
  ultimately have "kast_Ready (ast s (ObjectKeyFromObject (ka_Meta addon))) \<longleftrightarrow> xs \<noteq> []"
    using assms(7) by (auto simp: merge_status_def) (simp_all add: patch_base_def Addon_SetMatchingClusters_def)
  then show ?thesis
    using addon_reconcileNormal_run(2) [OF assms(2,3) loop] ann s by (simp add: ext_call_def)
qed

theorem addon_becomes_ready_witness:
  "\<exists>w'. addon_reconcileNormal memDeps memReconciler sampleAddon oneClusterWorld = (Ok (emptyResult, None), w') \<and>
     memAnnotations (svc w') = mark prodCluster (memAnnotations (svc oneClusterWorld)) \<and>
     kast_Ready (m_addonStatus (svc w') (ObjectKeyFromObject (ka_Meta sampleAddon)))"
proof -
  have needs: "list_all (needs_install memDeps) [prodCluster]"
    by (simp add: needs_install_def awaiting_def sample_defs HasAnnotation_def)
  have installs: "io_foreach (installOnCluster memDeps memReconciler (patch_base sampleAddon [prodCluster])) [prodCluster]
      oneClusterWorld = (Ok (), snd addonLoop)"
    by (rule installs_of_loop [OF needs addon_loop_eq])
  have accepts: "\<forall>b x s. fst (mc_StatusPatchAddon (r_Client memReconciler) b x s) = Inr ()"
    by (simp add: memReconciler_def memMgmt_def)
  have "kast_Ready (m_addonStatus (svc oneClusterWorld) (ObjectKeyFromObject (ka_Meta sampleAddon))) =
      kast_Ready (ka_Status sampleAddon)"
    by (simp add: oneClusterWorld_def memWorld_def emptyMem_def sampleAddon_def)
  from addon_becomes_ready [OF mem_addon_management one_list one_select needs installs accepts this] show ?thesis by simp
qed

text \<open>What the installation loop does, without any assumption: it runs the installation, in order and stopping at the
  first error, on the clusters before the first one that is not ready or already marked, and then decides on that one
  alone: requeue when it is not ready, end the reconciliation when it is marked.  Clusters after it are never
  looked at.\<close>

theorem addon_loop_stops_at_first_settled:
  "install_loop d r addon cls =
     io_try (io_foreach (installOnCluster d r addon) (takeWhile (needs_install d) cls))
       (\<lambda>err. io_return (Some (emptyResult, Some err)))
       (\<lambda>_. io_return (loop_end d (dropWhile (needs_install d) cls)))"
  by (rule install_loop_prefix)

text \<open>C25: an addon whose first selected cluster is ready and marked is never reconciled any further: the
  reconciliation ends without error and without a requeue, it makes no call after listing the clusters (so no other cluster gets
  an installation), and the status is not written.\<close>

theorem addon_stuck_behind_installed_cluster:
  assumes "getAllCapiClusters r (om_Namespace (ka_Meta addon)) w = (Ok cls, v)"
    and "selectClusters d cls (kas_ClusterSelector (ka_Spec addon)) = Inr (cl # rest)"
    and "\<not> awaiting d cl" and "HasAnnotation (cl_Meta cl) KubewardenInstalledAnnotation"
  shows "addon_reconcileNormal d r addon w = (Ok (emptyResult, None), v)"
  by (rule addon_reconcileNormal_run(1) [OF assms(1,2)]) (use assms(3,4) in \<open>auto simp: awaiting_def io_return_def\<close>)

theorem addon_stuck_behind_installed_cluster_witness:
  "addon_reconcileNormal memDeps memReconciler sampleAddon mixedWorld = (Ok (emptyResult, None), mixedWorld) \<and>
   needs_install memDeps (sampleCluster ''dev'') \<and> sampleCluster ''dev'' \<in> set (m_clusters (svc mixedWorld))"
proof -
  have list: "getAllCapiClusters memReconciler (om_Namespace (ka_Meta sampleAddon)) mixedWorld =
      (Ok [installedCluster ''prod'', sampleCluster ''dev''], mixedWorld)"
    using mixed_list by (simp add: sample_defs)
  have "\<not> awaiting memDeps (installedCluster ''prod'')"
    and "HasAnnotation (cl_Meta (installedCluster ''prod'')) KubewardenInstalledAnnotation"
    by (simp_all add: awaiting_def sample_defs HasAnnotation_def KubewardenInstalledAnnotation_def)
  from addon_stuck_behind_installed_cluster [OF list mixed_select this]
  show ?thesis
    by (simp add: needs_install_def awaiting_def sample_defs HasAnnotation_def mixedWorld_def memWorld_def)
qed

text \<open>C26: the list of matching clusters is computed but never stored: no reconciliation of an addon changes the
  matching clusters of any stored addon status, because the base of the status patch already contains the new list.  Nor does it
  ever write a condition.\<close>

theorem addon_matching_clusters_never_stored:
  assumes "addon_management d r ann ast" and "addon_reconcileNormal d r addon w = (Ok (res, err), w')"
  shows "kast_MatchingClusters (ast (svc w') n) = kast_MatchingClusters (ast (svc w) n) \<and>
    kast_Conditions (ast (svc w') n) = kast_Conditions (ast (svc w) n)"
proof -
  note laws = assms(1) [unfolded addon_management_def]
  note list = addon_frames(1) [OF assms(1)] and loop = addon_frames(2) [OF assms(1)]
  from assms(2) show ?thesis
  proof (cases rule: addon_reconcileNormal_cases)
    case (finished cls v xs u)
    obtain g s' where g: "mc_StatusPatchAddon (r_Client r) (patch_base addon xs) (patch_object addon xs) (svc u) = (g, s')"
      by fastforce
    then have "svc w' = s'" using finished(4) by (auto simp: ext_call_def split: sum.split)
    moreover have "kast_MatchingClusters (ast s' n) = kast_MatchingClusters (ast (svc u) n) \<and>
        kast_Conditions (ast s' n) = kast_Conditions (ast (svc u) n)"
      using laws g unfolding status_patch_law_def by (cases g) (fastforce simp: merge_status_def)+
    ultimately show ?thesis using loop [OF finished(3)] list [OF finished(1)] by simp
  qed (use list loop in \<open>simp_all\<close>)
qed

theorem addon_matching_clusters_never_stored_witness:
  "\<exists>w'. addon_reconcileNormal memDeps memReconciler sampleAddon oneClusterWorld = (Ok (emptyResult, None), w') \<and>
     kast_MatchingClusters (m_addonStatus (svc w') (ObjectKeyFromObject (ka_Meta sampleAddon))) = []"
proof -
  obtain w' where w': "addon_reconcileNormal memDeps memReconciler sampleAddon oneClusterWorld = (Ok (emptyResult, None), w')"
    using addon_run by blast
  have "kast_MatchingClusters (m_addonStatus (svc oneClusterWorld) (ObjectKeyFromObject (ka_Meta sampleAddon))) = []"
    by (simp add: oneClusterWorld_def memWorld_def emptyMem_def)
  then show ?thesis using w' addon_matching_clusters_never_stored [OF mem_addon_management w'] by auto
qed

text \<open>C30: the dispatch of the addon's \<open>Reconcile\<close>, and that it always returns.  With a client getter set it never panics (in
  particular the annotation of a cluster without annotations does not write to a nil map); an addon that cannot be
  read is always requeued, even when it no longer exists, an addon being deleted is left alone, and every other one is
  reconciled.  On disk, every node still lies in a directory afterwards.\<close>

theorem addon_reconcile_dispatch:
  assumes "r_RemoteClientGetter r = Some get"
  shows "\<exists>res err w'. addon_Reconcile d r req w = (Ok (res, err), w') \<and> (tree_ok w \<longrightarrow> tree_ok w') \<and>
    (case mc_GetAddon (r_Client r) req (svc w) of
       (Inl e, s) \<Rightarrow> w' = w\<lparr>svc := s\<rparr> \<and> Requeue res \<and> err = (if d_IsNotFound d e then None else Some e)
     | (Inr a, s) \<Rightarrow> (if om_DeletionTimestamp (ka_Meta a) = None
          then addon_reconcileNormal d r a (w\<lparr>svc := s\<rparr>) = (Ok (res, err), w')
          else w' = w\<lparr>svc := s\<rparr> \<and> res = emptyResult \<and> err = None))"
proof -
  have normal: "\<exists>res err w'. addon_reconcileNormal d r a v = (Ok (res, err), w')" for a v
    using safeD [OF addon_reconcileNormal_safe [OF assms], of d a v] addon_reconcileNormal_no_Err [of d r a v]
    by (cases "addon_reconcileNormal d r a v"; cases "fst (addon_reconcileNormal d r a v)") auto
  obtain g s where g: "mc_GetAddon (r_Client r) req (svc w) = (g, s)" by fastforce
  have "\<exists>res err w'. addon_Reconcile d r req w = (Ok (res, err), w') \<and>
    (case mc_GetAddon (r_Client r) req (svc w) of
       (Inl e, s) \<Rightarrow> w' = w\<lparr>svc := s\<rparr> \<and> Requeue res \<and> err = (if d_IsNotFound d e then None else Some e)
     | (Inr a, s) \<Rightarrow> (if om_DeletionTimestamp (ka_Meta a) = None
          then addon_reconcileNormal d r a (w\<lparr>svc := s\<rparr>) = (Ok (res, err), w')
          else w' = w\<lparr>svc := s\<rparr> \<and> res = emptyResult \<and> err = None))"
    using g normal by (cases g) (auto simp: addon_Reconcile_def io_simps ext_call_def)
  moreover have "tree_ok w \<longrightarrow> tree_ok w'" if "addon_Reconcile d r req w = (x, w')" for x w'
    using staysD [OF tree_addon_Reconcile that] by (simp add: tree_step_def)
  ultimately show ?thesis by (elim exE conjE) (intro exI conjI; assumption)
qed

theorem addon_reconcile_dispatch_witness:
  "\<exists>res w'. addon_Reconcile memDeps memReconciler \<lparr>nn_Namespace = ''default'', nn_Name = ''absent''\<rparr> (memWorld emptyMem) =
     (Ok (res, None), w') \<and> Requeue res"
proof -
  have g: "r_RemoteClientGetter memReconciler = Some memGetter" by (simp add: memReconciler_def)
  have "mc_GetAddon (r_Client memReconciler) \<lparr>nn_Namespace = ''default'', nn_Name = ''absent''\<rparr>
      (svc (memWorld emptyMem)) = (Inl notFound, emptyMem)"
    by (simp add: memReconciler_def memMgmt_def memWorld_def emptyMem_def)
  moreover have "d_IsNotFound memDeps notFound" by (simp add: memDeps_def)
  ultimately show ?thesis
    using addon_reconcile_dispatch [OF g, of memDeps "\<lparr>nn_Namespace = ''default'', nn_Name = ''absent''\<rparr>" "memWorld emptyMem"]
    by auto
qed

text \<open>C31: the two reconcilers agree on selection.  An addon and a policy in one namespace with the same cluster selector
  select the same clusters in the same order, although the addon lists the namespace and filters in the
  process and the policy lets the API server filter.\<close>

theorem addon_and_policy_select_alike:
  assumes "cluster_list r cls" and "cls (svc w) = cls (svc u)"
    and "om_Namespace (ka_Meta addon) = om_Namespace (kp_Meta p)"
    and "kas_ClusterSelector (ka_Spec addon) = kps_ClusterSelector (kp_Spec p)"
    and "getAllCapiClusters r (om_Namespace (ka_Meta addon)) w = (Ok listed, w')"
    and "selectClusters d listed (kas_ClusterSelector (ka_Spec addon)) = Inr xs"
    and "getMatchingClusters d r p u = (Ok ys, u')"
  shows "xs = ys"
  using getAllCapiClusters_Ok [OF assms(1,5)] selectClusters_Ok [OF assms(6)] getMatchingClusters_Ok [OF assms(1,7)]
    assms(2-4) by (auto simp: conj_commute intro!: filter_cong)

theorem addon_and_policy_select_alike_witness:
  "\<exists>xs. selectClusters memDeps [prodCluster] (kas_ClusterSelector (ka_Spec sampleAddon)) = Inr xs \<and>
     (\<exists>v. getMatchingClusters memDeps memReconciler samplePolicy oneClusterWorld = (Ok xs, v))"
proof -
  obtain ys v where ys: "getMatchingClusters memDeps memReconciler samplePolicy oneClusterWorld = (Ok ys, v)"
    by (simp add: policy_run_simps mem_client_simps sample_defs oneClusterWorld_def)
  have "om_Namespace (ka_Meta sampleAddon) = om_Namespace (kp_Meta samplePolicy)"
    "kas_ClusterSelector (ka_Spec sampleAddon) = kps_ClusterSelector (kp_Spec samplePolicy)"
    by (simp_all add: sample_defs)
  from addon_and_policy_select_alike [OF mem_cluster_list refl this one_list one_select ys]
  show ?thesis using ys one_select by blast
qed

text \<open>A cluster event enqueues every listed addon, one request per entry and in the order of the list, whatever the cluster; an
  object that is not a cluster and a failed list enqueue nothing.\<close>

theorem addon_watch_enqueues_all:
  "clusterToKubewardenAddon r (Some cl) w =
     (case mc_ListAddons (r_Client r) (svc w) of
        (Inr addons, s) \<Rightarrow> (Ok (map (\<lambda>a. ObjectKeyFromObject (ka_Meta a)) addons), w\<lparr>svc := s\<rparr>)
      | (Inl e, s) \<Rightarrow> (Ok [], w\<lparr>svc := s\<rparr>)) \<and>
   clusterToKubewardenAddon r None w = (Ok [], w)"
  by (auto simp: clusterToKubewardenAddon_def io_simps ext_call_def ObjectKeyFromObject_def split: prod.split sum.split)

text \<open>C10: what a successful installation leaves in the workload cluster, on a machine where no system call fails and when
  the archive of the requested release (of the built-in version when none is requested) has its files at its top
  level: the namespace of Kubewarden, the objects of every YAML manifest of that archive, and the objects of both rendered
  charts.  The objects of a manifest are those of its documents before the first one without a kind.\<close>

theorem installation_is_complete:
  assumes "installSteps d r addon cl w = (Ok (), w')" and "getRemoteClient r cl w = (Ok rc, v)"
    and "create_law d rc obs" and "tools_move (grows obs) d" and "faults w = (\<lambda>_. None)"
    and "served_archive flat_archive d
      (crdsURL (if kas_Version (ka_Spec addon) = '''' then kubewardenVersion else kas_Version (ka_Spec addon)))"
  shows "ident (NamespaceObject kubewardenNamespace) \<in> obs (svc w') \<and>
    has_crds d r (if kas_Version (ka_Spec addon) = '''' then kubewardenVersion else kas_Version (ka_Spec addon)) (obs (svc w')) \<and>
    has_chart d r ''kubewarden-controller'' controllerValues (obs (svc w')) \<and>
    has_chart d r ''kubewarden-defaults'' defaultsValues (obs (svc w'))"
  using assms(1)
proof (cases rule: installSteps_Ok)
  case (1 rc' v0 v1 v2 v3 v4)
  then have rc: "rc' = rc" using assms(2) by simp
  note steps = 1(2-6) [unfolded rc]
  have "faults v1 = (\<lambda>_. None)"
    using staysD [OF faults_first_steps(1) 1(1)] staysD [OF faults_first_steps(2) steps(1)] assms(5) by (simp add: same_def)
  moreover have ver: "crds_version addon =
      (if kas_Version (ka_Spec addon) = '''' then kubewardenVersion else kas_Version (ka_Spec addon))"
    by (simp add: crds_version_def)
  ultimately have crds: "has_crds d r (crds_version addon) (obs (svc v2))"
    using installCRDs_store [OF assms(3) _ _ steps(2)] assms(6) by presburger
  note ns = createKubewardenNamespace_store [OF assms(3) steps(1)]
  have con: "has_chart d r ''kubewarden-controller'' controllerValues (obs (svc v3))"
    using controller_chart.install_Ok [OF assms(3) steps(3)] unfolding has_chart_def by blast
  have def: "has_chart d r ''kubewarden-defaults'' defaultsValues (obs (svc v4))"
    using defaults_chart.install_Ok [OF assms(3) steps(4)] unfolding has_chart_def by blast
  note g = grown(1) [OF assms(3,4) steps(2)] grown(2) [OF assms(3,4) steps(3)] grown(3) [OF assms(3,4) steps(4)]
    grown(4) [OF assms(3,4) steps(5)]
  have le: "obs (svc v1) \<subseteq> obs (svc w')" "obs (svc v2) \<subseteq> obs (svc w')" "obs (svc v3) \<subseteq> obs (svc w')"
    using g by blast+
  show ?thesis
    using ver ns has_mono(1) [OF crds le(2)] has_mono(2) [OF con le(3)] has_mono(2) [OF def g(4)] le(1) by auto
qed

lemma addon_steps_run:
  "\<exists>v. installSteps memDeps memReconciler (patch_base sampleAddon [prodCluster]) prodCluster oneClusterWorld = (Ok (), v)"
proof -
  obtain g v where g: "installSteps memDeps memReconciler (patch_base sampleAddon [prodCluster]) prodCluster oneClusterWorld = (g, v)"
    by fastforce
  have needs: "cl_ControlPlaneReady prodCluster" "\<not> HasAnnotation (cl_Meta prodCluster) KubewardenInstalledAnnotation"
    by (simp_all add: sample_defs HasAnnotation_def)
  have "\<exists>u. g = Ok u"
    using addon_loop_run g needs by (cases g) (auto simp: installOnCluster_def io_simps)
  then show ?thesis using g by auto
qed

theorem installation_is_complete_witness:
  "\<exists>w'. installSteps memDeps memReconciler (patch_base sampleAddon [prodCluster]) prodCluster oneClusterWorld = (Ok (), w') \<and>
     (''Namespace'', \<lparr>nn_Namespace = '''', nn_Name = ''kubewarden''\<rparr>) \<in> memObjects (cl_Key prodCluster) (svc w')"
proof -
  obtain w' where run: "installSteps memDeps memReconciler (patch_base sampleAddon [prodCluster]) prodCluster oneClusterWorld = (Ok (), w')"
    using addon_steps_run by blast
  have rc: "getRemoteClient memReconciler prodCluster oneClusterWorld = (Ok (memClient (cl_Key prodCluster)), oneClusterWorld)"
    by (simp add: getRemoteClient_def memReconciler_def memGetter_def ext_call_def)
  have "tools_move (grows (memObjects (cl_Key prodCluster))) memDeps"
    by (simp add: tools_move_def moves_def grows_def memDeps_def)
  moreover have "served_archive flat_archive memDeps url" for url
    by (simp add: served_archive_def flat_archive_def memDeps_def plain_def)
  moreover have "faults oneClusterWorld = (\<lambda>_. None)" by (simp add: oneClusterWorld_def memWorld_def)
  ultimately show ?thesis
    using installation_is_complete [OF run rc mem_create_law] run by (simp add: kubewardenNamespace_def)
qed

end
