(* ===== verification/Manager_Proofs.thy ===== *)
theory Manager_Proofs
  imports Manager Addon_Properties
begin

text \<open>
  Correctness of the start-up: the command line, the TLS options, the order of registration and start, and that the
  reconcilers the manager runs cannot panic.
\<close>

section \<open>The command line\<close>

definition showBool :: "bool \<Rightarrow> string" where
  "showBool b = (if b then ''true'' else ''false'')"

text \<open>The arguments that set every flag of the program.\<close>

definition flag_args :: "Flags \<Rightarrow> string list" where
  "flag_args f =
     [''--metrics-bind-address='' @ metricsAddr f, ''--health-probe-bind-address='' @ probeAddr f,
      ''--leader-elect='' @ showBool (enableLeaderElection f), ''--metrics-secure='' @ showBool (secureMetrics f),
      ''--enable-http2='' @ showBool (enableHTTP2 f)]"

lemma parseBool_show [simp]: "parseBool (showBool b) = Some b"
  by (simp add: parseBool_def showBool_def)

lemma splitFlag_eq: "CHR ''='' \<notin> set name \<Longrightarrow> splitFlag (name @ CHR ''='' # v) = (name, Some v)"
proof -
  assume "CHR ''='' \<notin> set name"
  then have "takeWhile (\<lambda>c. c \<noteq> CHR ''='') (name @ CHR ''='' # v) = name" by (induction name) auto
  then show ?thesis by (simp add: splitFlag_def)
qed

declare parseFlags.simps(2) [simp del]

lemma parseFlags_assign:
  assumes "name \<noteq> ''''" and "hd name \<noteq> CHR ''-''" and "CHR ''='' \<notin> set name"
    and "flagKind foreign name = Some k" and "setFlag foreign name v f = Some f'"
  shows "parseFlags foreign f ((''--'' @ name @ CHR ''='' # v) # args) = parseFlags foreign f' args"
proof -
  have "hd name \<noteq> CHR ''=''" using assms(1,3) by (cases name) auto
  then show ?thesis
    using assms splitFlag_eq [OF assms(3), of v]
    by (subst parseFlags.simps) (cases k; simp add: Let_def)
qed

section \<open>Registration\<close>

text \<open>What the runtime has registered: an effect and a kind or name.\<close>

datatype effect = Controller | ClusterWatch | Webhook | Healthz | Readyz

text \<open>
  Documented behaviour of the runtime: each successful call registers what it says, and no call unregisters
  anything.
\<close>

definition runtime_law :: "'s Runtime \<Rightarrow> ('s \<Rightarrow> (effect \<times> string) set) \<Rightarrow> bool" where
  "runtime_law rt reg \<longleftrightarrow>
     (\<forall>k r s u s'. rt_BuildController rt k r s = (Inr u, s') \<longrightarrow> insert (Controller, k) (reg s) \<subseteq> reg s') \<and>
     (\<forall>k h s u s'. rt_WatchClusters rt k h s = (Inr u, s') \<longrightarrow> insert (ClusterWatch, k) (reg s) \<subseteq> reg s') \<and>
     (\<forall>k s u s'. rt_CompleteWebhook rt k s = (Inr u, s') \<longrightarrow> insert (Webhook, k) (reg s) \<subseteq> reg s') \<and>
     (\<forall>k s u s'. rt_AddHealthzCheck rt k s = (Inr u, s') \<longrightarrow> insert (Healthz, k) (reg s) \<subseteq> reg s') \<and>
     (\<forall>k s u s'. rt_AddReadyzCheck rt k s = (Inr u, s') \<longrightarrow> insert (Readyz, k) (reg s) \<subseteq> reg s')"

lemma runtime_law_run:
  assumes "runtime_law rt reg"
  shows "ext_call (rt_BuildController rt k r) w = (Ok u, w') \<Longrightarrow> insert (Controller, k) (reg (svc w)) \<subseteq> reg (svc w')"
    and "ext_call (rt_WatchClusters rt k h) w = (Ok u, w') \<Longrightarrow> insert (ClusterWatch, k) (reg (svc w)) \<subseteq> reg (svc w')"
    and "ext_call (rt_CompleteWebhook rt k) w = (Ok u, w') \<Longrightarrow> insert (Webhook, k) (reg (svc w)) \<subseteq> reg (svc w')"
    and "ext_call (rt_AddHealthzCheck rt k) w = (Ok u, w') \<Longrightarrow> insert (Healthz, k) (reg (svc w)) \<subseteq> reg (svc w')"
    and "ext_call (rt_AddReadyzCheck rt k) w = (Ok u, w') \<Longrightarrow> insert (Readyz, k) (reg (svc w)) \<subseteq> reg (svc w')"
  using assms unfolding runtime_law_def by (fastforce simp: ext_call_Ok)+

lemma setups_Ok:
  assumes "runtime_law rt reg"
  shows "addon_SetupWithManager d rt r w = (Ok r', w') \<Longrightarrow>
      {(Controller, ''KubewardenAddon''), (ClusterWatch, ''KubewardenAddon'')} \<union> reg (svc w) \<subseteq> reg (svc w')"
    and "policy_SetupWithManager d rt r w = (Ok r', w') \<Longrightarrow>
      {(Controller, ''KubewardenPolicy''), (ClusterWatch, ''KubewardenPolicy'')} \<union> reg (svc w) \<subseteq> reg (svc w')"
  unfolding addon_SetupWithManager_def policy_SetupWithManager_def Let_def
  by (elim io_bind_OkE; simp add: io_wrap_Ok_iff io_return_def;
      drule runtime_law_run(1) [OF assms]; drule runtime_law_run(2) [OF assms]; blast)+

text \<open>The steps of \<open>startManager\<close> before the manager starts.\<close>

definition preparation :: "'s Deps \<Rightarrow> 's Runtime \<Rightarrow> Scheme \<Rightarrow> Flags \<Rightarrow> ('s world, unit) io" where
  "preparation d rt sch f =
     io_bind (ext_call (rt_GetConfig rt)) (\<lambda>_.
     io_bind (ext_call (rt_NewManager rt (managerOptions sch f))) (\<lambda>cl.
     io_bind (addon_SetupWithManager d rt (newReconciler sch cl)) (\<lambda>_.
     io_bind (policy_SetupWithManager d rt (newReconciler sch cl)) (\<lambda>_.
     io_bind (Addon_SetupWebhookWithManager rt) (\<lambda>_.
     io_bind (Policy_SetupWebhookWithManager rt) (\<lambda>_.
     io_bind (ext_call (rt_AddHealthzCheck rt ''healthz'')) (\<lambda>_.
     ext_call (rt_AddReadyzCheck rt ''readyz''))))))))"

definition everything :: "(effect \<times> string) set" where
  "everything =
     {(Controller, ''KubewardenAddon''), (ClusterWatch, ''KubewardenAddon''), (Webhook, ''KubewardenAddon''),
      (Controller, ''KubewardenPolicy''), (ClusterWatch, ''KubewardenPolicy''), (Webhook, ''KubewardenPolicy''),
      (Healthz, ''healthz''), (Readyz, ''readyz'')}"

lemma startManager_split: "startManager d rt sch f = io_bind (preparation d rt sch f) (\<lambda>_. ext_call (rt_Start rt))"
  by (simp add: startManager_def preparation_def io_bind_assoc)

lemma preparation_Start: "preparation d (rt\<lparr>rt_Start := g\<rparr>) sch f = preparation d rt sch f"
  by (simp add: preparation_def addon_SetupWithManager_def policy_SetupWithManager_def
      Addon_SetupWebhookWithManager_def Policy_SetupWebhookWithManager_def)

lemma preparation_safe: "safe (preparation d rt sch f)"
  unfolding preparation_def addon_SetupWithManager_def policy_SetupWithManager_def
    Addon_SetupWebhookWithManager_def Policy_SetupWebhookWithManager_def Let_def
  by (intro safe_intros)

lemma preparation_Ok:
  assumes "runtime_law rt reg" and "preparation d rt sch f w = (Ok u, w')"
  shows "everything \<subseteq> reg (svc w')"
proof -
  note law = assms(1)
  obtain cl w1 w2 w3 w4 w5 w6 r1 r2 u3 u4 u5 u6 where
    1: "addon_SetupWithManager d rt (newReconciler sch cl) w1 = (Ok r1, w2)" and
    2: "policy_SetupWithManager d rt (newReconciler sch cl) w2 = (Ok r2, w3)" and
    3: "ext_call (rt_CompleteWebhook rt ''KubewardenAddon'') w3 = (Ok u3, w4)" and
    4: "ext_call (rt_CompleteWebhook rt ''KubewardenPolicy'') w4 = (Ok u4, w5)" and
    5: "ext_call (rt_AddHealthzCheck rt ''healthz'') w5 = (Ok u5, w6)" and
    6: "ext_call (rt_AddReadyzCheck rt ''readyz'') w6 = (Ok u6, w')"
    using assms(2) unfolding preparation_def Addon_SetupWebhookWithManager_def Policy_SetupWebhookWithManager_def
    by (elim io_bind_OkE) (rule that; assumption)
  note steps = setups_Ok(1) [OF law 1] setups_Ok(2) [OF law 2] runtime_law_run(3) [OF law 3] runtime_law_run(3) [OF law 4]
    runtime_law_run(4) [OF law 5] runtime_law_run(5) [OF law 6]
  have up: "reg (svc w6) \<subseteq> reg (svc w')" "reg (svc w5) \<subseteq> reg (svc w')" "reg (svc w4) \<subseteq> reg (svc w')"
    "reg (svc w3) \<subseteq> reg (svc w')" "reg (svc w2) \<subseteq> reg (svc w')"
    using steps by (simp_all only: insert_subset Un_insert_left Un_empty_left) (meson subset_trans)+
  show ?thesis
    unfolding everything_def insert_subset
    using steps up by (intro conjI empty_subsetI; simp only: insert_subset Un_insert_left; meson subsetD)
qed

section \<open>Flags that are not given\<close>

lemma setFlag_http2: "setFlag foreign name v f = Some f' \<Longrightarrow> name \<noteq> ''enable-http2'' \<Longrightarrow> enableHTTP2 f' = enableHTTP2 f"
  by (auto simp: setFlag_def split: if_splits option.splits)

text \<open>No argument starts with the name of the flag, after one dash or two.\<close>

definition no_http2_flag :: "string \<Rightarrow> bool" where
  "no_http2_flag a \<longleftrightarrow> \<not> prefix ''-enable-http2'' a \<and> \<not> prefix ''--enable-http2'' a"

lemma splitFlag_prefix: "splitFlag s = (name, v) \<Longrightarrow> prefix name s"
  by (auto simp: splitFlag_def Let_def takeWhile_is_prefix split: if_splits)

lemma flag_name_http2:
  assumes "no_http2_flag s" and "2 \<le> length s" and "hd s = CHR ''-''"
    and "splitFlag (if s ! 1 = CHR ''-'' then drop 2 s else drop 1 s) = (name, v)"
  shows "name \<noteq> ''enable-http2''"
proof -
  obtain a b t where s: "s = a # b # t" using assms(2) by (cases s; cases "tl s") auto
  show ?thesis
    using assms splitFlag_prefix [OF assms(4)] by (auto simp: s no_http2_flag_def split: if_splits)
qed

lemma parseFlags_ParsedE:
  assumes "parseFlags foreign f (s # args) = Parsed f'"
  obtains (stop) "f' = f"
    | (set) name v x f'' args' where "2 \<le> length s" "hd s = CHR ''-''"
        "splitFlag (if s ! 1 = CHR ''-'' then drop 2 s else drop 1 s) = (name, v)"
        "setFlag foreign name x f = Some f''" "parseFlags foreign f'' args' = Parsed f'" "suffix args' args"
  using assms
  by (subst (asm) parseFlags.simps)
    (auto simp: Let_def not_less suffix_ConsI split: if_splits prod.splits option.splits flagKind.splits list.splits)

lemma parseFlags_keeps_http2:
  assumes "parseFlags foreign f args = Parsed f'" and "list_all no_http2_flag args"
  shows "enableHTTP2 f' = enableHTTP2 f"
  using assms
proof (induction args arbitrary: f rule: length_induct)
  case (1 args)
  show ?case
  proof (cases args)
    case (Cons s rest)
    from "1.prems"(1) [unfolded Cons] show ?thesis
    proof (cases rule: parseFlags_ParsedE)
      case (set name v x f'' args')
      have "no_http2_flag s" and "list_all no_http2_flag args'" and "length args' < length args"
        using "1.prems"(2) set(6) by (auto simp: Cons list_all_iff suffix_def)
      then show ?thesis
        using "1.IH" set(5) flag_name_http2 [OF _ set(1-3)] setFlag_http2 [OF set(4)] by simp
    qed simp
  qed (use "1.prems" in simp)
qed

section \<open>Properties\<close>

text \<open>C34: the command line is read back exactly: from the arguments that spell out every flag, whatever the flags were
  before and whatever flags other packages define, the parser returns those flags.\<close>

theorem parse_flags_roundtrip: "parseFlags foreign f0 (flag_args f) = Parsed f"
proof -
  have set: "setFlag foreign ''metrics-bind-address'' a g = Some (g\<lparr>metricsAddr := a\<rparr>)"
    "setFlag foreign ''health-probe-bind-address'' a g = Some (g\<lparr>probeAddr := a\<rparr>)"
    "setFlag foreign ''leader-elect'' (showBool b) g = Some (g\<lparr>enableLeaderElection := b\<rparr>)"
    "setFlag foreign ''metrics-secure'' (showBool b) g = Some (g\<lparr>secureMetrics := b\<rparr>)"
    "setFlag foreign ''enable-http2'' (showBool b) g = Some (g\<lparr>enableHTTP2 := b\<rparr>)" for a b g
    by (simp_all add: setFlag_def)
  note assign = parseFlags_assign [of _ foreign, OF _ _ _ _ set(1)] parseFlags_assign [of _ foreign, OF _ _ _ _ set(2)]
    parseFlags_assign [of _ foreign, OF _ _ _ _ set(3)] parseFlags_assign [of _ foreign, OF _ _ _ _ set(4)]
    parseFlags_assign [of _ foreign, OF _ _ _ _ set(5)]
  show ?thesis
    by (simp add: flag_args_def assign [simplified] flagKind_def)
qed

text \<open>C35: HTTP/2 is off unless it is asked for.  A process whose arguments never name the flag \<open>enable-http2\<close> offers only
  HTTP/1.1, on the webhook server and on the metrics server, whatever protocols the configuration listed; and the
  metrics server authenticates and authorises its clients exactly when it serves securely.\<close>

theorem http2_off_unless_asked:
  assumes "parseFlags foreign defaultFlags args = Parsed f" and "list_all no_http2_flag args"
  shows "served_protos (mgo_WebhookTLSOpts (managerOptions sch f)) c = [''http/1.1''] \<and>
    served_protos (mo_TLSOpts (mgo_Metrics (managerOptions sch f))) c = [''http/1.1''] \<and>
    (mo_FilterProvider (mgo_Metrics (managerOptions sch f)) \<noteq> None) = mo_SecureServing (mgo_Metrics (managerOptions sch f))"
proof -
  have "\<not> enableHTTP2 f" using parseFlags_keeps_http2 [OF assms] by (simp add: defaultFlags_def)
  then show ?thesis by (simp add: served_protos_def managerOptions_def tlsOptions_def disableHTTP2_def)
qed

theorem http2_off_unless_asked_witness:
  "served_protos (mgo_WebhookTLSOpts (managerOptions []
      (defaultFlags\<lparr>enableLeaderElection := True, metricsAddr := '':8443''\<rparr>))) \<lparr>NextProtos = [''h2'']\<rparr> = [''http/1.1'']"
proof -
  have "parseFlags (\<lambda>_. None) defaultFlags [''--leader-elect'', ''-metrics-bind-address'', '':8443''] =
      Parsed (defaultFlags\<lparr>enableLeaderElection := True, metricsAddr := '':8443''\<rparr>)"
    by code_simp
  moreover have "list_all no_http2_flag [''--leader-elect'', ''-metrics-bind-address'', '':8443'']"
    by (simp add: no_http2_flag_def)
  ultimately show ?thesis by (rule http2_off_unless_asked [THEN conjunct1])
qed

text \<open>A runtime that keeps a log of what was registered, and a client of an empty management cluster.\<close>

definition logClient :: "(effect \<times> string) list MgmtClient" where
  "logClient =
     \<lparr>mc_GetAddon = (\<lambda>_ s. (Inl EOF, s)), mc_GetPolicy = (\<lambda>_ s. (Inl EOF, s)), mc_ListClusters = (\<lambda>_ _ s. (Inr [], s)),
      mc_ListAddons = (\<lambda>s. (Inr [], s)), mc_ListPolicies = (\<lambda>_ s. (Inr [], s)),
      mc_PatchCluster = (\<lambda>_ _ s. (Inl EOF, s)), mc_StatusPatchAddon = (\<lambda>_ _ s. (Inl EOF, s)),
      mc_StatusUpdatePolicy = (\<lambda>_ s. (Inl EOF, s))\<rparr>"

definition logRuntime :: "(effect \<times> string) list Runtime" where
  "logRuntime =
     \<lparr>rt_GetConfig = (\<lambda>s. (Inr (), s)), rt_NewManager = (\<lambda>_ s. (Inr logClient, s)),
      rt_BuildController = (\<lambda>k _ s. (Inr (), (Controller, k) # s)),
      rt_WatchClusters = (\<lambda>k _ s. (Inr (), (ClusterWatch, k) # s)),
      rt_CompleteWebhook = (\<lambda>k s. (Inr (), (Webhook, k) # s)),
      rt_AddHealthzCheck = (\<lambda>k s. (Inr (), (Healthz, k) # s)),
      rt_AddReadyzCheck = (\<lambda>k s. (Inr (), (Readyz, k) # s)), rt_Start = (\<lambda>s. (Inr (), s))\<rparr>"

lemma log_runtime_law: "runtime_law logRuntime set"
  by (auto simp: runtime_law_def logRuntime_def)

text \<open>
  What the builder documents: registering types keeps those registered before, and adding to a scheme puts every
  registered type there and removes nothing.  The other packages do not remove anything from a scheme either.
\<close>

definition builder_law :: "'b SchemeTools \<Rightarrow> ('b \<Rightarrow> string set) \<Rightarrow> bool" where
  "builder_law st types \<longleftrightarrow>
     (\<forall>ks b. types (st_Register st ks b) = types b \<union> set ks) \<and>
     (\<forall>b sch sch'. st_AddToScheme st b sch = Inr sch' \<longrightarrow> types b \<union> set sch \<subseteq> set sch')"

lemma init_scheme_grows:
  assumes "\<And>x sch sch'. add x sch = Inr sch' \<Longrightarrow> set sch \<subseteq> set sch'"
  shows "init_scheme add xs sch = Ok sch' \<Longrightarrow> set sch \<subseteq> set sch'"
  using assms by (induction xs arbitrary: sch) (force split: sum.splits)+

lemma init_scheme_at:
  "init_scheme add (xs @ y # ys) sch = Ok sch' \<Longrightarrow> \<exists>s s'. add y s = Inr s' \<and> init_scheme add ys s' = Ok sch'"
  by (induction xs arbitrary: sch) (auto split: sum.splits)

text \<open>Every kind of the API package is known to the scheme that \<open>init\<close> leaves, so the clients of the manager can encode it.\<close>

lemma init_registers_kinds:
  assumes "builder_law st types" and "\<And>x sch sch'. others x sch = Inr sch' \<Longrightarrow> set sch \<subseteq> set sch'"
    and "init_scheme (adder st others) schemes [] = Ok sch"
  shows "{''KubewardenAddon'', ''KubewardenAddonList'', ''KubewardenPolicy'', ''KubewardenPolicyList''} \<subseteq> set sch"
proof -
  have types: "{''KubewardenAddon'', ''KubewardenAddonList'', ''KubewardenPolicy'', ''KubewardenPolicyList''} \<subseteq> types (SchemeBuilder st)"
    using assms(1) by (simp add: builder_law_def SchemeBuilder_def addon_init_def policy_init_def)
  have grows: "set s \<subseteq> set s'" if "adder st others x s = Inr s'" for x s s'
  proof (cases "x = ''addonv1alpha1''")
    case True
    then have "st_AddToScheme st (SchemeBuilder st) s = Inr s'" using that by (simp add: adder_def AddToScheme_def)
    then show ?thesis using assms(1) unfolding builder_law_def by blast
  next
    case False
    then show ?thesis using assms(2) that by (simp add: adder_def)
  qed
  have "init_scheme (adder st others) ([''clientgo'', ''clusterv1''] @ ''addonv1alpha1'' # [''policiesv1'', ''apiextensionsv1'']) [] = Ok sch"
    using assms(3) by (simp only: schemes_def append.simps)
  from init_scheme_at [OF this] obtain s s' where add: "adder st others ''addonv1alpha1'' s = Inr s'"
    and rest: "init_scheme (adder st others) [''policiesv1'', ''apiextensionsv1''] s' = Ok sch" by (elim exE conjE)
  have "types (SchemeBuilder st) \<subseteq> set s'"
    using assms(1) add unfolding builder_law_def by (auto simp: adder_def AddToScheme_def)
  also have "set s' \<subseteq> set sch" by (rule init_scheme_grows [OF _ rest]) (rule grows)
  finally show ?thesis using types by (rule order_trans [rotated])
qed

text \<open>C32: the exit status of the process and the order of its start-up.  When the scheme is complete the process always ends
  with a status: 0 for a request for help, 2 for bad usage, both without any effect; otherwise 0 or 1, and the manager is
  started only after both controllers with their cluster watches, both webhooks and both probes are registered.  Status 0
  means that the manager ran and stopped without an error; when a step before it fails, the status is 1 and what the start
  of the manager would have done makes no difference.\<close>

theorem main_starts_after_registration:
  assumes "runtime_law rt reg" and "init_scheme (adder st others) schemes [] = Ok sch"
  shows "case parseFlags foreign defaultFlags args of
      Help \<Rightarrow> main d rt foreign st others args w = (Ok 0, w)
    | BadUsage \<Rightarrow> main d rt foreign st others args w = (Ok 2, w)
    | Parsed f \<Rightarrow>
        (\<exists>v. everything \<subseteq> reg (svc v) \<and>
          (case rt_Start rt (svc v) of
             (Inr _, s) \<Rightarrow> main d rt foreign st others args w = (Ok 0, v\<lparr>svc := s\<rparr>)
           | (Inl _, s) \<Rightarrow> main d rt foreign st others args w = (Ok 1, v\<lparr>svc := s\<rparr>))) \<or>
        (\<exists>v. \<forall>g. main d (rt\<lparr>rt_Start := g\<rparr>) foreign st others args w = (Ok 1, v))"
proof (cases "parseFlags foreign defaultFlags args")
  case (Parsed f)
  obtain x v where run: "preparation d rt sch f w = (x, v)" by fastforce
  show ?thesis
  proof (cases x)
    case (Ok u)
    then have "everything \<subseteq> reg (svc v)" using preparation_Ok [OF assms(1)] run by blast
    moreover have "case rt_Start rt (svc v) of
             (Inr _, s) \<Rightarrow> main d rt foreign st others args w = (Ok 0, v\<lparr>svc := s\<rparr>)
           | (Inl _, s) \<Rightarrow> main d rt foreign st others args w = (Ok 1, v\<lparr>svc := s\<rparr>)"
      using run Ok Parsed assms(2)
      by (auto simp: main_def startManager_split io_simps ext_call_def split: prod.split sum.split)
    ultimately show ?thesis using Parsed by auto
  next
    case (Err e)
    then have "main d (rt\<lparr>rt_Start := g\<rparr>) foreign st others args w = (Ok 1, v)" for g
      using run Parsed assms(2) by (simp add: main_def startManager_split preparation_Start io_simps)
    then show ?thesis using Parsed by auto
  next
    case (Panic p)
    then show ?thesis using safeD [OF preparation_safe, of d rt sch f w] run by simp
  qed
qed (use assms(2) in \<open>simp_all add: main_def io_return_def\<close>)

definition logWorld :: "(effect \<times> string) list world" where
  "logWorld = \<lparr>fs = [], tmpdir = ''/tmp'', rnd = (\<lambda>n. n), faults = (\<lambda>_. None), short = (\<lambda>_. 0), tick = 0, svc = []\<rparr>"

text \<open>A builder that is the list of the registered kinds.\<close>

definition logSchemes :: "string list SchemeTools" where
  "logSchemes = \<lparr>st_Builder = (\<lambda>_. []), st_Register = (\<lambda>ks b. b @ ks), st_AddToScheme = (\<lambda>b sch. Inr (sch @ b))\<rparr>"

lemma log_builder_law: "builder_law logSchemes set"
  by (simp add: builder_law_def logSchemes_def)

lemmas log_simps = logRuntime_def logWorld_def startManager_split preparation_def addon_SetupWithManager_def
  policy_SetupWithManager_def Addon_SetupWebhookWithManager_def Policy_SetupWebhookWithManager_def ext_call_def io_simps

theorem main_starts_after_registration_witness:
  "\<forall>d. \<exists>v. main d logRuntime (\<lambda>_. None) logSchemes (\<lambda>x sch. Inr (sch @ [x])) [''--leader-elect''] logWorld = (Ok 0, v) \<and>
     everything \<subseteq> set (svc v)"
proof
  fix d :: "(effect \<times> string) list Deps"
  obtain sch where sch: "init_scheme (adder logSchemes (\<lambda>x sch. Inr (sch @ [x]))) schemes [] = Ok sch"
    by (simp add: schemes_def adder_def AddToScheme_def logSchemes_def)
  have parse: "parseFlags (\<lambda>_. None) defaultFlags [''--leader-elect''] = Parsed (defaultFlags\<lparr>enableLeaderElection := True\<rparr>)"
    by code_simp
  have run: "fst (main d logRuntime (\<lambda>_. None) logSchemes (\<lambda>x sch. Inr (sch @ [x])) [''--leader-elect''] logWorld) = Ok 0"
    using sch parse by (simp add: main_def Let_def log_simps)
  have "logRuntime\<lparr>rt_Start := rt_Start logRuntime\<rparr> = logRuntime" by simp
  then show "\<exists>v. main d logRuntime (\<lambda>_. None) logSchemes (\<lambda>x sch. Inr (sch @ [x])) [''--leader-elect''] logWorld = (Ok 0, v) \<and>
      everything \<subseteq> set (svc v)"
    using main_starts_after_registration [OF log_runtime_law sch, where foreign = "\<lambda>_. None" and
        args = "[''--leader-elect'']" and d = d and w = logWorld] run parse
    by (auto simp: logRuntime_def)
qed

lemma returns_value:
  assumes "safe m" and "\<And>e v. m u \<noteq> (Err e, v)"
  shows "\<exists>a v. m u = (Ok a, v)"
proof -
  obtain x v where "m u = (x, v)" by fastforce
  then show ?thesis using safeD [OF assms(1), of u] assms(2) by (cases x) auto
qed

lemma addon_Reconcile_returns:
  assumes "r_RemoteClientGetter r = Some get"
  shows "\<exists>res err v. addon_Reconcile d r req u = (Ok (res, err), v)"
proof -
  have "safe (addon_Reconcile d r req)"
    unfolding addon_Reconcile_def by (auto intro!: safe_intros addon_reconcileNormal_safe [OF assms])
  moreover have "addon_Reconcile d r req u \<noteq> (Err e, v)" for e v
    unfolding addon_Reconcile_def
    by (auto simp: io_simps addon_reconcileNormal_no_Err split: prod.splits outcome.splits)
  ultimately show ?thesis using returns_value [of "addon_Reconcile d r req"] by fastforce
qed

lemma policy_Reconcile_returns:
  assumes "r_RemoteClientGetter r = Some get"
  shows "\<exists>res err v. policy_Reconcile d r req u = (Ok (res, err), v)"
proof -
  have "safe (policy_Reconcile d r req)"
    unfolding policy_Reconcile_def
    by (auto intro!: safe_intros policy_reconcileNormal_safe [OF assms] policy_reconcileDelete_safe [OF assms])
  moreover have "policy_Reconcile d r req u \<noteq> (Err e, v)" for e v
    unfolding policy_Reconcile_def
    by (auto simp: io_simps policy_reconcileNormal_no_Err policy_reconcileDelete_no_Err split: prod.splits outcome.splits)
  ultimately show ?thesis using returns_value [of "policy_Reconcile d r req"] by fastforce
qed

lemma handlers_return:
  "\<exists>reqs v. clusterToKubewardenAddon r ob u = (Ok reqs, v)" "\<exists>reqs v. clusterToKubewardenPolicy d r ob u = (Ok reqs, v)"
  unfolding clusterToKubewardenAddon_def clusterToKubewardenPolicy_def
  by (auto simp: io_simps ext_call_def split: option.split prod.split sum.split)

text \<open>C33: the reconcilers the manager runs never panic.  A set-up that succeeds leaves a reconciler with a client getter, even
  though the process creates it without one; for every request, in every world, both reconcilers then return a result,
  and both handlers of cluster events return a list of requests.\<close>

theorem wired_reconcilers_return:
  assumes "addon_SetupWithManager d rt (newReconciler sch cl) w = (Ok ra, v)"
    and "policy_SetupWithManager d rt (newReconciler sch cl) v = (Ok rp, v')"
  shows "(\<exists>res err u'. addon_Reconcile d ra req u = (Ok (res, err), u')) \<and>
    (\<exists>res err u'. policy_Reconcile d rp req u = (Ok (res, err), u')) \<and>
    (\<exists>reqs u'. clusterToKubewardenAddon ra ob u = (Ok reqs, u')) \<and>
    (\<exists>reqs u'. clusterToKubewardenPolicy d rp ob u = (Ok reqs, u'))"
proof -
  have "ra = withGetter d (newReconciler sch cl)" and "rp = withGetter d (newReconciler sch cl)"
    using assms unfolding addon_SetupWithManager_def policy_SetupWithManager_def Let_def
    by (auto elim!: io_bind_OkE simp: io_return_def)
  then have "r_RemoteClientGetter ra = Some (d_NewClusterClient d)" "r_RemoteClientGetter rp = Some (d_NewClusterClient d)"
    by (simp_all add: withGetter_def newReconciler_def)
  then show ?thesis using addon_Reconcile_returns policy_Reconcile_returns handlers_return by blast
qed

theorem wired_reconcilers_return_witness:
  "\<forall>d. \<exists>ra v. addon_SetupWithManager d logRuntime (newReconciler [] logClient) logWorld = (Ok ra, v) \<and>
     (\<exists>res err u. addon_Reconcile d ra \<lparr>nn_Namespace = ''default'', nn_Name = ''addon''\<rparr> v = (Ok (res, err), u))"
proof
  fix d :: "(effect \<times> string) list Deps"
  obtain ra v where 1: "addon_SetupWithManager d logRuntime (newReconciler [] logClient) logWorld = (Ok ra, v)"
    by (simp add: log_simps)
  obtain rp v' where 2: "policy_SetupWithManager d logRuntime (newReconciler [] logClient) v = (Ok rp, v')"
    by (simp add: log_simps)
  show "\<exists>ra v. addon_SetupWithManager d logRuntime (newReconciler [] logClient) logWorld = (Ok ra, v) \<and>
     (\<exists>res err u. addon_Reconcile d ra \<lparr>nn_Namespace = ''default'', nn_Name = ''addon''\<rparr> v = (Ok (res, err), u))"
    using 1 wired_reconcilers_return [OF 1 2, THEN conjunct1] by blast
qed

end
