(* ===== verification/Admission.thy ===== *)
theory Admission
  imports Webhooks Manager_Proofs
begin

text \<open>
  Which writes reach the webhooks: the registrations of the four webhooks, as the markers of
  \<open>api/v1alpha1/kubewardenaddon_webhook.go\<close> and \<open>kubewardenpolicy_webhook.go\<close> declare them (the file
  \<open>config/webhook/manifests.yaml\<close> is generated from them), and what the API server, a parameter with a named law, makes of a
  write of either resource.
\<close>

section \<open>The registrations\<close>

datatype operation = OpCreate | OpUpdate | OpDelete | OpConnect








section \<open>The API server\<close>









section \<open>Which hooks a write reaches\<close>




section \<open>The release an installation fetches\<close>

lemma installSteps_fetches:
  assumes "installSteps d r addon cl w = (Ok (), w')"
  shows "\<exists>s resp s'. d_httpGet d (crdsURL (crds_version addon)) s = (Inr resp, s') \<and> resp_StatusCode resp = 200"
  using assms
proof (cases rule: installSteps_Ok)
  case (1 rc v0 v1 v2 v3 v4)
  obtain p v where "downloadFile d (crdsURL (crds_version addon)) v1 = (Ok p, v)"
    using 1(3) by (auto simp: installKubewardenCRDs_def io_wrap_Ok_iff elim!: io_bind_OkE)
  then show ?thesis using downloadFile_Ok(1) by blast
qed

text \<open>
  Were an addon without a version defaulted, its installation would need a release with the name \<open>latest\<close>: the
  built-in version would not be used.
\<close>

lemma defaulted_addon_fetches_latest:
  assumes "kas_Version (ka_Spec a) = ''''" and "installSteps d r (Addon_Default a) cl w = (Ok (), w')"
  shows "\<exists>s resp s'. d_httpGet d (crdsURL ''latest'') s = (Inr resp, s') \<and> resp_StatusCode resp = 200"
proof -
  have "crds_version (Addon_Default a) = ''latest''" using assms(1) by (simp add: crds_version_def Addon_Default_def Let_def)
  then show ?thesis using installSteps_fetches [OF assms(2)] by simp
qed

section \<open>Properties\<close>







end
