(* ===== verification/Interference.thy ===== *)
theory Interference
  imports Addon_Properties
begin

text \<open>
  Interference inside a reconciliation.  While a reconciler works, other writers (users, the other reconciler, controllers of the
  clusters) change the outside state between any two of its calls.  \<open>disturb e\<close> lets such a change \<open>e\<close> happen right
  before every call of a client and of the tools, also of the clients a getter returns; as \<open>e\<close> is a function of the
  outside state, which may hold a schedule, it can differ from call to call.  A relation that the calls and
  the changes keep is kept by the disturbed calls.
\<close>

definition before :: "('s \<Rightarrow> 's) \<Rightarrow> ('s, 'a) call \<Rightarrow> ('s, 'a) call" where
  "before e c = (\<lambda>s. c (e s))"

definition disturb_remote :: "('s \<Rightarrow> 's) \<Rightarrow> 's RemoteClient \<Rightarrow> 's RemoteClient" where
  "disturb_remote e rc =
     \<lparr>rc_Create = (\<lambda>ob. before e (rc_Create rc ob)), rc_Get = (\<lambda>k n. before e (rc_Get rc k n)),
      rc_Update = (\<lambda>k x. before e (rc_Update rc k x)), rc_Delete = (\<lambda>k n. before e (rc_Delete rc k n)),
      rc_Patch = (\<lambda>t ty j. before e (rc_Patch rc t ty j))\<rparr>"

definition disturb_getter :: "('s \<Rightarrow> 's) \<Rightarrow> 's ClusterClientGetter \<Rightarrow> 's ClusterClientGetter" where
  "disturb_getter e get = (\<lambda>name c s. case get name c (e s) of (res, s') \<Rightarrow> (map_sum id (disturb_remote e) res, s'))"

definition disturb_mgmt :: "('s \<Rightarrow> 's) \<Rightarrow> 's MgmtClient \<Rightarrow> 's MgmtClient" where
  "disturb_mgmt e mc =
     \<lparr>mc_GetAddon = (\<lambda>n. before e (mc_GetAddon mc n)), mc_GetPolicy = (\<lambda>n. before e (mc_GetPolicy mc n)),
      mc_ListClusters = (\<lambda>ns sel. before e (mc_ListClusters mc ns sel)), mc_ListAddons = before e (mc_ListAddons mc),
      mc_ListPolicies = (\<lambda>ns. before e (mc_ListPolicies mc ns)),
      mc_PatchCluster = (\<lambda>b x. before e (mc_PatchCluster mc b x)),
      mc_StatusPatchAddon = (\<lambda>b x. before e (mc_StatusPatchAddon mc b x)),
      mc_StatusUpdatePolicy = (\<lambda>p. before e (mc_StatusUpdatePolicy mc p))\<rparr>"

definition disturb :: "('s \<Rightarrow> 's) \<Rightarrow> 's Reconciler \<Rightarrow> 's Reconciler" where
  "disturb e r =
     \<lparr>r_Client = disturb_mgmt e (r_Client r), r_Scheme = r_Scheme r,
      r_RemoteClientGetter = map_option (disturb_getter e) (r_RemoteClientGetter r)\<rparr>"

definition disturb_tools :: "('s \<Rightarrow> 's) \<Rightarrow> 's Deps \<Rightarrow> 's Deps" where
  "disturb_tools e d =
     d\<lparr>d_Now := (\<lambda>s. d_Now d (e s)), d_httpGet := (\<lambda>u. before e (d_httpGet d u)),
       d_actionInit := (\<lambda>n. before e (d_actionInit d n)), d_LocateChart := (\<lambda>u v n. before e (d_LocateChart d u v n)),
       d_loadChart := (\<lambda>p. before e (d_loadChart d p)), d_installRun := (\<lambda>opts c j. before e (d_installRun d opts c j)),
       d_NewClusterClient := disturb_getter e (d_NewClusterClient d)\<rparr>"

text \<open>Changes made of steps of the environment.\<close>

definition disturbs :: "('s \<Rightarrow> 's \<Rightarrow> bool) \<Rightarrow> ('s \<Rightarrow> 's) \<Rightarrow> bool" where
  "disturbs env e \<longleftrightarrow> (\<forall>s. env\<^sup>*\<^sup>* s (e s))"

lemma disturbs_id [simp]: "disturbs env id"
  by (simp add: disturbs_def)

lemma disturb_remote_id: "disturb_remote id = id"
  by (simp add: disturb_remote_def before_def fun_eq_iff)

lemma disturb_getter_id: "disturb_getter id = id"
  by (simp add: disturb_getter_def fun_eq_iff disturb_remote_id sum.map_id0 split: prod.split)

lemma disturb_id [simp]: "disturb id r = r" "disturb_tools id d = d"
  by (simp_all add: disturb_def disturb_tools_def disturb_mgmt_def before_def disturb_getter_id option.map_id0)

section \<open>Frames\<close>

text \<open>
  What a relation \<open>R\<close> on the outside state has to be kept by, for every step of the program to keep it: all calls of the
  installation, the calls to the management cluster, and the calls of the policy controller.
\<close>

definition policy_client_frame :: "('s \<Rightarrow> 's \<Rightarrow> bool) \<Rightarrow> 's RemoteClient \<Rightarrow> bool" where
  "policy_client_frame R rc \<longleftrightarrow>
     (\<forall>ob. moves R (rc_Create rc ob)) \<and> (\<forall>k n. moves R (rc_Get rc k n)) \<and>
     (\<forall>k x. moves R (rc_Update rc k x)) \<and> (\<forall>k n. moves R (rc_Delete rc k n))"

definition policy_frame :: "('s \<Rightarrow> 's \<Rightarrow> bool) \<Rightarrow> 's Reconciler \<Rightarrow> bool" where
  "policy_frame R r \<longleftrightarrow>
     (\<forall>n. moves R (mc_GetPolicy (r_Client r) n)) \<and> (\<forall>ns sel. moves R (mc_ListClusters (r_Client r) ns sel)) \<and>
     (\<forall>ns. moves R (mc_ListPolicies (r_Client r) ns)) \<and> (\<forall>p. moves R (mc_StatusUpdatePolicy (r_Client r) p)) \<and>
     (\<exists>get. r_RemoteClientGetter r = Some get \<and> (\<forall>name c s. R s (snd (get name c s)) \<and>
        (case fst (get name c s) of Inr rc \<Rightarrow> policy_client_frame R rc | Inl _ \<Rightarrow> True)))"

definition addon_calls :: "('s \<Rightarrow> 's \<Rightarrow> bool) \<Rightarrow> 's Reconciler \<Rightarrow> bool" where
  "addon_calls R r \<longleftrightarrow>
     (\<forall>n. moves R (mc_GetAddon (r_Client r) n)) \<and> moves R (mc_ListAddons (r_Client r)) \<and>
     (\<forall>ns sel. moves R (mc_ListClusters (r_Client r) ns sel)) \<and>
     (\<forall>b x. moves R (mc_StatusPatchAddon (r_Client r) b x)) \<and>
     (\<forall>cl. moves R (mc_PatchCluster (r_Client r) cl (marked cl)))"

context outside_relation
begin

lemma moves_before: "\<forall>s. R s (e s) \<Longrightarrow> moves R c \<Longrightarrow> moves R (before e c)"
  unfolding moves_def before_def by (blast intro: R_trans)

lemma disturbed_getter:
  assumes e: "\<forall>s. R s (e s)" and get: "\<forall>name c s. R s (snd (get name c s)) \<and>
      (case fst (get name c s) of Inr rc \<Rightarrow> Q rc | Inl _ \<Rightarrow> True)"
    and Q: "\<And>rc. Q rc \<Longrightarrow> Q (disturb_remote e rc)"
  shows "\<forall>name c s. R s (snd (disturb_getter e get name c s)) \<and>
      (case fst (disturb_getter e get name c s) of Inr rc \<Rightarrow> Q rc | Inl _ \<Rightarrow> True)"
proof (intro allI)
  fix name c s
  obtain res s' where run: "get name c (e s) = (res, s')" by fastforce
  then have "R s s'" and "case res of Inr rc \<Rightarrow> Q rc | Inl _ \<Rightarrow> True"
    using get [rule_format, of "e s" name c] e R_trans [of s "e s" s'] by auto
  then show "R s (snd (disturb_getter e get name c s)) \<and>
      (case fst (disturb_getter e get name c s) of Inr rc \<Rightarrow> Q rc | Inl _ \<Rightarrow> True)"
    using run Q by (auto simp: disturb_getter_def split: sum.splits)
qed

lemma disturbed_frames:
  assumes "\<forall>s. R s (e s)"
  shows "addon_frame R d r \<Longrightarrow> addon_frame R (disturb_tools e d) (disturb e r)"
    and "addon_calls R r \<Longrightarrow> addon_calls R (disturb e r)"
    and "policy_frame R r \<Longrightarrow> policy_frame R (disturb e r)"
proof -
  note before = moves_before [OF assms]
  have "remote_moves R (disturb_remote e rc)" if "remote_moves R rc" for rc
    using that by (simp add: remote_moves_def disturb_remote_def before)
  note remote = disturbed_getter [where Q = "remote_moves R", OF assms _ this]
  have "policy_client_frame R (disturb_remote e rc)" if "policy_client_frame R rc" for rc
    using that by (simp add: policy_client_frame_def disturb_remote_def before)
  note client = disturbed_getter [where Q = "policy_client_frame R", OF assms _ this]
  show "addon_frame R d r \<Longrightarrow> addon_frame R (disturb_tools e d) (disturb e r)"
    unfolding addon_frame_def tools_move_def disturb_tools_def disturb_def using remote by (auto simp: before)
  show "addon_calls R r \<Longrightarrow> addon_calls R (disturb e r)"
    by (simp add: addon_calls_def disturb_def disturb_mgmt_def before)
  show "policy_frame R r \<Longrightarrow> policy_frame R (disturb e r)"
    unfolding policy_frame_def disturb_def disturb_mgmt_def using client by (auto simp: before)
qed

lemma disturbs_moves:
  assumes "disturbs env e" and "\<And>s s'. env s s' \<Longrightarrow> R s s'"
  shows "\<forall>s. R s (e s)"
proof
  fix s
  have "env\<^sup>*\<^sup>* s (e s)" using assms(1) by (simp add: disturbs_def)
  then show "R s (e s)" by (induction rule: rtranclp_induct) (auto intro: R_refl R_trans assms(2))
qed

end

end
