(* ===== verification/System.thy ===== *)
theory System
  imports Interference
begin

text \<open>
  The running program as a step relation: the two reconcilers and the two handlers of cluster events, in any order and for any
  requests, interleaved with steps of the environment, a relation on the outside state.  The environment also acts inside a
  reconciliation, between any two of its calls; among its steps are the calls of a reconciliation that runs at the same time.
\<close>

inductive program_step ::
  "('s \<Rightarrow> 's \<Rightarrow> bool) \<Rightarrow> 's Deps \<Rightarrow> 's Reconciler \<Rightarrow> 's Reconciler \<Rightarrow> 's world \<Rightarrow> 's world \<Rightarrow> bool"
  for env d ra rp where
    reconcile_addon: "disturbs env e \<Longrightarrow> addon_Reconcile (disturb_tools e d) (disturb e ra) req w = (res, w') \<Longrightarrow>
      program_step env d ra rp w w'"
  | reconcile_policy: "disturbs env e \<Longrightarrow> policy_Reconcile (disturb_tools e d) (disturb e rp) req w = (res, w') \<Longrightarrow>
      program_step env d ra rp w w'"
  | addon_event: "disturbs env e \<Longrightarrow> clusterToKubewardenAddon (disturb e ra) ob w = (reqs, w') \<Longrightarrow>
      program_step env d ra rp w w'"
  | policy_event: "disturbs env e \<Longrightarrow> clusterToKubewardenPolicy (disturb_tools e d) (disturb e rp) ob w = (reqs, w') \<Longrightarrow>
      program_step env d ra rp w w'"
  | environment: "env (svc w) s \<Longrightarrow> program_step env d ra rp w (w\<lparr>svc := s\<rparr>)"

abbreviation runs :: "('s \<Rightarrow> 's \<Rightarrow> bool) \<Rightarrow> 's Deps \<Rightarrow> 's Reconciler \<Rightarrow> 's Reconciler \<Rightarrow> 's world \<Rightarrow> 's world \<Rightarrow> bool" where
  "runs env d ra rp \<equiv> (program_step env d ra rp)\<^sup>*\<^sup>*"

section \<open>Relations that every step keeps\<close>

context outside_relation
begin

text \<open>A continuation only has to keep \<open>R\<close> for the clients that the getter really returns.\<close>

lemma stays_try_dep:
  assumes "stays (svc_rel R) m" and "\<And>e. stays (svc_rel R) (h e)"
    and "\<And>w a v. m w = (Ok a, v) \<Longrightarrow> stays (svc_rel R) (f a)"
  shows "stays (svc_rel R) (io_try m h f)"
proof (rule staysI)
  fix w
  obtain g v where g: "m w = (g, v)" by fastforce
  have v: "svc_rel R w v" using assms(1) g by (rule staysD)
  moreover have "svc_rel R v (snd (io_try m h f w))"
    using g assms(2) assms(3) [of w _ v] moved.step_refl [of v] by (cases g) (simp_all add: io_simps stays_def)
  ultimately show "svc_rel R w (snd (io_try m h f w))" by (rule moved.step_trans)
qed

lemma policy_client_moves:
  assumes "policy_frame R r"
  shows "stays (svc_rel R) (getRemoteClient r cl)"
    and "getRemoteClient r cl w = (Ok rc, v) \<Longrightarrow> stays (svc_rel R) (deployPolicy d rc p cl') \<and> stays (svc_rel R) (deletePolicy d rc p)"
proof -
  obtain get where get: "r_RemoteClientGetter r = Some get" and law: "\<And>name c s. R s (snd (get name c s))"
    "\<And>name c s. case fst (get name c s) of Inr rc \<Rightarrow> policy_client_frame R rc | Inl _ \<Rightarrow> True"
    using assms unfolding policy_frame_def by blast
  show "stays (svc_rel R) (getRemoteClient r cl)"
    unfolding getRemoteClient_def using law(1) by (simp add: get) (intro stays_ext, simp add: moves_def)
  assume "getRemoteClient r cl w = (Ok rc, v)"
  then have "policy_client_frame R rc"
    using law(2) [of "cl_Name cl" "cl_Key cl" "svc w"] by (auto simp: getRemoteClient_def get ext_call_Ok)
  note rc = this [unfolded policy_client_frame_def]
  have "stays (svc_rel R) (deployPolicy d rc p cl')"
    unfolding deployPolicy_def deployClusterAdmissionPolicy_def deployAdmissionPolicy_def isPolicyActive_def Let_def
    using rc by (auto intro!: frame_intros moved.stays_state)
  moreover have "stays (svc_rel R) (deletePolicy d rc p)"
    unfolding deletePolicy_def using rc by (auto intro!: frame_intros)
  ultimately show "stays (svc_rel R) (deployPolicy d rc p cl') \<and> stays (svc_rel R) (deletePolicy d rc p)" ..
qed

lemma stays_io_map: "(\<And>x. stays (svc_rel R) (f x)) \<Longrightarrow> stays (svc_rel R) (io_map f xs)"
  by (induction xs) (auto intro!: frame_intros)

lemma policy_Reconcile_moves:
  assumes "policy_frame R r"
  shows "stays (svc_rel R) (policy_Reconcile d r req)"
proof -
  have attempt: "stays (svc_rel R) (attempt d r p cl)" for p cl
  proof (cases "eligible d cl")
    case True
    have "stays (svc_rel R) (io_try (getRemoteClient r cl) (\<lambda>_. io_return (None, False))
        (\<lambda>rc. io_bind (deployPolicy d rc p cl) (\<lambda>(st, err). io_return (f st err))))" for f
    proof (rule stays_try_dep)
      fix w rc v
      assume "getRemoteClient r cl w = (Ok rc, v)"
      from policy_client_moves(2) [OF assms this, of d p cl]
      show "stays (svc_rel R) (io_bind (deployPolicy d rc p cl) (\<lambda>(st, err). io_return (f st err)))"
        by (auto intro!: moved.stays_bind moved.stays_return split: prod.split)
    qed (auto intro: policy_client_moves(1) [OF assms] moved.stays_return)
    then show ?thesis using True by (simp add: attempt_def)
  qed (auto simp: attempt_def intro: frame_intros)
  have removal: "stays (svc_rel R) (removal d r p cl)" for p cl
    unfolding removal_def using policy_client_moves [OF assms]
    by (intro stays_try_dep [where m = "getRemoteClient r cl"]) (auto intro!: frame_intros)
  have match: "stays (svc_rel R) (getMatchingClusters d r p)" for p
    unfolding getMatchingClusters_def using assms by (auto simp: policy_frame_def intro!: frame_intros split: sum.split)
  have status: "stays (svc_rel R) (statusUpdate r p res)" for p res
    unfolding statusUpdate_def using assms by (auto simp: policy_frame_def intro!: frame_intros)
  have "stays (svc_rel R) (policy_reconcileNormal d r p)" for p
    unfolding policy_reconcileNormal_def deploy_loop_attempts Let_def
    by (auto intro!: frame_intros stays_io_map attempt match status split: prod.split)
  moreover have "stays (svc_rel R) (policy_reconcileDelete d r p)" for p
    unfolding policy_reconcileDelete_def delete_loop_removals
    by (auto intro!: frame_intros stays_io_map removal match)
  ultimately show ?thesis
    unfolding policy_Reconcile_def using assms by (auto simp: policy_frame_def intro!: frame_intros)
qed

lemma addon_Reconcile_moves:
  assumes "addon_frame R d r" and "addon_calls R r"
  shows "stays (svc_rel R) (addon_Reconcile d r req)"
proof -
  note calls = assms(2) [unfolded addon_calls_def]
  have "stays (svc_rel R) (installSteps d r addon cl)" for addon cl
    by (rule staysI) (rule steps_frame [OF assms(1)])
  then have "stays (svc_rel R) (installOnCluster d r addon cl)" for addon cl
    unfolding installOnCluster_def annotateCluster_run using calls by (intro frame_intros) auto
  then have loop: "stays (svc_rel R) (install_loop d r addon cls)" for addon cls
    unfolding install_loop_prefix by (intro frame_intros)
  have "stays (svc_rel R) (addon_reconcileNormal d r addon)" for addon
    unfolding addon_reconcileNormal_def getAllCapiClusters_def Let_def using calls
    by (auto intro!: frame_intros loop split: sum.split option.split)
  then show ?thesis
    unfolding addon_Reconcile_def using calls by (auto intro!: frame_intros)
qed

lemma handlers_move:
  assumes "addon_calls R ra" and "policy_frame R rp"
  shows "stays (svc_rel R) (clusterToKubewardenAddon ra ob)" and "stays (svc_rel R) (clusterToKubewardenPolicy d rp ob)"
  unfolding clusterToKubewardenAddon_def clusterToKubewardenPolicy_def
  using assms by (auto simp: addon_calls_def policy_frame_def intro!: frame_intros split: option.split)

text \<open>A relation that all these calls and the environment keep is kept by every run.\<close>

lemma runs_move:
  assumes "runs env d ra rp w w'" and "addon_frame R d ra" and "addon_calls R ra" and "policy_frame R rp"
    and "\<And>s s'. env s s' \<Longrightarrow> R s s'"
  shows "R (svc w) (svc w')"
  using assms(1)
proof (induction rule: rtranclp_induct)
  case base
  show ?case by (rule R_refl)
next
  case (step v u)
  have quiet: "\<forall>s. R s (e s)" if "disturbs env e" for e by (rule disturbs_moves [OF that]) (rule assms(5))
  have "R (svc v) (svc u)"
    using step.hyps(2)
  proof (cases rule: program_step.cases)
    case (reconcile_addon e req res)
    note frames = disturbed_frames [OF quiet [OF reconcile_addon(1)]]
    from staysD [OF addon_Reconcile_moves [OF frames(1) [OF assms(2)] frames(2) [OF assms(3)]] reconcile_addon(2)]
    show ?thesis by (simp add: svc_rel_def)
  next
    case (reconcile_policy e req res)
    note frames = disturbed_frames [OF quiet [OF reconcile_policy(1)]]
    from staysD [OF policy_Reconcile_moves [OF frames(3) [OF assms(4)]] reconcile_policy(2)]
    show ?thesis by (simp add: svc_rel_def)
  next
    case (addon_event e ob reqs)
    note frames = disturbed_frames [OF quiet [OF addon_event(1)]]
    from staysD [OF handlers_move(1) [OF frames(2) [OF assms(3)] frames(3) [OF assms(4)]] addon_event(2)]
    show ?thesis by (simp add: svc_rel_def)
  next
    case (policy_event e ob reqs)
    note frames = disturbed_frames [OF quiet [OF policy_event(1)]]
    from staysD [OF handlers_move(2) [OF frames(2) [OF assms(3)] frames(3) [OF assms(4)]] policy_event(2)]
    show ?thesis by (simp add: svc_rel_def)
  next
    case (environment s)
    then show ?thesis using assms(5) by simp
  qed
  with step.IH show ?case by (rule R_trans)
qed

end

section \<open>Marks are permanent\<close>

text \<open>A cluster that carries the installation annotation keeps it.\<close>

definition keeps_marks :: "'s annotationView \<Rightarrow> 's \<Rightarrow> 's \<Rightarrow> bool" where
  "keeps_marks ann s s' \<longleftrightarrow>
     (\<forall>c. ann s c KubewardenInstalledAnnotation \<noteq> None \<longrightarrow> ann s' c KubewardenInstalledAnnotation \<noteq> None)"

interpretation marks: outside_relation "keeps_marks ann"
  for ann :: "'s annotationView"
  by unfold_locales (simp_all add: keeps_marks_def)

lemma keeps_marks_same: "moves (same ann) c \<Longrightarrow> moves (keeps_marks ann) c"
  by (simp add: moves_def same_def keeps_marks_def)

lemma addon_frame_marks: "addon_frame (same ann) d r \<Longrightarrow> addon_frame (keeps_marks ann) d r"
  unfolding addon_frame_def tools_move_def remote_moves_def
  by (auto simp: moves_def same_def keeps_marks_def split: sum.splits) metis?

lemma patch_keeps_marks:
  assumes "patch_law r ann"
  shows "moves (keeps_marks ann) (mc_PatchCluster (r_Client r) cl (marked cl))"
  unfolding moves_def
proof
  fix s
  obtain g s' where g: "mc_PatchCluster (r_Client r) cl (marked cl) s = (g, s')" by fastforce
  note law = assms [unfolded patch_law_def, rule_format, OF g]
  show "keeps_marks ann s (snd (mc_PatchCluster (r_Client r) cl (marked cl) s))"
    using law g by (cases g) (auto simp: keeps_marks_def merge_labels_def marked_def annotations_of_def)
qed

section \<open>The laws of the whole system\<close>

text \<open>
  The addon reconciler's laws of the management cluster; no call of the policy controller and no read changes an annotation of
  a cluster; listed clusters carry the stored annotations; and the environment does not remove the mark of a cluster.
\<close>

definition system_laws ::
  "('s \<Rightarrow> 's \<Rightarrow> bool) \<Rightarrow> 's Deps \<Rightarrow> 's Reconciler \<Rightarrow> 's Reconciler \<Rightarrow> 's annotationView \<Rightarrow> 's addonStatusView \<Rightarrow> bool" where
  "system_laws env d ra rp ann ast \<longleftrightarrow>
     addon_management d ra ann ast \<and>
     (\<forall>n. moves (same ann) (mc_GetAddon (r_Client ra) n)) \<and> moves (same ann) (mc_ListAddons (r_Client ra)) \<and>
     policy_frame (same ann) rp \<and>
     (\<forall>ns sel s xs s'. mc_ListClusters (r_Client rp) ns sel s = (Inr xs, s') \<longrightarrow>
        list_all (\<lambda>cl. annotations_of (cl_Meta cl) = ann s (cl_Key cl)) xs) \<and>
     (\<forall>s s'. env s s' \<longrightarrow> keeps_marks ann s s')"

lemma policy_frame_marks: "policy_frame (same ann) r \<Longrightarrow> policy_frame (keeps_marks ann) r"
  unfolding policy_frame_def policy_client_frame_def by (fastforce simp: moves_def same_def keeps_marks_def split: sum.splits)

lemma system_keeps_marks:
  assumes "system_laws env d ra rp ann ast" and "runs env d ra rp w w'"
  shows "keeps_marks ann (svc w) (svc w')"
proof (rule marks.runs_move [OF assms(2)])
  note laws = assms(1) [unfolded system_laws_def addon_management_def]
  show "addon_frame (keeps_marks ann) d ra" using laws by (intro addon_frame_marks) blast
  show "policy_frame (keeps_marks ann) rp" using laws by (intro policy_frame_marks) blast
  show "addon_calls (keeps_marks ann) ra"
    unfolding addon_calls_def using laws by (auto intro!: keeps_marks_same patch_keeps_marks)
  show "keeps_marks ann s s'" if "env s s'" for s s' using laws that by blast
qed

lemma policy_files: "stays (same fs) (policy_Reconcile d r req)"
proof -
  have client: "stays (same fs) (getRemoteClient r cl)" for cl
    unfolding getRemoteClient_def by (auto intro!: stays_intros split: option.split)
  have deploy: "stays (same fs) (deployPolicy d rc p cl)" and delete: "stays (same fs) (deletePolicy d rc p)" for rc p cl
    unfolding deployPolicy_def deployClusterAdmissionPolicy_def deployAdmissionPolicy_def isPolicyActive_def deletePolicy_def Let_def
    by (auto intro!: stays_intros)
  have map: "stays (same fs) (io_map f xs)" if "\<And>x. stays (same fs) (f x)" for f :: "Cluster \<Rightarrow> ('s world, 'b) io" and xs
    by (induction xs) (auto intro!: stays_intros that)
  have attempt: "stays (same fs) (attempt d r p cl)" for p cl
    unfolding attempt_def by (auto intro!: stays_intros client deploy split: option.split)
  have removal: "stays (same fs) (removal d r p cl)" for p cl
    unfolding removal_def by (auto intro!: stays_intros client delete)
  have match: "stays (same fs) (getMatchingClusters d r p)" for p
    unfolding getMatchingClusters_def by (auto intro!: stays_intros split: sum.split)
  show ?thesis
    unfolding policy_Reconcile_def policy_reconcileNormal_def policy_reconcileDelete_def statusUpdate_def
      deploy_loop_attempts delete_loop_removals Let_def
    by (auto intro!: stays_intros match map [OF attempt] map [OF removal] split: prod.split)
qed

lemma handler_files: "stays (same fs) (clusterToKubewardenAddon r ob)" "stays (same fs) (clusterToKubewardenPolicy d r ob)"
  unfolding clusterToKubewardenAddon_def clusterToKubewardenPolicy_def by (auto intro!: stays_intros split: option.split)

lemma runs_tree:
  assumes "runs env d ra rp w w'" and "tree_ok w"
  shows "tree_ok w'"
  using assms
proof (induction rule: rtranclp_induct)
  case (step v u)
  have "tree_step v u"
    using step.hyps(2)
  proof (cases rule: program_step.cases)
    case reconcile_addon
    then show ?thesis by (blast intro: staysD [OF tree_addon_Reconcile])
  next
    case reconcile_policy
    then show ?thesis using staysD [OF policy_files] by (intro tree_step_same) (auto simp: same_def)
  next
    case addon_event
    then show ?thesis using staysD [OF handler_files(1)] by (intro tree_step_same) (auto simp: same_def)
  next
    case policy_event
    then show ?thesis using staysD [OF handler_files(2)] by (intro tree_step_same) (auto simp: same_def)
  next
    case (environment s)
    then show ?thesis by (intro tree_step_same) simp
  qed
  then show ?case using step by (simp add: tree_step_def)
qed

section \<open>Results\<close>

lemma panic_means_nil:
  assumes "\<And>get. r_RemoteClientGetter r = Some get \<Longrightarrow> safe m" and "fst (m w) = Panic s"
  shows "r_RemoteClientGetter r = None"
  using safeD [OF assms(1), of _ w] assms(2) by (cases "r_RemoteClientGetter r") auto

lemma install_loop_result:
  assumes "install_loop d r addon cls w = (Ok (Some (res, err)), w')"
  shows "res \<in> {emptyResult, requeueAfter minute} \<and> (err \<noteq> None \<longrightarrow> res = emptyResult)"
  using assms unfolding install_loop_prefix loop_end_def
  by (auto simp: io_simps defaultRequeueDuration_def minute_def split: prod.splits outcome.splits list.splits if_splits)

lemma addon_requeue:
  "case fst (addon_Reconcile d r req w) of
      Ok (res, err) \<Rightarrow> RequeueAfter res \<in> {0, minute} \<and> (err \<noteq> None \<longrightarrow> RequeueAfter res = 0) \<and>
        (Requeue res \<longrightarrow> (\<exists>e. fst (mc_GetAddon (r_Client r) req (svc w)) = Inl e))
    | Err e \<Rightarrow> False
    | Panic s \<Rightarrow> r_RemoteClientGetter r = None"
proof -
  obtain g s where g: "mc_GetAddon (r_Client r) req (svc w) = (g, s)" by fastforce
  have normal: "case fst (addon_reconcileNormal d r a v) of
      Ok (res, err) \<Rightarrow> res \<in> {emptyResult, requeueAfter minute} \<and> (err \<noteq> None \<longrightarrow> res = emptyResult)
    | Err e \<Rightarrow> False
    | Panic s \<Rightarrow> r_RemoteClientGetter r = None" for a v
  proof -
    obtain x v' where x: "addon_reconcileNormal d r a v = (x, v')" by fastforce
    show ?thesis
    proof (cases x)
      case (Ok y)
      obtain res err where y: "y = (res, err)" by fastforce
      have "res \<in> {emptyResult, requeueAfter minute} \<and> (err \<noteq> None \<longrightarrow> res = emptyResult)"
        using x [unfolded Ok y] by (cases rule: addon_reconcileNormal_cases) (auto dest: install_loop_result)
      then show ?thesis by (simp add: x Ok y)
    next
      case (Err e)
      then show ?thesis using x addon_reconcileNormal_no_Err [of d r a v e v'] by simp
    next
      case (Panic p)
      then have p: "fst (addon_reconcileNormal d r a v) = Panic p" using x by simp
      have "r_RemoteClientGetter r = None"
        by (rule panic_means_nil [where m = "addon_reconcileNormal d r a", OF _ p]) (rule addon_reconcileNormal_safe)
      then show ?thesis by (simp add: p)
    qed
  qed
  show ?thesis
  proof (cases g)
    case (Inr a)
    then show ?thesis
      using g normal [of a "w\<lparr>svc := s\<rparr>"]
      by (auto simp: addon_Reconcile_def io_simps ext_call_def emptyResult_def split: outcome.splits if_splits)
  qed (use g in \<open>simp add: addon_Reconcile_def io_simps ext_call_def emptyResult_def\<close>)
qed

lemma policy_requeue:
  "case fst (policy_Reconcile d r req w) of
      Ok (res, err) \<Rightarrow> RequeueAfter res \<in> {0, minute, 5 * minute} \<and> (err \<noteq> None \<longrightarrow> res = emptyResult) \<and> \<not> Requeue res
    | Err e \<Rightarrow> False
    | Panic s \<Rightarrow> r_RemoteClientGetter r = None"
proof -
  let ?ok = "\<lambda>m v. (case fst (m v) of
      Ok (res, err) \<Rightarrow> res \<in> {emptyResult, requeueAfter minute, requeueAfter (5 * minute)} \<and> (err \<noteq> None \<longrightarrow> res = emptyResult)
    | Err e \<Rightarrow> False
    | Panic s \<Rightarrow> r_RemoteClientGetter r = None)"
  obtain g s where g: "mc_GetPolicy (r_Client r) req (svc w) = (g, s)" by fastforce
  have normal: "?ok (policy_reconcileNormal d r p) v" for p v
  proof (cases "fst (policy_reconcileNormal d r p v)")
    case (Ok y)
    then show ?thesis
      by (auto simp: policy_reconcileNormal_def statusUpdate_def io_simps Let_def defaultRequeueDuration_def minute_def
          split: prod.splits outcome.splits if_splits)
  next
    case (Err e)
    then show ?thesis using policy_reconcileNormal_no_Err [of d r p v e] by (metis prod.collapse)
  next
    case (Panic s)
    then show ?thesis using panic_means_nil [OF policy_reconcileNormal_safe] by fastforce
  qed
  have delete: "?ok (policy_reconcileDelete d r p) v" for p v
  proof (cases "fst (policy_reconcileDelete d r p v)")
    case (Ok y)
    then show ?thesis
      by (auto simp: policy_reconcileDelete_def io_simps split: prod.splits outcome.splits if_splits)
  next
    case (Err e)
    then show ?thesis using policy_reconcileDelete_no_Err [of d r p v e] by (metis prod.collapse)
  next
    case (Panic s)
    then show ?thesis using panic_means_nil [OF policy_reconcileDelete_safe] by fastforce
  qed
  show ?thesis
  proof (cases g)
    case (Inr p)
    then show ?thesis
      using g normal [of p "w\<lparr>svc := s\<rparr>"] delete [of p "w\<lparr>svc := s\<rparr>"]
      by (auto simp: policy_Reconcile_def io_simps ext_call_def emptyResult_def split: outcome.splits if_splits)
  qed (use g in \<open>simp add: policy_Reconcile_def io_simps ext_call_def emptyResult_def\<close>)
qed

section \<open>A system in memory\<close>

lemma HasAnnotation_iff: "HasAnnotation m k \<longleftrightarrow> annotations_of m k \<noteq> None"
  by (simp add: HasAnnotation_def annotations_of_def split: option.split)

text \<open>
  A management cluster in memory for the policy controller, whose lists name every cluster as it is stored under its key.
\<close>

definition storedCluster :: "mem \<Rightarrow> Cluster \<Rightarrow> Cluster" where
  "storedCluster s c = (case find (keyed cl_Meta (cl_Key c)) (m_clusters s) of None \<Rightarrow> c | Some c' \<Rightarrow> c')"

definition policyReconciler :: "mem Reconciler" where
  "policyReconciler = memReconciler\<lparr>r_Client := memMgmt\<lparr>mc_ListClusters :=
     (\<lambda>ns sel s. (Inr (filter (\<lambda>c. cl_Namespace c = ns \<and> (case sel of None \<Rightarrow> True | Some m \<Rightarrow> m (cl_Labels c)))
        (map (storedCluster s) (m_clusters s))), s))\<rparr>\<rparr>"

lemma storedCluster_annotations:
  assumes "c \<in> set (m_clusters s)"
  shows "annotations_of (cl_Meta (storedCluster s c)) = memAnnotations s (cl_Key (storedCluster s c))"
proof -
  have "list_ex (keyed cl_Meta (cl_Key c)) (m_clusters s)" using assms by (auto simp: list_ex_iff keyed_def)
  then obtain c' where "find (keyed cl_Meta (cl_Key c)) (m_clusters s) = Some c'" "cl_Key c' = cl_Key c"
    using list_ex_find [of "keyed cl_Meta (cl_Key c)"] by (auto simp: keyed_def)
  then show ?thesis by (simp add: storedCluster_def memAnnotations_def)
qed

lemma mem_annotations_status: "memAnnotations (s\<lparr>m_status := x\<rparr>) = memAnnotations s"
  by (simp add: memAnnotations_def fun_eq_iff)

lemma mem_system_laws: "system_laws (=) memDeps memReconciler policyReconciler memAnnotations m_addonStatus"
  unfolding system_laws_def
proof (intro conjI allI impI)
  show "addon_management memDeps memReconciler memAnnotations m_addonStatus" by (rule mem_addon_management)
  show "policy_frame (same memAnnotations) policyReconciler"
    unfolding policy_frame_def policy_client_frame_def
    by (simp add: policyReconciler_def memReconciler_def memMgmt_def memGetter_def memClient_def moves_def same_def
        mem_Create_def mem_Get_def mem_Update_def mem_Delete_def mem_annotations_status split: clientObject.split option.split)
  show "list_all (\<lambda>cl. annotations_of (cl_Meta cl) = memAnnotations s (cl_Key cl)) xs"
    if "mc_ListClusters (r_Client policyReconciler) ns sel s = (Inr xs, s')" for ns sel s xs s'
    using that storedCluster_annotations by (auto simp: policyReconciler_def list_all_iff)
qed (simp_all add: memReconciler_def memMgmt_def moves_def same_def keeps_marks_def split: option.split)

text \<open>Writers that change anything but marks, and one of them that keeps erasing the status of all policies.\<close>

lemma mem_disturbed_laws:
  "system_laws (keeps_marks memAnnotations) memDeps memReconciler policyReconciler memAnnotations m_addonStatus"
  using mem_system_laws unfolding system_laws_def by simp

definition eraser :: "mem \<Rightarrow> mem" where
  "eraser s = s\<lparr>m_status := Map.empty\<rparr>"

lemma eraser_disturbs: "disturbs (keeps_marks memAnnotations) eraser"
  by (auto simp: disturbs_def eraser_def keeps_marks_def mem_annotations_status)

end
