(* ===== verification/Policy_Convergence.thy ===== *)
theory Policy_Convergence
  imports Policy_Cleanup
begin

text \<open>
  The policy controller against an abstract specification.  The abstract state is the specification stored in each
  slot of the fleet; a reconciliation deploys the translation of one policy to a set of clusters and changes
  nothing else.  On a healthy fleet, one whose calls succeed whenever the stored objects allow it, that set is
  all eligible clusters, and the status tells whether these are all.
\<close>

section \<open>The abstract specification\<close>

type_synonym deployments = "slot \<Rightarrow> PolicySpec option"

definition deployments :: "'s policyView \<Rightarrow> 's world \<Rightarrow> deployments" where
  "deployments sto w x = map_option wp_Spec (sto (svc w) x)"

definition deploy_to ::
  "NamespacedName set \<Rightarrow> KubewardenPolicy \<Rightarrow> (PolicySpec \<Rightarrow> PolicySpec) \<Rightarrow> deployments \<Rightarrow> deployments" where
  "deploy_to S p adm D =
     (\<lambda>x. if fst x \<in> S \<and> snd x = (policy_kind p, policy_key p) then Some (adm (buildPolicySpec p)) else D x)"

lemma deploy_to_empty [simp]: "deploy_to {} p adm D = D"
  by (simp add: deploy_to_def)

lemma deploy_to_deploy_to: "deploy_to T p adm (deploy_to S p adm D) = deploy_to (S \<union> T) p adm D"
  by (auto simp: deploy_to_def)

lemma deploy_to_cong:
  assumes "kp_Spec p = kp_Spec q"
  shows "deploy_to S p adm D = deploy_to S q adm D"
proof -
  have "buildPolicySpec p = buildPolicySpec q" "policy_kind p = policy_kind q" "policy_key p = policy_key q"
    using assms by (simp_all add: buildPolicySpec_def policy_kind_def policy_key_def)
  then show ?thesis by (simp only: deploy_to_def)
qed

lemma deployments_cong: "sto (svc w) = sto (svc v) \<Longrightarrow> deployments sto w = deployments sto v"
  by (simp add: deployments_def fun_eq_iff)

lemma deployments_has_policy: "deployments sto w (policy_slot c p) = Some (adm (buildPolicySpec p)) \<longleftrightarrow> has_policy sto adm p w c"
  by (auto simp: deployments_def has_policy_def)

text \<open>One deployment is a step of the abstract specification, to its cluster or to none.\<close>

lemma deployPolicy_deployments:
  assumes "policy_client d rc c sto adm" and "deployPolicy d rc p cl w = (Ok (st, err), w')"
  shows "\<exists>S \<subseteq> {c}. deployments sto w' = deploy_to S p adm (deployments sto w) \<and> (err = None \<longrightarrow> S = {c})"
proof -
  obtain z where z: "sto (svc w') = (sto (svc w))(policy_slot c p := z)"
    "z = sto (svc w) (policy_slot c p) \<or> (\<exists>y. z = Some y \<and> wp_Spec y = adm (buildPolicySpec p))"
    "err = None \<longrightarrow> (\<exists>y. z = Some y \<and> wp_Spec y = adm (buildPolicySpec p))"
    using deployPolicy_store [OF assms] by blast
  show ?thesis
  proof (cases "\<exists>y. z = Some y \<and> wp_Spec y = adm (buildPolicySpec p)")
    case True
    then have "deployments sto w' = deploy_to {c} p adm (deployments sto w)"
      using z(1) by (auto simp: deployments_def deploy_to_def fun_eq_iff)
    then show ?thesis by blast
  next
    case False
    then have "sto (svc w') = sto (svc w)" and "err \<noteq> None" using z by (auto simp: fun_upd_idem)
    then show ?thesis using deployments_cong [of sto w' w] by (intro exI [of _ "{}"]) auto
  qed
qed

lemma attempt_deployments:
  assumes laws: "fleet d r sto adm" and run: "attempt d r p cl w = (Ok (o', ok), w')"
  shows "\<exists>S \<subseteq> cl_Key ` Set.filter (eligible d) {cl}.
    deployments sto w' = deploy_to S p adm (deployments sto w) \<and> (ok \<longrightarrow> S = {cl_Key cl})"
proof (cases "eligible d cl")
  case False
  then show ?thesis using run by (auto simp: attempt_ineligible)
next
  case True
  obtain g v where g: "getRemoteClient r cl w = (g, v)" by (cases "getRemoteClient r cl w")
  show ?thesis
  proof (cases g)
    case (Ok rc)
    then have v: "sto (svc v) = sto (svc w)" and client: "policy_client d rc (cl_Key cl) sto adm"
      using fleet_getRemoteClient(1) [OF laws] g by auto
    obtain st err v' where dep: "deployPolicy d rc p cl v = (Ok (st, err), v')"
      using deployPolicy_Ok by blast
    then have "w' = v'" and "ok \<longleftrightarrow> err = None"
      using run True g Ok by (auto simp: attempt_def io_simps split: option.splits)
    then show ?thesis
      using deployPolicy_deployments [OF client dep] deployments_cong [of sto v w, OF v] True by auto
  next
    case (Err e)
    then have "sto (svc v) = sto (svc w)" using fleet_getRemoteClient(2) [OF laws] g by simp
    then show ?thesis
      using run True g Err deployments_cong [of sto v w] by (intro exI [of _ "{}"]) (auto simp: attempt_def io_simps)
  next
    case (Panic s)
    then show ?thesis using run True g by (simp add: attempt_def io_simps)
  qed
qed

lemma attempts_deployments:
  assumes laws: "fleet d r sto adm" and "io_map (attempt d r p) cls w = (Ok rs, w')"
  shows "\<exists>S \<subseteq> cl_Key ` Set.filter (eligible d) (set cls).
    deployments sto w' = deploy_to S p adm (deployments sto w) \<and> (list_all snd rs \<longrightarrow> S = cl_Key ` set cls)"
  using assms(2)
proof (induction cls arbitrary: w rs)
  case Nil
  then show ?case by (auto simp: io_simps)
next
  case (Cons cl cls)
  then obtain b v bs where *: "attempt d r p cl w = (Ok b, v)" "io_map (attempt d r p) cls v = (Ok bs, w')" "rs = b # bs"
    by (elim io_map_ConsE) blast
  obtain S where S: "S \<subseteq> cl_Key ` Set.filter (eligible d) {cl}" "deployments sto v = deploy_to S p adm (deployments sto w)"
    "snd b \<longrightarrow> S = {cl_Key cl}"
    using attempt_deployments [OF laws, of p cl w "fst b" "snd b" v] *(1) by auto
  obtain T where T: "T \<subseteq> cl_Key ` Set.filter (eligible d) (set cls)"
    "deployments sto w' = deploy_to T p adm (deployments sto v)" "list_all snd bs \<longrightarrow> T = cl_Key ` set cls"
    using Cons.IH [OF *(2)] by blast
  have "deployments sto w' = deploy_to (S \<union> T) p adm (deployments sto w)"
    using S(2) T(2) by (simp add: deploy_to_deploy_to)
  moreover have "S \<union> T \<subseteq> cl_Key ` Set.filter (eligible d) (set (cl # cls))" using S(1) T(1) by fastforce
  moreover have "list_all snd rs \<longrightarrow> S \<union> T = cl_Key ` set (cl # cls)" using S(3) T(3) *(3) by auto
  ultimately show ?case by blast
qed

section \<open>Healthy fleets\<close>

text \<open>
  A workload client that never fails without reason: a read finds the object exactly when it is stored and reports
  otherwise that it is not found, a create of an absent object and an update of a stored one succeed.
\<close>

definition healthy_client :: "'s Deps \<Rightarrow> 's RemoteClient \<Rightarrow> NamespacedName \<Rightarrow> 's policyView \<Rightarrow> bool" where
  "healthy_client d rc c sto \<longleftrightarrow>
     (\<forall>k n s. case sto s (c, k, n) of
        Some x \<Rightarrow> fst (rc_Get rc k n s) = Inr x
      | None \<Rightarrow> (\<exists>e. fst (rc_Get rc k n s) = Inl e \<and> d_IsNotFound d e)) \<and>
     (\<forall>k x s. sto s (c, k, wp_Key x) = None \<longrightarrow> fst (rc_Create rc (PolicyObject k x) s) = Inr ()) \<and>
     (\<forall>k x s. sto s (c, k, wp_Key x) \<noteq> None \<longrightarrow> fst (rc_Update rc k x s) = Inr ())"

definition healthy :: "'s Deps \<Rightarrow> 's Reconciler \<Rightarrow> 's policyView \<Rightarrow> bool" where
  "healthy d r sto \<longleftrightarrow>
     (\<exists>get. r_RemoteClientGetter r = Some get \<and>
        (\<forall>name c s. \<exists>rc s'. get name c s = (Inr rc, s') \<and> healthy_client d rc c sto)) \<and>
     (\<forall>p s. fst (mc_StatusUpdatePolicy (r_Client r) p s) = Inr ())"

lemma ext_call_succeeds: "fst (c (svc w)) = Inr a \<Longrightarrow> \<exists>v. ext_call c w = (Ok a, v)"
  by (cases "c (svc w)") (simp add: ext_call_def)

lemma healthy_client_Get:
  assumes "healthy_client d rc c sto"
  shows "sto (svc w) (c, k, n) = Some x \<Longrightarrow> \<exists>v. ext_call (rc_Get rc k n) w = (Ok x, v)"
    and "ext_call (rc_Get rc k n) w = (Err e, v) \<Longrightarrow> d_IsNotFound d e \<and> sto (svc w) (c, k, n) = None"
proof -
  have *: "case sto (svc w) (c, k, n) of Some x \<Rightarrow> fst (rc_Get rc k n (svc w)) = Inr x
      | None \<Rightarrow> (\<exists>e. fst (rc_Get rc k n (svc w)) = Inl e \<and> d_IsNotFound d e)"
    using assms by (simp add: healthy_client_def)
  show "sto (svc w) (c, k, n) = Some x \<Longrightarrow> \<exists>v. ext_call (rc_Get rc k n) w = (Ok x, v)"
    using * by (auto intro: ext_call_succeeds)
  show "ext_call (rc_Get rc k n) w = (Err e, v) \<Longrightarrow> d_IsNotFound d e \<and> sto (svc w) (c, k, n) = None"
    using * by (auto simp: ext_call_Err split: option.splits)
qed

context upsert
begin

lemma deploy_succeeds:
  assumes client: "policy_client d rc c sto adm" and healthy: "healthy_client d rc c sto"
  shows "\<exists>w'. deploy w = (Ok (), w')"
proof (cases rule: deploy_cases [of w])
  case (found x v)
  then have "sto (svc v) (c, kind, wp_Key (x\<lparr>wp_Spec := wp_Spec obj\<rparr>)) \<noteq> None"
    using policy_client_Get(1) [OF client found(1)] by simp
  then show ?thesis
    using healthy found(2) by (auto simp: healthy_client_def intro!: ext_call_succeeds)
next
  case (missing e v)
  then have "sto (svc v) (c, kind, wp_Key obj) = None"
    using policy_client_Get(2) [OF client missing(1)] by simp
  then show ?thesis
    using healthy missing(3) by (auto simp: healthy_client_def intro!: ext_call_succeeds)
next
  case (failed e v)
  then show ?thesis using healthy_client_Get(2) [OF healthy failed(1)] by simp
qed

end

lemma deployPolicy_succeeds:
  assumes client: "policy_client d rc c sto adm" and healthy: "healthy_client d rc c sto"
  shows "\<exists>st w'. deployPolicy d rc p cl w = (Ok (st, None), w')"
proof -
  have "\<exists>v. deployTyped d rc p w = (Ok (), v)"
    using cap.deploy_succeeds [OF assms, of p w] ap.deploy_succeeds [OF assms, of p w]
    by (simp add: deployTyped_def)
  then obtain v where v: "deployTyped d rc p w = (Ok (), v)" by blast
  then obtain y where "sto (svc v) (policy_slot c p) = Some y" using deployTyped_Ok [OF client v] by auto
  then obtain v' where "ext_call (rc_Get rc (policy_kind p) (policy_key p)) v = (Ok y, v')"
    using healthy_client_Get(1) [OF healthy] by blast
  then show ?thesis using v by (simp add: deployPolicy_run isPolicyActive_shape io_simps)
qed

lemma healthy_getRemoteClient:
  assumes "healthy d r sto"
  shows "\<exists>rc v. getRemoteClient r cl w = (Ok rc, v) \<and> healthy_client d rc (cl_Key cl) sto"
proof -
  obtain get where get: "r_RemoteClientGetter r = Some get"
    "\<And>name c s. \<exists>rc s'. get name c s = (Inr rc, s') \<and> healthy_client d rc c sto"
    using assms by (auto simp: healthy_def)
  obtain rc s' where "get (cl_Name cl) (cl_Key cl) (svc w) = (Inr rc, s')" "healthy_client d rc (cl_Key cl) sto"
    using get(2) by blast
  then show ?thesis using get(1) by (simp add: getRemoteClient_def ext_call_def)
qed

lemma attempt_succeeds:
  assumes "fleet d r sto adm" and "healthy d r sto"
  shows "\<exists>o' w'. attempt d r p cl w = (Ok (o', eligible d cl), w') \<and> (o' \<noteq> None \<longleftrightarrow> eligible d cl)"
proof (cases "eligible d cl")
  case True
  obtain rc v where g: "getRemoteClient r cl w = (Ok rc, v)" "healthy_client d rc (cl_Key cl) sto"
    using healthy_getRemoteClient [OF assms(2)] by blast
  then obtain st w' where "deployPolicy d rc p cl v = (Ok (st, None), w')"
    using fleet_getRemoteClient(1) [OF assms(1) g(1)] deployPolicy_succeeds by blast
  then show ?thesis using True g by (simp add: attempt_def io_simps)
qed (simp add: attempt_ineligible)

lemma attempts_succeed:
  assumes "fleet d r sto adm" and "healthy d r sto"
  shows "\<exists>rs w'. io_map (attempt d r p) cls w = (Ok rs, w') \<and> map snd rs = map (eligible d) cls \<and>
    map dps_ClusterName (fst (collect rs)) = map cl_Name (filter (eligible d) cls) \<and>
    deployments sto w' = deploy_to (cl_Key ` Set.filter (eligible d) (set cls)) p adm (deployments sto w)"
proof (induction cls arbitrary: w)
  case Nil
  then show ?case by (simp add: io_simps collect_def List.map_filter_def)
next
  case (Cons cl cls)
  obtain o' v where o': "attempt d r p cl w = (Ok (o', eligible d cl), v)" "o' \<noteq> None \<longleftrightarrow> eligible d cl"
    using attempt_succeeds [OF assms] by blast
  obtain S where S: "S \<subseteq> cl_Key ` Set.filter (eligible d) {cl}" "deployments sto v = deploy_to S p adm (deployments sto w)"
    "eligible d cl \<longrightarrow> S = {cl_Key cl}"
    using attempt_deployments [OF assms(1) o'(1)] by blast
  obtain rs w' where rs: "io_map (attempt d r p) cls v = (Ok rs, w')" "map snd rs = map (eligible d) cls"
    "map dps_ClusterName (fst (collect rs)) = map cl_Name (filter (eligible d) cls)"
    "deployments sto w' = deploy_to (cl_Key ` Set.filter (eligible d) (set cls)) p adm (deployments sto v)"
    using Cons.IH by blast
  have "S \<union> cl_Key ` Set.filter (eligible d) (set cls) = cl_Key ` Set.filter (eligible d) (set (cl # cls))"
    using S(1,3) by (cases "eligible d cl") auto
  then have "deployments sto w' = deploy_to (cl_Key ` Set.filter (eligible d) (set (cl # cls))) p adm (deployments sto w)"
    using S(2) rs(4) by (simp add: deploy_to_deploy_to)
  moreover have "map dps_ClusterName (fst (collect ((o', eligible d cl) # rs))) = map cl_Name (filter (eligible d) (cl # cls))"
    using o'(2) rs(3) attempt_result(2) [OF o'(1)] by (cases o') (auto simp: collect_def)
  ultimately show ?case using o'(1) rs(1,2) by (simp add: io_simps)
qed

lemma mem_healthy: "healthy memDeps memReconciler memView"
  by (auto simp: healthy_def healthy_client_def memReconciler_def memGetter_def memClient_def mem_Get_def
      mem_Create_def mem_Update_def memDeps_def memMgmt_def split: option.splits)

text \<open>One reconciliation on a healthy fleet.\<close>

lemma reconcile_converges:
  assumes "fleet d r sto adm" and "status_law r sto pol" and "list_law r sto" and "healthy d r sto"
    and "getMatchingClusters d r p w = (Ok cls, v)" and "cls \<noteq> []"
  shows "\<exists>w' st. policy_reconcileNormal d r p w = (Ok (requeueAfter (5 * minute), None), w') \<and>
    pol (svc w') (ObjectKeyFromObject (kp_Meta p)) = Some st \<and>
    deployments sto w' = deploy_to (cl_Key ` Set.filter (eligible d) (set cls)) p adm (deployments sto w) \<and>
    map dps_ClusterName (kpst_DeployedPolicies st) = map cl_Name (filter (eligible d) cls) \<and>
    (kpst_Ready st \<longleftrightarrow> list_all (eligible d) cls)"
proof -
  let ?p = "Policy_SetMatchingClusters cls p"
  obtain rs u where rs: "io_map (attempt d r ?p) cls v = (Ok rs, u)" "map snd rs = map (eligible d) cls"
    "map dps_ClusterName (fst (collect rs)) = map cl_Name (filter (eligible d) cls)"
    "deployments sto u = deploy_to (cl_Key ` Set.filter (eligible d) (set cls)) ?p adm (deployments sto v)"
    using attempts_succeed [OF assms(1,4)] by blast
  obtain w' where w': "ext_call (mc_StatusUpdatePolicy (r_Client r) (reconciled_policy p cls (collect rs))) u = (Ok (), w')"
    using assms(4) ext_call_succeeds by (fastforce simp: healthy_def)
  have run: "policy_reconcileNormal d r p w = (Ok (requeueAfter (5 * minute), None), w')"
    using assms(5,6) rs(1) w' by (simp add: policy_reconcileNormal_def io_simps Let_def deploy_loop_attempts
        reconciled_policy_def split_beta statusUpdate_def)
  note stored = status_law_update(1) [OF assms(2) w']
  have "deployments sto w' = deployments sto u" "deployments sto v = deployments sto w"
    using stored staysD [OF getMatchingClusters_stays [OF assms(3)] assms(5)]
    by (auto simp: same_def intro: deployments_cong)
  then have "deployments sto w' = deploy_to (cl_Key ` Set.filter (eligible d) (set cls)) p adm (deployments sto w)"
    using rs(4) deploy_to_cong [of ?p p] by simp
  moreover have "list_all snd rs \<longleftrightarrow> list_all (eligible d) cls"
    using arg_cong [OF rs(2), of "list_all (\<lambda>b. b)"] by (simp add: list.pred_map comp_def)
  ultimately show ?thesis using run stored rs(3) by (simp add: collect_def)
qed

section \<open>Properties\<close>

text \<open>C4: the policy controller refines its specification.  Whatever fails on the way, a reconciliation that ends without
  error has deployed the translation of the policy to a set of eligible matching clusters and has changed the
  specification of no other stored policy; the stored status is ready only when that set is all matching clusters.\<close>

theorem policy_reconcile_refines_deploy:
  assumes "fleet d r sto adm" and "status_law r sto pol" and "list_law r sto"
    and "policy_reconcileNormal d r p w = (Ok (res, None), w')"
  shows "\<exists>cls v S st. getMatchingClusters d r p w = (Ok cls, v) \<and>
    S \<subseteq> cl_Key ` Set.filter (eligible d) (set cls) \<and>
    deployments sto w' = deploy_to S p adm (deployments sto w) \<and>
    pol (svc w') (ObjectKeyFromObject (kp_Meta p)) = Some st \<and>
    (kpst_Ready st \<longrightarrow> cls \<noteq> [] \<and> S = cl_Key ` set cls)"
  using assms(4)
proof (cases rule: reconcileNormal_success)
  case (no_cluster v)
  have "sto (svc w') = sto (svc w)"
    using staysD [OF getMatchingClusters_stays [OF assms(3)] no_cluster(1)]
      status_law_update(1) [OF assms(2) no_cluster(2)] by (simp add: same_def)
  then show ?thesis
    using no_cluster(1) status_law_update(1) [OF assms(2) no_cluster(2)] deployments_cong [of sto w' w]
    by (intro exI [of _ "[]"] exI [of _ v] exI [of _ "{}"]) simp
next
  case (clusters cls v rs v')
  note stored = status_law_update(1) [OF assms(2) clusters(4)]
  obtain S where S: "S \<subseteq> cl_Key ` Set.filter (eligible d) (set cls)"
    "deployments sto v' = deploy_to S (Policy_SetMatchingClusters cls p) adm (deployments sto v)"
    "list_all snd rs \<longrightarrow> S = cl_Key ` set cls"
    using attempts_deployments [OF assms(1) clusters(3)] by blast
  have "deployments sto w' = deployments sto v'" "deployments sto v = deployments sto w"
    using stored staysD [OF getMatchingClusters_stays [OF assms(3)] clusters(1)]
    by (auto simp: same_def intro: deployments_cong)
  then have "deployments sto w' = deploy_to S p adm (deployments sto w)"
    using S(2) deploy_to_cong [of "Policy_SetMatchingClusters cls p" p] by simp
  then show ?thesis using clusters(1,2) S(1,3) stored by (auto simp: collect_def)
qed

theorem policy_reconcile_refines_deploy_witness:
  "\<exists>res w' S. policy_reconcileNormal memDeps memReconciler samplePolicy onePolicyWorld = (Ok (res, None), w') \<and>
     deployments memView w' = deploy_to S samplePolicy (\<lambda>x. x) (deployments memView onePolicyWorld)"
proof -
  have "\<exists>res w'. policy_reconcileNormal memDeps memReconciler samplePolicy onePolicyWorld = (Ok (res, None), w')"
    by (simp add: policy_run_simps mem_client_simps sample_defs onePolicyWorld_def memView_def notFound_def)
  then show ?thesis
    using policy_reconcile_refines_deploy [OF mem_fleet mem_status_law mem_list_law] by blast
qed

text \<open>C5: on a healthy fleet one reconciliation converges.  When a policy matches at least one cluster, the reconciliation
  returns without error and asks to be repeated after five minutes; the translation of the policy is then stored in exactly
  the eligible matching clusters beside what was there before, the status has one deployment entry for each of
  these in order, and it is ready exactly when every matching cluster is eligible.\<close>

theorem policy_converges:
  assumes "fleet d r sto adm" and "status_law r sto pol" and "list_law r sto" and "healthy d r sto"
    and "getMatchingClusters d r p w = (Ok cls, v)" and "cls \<noteq> []"
  shows "\<exists>w' st. policy_reconcileNormal d r p w = (Ok (requeueAfter (5 * minute), None), w') \<and>
    pol (svc w') (ObjectKeyFromObject (kp_Meta p)) = Some st \<and>
    deployments sto w' = deploy_to (cl_Key ` Set.filter (eligible d) (set cls)) p adm (deployments sto w) \<and>
    map dps_ClusterName (kpst_DeployedPolicies st) = map cl_Name (filter (eligible d) cls) \<and>
    (kpst_Ready st \<longleftrightarrow> list_all (eligible d) cls)"
  by (rule reconcile_converges [OF assms])

theorem policy_converges_witness:
  "\<exists>w' st. policy_reconcileNormal memDeps memReconciler samplePolicy twoClusterWorld =
       (Ok (requeueAfter (5 * minute), None), w') \<and>
     m_status (svc w') (ObjectKeyFromObject (kp_Meta samplePolicy)) = Some st \<and> \<not> kpst_Ready st \<and>
     map dps_ClusterName (kpst_DeployedPolicies st) = [''prod'']"
proof -
  let ?cls = "[installedCluster ''prod'', sampleCluster ''dev'']"
  have cls: "\<exists>v. getMatchingClusters memDeps memReconciler samplePolicy twoClusterWorld = (Ok ?cls, v)"
    by (simp add: policy_run_simps mem_client_simps sample_defs twoClusterWorld_def)
  have el: "map cl_Name (filter (eligible memDeps) ?cls) = [''prod'']" "\<not> list_all (eligible memDeps) ?cls"
    by (simp_all add: eligible_def policy_run_simps mem_client_simps sample_defs)
  obtain v where "getMatchingClusters memDeps memReconciler samplePolicy twoClusterWorld = (Ok ?cls, v)"
    using cls by blast
  then obtain w' st where
    "policy_reconcileNormal memDeps memReconciler samplePolicy twoClusterWorld = (Ok (requeueAfter (5 * minute), None), w')"
    "m_status (svc w') (ObjectKeyFromObject (kp_Meta samplePolicy)) = Some st"
    "map dps_ClusterName (kpst_DeployedPolicies st) = map cl_Name (filter (eligible memDeps) ?cls)"
    "kpst_Ready st \<longleftrightarrow> list_all (eligible memDeps) ?cls"
    using policy_converges [OF mem_fleet mem_status_law mem_list_law mem_healthy] by blast
  then show ?thesis unfolding el(1) using el(2) by (intro exI [of _ w'] exI [of _ st]) simp
qed

end
