(* ===== verification/Deep_Copy.thy ===== *)
theory Deep_Copy
  imports API_Types
begin

text \<open>
  The generated copy methods, \<open>api/v1alpha1/zz_generated.deepcopy.go\<close>, over an explicit store, because what they
  promise is about sharing.  A slice is a header (array, offset, length), nil is \<open>None\<close>; an array is a cell of the
  store.  The values of packages outside the repository (\<open>ObjectMeta\<close>, \<open>ListMeta\<close>, \<open>LabelSelector\<close>,
  \<open>RawExtension\<close>, \<open>Condition\<close>, \<open>*Time\<close>) are values of a type \<open>'x\<close>, and their copy methods are parameters.
\<close>

section \<open>Values and the store\<close>

record slice =
  sl_addr :: nat
  sl_off :: nat
  sl_len :: nat

record hPolicyRule =
  hpr_APIGroups :: "slice option"
  hpr_APIVersions :: "slice option"
  hpr_Resources :: "slice option"
  hpr_Operations :: "slice option"
  hpr_Scope :: string

record 'x hDeployedPolicyStatus =
  hd_ClusterName :: string
  hd_ClusterNamespace :: string
  hd_PolicyName :: string
  hd_PolicyType :: string
  hd_Active :: bool
  hd_LastTransitionTime :: "'x option"
  hd_Message :: string

record TypeMeta =
  tm_Kind :: string
  tm_APIVersion :: string

record 'x hAddonSpec =
  has_ClusterSelector :: 'x
  has_Version :: string
  has_ImageRepository :: string
  has_PolicyServerConfig :: PolicyServerConfig

record hAddonStatus =
  hast_Ready :: bool
  hast_Conditions :: "slice option"
  hast_MatchingClusters :: "slice option"

record 'x hAddon =
  ha_TypeMeta :: TypeMeta
  ha_Meta :: 'x
  ha_Spec :: "'x hAddonSpec"
  ha_Status :: hAddonStatus

record 'x hAddonList =
  hal_TypeMeta :: TypeMeta
  hal_ListMeta :: 'x
  hal_Items :: "slice option"

record 'x hPolicySpec =
  hps_ClusterSelector :: 'x
  hps_PolicyType :: string
  hps_PolicyName :: string
  hps_TargetNamespace :: string
  hps_PolicyServer :: string
  hps_Module :: string
  hps_Rules :: "slice option"
  hps_Mutating :: bool
  hps_Settings :: 'x
  hps_FailurePolicy :: string
  hps_MatchConditions :: "slice option"

record hPolicyStatus =
  hpst_Ready :: bool
  hpst_Conditions :: "slice option"
  hpst_MatchingClusters :: "slice option"
  hpst_DeployedPolicies :: "slice option"

record 'x hPolicy =
  hp_TypeMeta :: TypeMeta
  hp_Meta :: 'x
  hp_Spec :: "'x hPolicySpec"
  hp_Status :: hPolicyStatus

record 'x hPolicyList =
  hpl_TypeMeta :: TypeMeta
  hpl_ListMeta :: 'x
  hpl_Items :: "slice option"

text \<open>
  One cell holds an array of one element type; a pointer to a structure points to an array of one element.
  \<open>OpaqueCell\<close> is what outside packages allocate.
\<close>

datatype 'x cell =
    StringCells "string list"
  | ReferenceCells "ObjectReference list"
  | ConditionCells "'x list"
  | MatchConditionCells "MatchCondition list"
  | RuleCells "hPolicyRule list"
  | DeployedCells "'x hDeployedPolicyStatus list"
  | AddonCells "'x hAddon list"
  | AddonListCells "'x hAddonList list"
  | AddonSpecCells "'x hAddonSpec list"
  | AddonStatusCells "hAddonStatus list"
  | PolicyCells "'x hPolicy list"
  | PolicyListCells "'x hPolicyList list"
  | PolicySpecCells "'x hPolicySpec list"
  | PolicyStatusCells "hPolicyStatus list"
  | ServerConfigCells "PolicyServerConfig list"
  | ResourceCells "ResourceRequirements list"
  | OpaqueCell 'x

record 'x heap =
  cells :: "nat \<Rightarrow> 'x cell option"
  next_addr :: nat

text \<open>Copying a value into a new one, which may allocate.\<close>

type_synonym ('x, 'a) copier = "'a \<Rightarrow> 'x heap \<Rightarrow> 'a \<times> 'x heap"

record 'x ExternalCopy =
  xc_ObjectMeta :: "('x, 'x) copier"
  xc_ListMeta :: "('x, 'x) copier"
  xc_LabelSelector :: "('x, 'x) copier"
  xc_RawExtension :: "('x, 'x) copier"
  xc_Condition :: "('x, 'x) copier"
  xc_Time :: "('x, 'x) copier"

text \<open>The elements of an array of each type; a Go slice never points to an array of another type.\<close>

definition strings_of :: "'x cell \<Rightarrow> string list" where
  "strings_of c = (case c of StringCells xs \<Rightarrow> xs | _ \<Rightarrow> [])"

definition references_of :: "'x cell \<Rightarrow> ObjectReference list" where
  "references_of c = (case c of ReferenceCells xs \<Rightarrow> xs | _ \<Rightarrow> [])"

definition conditions_of :: "'x cell \<Rightarrow> 'x list" where
  "conditions_of c = (case c of ConditionCells xs \<Rightarrow> xs | _ \<Rightarrow> [])"

definition matchConditions_of :: "'x cell \<Rightarrow> MatchCondition list" where
  "matchConditions_of c = (case c of MatchConditionCells xs \<Rightarrow> xs | _ \<Rightarrow> [])"

definition rules_of :: "'x cell \<Rightarrow> hPolicyRule list" where
  "rules_of c = (case c of RuleCells xs \<Rightarrow> xs | _ \<Rightarrow> [])"

definition deployed_of :: "'x cell \<Rightarrow> 'x hDeployedPolicyStatus list" where
  "deployed_of c = (case c of DeployedCells xs \<Rightarrow> xs | _ \<Rightarrow> [])"

definition addons_of :: "'x cell \<Rightarrow> 'x hAddon list" where
  "addons_of c = (case c of AddonCells xs \<Rightarrow> xs | _ \<Rightarrow> [])"

definition policies_of :: "'x cell \<Rightarrow> 'x hPolicy list" where
  "policies_of c = (case c of PolicyCells xs \<Rightarrow> xs | _ \<Rightarrow> [])"

section \<open>Allocation, slices\<close>

definition reserve :: "'x heap \<Rightarrow> nat \<times> 'x heap" where
  "reserve h = (next_addr h, h\<lparr>next_addr := Suc (next_addr h)\<rparr>)"

definition store :: "nat \<Rightarrow> 'x cell \<Rightarrow> 'x heap \<Rightarrow> 'x heap" where
  "store a c h = h\<lparr>cells := (cells h)(a := Some c)\<rparr>"

definition elems :: "('x cell \<Rightarrow> 'a list) \<Rightarrow> 'x heap \<Rightarrow> slice \<Rightarrow> 'a list" where
  "elems proj h s =
     take (sl_len s) (drop (sl_off s) (case cells h (sl_addr s) of None \<Rightarrow> [] | Some c \<Rightarrow> proj c))"

text \<open>\<open>*out = *in\<close> for a type without references, the element step of \<open>copy\<close>.\<close>

definition flat :: "('x, 'a) copier" where
  "flat x h = (x, h)"

fun copy_elems :: "('x, 'a) copier \<Rightarrow> ('x, 'a list) copier" where
  "copy_elems into [] h = ([], h)"
| "copy_elems into (x # xs) h =
     (case into x h of (y, h1) \<Rightarrow> (case copy_elems into xs h1 of (ys, h2) \<Rightarrow> (y # ys, h2)))"

text \<open>
  \<open>if in.F != nil { *out = make([]T, len(*in)); for i := range *in { (*in)[i].DeepCopyInto(&(*out)[i]) } }\<close>: the new
  array has its address before the elements are copied; it holds the copied elements when the loop ends.
\<close>

definition copy_slice ::
  "('a list \<Rightarrow> 'x cell) \<Rightarrow> ('x cell \<Rightarrow> 'a list) \<Rightarrow> ('x, 'a) copier \<Rightarrow> ('x, slice option) copier" where
  "copy_slice mk proj into s h =
     (case s of
        None \<Rightarrow> (None, h)
      | Some sl \<Rightarrow>
          (case reserve h of (a, h1) \<Rightarrow>
            (case copy_elems into (elems proj h sl) h1 of (ys, h2) \<Rightarrow>
               (Some \<lparr>sl_addr = a, sl_off = 0, sl_len = length (elems proj h sl)\<rparr>, store a (mk ys) h2))))"

text \<open>The body of every \<open>DeepCopy\<close>: nil for a nil receiver, otherwise \<open>new(T)\<close> and \<open>DeepCopyInto\<close>.\<close>

definition copy_new :: "('a list \<Rightarrow> 'x cell) \<Rightarrow> ('x, 'a) copier \<Rightarrow> 'a option \<Rightarrow> 'x heap \<Rightarrow> nat option \<times> 'x heap" where
  "copy_new mk into p h =
     (case p of
        None \<Rightarrow> (None, h)
      | Some v \<Rightarrow>
          (case reserve h of (a, h1) \<Rightarrow> (case into v h1 of (out, h2) \<Rightarrow> (Some a, store a (mk [out]) h2))))"

section \<open>The methods\<close>

text \<open>Types without references.\<close>

definition DeepCopyInto_MatchCondition :: "('x, MatchCondition) copier" where
  "DeepCopyInto_MatchCondition = flat"

definition DeepCopyInto_ResourceRequirements :: "('x, ResourceRequirements) copier" where
  "DeepCopyInto_ResourceRequirements = flat"

definition DeepCopyInto_PolicyServerConfig :: "('x, PolicyServerConfig) copier" where
  "DeepCopyInto_PolicyServerConfig v h =
     (let out = v; out = out\<lparr>psc_Resources := psc_Resources v\<rparr> in (out, h))"

definition DeepCopyInto_PolicyRule :: "('x, hPolicyRule) copier" where
  "DeepCopyInto_PolicyRule v h =
     (case copy_slice StringCells strings_of flat (hpr_APIGroups v) h of (g, h) \<Rightarrow>
     (case copy_slice StringCells strings_of flat (hpr_APIVersions v) h of (vs, h) \<Rightarrow>
     (case copy_slice StringCells strings_of flat (hpr_Resources v) h of (rs, h) \<Rightarrow>
     (case copy_slice StringCells strings_of flat (hpr_Operations v) h of (ops, h) \<Rightarrow>
       (v\<lparr>hpr_APIGroups := g, hpr_APIVersions := vs, hpr_Resources := rs, hpr_Operations := ops\<rparr>, h)))))"

definition DeepCopyInto_DeployedPolicyStatus :: "'x ExternalCopy \<Rightarrow> ('x, 'x hDeployedPolicyStatus) copier" where
  "DeepCopyInto_DeployedPolicyStatus xc v h =
     (case hd_LastTransitionTime v of
        None \<Rightarrow> (v, h)
      | Some t \<Rightarrow> (case xc_Time xc t h of (t', h) \<Rightarrow> (v\<lparr>hd_LastTransitionTime := Some t'\<rparr>, h)))"

text \<open>\<open>KubewardenAddon\<close>.\<close>

definition DeepCopyInto_KubewardenAddonSpec :: "'x ExternalCopy \<Rightarrow> ('x, 'x hAddonSpec) copier" where
  "DeepCopyInto_KubewardenAddonSpec xc v h =
     (case xc_LabelSelector xc (has_ClusterSelector v) h of (sel, h) \<Rightarrow>
       (v\<lparr>has_ClusterSelector := sel, has_PolicyServerConfig := has_PolicyServerConfig v\<rparr>, h))"

definition DeepCopyInto_KubewardenAddonStatus :: "'x ExternalCopy \<Rightarrow> ('x, hAddonStatus) copier" where
  "DeepCopyInto_KubewardenAddonStatus xc v h =
     (case copy_slice ConditionCells conditions_of (xc_Condition xc) (hast_Conditions v) h of (cs, h) \<Rightarrow>
     (case copy_slice ReferenceCells references_of flat (hast_MatchingClusters v) h of (ms, h) \<Rightarrow>
       (v\<lparr>hast_Conditions := cs, hast_MatchingClusters := ms\<rparr>, h)))"

definition DeepCopyInto_KubewardenAddon :: "'x ExternalCopy \<Rightarrow> ('x, 'x hAddon) copier" where
  "DeepCopyInto_KubewardenAddon xc v h =
     (case xc_ObjectMeta xc (ha_Meta v) h of (m, h) \<Rightarrow>
     (case DeepCopyInto_KubewardenAddonSpec xc (ha_Spec v) h of (sp, h) \<Rightarrow>
     (case DeepCopyInto_KubewardenAddonStatus xc (ha_Status v) h of (st, h) \<Rightarrow>
       (v\<lparr>ha_TypeMeta := ha_TypeMeta v, ha_Meta := m, ha_Spec := sp, ha_Status := st\<rparr>, h))))"

definition DeepCopyInto_KubewardenAddonList :: "'x ExternalCopy \<Rightarrow> ('x, 'x hAddonList) copier" where
  "DeepCopyInto_KubewardenAddonList xc v h =
     (case xc_ListMeta xc (hal_ListMeta v) h of (m, h) \<Rightarrow>
     (case copy_slice AddonCells addons_of (DeepCopyInto_KubewardenAddon xc) (hal_Items v) h of (items, h) \<Rightarrow>
       (v\<lparr>hal_TypeMeta := hal_TypeMeta v, hal_ListMeta := m, hal_Items := items\<rparr>, h)))"

text \<open>\<open>KubewardenPolicy\<close>.\<close>

definition DeepCopyInto_KubewardenPolicySpec :: "'x ExternalCopy \<Rightarrow> ('x, 'x hPolicySpec) copier" where
  "DeepCopyInto_KubewardenPolicySpec xc v h =
     (case xc_LabelSelector xc (hps_ClusterSelector v) h of (sel, h) \<Rightarrow>
     (case copy_slice RuleCells rules_of DeepCopyInto_PolicyRule (hps_Rules v) h of (rules, h) \<Rightarrow>
     (case xc_RawExtension xc (hps_Settings v) h of (settings, h) \<Rightarrow>
     (case copy_slice MatchConditionCells matchConditions_of flat (hps_MatchConditions v) h of (mcs, h) \<Rightarrow>
       (v\<lparr>hps_ClusterSelector := sel, hps_Rules := rules, hps_Settings := settings, hps_MatchConditions := mcs\<rparr>, h)))))"

definition DeepCopyInto_KubewardenPolicyStatus :: "'x ExternalCopy \<Rightarrow> ('x, hPolicyStatus) copier" where
  "DeepCopyInto_KubewardenPolicyStatus xc v h =
     (case copy_slice ConditionCells conditions_of (xc_Condition xc) (hpst_Conditions v) h of (cs, h) \<Rightarrow>
     (case copy_slice ReferenceCells references_of flat (hpst_MatchingClusters v) h of (ms, h) \<Rightarrow>
     (case copy_slice DeployedCells deployed_of (DeepCopyInto_DeployedPolicyStatus xc) (hpst_DeployedPolicies v) h of (ds, h) \<Rightarrow>
       (v\<lparr>hpst_Conditions := cs, hpst_MatchingClusters := ms, hpst_DeployedPolicies := ds\<rparr>, h))))"

definition DeepCopyInto_KubewardenPolicy :: "'x ExternalCopy \<Rightarrow> ('x, 'x hPolicy) copier" where
  "DeepCopyInto_KubewardenPolicy xc v h =
     (case xc_ObjectMeta xc (hp_Meta v) h of (m, h) \<Rightarrow>
     (case DeepCopyInto_KubewardenPolicySpec xc (hp_Spec v) h of (sp, h) \<Rightarrow>
     (case DeepCopyInto_KubewardenPolicyStatus xc (hp_Status v) h of (st, h) \<Rightarrow>
       (v\<lparr>hp_TypeMeta := hp_TypeMeta v, hp_Meta := m, hp_Spec := sp, hp_Status := st\<rparr>, h))))"

definition DeepCopyInto_KubewardenPolicyList :: "'x ExternalCopy \<Rightarrow> ('x, 'x hPolicyList) copier" where
  "DeepCopyInto_KubewardenPolicyList xc v h =
     (case xc_ListMeta xc (hpl_ListMeta v) h of (m, h) \<Rightarrow>
     (case copy_slice PolicyCells policies_of (DeepCopyInto_KubewardenPolicy xc) (hpl_Items v) h of (items, h) \<Rightarrow>
       (v\<lparr>hpl_TypeMeta := hpl_TypeMeta v, hpl_ListMeta := m, hpl_Items := items\<rparr>, h)))"

text \<open>The \<open>DeepCopy\<close> methods.\<close>

definition DeepCopy_MatchCondition :: "MatchCondition option \<Rightarrow> 'x heap \<Rightarrow> nat option \<times> 'x heap" where
  "DeepCopy_MatchCondition = copy_new MatchConditionCells DeepCopyInto_MatchCondition"

definition DeepCopy_ResourceRequirements :: "ResourceRequirements option \<Rightarrow> 'x heap \<Rightarrow> nat option \<times> 'x heap" where
  "DeepCopy_ResourceRequirements = copy_new ResourceCells DeepCopyInto_ResourceRequirements"

definition DeepCopy_PolicyServerConfig :: "PolicyServerConfig option \<Rightarrow> 'x heap \<Rightarrow> nat option \<times> 'x heap" where
  "DeepCopy_PolicyServerConfig = copy_new ServerConfigCells DeepCopyInto_PolicyServerConfig"

definition DeepCopy_PolicyRule :: "hPolicyRule option \<Rightarrow> 'x heap \<Rightarrow> nat option \<times> 'x heap" where
  "DeepCopy_PolicyRule = copy_new RuleCells DeepCopyInto_PolicyRule"

definition DeepCopy_DeployedPolicyStatus :: "'x ExternalCopy \<Rightarrow> 'x hDeployedPolicyStatus option \<Rightarrow> 'x heap \<Rightarrow> nat option \<times> 'x heap" where
  "DeepCopy_DeployedPolicyStatus xc = copy_new DeployedCells (DeepCopyInto_DeployedPolicyStatus xc)"

definition DeepCopy_KubewardenAddonSpec :: "'x ExternalCopy \<Rightarrow> 'x hAddonSpec option \<Rightarrow> 'x heap \<Rightarrow> nat option \<times> 'x heap" where
  "DeepCopy_KubewardenAddonSpec xc = copy_new AddonSpecCells (DeepCopyInto_KubewardenAddonSpec xc)"

definition DeepCopy_KubewardenAddonStatus :: "'x ExternalCopy \<Rightarrow> hAddonStatus option \<Rightarrow> 'x heap \<Rightarrow> nat option \<times> 'x heap" where
  "DeepCopy_KubewardenAddonStatus xc = copy_new AddonStatusCells (DeepCopyInto_KubewardenAddonStatus xc)"

definition DeepCopy_KubewardenAddon :: "'x ExternalCopy \<Rightarrow> 'x hAddon option \<Rightarrow> 'x heap \<Rightarrow> nat option \<times> 'x heap" where
  "DeepCopy_KubewardenAddon xc = copy_new AddonCells (DeepCopyInto_KubewardenAddon xc)"

definition DeepCopy_KubewardenAddonList :: "'x ExternalCopy \<Rightarrow> 'x hAddonList option \<Rightarrow> 'x heap \<Rightarrow> nat option \<times> 'x heap" where
  "DeepCopy_KubewardenAddonList xc = copy_new AddonListCells (DeepCopyInto_KubewardenAddonList xc)"

definition DeepCopy_KubewardenPolicySpec :: "'x ExternalCopy \<Rightarrow> 'x hPolicySpec option \<Rightarrow> 'x heap \<Rightarrow> nat option \<times> 'x heap" where
  "DeepCopy_KubewardenPolicySpec xc = copy_new PolicySpecCells (DeepCopyInto_KubewardenPolicySpec xc)"

definition DeepCopy_KubewardenPolicyStatus :: "'x ExternalCopy \<Rightarrow> hPolicyStatus option \<Rightarrow> 'x heap \<Rightarrow> nat option \<times> 'x heap" where
  "DeepCopy_KubewardenPolicyStatus xc = copy_new PolicyStatusCells (DeepCopyInto_KubewardenPolicyStatus xc)"

definition DeepCopy_KubewardenPolicy :: "'x ExternalCopy \<Rightarrow> 'x hPolicy option \<Rightarrow> 'x heap \<Rightarrow> nat option \<times> 'x heap" where
  "DeepCopy_KubewardenPolicy xc = copy_new PolicyCells (DeepCopyInto_KubewardenPolicy xc)"

definition DeepCopy_KubewardenPolicyList :: "'x ExternalCopy \<Rightarrow> 'x hPolicyList option \<Rightarrow> 'x heap \<Rightarrow> nat option \<times> 'x heap" where
  "DeepCopy_KubewardenPolicyList xc = copy_new PolicyListCells (DeepCopyInto_KubewardenPolicyList xc)"

text \<open>\<open>DeepCopyObject\<close>: a nil interface for a nil pointer, so that the caller's test for nil works.\<close>

definition DeepCopyObject_KubewardenAddon :: "'x ExternalCopy \<Rightarrow> 'x hAddon option \<Rightarrow> 'x heap \<Rightarrow> nat option \<times> 'x heap" where
  "DeepCopyObject_KubewardenAddon xc v h =
     (case DeepCopy_KubewardenAddon xc v h of (Some c, h') \<Rightarrow> (Some c, h') | (None, h') \<Rightarrow> (None, h'))"

definition DeepCopyObject_KubewardenAddonList :: "'x ExternalCopy \<Rightarrow> 'x hAddonList option \<Rightarrow> 'x heap \<Rightarrow> nat option \<times> 'x heap" where
  "DeepCopyObject_KubewardenAddonList xc v h =
     (case DeepCopy_KubewardenAddonList xc v h of (Some c, h') \<Rightarrow> (Some c, h') | (None, h') \<Rightarrow> (None, h'))"

definition DeepCopyObject_KubewardenPolicy :: "'x ExternalCopy \<Rightarrow> 'x hPolicy option \<Rightarrow> 'x heap \<Rightarrow> nat option \<times> 'x heap" where
  "DeepCopyObject_KubewardenPolicy xc v h =
     (case DeepCopy_KubewardenPolicy xc v h of (Some c, h') \<Rightarrow> (Some c, h') | (None, h') \<Rightarrow> (None, h'))"

definition DeepCopyObject_KubewardenPolicyList :: "'x ExternalCopy \<Rightarrow> 'x hPolicyList option \<Rightarrow> 'x heap \<Rightarrow> nat option \<times> 'x heap" where
  "DeepCopyObject_KubewardenPolicyList xc v h =
     (case DeepCopy_KubewardenPolicyList xc v h of (Some c, h') \<Rightarrow> (Some c, h') | (None, h') \<Rightarrow> (None, h'))"

end
