(* ===== verification/Deep_Copy_Proofs.thy ===== *)
theory Deep_Copy_Proofs
  imports Deep_Copy
begin

text \<open>
  The copies share nothing with their original.  The contract of a copy is a locale, closed under slices, pairs and
  structures; the methods of the repository are instances, given the same contract of the outside packages.
\<close>

section \<open>The contract\<close>

text \<open>The store only grew: every address that was allocated has its old cell.\<close>

definition grown_heap :: "'x heap \<Rightarrow> 'x heap \<Rightarrow> bool" where
  "grown_heap h h' \<longleftrightarrow> next_addr h \<le> next_addr h' \<and> (\<forall>a < next_addr h. cells h' a = cells h a)"

lemma grown_heap_refl [simp]: "grown_heap h h"
  by (simp add: grown_heap_def)

lemma grown_heap_trans: "grown_heap h h1 \<Longrightarrow> grown_heap h1 h2 \<Longrightarrow> grown_heap h h2"
  by (auto simp: grown_heap_def)

text \<open>
  A copier with a view (the content of a value) and its reach (the addresses the content depends on): a copy has the same
  content, only new addresses, and leaves the store below them as it was; content and reach depend on the cells
  that are reached and on nothing else.
\<close>

locale deep_copier =
  fixes into :: "('x, 'a) copier"
    and view :: "'x heap \<Rightarrow> 'a \<Rightarrow> 'v"
    and reach :: "'x heap \<Rightarrow> 'a \<Rightarrow> nat set"
  assumes copies: "into v h = (v', h') \<Longrightarrow> reach h v \<subseteq> {..<next_addr h} \<Longrightarrow>
      grown_heap h h' \<and> view h' v' = view h v \<and> reach h' v' \<subseteq> {next_addr h..<next_addr h'}"
    and local: "(\<And>a. a \<in> reach h v \<Longrightarrow> cells h' a = cells h a) \<Longrightarrow> view h' v = view h v \<and> reach h' v = reach h v"
begin

lemma below: "reach h v \<subseteq> {..<next_addr h} \<Longrightarrow> grown_heap h h' \<Longrightarrow> view h' v = view h v \<and> reach h' v = reach h v"
  by (rule local) (auto simp: grown_heap_def)

lemma elems_copied:
  "copy_elems into xs h = (ys, h') \<Longrightarrow> (\<Union>x\<in>set xs. reach h x) \<subseteq> {..<next_addr h} \<Longrightarrow>
   grown_heap h h' \<and> map (view h') ys = map (view h) xs \<and> (\<Union>y\<in>set ys. reach h' y) \<subseteq> {next_addr h..<next_addr h'}"
proof (induction xs arbitrary: h ys)
  case (Cons x xs)
  obtain y h1 ys' where 1: "into x h = (y, h1)" and 2: "copy_elems into xs h1 = (ys', h')" and ys: "ys = y # ys'"
    using Cons.prems(1) by (auto split: prod.splits)
  have x: "grown_heap h h1" "view h1 y = view h x" "reach h1 y \<subseteq> {next_addr h..<next_addr h1}"
    using copies [OF 1] Cons.prems(2) by auto
  have xs: "view h1 z = view h z \<and> reach h1 z = reach h z" if "z \<in> set xs" for z
    by (rule below [OF _ x(1)]) (use that Cons.prems(2) in auto)
  then have "(\<Union>z\<in>set xs. reach h1 z) \<subseteq> {..<next_addr h1}"
    using Cons.prems(2) x(1) by (fastforce simp: grown_heap_def)
  note IH = Cons.IH [OF 2 this]
  have "view h' y = view h1 y \<and> reach h' y = reach h1 y"
    by (rule below) (use x(3) IH in auto)
  then show ?case
    using x xs IH ys grown_heap_trans [OF x(1)] by (auto simp: grown_heap_def cong: map_cong)
qed simp

end

interpretation flat_copy: deep_copier flat "\<lambda>h v. v" "\<lambda>h v. {}"
  by unfold_locales (auto simp: flat_def)

section \<open>Slices, pairs, structures\<close>

definition view_slice :: "('x cell \<Rightarrow> 'a list) \<Rightarrow> ('x heap \<Rightarrow> 'a \<Rightarrow> 'v) \<Rightarrow> 'x heap \<Rightarrow> slice option \<Rightarrow> 'v list option" where
  "view_slice proj view h s = map_option (\<lambda>sl. map (view h) (elems proj h sl)) s"

definition reach_slice :: "('x cell \<Rightarrow> 'a list) \<Rightarrow> ('x heap \<Rightarrow> 'a \<Rightarrow> nat set) \<Rightarrow> 'x heap \<Rightarrow> slice option \<Rightarrow> nat set" where
  "reach_slice proj reach h s =
     (case s of None \<Rightarrow> {} | Some sl \<Rightarrow> insert (sl_addr sl) (\<Union>x\<in>set (elems proj h sl). reach h x))"

lemma elems_cong: "cells h' (sl_addr sl) = cells h (sl_addr sl) \<Longrightarrow> elems proj h' sl = elems proj h sl"
  by (simp add: elems_def)

context deep_copier
begin

lemma slice_copied:
  assumes proj: "\<And>xs. proj (mk xs) = xs" and run: "copy_slice mk proj into s h = (s', h')"
    and "reach_slice proj reach h s \<subseteq> {..<next_addr h}"
  shows "grown_heap h h' \<and> view_slice proj view h' s' = view_slice proj view h s \<and>
    reach_slice proj reach h' s' \<subseteq> {next_addr h..<next_addr h'}"
proof (cases s)
  case (Some sl)
  define a where "a = next_addr h"
  define h1 where "h1 = h\<lparr>next_addr := Suc a\<rparr>"
  define xs where "xs = elems proj h sl"
  obtain ys h2 where 2: "copy_elems into xs h1 = (ys, h2)" by fastforce
  then have s': "s' = Some \<lparr>sl_addr = a, sl_off = 0, sl_len = length xs\<rparr>" and h': "h' = store a (mk ys) h2"
    using run Some by (auto simp: copy_slice_def reserve_def a_def h1_def xs_def)
  have h1: "view h1 x = view h x \<and> reach h1 x = reach h x" for x
    by (rule local) (simp add: h1_def)
  have "(\<Union>x\<in>set xs. reach h1 x) \<subseteq> {..<next_addr h1}"
    using assms(3) h1 by (fastforce simp: Some reach_slice_def xs_def h1_def a_def)
  note copied = elems_copied [OF 2 this]
  have len: "length ys = length xs" using copied by (metis length_map)
  have ys: "view h' y = view h2 y \<and> reach h' y = reach h2 y" if "y \<in> set ys" for y
    by (rule local) (use that copied in \<open>auto simp: h' store_def h1_def\<close>)
  have new: "elems proj h' \<lparr>sl_addr = a, sl_off = 0, sl_len = length xs\<rparr> = ys"
    by (simp add: elems_def h' store_def proj len)
  have "grown_heap h h'"
    using copied by (auto simp: grown_heap_def h' store_def h1_def a_def)
  moreover have "map (view h') ys = map (view h) xs"
    using copied ys h1 by (auto cong: map_cong)
  moreover have "insert a (\<Union>y\<in>set ys. reach h' y) \<subseteq> {next_addr h..<next_addr h'}"
    using copied ys by (auto simp: grown_heap_def h' store_def h1_def a_def)
  ultimately show ?thesis
    by (simp add: s' Some view_slice_def reach_slice_def new [unfolded xs_def] xs_def)
qed (use run in \<open>simp add: copy_slice_def view_slice_def reach_slice_def\<close>)

lemma slice_local:
  assumes "\<And>a. a \<in> reach_slice proj reach h s \<Longrightarrow> cells h' a = cells h a"
  shows "view_slice proj view h' s = view_slice proj view h s \<and> reach_slice proj reach h' s = reach_slice proj reach h s"
proof (cases s)
  case (Some sl)
  then have el: "elems proj h' sl = elems proj h sl" using assms by (intro elems_cong) (simp add: reach_slice_def)
  have "view h' x = view h x \<and> reach h' x = reach h x" if "x \<in> set (elems proj h sl)" for x
    by (rule local) (use that assms Some in \<open>auto simp: reach_slice_def\<close>)
  then show ?thesis by (simp add: Some view_slice_def reach_slice_def el)
qed (simp add: view_slice_def reach_slice_def)

end

lemma deep_slice:
  assumes "deep_copier into view reach" and "\<And>xs. proj (mk xs) = xs"
  shows "deep_copier (copy_slice mk proj into) (view_slice proj view) (reach_slice proj reach)"
  by (unfold_locales; rule deep_copier.slice_copied [OF assms(1)] deep_copier.slice_local [OF assms(1)])
    (simp_all add: assms(2))

text \<open>Two values copied one after the other, and a pointer that may be nil.\<close>

definition copy_pair :: "('x, 'a) copier \<Rightarrow> ('x, 'b) copier \<Rightarrow> ('x, 'a \<times> 'b) copier" where
  "copy_pair f g v h = (case f (fst v) h of (a, h1) \<Rightarrow> (case g (snd v) h1 of (b, h2) \<Rightarrow> ((a, b), h2)))"

lemma deep_pair:
  assumes "deep_copier f V R" and "deep_copier g W S"
  shows "deep_copier (copy_pair f g) (\<lambda>h v. (V h (fst v), W h (snd v))) (\<lambda>h v. R h (fst v) \<union> S h (snd v))"
proof
  fix v h v' h'
  assume run: "copy_pair f g v h = (v', h')" and sub: "R h (fst v) \<union> S h (snd v) \<subseteq> {..<next_addr h}"
  obtain a h1 b where 1: "f (fst v) h = (a, h1)" and 2: "g (snd v) h1 = (b, h')" and v': "v' = (a, b)"
    using run by (auto simp: copy_pair_def split: prod.splits)
  have f: "grown_heap h h1 \<and> V h1 a = V h (fst v) \<and> R h1 a \<subseteq> {next_addr h..<next_addr h1}"
    using deep_copier.copies [OF assms(1) 1] sub by simp
  have v: "W h1 (snd v) = W h (snd v) \<and> S h1 (snd v) = S h (snd v)"
    using deep_copier.below [OF assms(2)] sub f by (metis le_sup_iff)
  have g: "grown_heap h1 h' \<and> W h' b = W h1 (snd v) \<and> S h' b \<subseteq> {next_addr h1..<next_addr h'}"
    using deep_copier.copies [OF assms(2) 2] sub f v by (fastforce simp: grown_heap_def)
  have "V h' a = V h1 a \<and> R h' a = R h1 a"
    by (rule deep_copier.below [OF assms(1)]) (use f g in auto)
  then show "grown_heap h h' \<and> (V h' (fst v'), W h' (snd v')) = (V h (fst v), W h (snd v)) \<and>
      R h' (fst v') \<union> S h' (snd v') \<subseteq> {next_addr h..<next_addr h'}"
    using f g v by (auto simp: v' grown_heap_def)
qed (use deep_copier.local [OF assms(1)] deep_copier.local [OF assms(2)] in \<open>metis UnCI\<close>)

definition copy_opt :: "('x, 'a) copier \<Rightarrow> ('x, 'a option) copier" where
  "copy_opt f v h = (case v of None \<Rightarrow> (None, h) | Some x \<Rightarrow> (case f x h of (y, h') \<Rightarrow> (Some y, h')))"

lemma deep_opt:
  fixes f :: "('x, 'a) copier"
  assumes "deep_copier f V R"
  shows "deep_copier (copy_opt f) (\<lambda>h. map_option (V h)) (\<lambda>h v. \<Union>(R h ` set_option v))"
proof
  fix v h v' h'
  assume "copy_opt f v h = (v', h')" and "\<Union>(R h ` set_option v) \<subseteq> {..<next_addr h}"
  then show "grown_heap h h' \<and> map_option (V h') v' = map_option (V h) v \<and>
      \<Union>(R h' ` set_option v') \<subseteq> {next_addr h..<next_addr h'}"
    using deep_copier.copies [OF assms, of "the v" h] by (cases v) (force simp: copy_opt_def split: prod.splits)+
next
  fix h v and h' :: "'x heap"
  assume "\<And>a. a \<in> \<Union>(R h ` set_option v) \<Longrightarrow> cells h' a = cells h a"
  then show "map_option (V h') v = map_option (V h) v \<and> \<Union>(R h' ` set_option v) = \<Union>(R h ` set_option v)"
    using deep_copier.local [OF assms, of h "the v" h'] by (cases v) simp_all
qed

text \<open>A structure: the fields \<open>sel v\<close> are copied and put back, the other fields \<open>rest v\<close> are copied by value.\<close>

lemma deep_structure:
  assumes "deep_copier g V R" and "\<And>v h. into v h = (case g (sel v) h of (x, h') \<Rightarrow> (put v x, h'))"
    and "\<And>v x. sel (put v x) = x" and "\<And>v x. rest (put v x) = rest v"
    and "\<And>h v. view h v = (rest v, V h (sel v))" and "\<And>h v. reach h v = R h (sel v)"
  shows "deep_copier into view reach"
proof
  fix v h v' h'
  assume "into v h = (v', h')" and "reach h v \<subseteq> {..<next_addr h}"
  then show "grown_heap h h' \<and> view h' v' = view h v \<and> reach h' v' \<subseteq> {next_addr h..<next_addr h'}"
    using deep_copier.copies [OF assms(1), of "sel v" h] assms(2-6) by (force split: prod.splits)
qed (use deep_copier.local [OF assms(1)] assms(5,6) in \<open>metis\<close>)

section \<open>The structures of the API package\<close>

text \<open>
  The contract of the outside packages: their copy methods are deep copies, for the view \<open>V\<close> and the reach \<open>R\<close> of
  their values.
\<close>

definition external_deep :: "'x ExternalCopy \<Rightarrow> ('x heap \<Rightarrow> 'x \<Rightarrow> 'v) \<Rightarrow> ('x heap \<Rightarrow> 'x \<Rightarrow> nat set) \<Rightarrow> bool" where
  "external_deep xc V R \<longleftrightarrow>
     deep_copier (xc_ObjectMeta xc) V R \<and> deep_copier (xc_ListMeta xc) V R \<and> deep_copier (xc_LabelSelector xc) V R \<and>
     deep_copier (xc_RawExtension xc) V R \<and> deep_copier (xc_Condition xc) V R \<and> deep_copier (xc_Time xc) V R"

abbreviation value_view :: "'x heap \<Rightarrow> 'a \<Rightarrow> 'a" where
  "value_view h v \<equiv> v"

abbreviation value_reach :: "'x heap \<Rightarrow> 'a \<Rightarrow> nat set" where
  "value_reach h v \<equiv> {}"

lemma cells_of [simp]:
  "strings_of (StringCells a) = a" "references_of (ReferenceCells b) = b" "conditions_of (ConditionCells c) = c"
  "matchConditions_of (MatchConditionCells d) = d" "rules_of (RuleCells e) = e" "deployed_of (DeployedCells f) = f"
  "addons_of (AddonCells g) = g" "policies_of (PolicyCells i) = i"
  by (simp_all add: strings_of_def references_of_def conditions_of_def matchConditions_of_def rules_of_def
      deployed_of_def addons_of_def policies_of_def)

lemmas flat_deep = flat_copy.deep_copier_axioms

text \<open>\<open>PolicyRule\<close> needs nothing from outside.\<close>

abbreviation view_strings :: "'x heap \<Rightarrow> slice option \<Rightarrow> string list option" where
  "view_strings \<equiv> view_slice strings_of value_view"

abbreviation reach_strings :: "'x heap \<Rightarrow> slice option \<Rightarrow> nat set" where
  "reach_strings \<equiv> reach_slice strings_of value_reach"

definition view_PolicyRule where
  "view_PolicyRule h v =
     (hpr_Scope v, view_strings h (hpr_APIGroups v), view_strings h (hpr_APIVersions v), view_strings h (hpr_Resources v),
      view_strings h (hpr_Operations v))"

definition reach_PolicyRule where
  "reach_PolicyRule h v =
     reach_strings h (hpr_APIGroups v) \<union> (reach_strings h (hpr_APIVersions v) \<union>
       (reach_strings h (hpr_Resources v) \<union> reach_strings h (hpr_Operations v)))"

lemma strings_deep: "deep_copier (copy_slice StringCells strings_of flat) view_strings reach_strings"
  by (rule deep_slice [OF flat_deep]) simp

interpretation rule_copy: deep_copier DeepCopyInto_PolicyRule view_PolicyRule reach_PolicyRule
  by (rule deep_structure [OF deep_pair [OF strings_deep deep_pair [OF strings_deep deep_pair [OF strings_deep strings_deep]]],
      where rest = hpr_Scope
      and sel = "\<lambda>v. (hpr_APIGroups v, hpr_APIVersions v, hpr_Resources v, hpr_Operations v)"
      and put = "\<lambda>v (a, b, c, d). v\<lparr>hpr_APIGroups := a, hpr_APIVersions := b, hpr_Resources := c, hpr_Operations := d\<rparr>"])
    (auto simp: view_PolicyRule_def reach_PolicyRule_def DeepCopyInto_PolicyRule_def copy_pair_def split: prod.split)

text \<open>The other structures, given the view \<open>V\<close> and the reach \<open>R\<close> of outside values.\<close>

definition view_Deployed where
  "view_Deployed V h v = (v\<lparr>hd_LastTransitionTime := None\<rparr>, map_option (V h) (hd_LastTransitionTime v))"

definition reach_Deployed where
  "reach_Deployed R h v = \<Union>(R h ` set_option (hd_LastTransitionTime v))"

definition view_AddonSpec where
  "view_AddonSpec V h v = ((has_Version v, has_ImageRepository v, has_PolicyServerConfig v), V h (has_ClusterSelector v))"

definition reach_AddonSpec where
  "reach_AddonSpec R h v = R h (has_ClusterSelector v)"

definition view_AddonStatus where
  "view_AddonStatus V h v =
     (hast_Ready v, view_slice conditions_of V h (hast_Conditions v), view_slice references_of value_view h (hast_MatchingClusters v))"

definition reach_AddonStatus where
  "reach_AddonStatus R h v =
     reach_slice conditions_of R h (hast_Conditions v) \<union> reach_slice references_of value_reach h (hast_MatchingClusters v)"

definition view_Addon where
  "view_Addon V h v = (ha_TypeMeta v, V h (ha_Meta v), view_AddonSpec V h (ha_Spec v), view_AddonStatus V h (ha_Status v))"

definition reach_Addon where
  "reach_Addon R h v = R h (ha_Meta v) \<union> (reach_AddonSpec R h (ha_Spec v) \<union> reach_AddonStatus R h (ha_Status v))"

definition view_AddonList where
  "view_AddonList V h v = (hal_TypeMeta v, V h (hal_ListMeta v), view_slice addons_of (view_Addon V) h (hal_Items v))"

definition reach_AddonList where
  "reach_AddonList R h v = R h (hal_ListMeta v) \<union> reach_slice addons_of (reach_Addon R) h (hal_Items v)"

definition view_PolicySpec where
  "view_PolicySpec V h v =
     ((hps_PolicyType v, hps_PolicyName v, hps_TargetNamespace v, hps_PolicyServer v, hps_Module v, hps_Mutating v, hps_FailurePolicy v),
      V h (hps_ClusterSelector v), view_slice rules_of view_PolicyRule h (hps_Rules v), V h (hps_Settings v),
      view_slice matchConditions_of value_view h (hps_MatchConditions v))"

definition reach_PolicySpec where
  "reach_PolicySpec R h v =
     R h (hps_ClusterSelector v) \<union> (reach_slice rules_of reach_PolicyRule h (hps_Rules v) \<union> (R h (hps_Settings v) \<union>
      reach_slice matchConditions_of value_reach h (hps_MatchConditions v)))"

definition view_PolicyStatus where
  "view_PolicyStatus V h v =
     (hpst_Ready v, view_slice conditions_of V h (hpst_Conditions v), view_slice references_of value_view h (hpst_MatchingClusters v),
      view_slice deployed_of (view_Deployed V) h (hpst_DeployedPolicies v))"

definition reach_PolicyStatus where
  "reach_PolicyStatus R h v =
     reach_slice conditions_of R h (hpst_Conditions v) \<union> (reach_slice references_of value_reach h (hpst_MatchingClusters v) \<union>
      reach_slice deployed_of (reach_Deployed R) h (hpst_DeployedPolicies v))"

definition view_Policy where
  "view_Policy V h v = (hp_TypeMeta v, V h (hp_Meta v), view_PolicySpec V h (hp_Spec v), view_PolicyStatus V h (hp_Status v))"

definition reach_Policy where
  "reach_Policy R h v = R h (hp_Meta v) \<union> (reach_PolicySpec R h (hp_Spec v) \<union> reach_PolicyStatus R h (hp_Status v))"

definition view_PolicyList where
  "view_PolicyList V h v = (hpl_TypeMeta v, V h (hpl_ListMeta v), view_slice policies_of (view_Policy V) h (hpl_Items v))"

definition reach_PolicyList where
  "reach_PolicyList R h v = R h (hpl_ListMeta v) \<union> reach_slice policies_of (reach_Policy R) h (hpl_Items v)"

lemma slice_deep:
  "deep_copier (copy_slice ReferenceCells references_of flat) (view_slice references_of value_view) (reach_slice references_of value_reach)"
  "deep_copier (copy_slice MatchConditionCells matchConditions_of flat)
     (view_slice matchConditions_of value_view) (reach_slice matchConditions_of value_reach)"
  "deep_copier (copy_slice RuleCells rules_of DeepCopyInto_PolicyRule) (view_slice rules_of view_PolicyRule) (reach_slice rules_of reach_PolicyRule)"
  by (rule deep_slice [OF flat_deep] deep_slice [OF rule_copy.deep_copier_axioms]; simp)+

lemma addon_deep:
  assumes "external_deep xc V R"
  shows "deep_copier (DeepCopyInto_KubewardenAddonSpec xc) (view_AddonSpec V) (reach_AddonSpec R)"
    and "deep_copier (DeepCopyInto_KubewardenAddonStatus xc) (view_AddonStatus V) (reach_AddonStatus R)"
    and "deep_copier (DeepCopyInto_KubewardenAddon xc) (view_Addon V) (reach_Addon R)"
    and "deep_copier (DeepCopyInto_KubewardenAddonList xc) (view_AddonList V) (reach_AddonList R)"
proof -
  note x = assms [unfolded external_deep_def, THEN conjunct1] assms [unfolded external_deep_def, THEN conjunct2, THEN conjunct1]
    assms [unfolded external_deep_def, THEN conjunct2, THEN conjunct2, THEN conjunct1]
  have cond: "deep_copier (xc_Condition xc) V R" using assms by (simp add: external_deep_def)
  have conds: "deep_copier (copy_slice ConditionCells conditions_of (xc_Condition xc)) (view_slice conditions_of V) (reach_slice conditions_of R)"
    by (rule deep_slice [OF cond]) simp
  show spec: "deep_copier (DeepCopyInto_KubewardenAddonSpec xc) (view_AddonSpec V) (reach_AddonSpec R)"
    by (rule deep_structure [OF x(3), where sel = has_ClusterSelector and put = "\<lambda>v a. v\<lparr>has_ClusterSelector := a\<rparr>"
        and rest = "\<lambda>v. (has_Version v, has_ImageRepository v, has_PolicyServerConfig v)"])
      (auto simp: view_AddonSpec_def reach_AddonSpec_def DeepCopyInto_KubewardenAddonSpec_def split: prod.split)
  show status: "deep_copier (DeepCopyInto_KubewardenAddonStatus xc) (view_AddonStatus V) (reach_AddonStatus R)"
    by (rule deep_structure [OF deep_pair [OF conds slice_deep(1)], where sel = "\<lambda>v. (hast_Conditions v, hast_MatchingClusters v)"
        and put = "\<lambda>v (a, b). v\<lparr>hast_Conditions := a, hast_MatchingClusters := b\<rparr>" and rest = hast_Ready])
      (auto simp: view_AddonStatus_def reach_AddonStatus_def DeepCopyInto_KubewardenAddonStatus_def copy_pair_def split: prod.split)
  show addon: "deep_copier (DeepCopyInto_KubewardenAddon xc) (view_Addon V) (reach_Addon R)"
    by (rule deep_structure [OF deep_pair [OF x(1) deep_pair [OF spec status]], where sel = "\<lambda>v. (ha_Meta v, ha_Spec v, ha_Status v)"
        and put = "\<lambda>v (a, b, c). v\<lparr>ha_Meta := a, ha_Spec := b, ha_Status := c\<rparr>" and rest = ha_TypeMeta])
      (auto simp: view_Addon_def reach_Addon_def DeepCopyInto_KubewardenAddon_def copy_pair_def split: prod.split)
  have items: "deep_copier (copy_slice AddonCells addons_of (DeepCopyInto_KubewardenAddon xc))
      (view_slice addons_of (view_Addon V)) (reach_slice addons_of (reach_Addon R))"
    by (rule deep_slice [OF addon]) simp
  show "deep_copier (DeepCopyInto_KubewardenAddonList xc) (view_AddonList V) (reach_AddonList R)"
    by (rule deep_structure [OF deep_pair [OF x(2) items], where sel = "\<lambda>v. (hal_ListMeta v, hal_Items v)"
        and put = "\<lambda>v (a, b). v\<lparr>hal_ListMeta := a, hal_Items := b\<rparr>" and rest = hal_TypeMeta])
      (auto simp: view_AddonList_def reach_AddonList_def DeepCopyInto_KubewardenAddonList_def copy_pair_def split: prod.split)
qed

lemma policy_deep:
  assumes "external_deep xc V R"
  shows "deep_copier (DeepCopyInto_KubewardenPolicySpec xc) (view_PolicySpec V) (reach_PolicySpec R)"
    and "deep_copier (DeepCopyInto_KubewardenPolicyStatus xc) (view_PolicyStatus V) (reach_PolicyStatus R)"
    and "deep_copier (DeepCopyInto_KubewardenPolicy xc) (view_Policy V) (reach_Policy R)"
    and "deep_copier (DeepCopyInto_KubewardenPolicyList xc) (view_PolicyList V) (reach_PolicyList R)"
proof -
  have x: "deep_copier (xc_ObjectMeta xc) V R" "deep_copier (xc_ListMeta xc) V R" "deep_copier (xc_LabelSelector xc) V R"
    "deep_copier (xc_RawExtension xc) V R" "deep_copier (xc_Condition xc) V R" "deep_copier (xc_Time xc) V R"
    using assms by (simp_all add: external_deep_def)
  have conds: "deep_copier (copy_slice ConditionCells conditions_of (xc_Condition xc)) (view_slice conditions_of V) (reach_slice conditions_of R)"
    by (rule deep_slice [OF x(5)]) simp
  have deployed: "deep_copier (DeepCopyInto_DeployedPolicyStatus xc) (view_Deployed V) (reach_Deployed R)"
    by (rule deep_structure [OF deep_opt [OF x(6)], where sel = hd_LastTransitionTime
        and put = "\<lambda>v a. v\<lparr>hd_LastTransitionTime := a\<rparr>" and rest = "\<lambda>v. v\<lparr>hd_LastTransitionTime := None\<rparr>"])
      (auto simp: view_Deployed_def reach_Deployed_def DeepCopyInto_DeployedPolicyStatus_def copy_opt_def
        split: prod.split option.split)
  have deployments: "deep_copier (copy_slice DeployedCells deployed_of (DeepCopyInto_DeployedPolicyStatus xc))
      (view_slice deployed_of (view_Deployed V)) (reach_slice deployed_of (reach_Deployed R))"
    by (rule deep_slice [OF deployed]) simp
  show spec: "deep_copier (DeepCopyInto_KubewardenPolicySpec xc) (view_PolicySpec V) (reach_PolicySpec R)"
    by (rule deep_structure [OF deep_pair [OF x(3) deep_pair [OF slice_deep(3) deep_pair [OF x(4) slice_deep(2)]]],
        where sel = "\<lambda>v. (hps_ClusterSelector v, hps_Rules v, hps_Settings v, hps_MatchConditions v)"
        and put = "\<lambda>v (a, b, c, e). v\<lparr>hps_ClusterSelector := a, hps_Rules := b, hps_Settings := c, hps_MatchConditions := e\<rparr>"
        and rest = "\<lambda>v. (hps_PolicyType v, hps_PolicyName v, hps_TargetNamespace v, hps_PolicyServer v, hps_Module v, hps_Mutating v, hps_FailurePolicy v)"])
      (auto simp: view_PolicySpec_def reach_PolicySpec_def DeepCopyInto_KubewardenPolicySpec_def copy_pair_def split: prod.split)
  show status: "deep_copier (DeepCopyInto_KubewardenPolicyStatus xc) (view_PolicyStatus V) (reach_PolicyStatus R)"
    by (rule deep_structure [OF deep_pair [OF conds deep_pair [OF slice_deep(1) deployments]],
        where sel = "\<lambda>v. (hpst_Conditions v, hpst_MatchingClusters v, hpst_DeployedPolicies v)"
        and put = "\<lambda>v (a, b, c). v\<lparr>hpst_Conditions := a, hpst_MatchingClusters := b, hpst_DeployedPolicies := c\<rparr>" and rest = hpst_Ready])
      (auto simp: view_PolicyStatus_def reach_PolicyStatus_def DeepCopyInto_KubewardenPolicyStatus_def copy_pair_def split: prod.split)
  show policy: "deep_copier (DeepCopyInto_KubewardenPolicy xc) (view_Policy V) (reach_Policy R)"
    by (rule deep_structure [OF deep_pair [OF x(1) deep_pair [OF spec status]], where sel = "\<lambda>v. (hp_Meta v, hp_Spec v, hp_Status v)"
        and put = "\<lambda>v (a, b, c). v\<lparr>hp_Meta := a, hp_Spec := b, hp_Status := c\<rparr>" and rest = hp_TypeMeta])
      (auto simp: view_Policy_def reach_Policy_def DeepCopyInto_KubewardenPolicy_def copy_pair_def split: prod.split)
  have items: "deep_copier (copy_slice PolicyCells policies_of (DeepCopyInto_KubewardenPolicy xc))
      (view_slice policies_of (view_Policy V)) (reach_slice policies_of (reach_Policy R))"
    by (rule deep_slice [OF policy]) simp
  show "deep_copier (DeepCopyInto_KubewardenPolicyList xc) (view_PolicyList V) (reach_PolicyList R)"
    by (rule deep_structure [OF deep_pair [OF x(2) items], where sel = "\<lambda>v. (hpl_ListMeta v, hpl_Items v)"
        and put = "\<lambda>v (a, b). v\<lparr>hpl_ListMeta := a, hpl_Items := b\<rparr>" and rest = hpl_TypeMeta])
      (auto simp: view_PolicyList_def reach_PolicyList_def DeepCopyInto_KubewardenPolicyList_def copy_pair_def split: prod.split)
qed

section \<open>A new copy\<close>

text \<open>
  What a caller may do afterwards: \<open>touched A h h'\<close> says that \<open>h'\<close> differs from \<open>h\<close> at most in the cells of \<open>A\<close>.
\<close>

definition touched :: "nat set \<Rightarrow> 'x heap \<Rightarrow> 'x heap \<Rightarrow> bool" where
  "touched A h h' \<longleftrightarrow> (\<forall>a. a \<notin> A \<longrightarrow> cells h' a = cells h a)"

context deep_copier
begin

text \<open>The copy is a new cell with the same content, and everything it reaches is new.\<close>

lemma copy_new_copies:
  assumes "copy_new mk into (Some v) h = (p, h')" and "reach h v \<subseteq> {..<next_addr h}"
  shows "\<exists>v'. p = Some (next_addr h) \<and> cells h' (next_addr h) = Some (mk [v']) \<and> grown_heap h h' \<and>
    view h' v' = view h v \<and> insert (next_addr h) (reach h' v') \<subseteq> {next_addr h..<next_addr h'}"
proof -
  define a where "a = next_addr h"
  define h1 where "h1 = h\<lparr>next_addr := Suc a\<rparr>"
  obtain v' h2 where 2: "into v h1 = (v', h2)" by fastforce
  then have p: "p = Some a" and h': "h' = store a (mk [v']) h2"
    using assms(1) by (auto simp: copy_new_def reserve_def a_def h1_def)
  have h1: "view h1 v = view h v \<and> reach h1 v = reach h v" by (rule local) (simp add: h1_def)
  then have c: "grown_heap h1 h2 \<and> view h2 v' = view h1 v \<and> reach h2 v' \<subseteq> {next_addr h1..<next_addr h2}"
    using copies [OF 2] assms(2) by (fastforce simp: h1_def a_def)
  have new: "view h' v' = view h2 v' \<and> reach h' v' = reach h2 v'"
    by (rule local) (use c in \<open>auto simp: h' store_def h1_def\<close>)
  have "grown_heap h h'" using c by (auto simp: grown_heap_def h' store_def h1_def a_def)
  moreover have "insert a (reach h' v') \<subseteq> {a..<next_addr h'}"
    using c new by (auto simp: grown_heap_def h' store_def h1_def)
  moreover have "cells h' a = Some (mk [v'])" by (simp add: h' store_def)
  ultimately show ?thesis using p new c h1 by (intro exI [of _ v']) (simp add: a_def)
qed

text \<open>Whatever is written afterwards through one of the two values, the other keeps its content.\<close>

lemma copy_new_independent:
  assumes "copy_new mk into (Some v) h = (p, h')" and "reach h v \<subseteq> {..<next_addr h}"
  shows "\<exists>a v'. p = Some a \<and> cells h' a = Some (mk [v']) \<and> view h' v' = view h v \<and> view h' v = view h v \<and>
    insert a (reach h' v') \<inter> reach h' v = {} \<and>
    (\<forall>h''. touched (insert a (reach h' v')) h' h'' \<longrightarrow> view h'' v = view h v) \<and>
    (\<forall>h''. touched (reach h' v) h' h'' \<longrightarrow> cells h'' a = Some (mk [v']) \<and> view h'' v' = view h v)"
proof -
  obtain v' where p: "p = Some (next_addr h)" "cells h' (next_addr h) = Some (mk [v'])" and grown: "grown_heap h h'"
    and new: "view h' v' = view h v" "insert (next_addr h) (reach h' v') \<subseteq> {next_addr h..<next_addr h'}"
    using copy_new_copies [OF assms] by blast
  have old: "view h' v = view h v \<and> reach h' v = reach h v" by (rule below [OF assms(2) grown])
  then have disj: "insert (next_addr h) (reach h' v') \<inter> reach h' v = {}" using new(2) assms(2) by fastforce
  have "view h'' v = view h' v" if "touched (insert (next_addr h) (reach h' v')) h' h''" for h''
    using local [of h' v h''] that disj unfolding touched_def by blast
  moreover have "view h'' v' = view h' v' \<and> cells h'' (next_addr h) = cells h' (next_addr h)"
    if "touched (reach h' v) h' h''" for h''
    using local [of h' v' h''] that disj unfolding touched_def by blast
  ultimately show ?thesis using p old new disj by (intro exI [of _ "next_addr h"] exI [of _ v']) auto
qed

end

section \<open>Outside values in the store\<close>

text \<open>An instance of the outside packages: a value is an address, and its content the cell there.\<close>

definition cell_copy :: "(nat, nat) copier" where
  "cell_copy x h =
     (case reserve h of (a, h1) \<Rightarrow> (a, case cells h x of None \<Rightarrow> h1\<lparr>cells := (cells h1)(a := None)\<rparr> | Some c \<Rightarrow> store a c h1))"

definition cellCopies :: "nat ExternalCopy" where
  "cellCopies =
     \<lparr>xc_ObjectMeta = cell_copy, xc_ListMeta = cell_copy, xc_LabelSelector = cell_copy, xc_RawExtension = cell_copy,
      xc_Condition = cell_copy, xc_Time = cell_copy\<rparr>"

lemma cell_copies_deep: "external_deep cellCopies (\<lambda>h x. cells h x) (\<lambda>h x. {x})"
proof -
  have "deep_copier cell_copy (\<lambda>h x. cells h x) (\<lambda>h x. {x})"
    by unfold_locales (auto simp: cell_copy_def reserve_def store_def grown_heap_def split: option.splits)
  then show ?thesis by (simp add: external_deep_def cellCopies_def)
qed

definition sampleHeap :: "nat heap" where
  "sampleHeap =
     \<lparr>cells = (\<lambda>a. if a = 0 then Some (OpaqueCell 7)
        else if a = 1 then Some (StringCells [''pods'', ''services''])
        else if a = 2 then Some (RuleCells [\<lparr>hpr_APIGroups = None, hpr_APIVersions = None,
            hpr_Resources = Some \<lparr>sl_addr = 1, sl_off = 1, sl_len = 1\<rparr>, hpr_Operations = None, hpr_Scope = ''''\<rparr>])
        else if a = 3 then Some (PolicyCells [\<lparr>hp_TypeMeta = \<lparr>tm_Kind = ''KubewardenPolicy'', tm_APIVersion = ''v1alpha1''\<rparr>, hp_Meta = 0,
            hp_Spec = \<lparr>hps_ClusterSelector = 0, hps_PolicyType = '''', hps_PolicyName = ''p'', hps_TargetNamespace = '''',
              hps_PolicyServer = '''', hps_Module = ''m'', hps_Rules = Some \<lparr>sl_addr = 2, sl_off = 0, sl_len = 1\<rparr>, hps_Mutating = False,
              hps_Settings = 0, hps_FailurePolicy = '''', hps_MatchConditions = None\<rparr>,
            hp_Status = \<lparr>hpst_Ready = False, hpst_Conditions = None, hpst_MatchingClusters = None, hpst_DeployedPolicies = None\<rparr>\<rparr>])
        else if a = 4 then Some (AddonCells [\<lparr>ha_TypeMeta = \<lparr>tm_Kind = ''KubewardenAddon'', tm_APIVersion = ''v1alpha1''\<rparr>, ha_Meta = 0,
            ha_Spec = \<lparr>has_ClusterSelector = 0, has_Version = ''latest'', has_ImageRepository = '''', has_PolicyServerConfig =
              \<lparr>psc_Resources = \<lparr>rr_CPU = '''', rr_Memory = ''''\<rparr>, psc_Replicas = 1\<rparr>\<rparr>,
            ha_Status = \<lparr>hast_Ready = True, hast_Conditions = None, hast_MatchingClusters = None\<rparr>\<rparr>])
        else None),
      next_addr = 5\<rparr>"

definition sampleList :: "nat hPolicyList" where
  "sampleList = \<lparr>hpl_TypeMeta = \<lparr>tm_Kind = ''KubewardenPolicyList'', tm_APIVersion = ''v1alpha1''\<rparr>, hpl_ListMeta = 0,
     hpl_Items = Some \<lparr>sl_addr = 3, sl_off = 0, sl_len = 1\<rparr>\<rparr>"

definition sampleAddonList :: "nat hAddonList" where
  "sampleAddonList = \<lparr>hal_TypeMeta = \<lparr>tm_Kind = ''KubewardenAddonList'', tm_APIVersion = ''v1alpha1''\<rparr>, hal_ListMeta = 0,
     hal_Items = Some \<lparr>sl_addr = 4, sl_off = 0, sl_len = 1\<rparr>\<rparr>"

section \<open>Properties\<close>

text \<open>C36: copies of policies share nothing with the original.  A copy of a nil list is nil; a copy of any other list is a new
  object with the same content, in which nil slices stay nil, and the original keeps its content.  No address is reached
  from both, so whatever is written later through the copy leaves the original as it is, and the other way round.\<close>

theorem policy_copies_share_nothing:
  assumes "external_deep xc V R" and "reach_PolicyList R h v \<subseteq> {..<next_addr h}"
    and "DeepCopyObject_KubewardenPolicyList xc (Some v) h = (p, h')"
  shows "DeepCopyObject_KubewardenPolicyList xc None h = (None, h) \<and>
    (\<exists>a v'. p = Some a \<and> cells h' a = Some (PolicyListCells [v']) \<and> view_PolicyList V h' v' = view_PolicyList V h v \<and>
      view_PolicyList V h' v = view_PolicyList V h v \<and>
      insert a (reach_PolicyList R h' v') \<inter> reach_PolicyList R h' v = {} \<and>
      (\<forall>h''. touched (insert a (reach_PolicyList R h' v')) h' h'' \<longrightarrow> view_PolicyList V h'' v = view_PolicyList V h v) \<and>
      (\<forall>h''. touched (reach_PolicyList R h' v) h' h'' \<longrightarrow>
         cells h'' a = Some (PolicyListCells [v']) \<and> view_PolicyList V h'' v' = view_PolicyList V h v))"
proof -
  have "copy_new PolicyListCells (DeepCopyInto_KubewardenPolicyList xc) (Some v) h = (p, h')"
    using assms(3) by (auto simp: DeepCopyObject_KubewardenPolicyList_def DeepCopy_KubewardenPolicyList_def split: prod.splits option.splits)
  from deep_copier.copy_new_independent [OF policy_deep(4) [OF assms(1)] this assms(2)]
  show ?thesis by (simp add: DeepCopyObject_KubewardenPolicyList_def DeepCopy_KubewardenPolicyList_def copy_new_def)
qed

theorem policy_copies_share_nothing_witness:
  "\<exists>a h' v'. DeepCopyObject_KubewardenPolicyList cellCopies (Some sampleList) sampleHeap = (Some a, h') \<and>
     cells h' a = Some (PolicyListCells [v']) \<and>
     view_PolicyList (\<lambda>h x. cells h x) h' v' = view_PolicyList (\<lambda>h x. cells h x) sampleHeap sampleList \<and>
     reach_PolicyList (\<lambda>h x. {x}) h' v' \<inter> reach_PolicyList (\<lambda>h x. {x}) h' sampleList = {}"
proof -
  have reach: "reach_PolicyList (\<lambda>h x. {x}) sampleHeap sampleList \<subseteq> {..<next_addr sampleHeap}"
    by (simp add: reach_PolicyList_def reach_slice_def sampleList_def sampleHeap_def elems_def reach_Policy_def policies_of_def
        reach_PolicySpec_def reach_PolicyStatus_def rules_of_def reach_PolicyRule_def)
  obtain p h' where "DeepCopyObject_KubewardenPolicyList cellCopies (Some sampleList) sampleHeap = (p, h')" by fastforce
  with policy_copies_share_nothing [OF cell_copies_deep reach this] show ?thesis by auto
qed

text \<open>The same for addons: the copy of a list of addons is a new object with the same content, and no later write
  through one of the two changes the other.\<close>

theorem addon_copies_share_nothing:
  assumes "external_deep xc V R" and "reach_AddonList R h v \<subseteq> {..<next_addr h}"
    and "DeepCopyObject_KubewardenAddonList xc (Some v) h = (p, h')"
  shows "DeepCopyObject_KubewardenAddonList xc None h = (None, h) \<and>
    (\<exists>a v'. p = Some a \<and> cells h' a = Some (AddonListCells [v']) \<and> view_AddonList V h' v' = view_AddonList V h v \<and>
      view_AddonList V h' v = view_AddonList V h v \<and>
      insert a (reach_AddonList R h' v') \<inter> reach_AddonList R h' v = {} \<and>
      (\<forall>h''. touched (insert a (reach_AddonList R h' v')) h' h'' \<longrightarrow> view_AddonList V h'' v = view_AddonList V h v) \<and>
      (\<forall>h''. touched (reach_AddonList R h' v) h' h'' \<longrightarrow>
         cells h'' a = Some (AddonListCells [v']) \<and> view_AddonList V h'' v' = view_AddonList V h v))"
proof -
  have "copy_new AddonListCells (DeepCopyInto_KubewardenAddonList xc) (Some v) h = (p, h')"
    using assms(3) by (auto simp: DeepCopyObject_KubewardenAddonList_def DeepCopy_KubewardenAddonList_def split: prod.splits option.splits)
  from deep_copier.copy_new_independent [OF addon_deep(4) [OF assms(1)] this assms(2)]
  show ?thesis by (simp add: DeepCopyObject_KubewardenAddonList_def DeepCopy_KubewardenAddonList_def copy_new_def)
qed

theorem addon_copies_share_nothing_witness:
  "\<exists>a h' v'. DeepCopyObject_KubewardenAddonList cellCopies (Some sampleAddonList) sampleHeap = (Some a, h') \<and>
     cells h' a = Some (AddonListCells [v']) \<and>
     view_AddonList (\<lambda>h x. cells h x) h' v' = view_AddonList (\<lambda>h x. cells h x) sampleHeap sampleAddonList"
proof -
  have reach: "reach_AddonList (\<lambda>h x. {x}) sampleHeap sampleAddonList \<subseteq> {..<next_addr sampleHeap}"
    by (simp add: reach_AddonList_def reach_slice_def sampleAddonList_def sampleHeap_def elems_def reach_Addon_def addons_of_def
        reach_AddonSpec_def reach_AddonStatus_def)
  obtain p h' where "DeepCopyObject_KubewardenAddonList cellCopies (Some sampleAddonList) sampleHeap = (p, h')" by fastforce
  with addon_copies_share_nothing [OF cell_copies_deep reach this] show ?thesis by auto
qed

end
