(* ===== verification/Deep_Copy_Refinement.thy ===== *)
theory Deep_Copy_Refinement
  imports Deep_Copy_Proofs
begin

text \<open>
  The model of the controllers works on values, where \<open>addonCopy := addon.DeepCopy()\<close> is the value itself and an
  assignment to a field of \<open>addon\<close> makes a new value.  Here the program over the store is shown to refine that: an addon in the
  store stands for a record of \<open>API_Types\<close>, its copy stands for the same record, and an assignment through the
  pointer changes the record the original stands for and not the copy.
\<close>

section \<open>Abstraction\<close>

text \<open>What the values of outside packages stand for, given their content.\<close>

record 'v Decoding =
  dc_ObjectMeta :: "'v \<Rightarrow> ObjectMeta"
  dc_LabelSelector :: "'v \<Rightarrow> LabelSelector"
  dc_Condition :: "'v \<Rightarrow> Condition"

text \<open>The values of the model do not tell a nil slice from an empty one.\<close>

definition list_of :: "'a list option \<Rightarrow> 'a list" where
  "list_of s = (case s of None \<Rightarrow> [] | Some xs \<Rightarrow> xs)"

definition abs_AddonSpec :: "'v Decoding \<Rightarrow> ('x heap \<Rightarrow> 'x \<Rightarrow> 'v) \<Rightarrow> 'x heap \<Rightarrow> 'x hAddonSpec \<Rightarrow> KubewardenAddonSpec" where
  "abs_AddonSpec dc V h v =
     \<lparr>kas_ClusterSelector = dc_LabelSelector dc (V h (has_ClusterSelector v)), kas_Version = has_Version v,
      kas_ImageRepository = has_ImageRepository v, kas_PolicyServerConfig = has_PolicyServerConfig v\<rparr>"

definition abs_AddonStatus :: "'v Decoding \<Rightarrow> ('x heap \<Rightarrow> 'x \<Rightarrow> 'v) \<Rightarrow> 'x heap \<Rightarrow> hAddonStatus \<Rightarrow> KubewardenAddonStatus" where
  "abs_AddonStatus dc V h v =
     \<lparr>kast_Ready = hast_Ready v,
      kast_Conditions = map (dc_Condition dc) (list_of (view_slice conditions_of V h (hast_Conditions v))),
      kast_MatchingClusters = list_of (view_slice references_of value_view h (hast_MatchingClusters v))\<rparr>"

definition abs_Addon :: "'v Decoding \<Rightarrow> ('x heap \<Rightarrow> 'x \<Rightarrow> 'v) \<Rightarrow> 'x heap \<Rightarrow> 'x hAddon \<Rightarrow> KubewardenAddon" where
  "abs_Addon dc V h v =
     \<lparr>ka_Meta = dc_ObjectMeta dc (V h (ha_Meta v)), ka_Spec = abs_AddonSpec dc V h (ha_Spec v),
      ka_Status = abs_AddonStatus dc V h (ha_Status v)\<rparr>"

text \<open>The addon a pointer points to.\<close>

definition addon_at :: "'v Decoding \<Rightarrow> ('x heap \<Rightarrow> 'x \<Rightarrow> 'v) \<Rightarrow> 'x heap \<Rightarrow> nat \<Rightarrow> KubewardenAddon option" where
  "addon_at dc V h a = (case cells h a of Some (AddonCells [v]) \<Rightarrow> Some (abs_Addon dc V h v) | _ \<Rightarrow> None)"

text \<open>The record depends on the content only.\<close>

lemma abs_Addon_cong: "view_Addon V h v = view_Addon V h' v' \<Longrightarrow> abs_Addon dc V h v = abs_Addon dc V h' v'"
  by (simp add: abs_Addon_def abs_AddonSpec_def abs_AddonStatus_def view_Addon_def view_AddonSpec_def view_AddonStatus_def)

text \<open>\<open>addon.Status.Ready = x\<close> through a pointer, and on a value.\<close>

definition assign_Ready :: "nat \<Rightarrow> 'x hAddon \<Rightarrow> bool \<Rightarrow> 'x heap \<Rightarrow> 'x heap" where
  "assign_Ready b v x h = store b (AddonCells [v\<lparr>ha_Status := (ha_Status v)\<lparr>hast_Ready := x\<rparr>\<rparr>]) h"

definition with_Ready :: "bool \<Rightarrow> KubewardenAddon \<Rightarrow> KubewardenAddon" where
  "with_Ready x k = k\<lparr>ka_Status := (ka_Status k)\<lparr>kast_Ready := x\<rparr>\<rparr>"

lemma abs_assign:
  "abs_Addon dc V h (v\<lparr>ha_Status := (ha_Status v)\<lparr>hast_Ready := x\<rparr>\<rparr>) = with_Ready x (abs_Addon dc V h v)"
  by (simp add: abs_Addon_def abs_AddonSpec_def abs_AddonStatus_def with_Ready_def)

section \<open>Properties\<close>

text \<open>C37: copy, then assign, as values would.  When \<open>b\<close> points to an addon that lies in the store, the copy points to an
  addon with the same value, and after an assignment to \<open>Status.Ready\<close> through \<open>b\<close> the copy still has the old value and \<open>b\<close> the
  updated one: the base of the status patch of the addon reconciler is the addon before the assignment.\<close>

theorem addon_copy_refines_value:
  assumes "external_deep xc V R" and "cells h b = Some (AddonCells [v])" and "b < next_addr h"
    and "reach_Addon R h v \<subseteq> {..<next_addr h} - {b}" and "DeepCopy_KubewardenAddon xc (Some v) h = (p, h')"
  shows "\<exists>a. p = Some a \<and> addon_at dc V h' a = addon_at dc V h b \<and> addon_at dc V h' b = addon_at dc V h b \<and>
    addon_at dc V (assign_Ready b v x h') a = addon_at dc V h b \<and>
    addon_at dc V (assign_Ready b v x h') b = map_option (with_Ready x) (addon_at dc V h b)"
proof -
  note addon = addon_deep(3) [OF assms(1)]
  have sub: "reach_Addon R h v \<subseteq> {..<next_addr h}" using assms(4) by blast
  obtain v' where p: "p = Some (next_addr h)" "cells h' (next_addr h) = Some (AddonCells [v'])" and grown: "grown_heap h h'"
    and new: "view_Addon V h' v' = view_Addon V h v" "insert (next_addr h) (reach_Addon R h' v') \<subseteq> {next_addr h..<next_addr h'}"
    using deep_copier.copy_new_copies [OF addon assms(5) [unfolded DeepCopy_KubewardenAddon_def] sub] by blast
  have old: "view_Addon V h' v = view_Addon V h v \<and> reach_Addon R h' v = reach_Addon R h v"
    by (rule deep_copier.below [OF addon sub grown])
  have b: "cells h' b = Some (AddonCells [v])" using grown assms(2,3) by (simp add: grown_heap_def)
  let ?h = "assign_Ready b v x h'"
  have "view_Addon V ?h v' = view_Addon V h' v'"
    by (rule deep_copier.local [OF addon, THEN conjunct1]) (use new(2) assms(3) in \<open>auto simp: assign_Ready_def store_def\<close>)
  then have copy: "abs_Addon dc V ?h v' = abs_Addon dc V h v" "abs_Addon dc V h' v' = abs_Addon dc V h v"
    using new(1) by (auto intro: abs_Addon_cong)
  have "view_Addon V ?h v = view_Addon V h' v"
    by (rule deep_copier.local [OF addon, THEN conjunct1]) (use old assms(4) in \<open>auto simp: assign_Ready_def store_def\<close>)
  then have "abs_Addon dc V ?h v = abs_Addon dc V h v" "abs_Addon dc V h' v = abs_Addon dc V h v"
    using old by (auto intro: abs_Addon_cong)
  moreover have "cells ?h b = Some (AddonCells [v\<lparr>ha_Status := (ha_Status v)\<lparr>hast_Ready := x\<rparr>\<rparr>])"
    "cells ?h (next_addr h) = Some (AddonCells [v'])"
    using p(2) assms(3) by (simp_all add: assign_Ready_def store_def)
  ultimately show ?thesis
    using p b copy assms(2) by (simp add: addon_at_def abs_assign)
qed

definition sampleDecoding :: "nat cell option Decoding" where
  "sampleDecoding =
     \<lparr>dc_ObjectMeta = (\<lambda>_. \<lparr>om_Name = ''kubewarden'', om_Namespace = ''default'', om_Labels = Map.empty, om_Annotations = None,
        om_DeletionTimestamp = None\<rparr>),
      dc_LabelSelector = (\<lambda>_. \<lparr>ls_MatchLabels = [], ls_MatchExpressions = []\<rparr>),
      dc_Condition = (\<lambda>_. \<lparr>cond_Type = '''', cond_Status = '''', cond_Reason = ''''\<rparr>)\<rparr>"

theorem addon_copy_refines_value_witness:
  "\<exists>v a h'. cells sampleHeap 4 = Some (AddonCells [v]) \<and> DeepCopy_KubewardenAddon cellCopies (Some v) sampleHeap = (Some a, h') \<and>
     map_option (\<lambda>k. kast_Ready (ka_Status k)) (addon_at sampleDecoding cells (assign_Ready 4 v False h') a) = Some True \<and>
     map_option (\<lambda>k. kast_Ready (ka_Status k)) (addon_at sampleDecoding cells (assign_Ready 4 v False h') 4) = Some False"
proof -
  obtain v where v: "cells sampleHeap 4 = Some (AddonCells [v])" "hast_Ready (ha_Status v)"
    "hast_Conditions (ha_Status v) = None" "hast_MatchingClusters (ha_Status v) = None" "ha_Meta v = 0"
    "has_ClusterSelector (ha_Spec v) = 0"
    by (simp add: sampleHeap_def)
  have reach: "reach_Addon (\<lambda>h x. {x}) sampleHeap v \<subseteq> {..<next_addr sampleHeap} - {4}"
    using v by (simp add: reach_Addon_def reach_AddonSpec_def reach_AddonStatus_def reach_slice_def sampleHeap_def)
  have b: "4 < next_addr sampleHeap" by (simp add: sampleHeap_def)
  obtain p h' where run: "DeepCopy_KubewardenAddon cellCopies (Some v) sampleHeap = (p, h')" by fastforce
  have "addon_at sampleDecoding cells sampleHeap 4 = Some (abs_Addon sampleDecoding cells sampleHeap v)"
    by (simp add: addon_at_def v(1))
  then show ?thesis
    using addon_copy_refines_value [OF cell_copies_deep v(1) b reach run, of sampleDecoding False] run v(1,2)
    by (auto simp: with_Ready_def abs_Addon_def abs_AddonStatus_def)
qed

end
