(* ===== verification/Test_Utils.thy ===== *)
theory Test_Utils
  imports Files
begin

text \<open>
  The helpers of the end-to-end tests, \<open>test/utils/utils.go\<close>: running commands in the project directory, installing and
  detecting the operators the tests need, and uncommenting parts of a file.  The process (working directory, environment)
  and the commands it runs are a parameter; files are those of \<open>Files\<close>.  What is printed is left out.
\<close>

section \<open>Strings and lines\<close>

abbreviation newline :: char where
  "newline \<equiv> CHR 0x0A"

abbreviation carriage_return :: char where
  "carriage_return \<equiv> CHR 0x0D"

text \<open>\<open>strings.Index\<close>, \<open>strings.Contains\<close>, \<open>strings.TrimPrefix\<close>, and \<open>strings.Replace(s, t, "", -1)\<close>.\<close>

fun Index :: "string \<Rightarrow> string \<Rightarrow> nat option" where
  "Index [] t = (if t = [] then Some 0 else None)"
| "Index (c # s) t = (if prefix t (c # s) then Some 0 else map_option Suc (Index s t))"

definition Contains :: "string \<Rightarrow> string \<Rightarrow> bool" where
  "Contains s t \<longleftrightarrow> Index s t \<noteq> None"

definition TrimPrefix :: "string \<Rightarrow> string \<Rightarrow> string" where
  "TrimPrefix s p = (if prefix p s then drop (length p) s else s)"

function removeEach :: "string \<Rightarrow> string \<Rightarrow> string" where
  "removeEach t s =
     (if t = [] \<or> s = [] then s
      else if prefix t s then removeEach t (drop (length t) s)
      else hd s # removeEach t (tl s))"
  by pat_completeness auto
termination
  by (relation "measure (\<lambda>(_, s). length s)") auto

declare removeEach.simps [simp del]

text \<open>
  \<open>bufio.Scanner\<close> with \<open>ScanLines\<close>: the lines without their end and without one carriage return before it; a last line that
  is empty is no token; the scanner stops for good at a line of \<open>MaxScanTokenSize\<close> bytes or more.
\<close>

definition MaxScanTokenSize :: nat where
  "MaxScanTokenSize = 64 * 1024"

definition dropCR :: "string \<Rightarrow> string" where
  "dropCR l = (if l \<noteq> [] \<and> last l = carriage_return then butlast l else l)"

definition ScanLines :: "string \<Rightarrow> string list" where
  "ScanLines s =
     (let ls = split_on newline s; ls = (if last ls = [] then butlast ls else ls)
      in map dropCR (takeWhile (\<lambda>l. length l < MaxScanTokenSize) ls))"

section \<open>Commands\<close>

record Cmd =
  cmd_Args :: "string list"
  cmd_Dir :: string
  cmd_Env :: "string list"

text \<open>\<open>exec.Command\<close>: the name is the first argument.\<close>

definition Command :: "string list \<Rightarrow> Cmd" where
  "Command args = \<lparr>cmd_Args = args, cmd_Dir = '''', cmd_Env = []\<rparr>"

text \<open>The process and the commands it runs; \<open>Getwd\<close> and \<open>CombinedOutput\<close> return a string also with an error.\<close>

record 's Shell =
  sh_Getwd :: "'s \<Rightarrow> string \<times> go_error option"
  sh_Chdir :: "string \<Rightarrow> ('s, unit) call"
  sh_Environ :: "'s \<Rightarrow> string list"
  sh_LookupEnv :: "string \<Rightarrow> 's \<Rightarrow> string option"
  sh_CombinedOutput :: "Cmd \<Rightarrow> 's \<Rightarrow> (string \<times> go_error option) \<times> 's"

definition shell_call :: "('s \<Rightarrow> 'a \<times> 's) \<Rightarrow> ('s world, 'a) io" where
  "shell_call f w = (case f (svc w) of (x, s) \<Rightarrow> (Ok x, w\<lparr>svc := s\<rparr>))"

definition GetProjectDir :: "'s Shell \<Rightarrow> ('s world, string \<times> go_error option) io" where
  "GetProjectDir sh =
     io_bind (io_state (\<lambda>w. sh_Getwd sh (svc w))) (\<lambda>(wd, err).
     case err of
       Some e \<Rightarrow> io_return (wd, Some e)
     | None \<Rightarrow> io_return (removeEach ''/test/e2e'' wd, None))"

definition Run :: "'s Shell \<Rightarrow> Cmd \<Rightarrow> ('s world, string \<times> go_error option) io" where
  "Run sh cmd =
     io_bind (GetProjectDir sh) (\<lambda>(dir, _).
     io_bind (io_try (ext_call (sh_Chdir sh dir)) (\<lambda>_. io_return ()) io_return) (\<lambda>_.
     io_bind (io_state (\<lambda>w. sh_Environ sh (svc w))) (\<lambda>env.
     let cmd = cmd\<lparr>cmd_Dir := dir, cmd_Env := env @ [''GO111MODULE=on'']\<rparr>;
         command = join_with CHR '' '' (cmd_Args cmd)
     in io_bind (shell_call (sh_CombinedOutput sh cmd)) (\<lambda>(output, err).
        case err of
          Some e \<Rightarrow> io_return (output, Some (Errorf (command @ '' failed with error: ('' @ Error e @ '') '' @ output)))
        | None \<Rightarrow> io_return (output, None)))))"

text \<open>The error of a run, as a Go function returns it.\<close>

definition run_error :: "'s Shell \<Rightarrow> string list \<Rightarrow> ('s world, go_error option) io" where
  "run_error sh args = io_bind (Run sh (Command args)) (\<lambda>(_, err). io_return err)"

definition GetNonEmptyLines :: "string \<Rightarrow> string list" where
  "GetNonEmptyLines output = filter (\<lambda>element. element \<noteq> '''') (split_on newline output)"

section \<open>Operators the tests need\<close>

definition prometheusOperatorURL :: "string \<Rightarrow> string" where
  "prometheusOperatorURL v =
     ''https://github.com/prometheus-operator/prometheus-operator/releases/download/'' @ v @ ''/bundle.yaml''"

definition prometheusOperatorVersion :: string where
  "prometheusOperatorVersion = ''v0.77.1''"

definition certmanagerURLTmpl :: "string \<Rightarrow> string" where
  "certmanagerURLTmpl v = ''https://github.com/jetstack/cert-manager/releases/download/'' @ v @ ''/cert-manager.yaml''"

definition certmanagerVersion :: string where
  "certmanagerVersion = ''v1.16.0''"

definition InstallPrometheusOperator :: "'s Shell \<Rightarrow> ('s world, go_error option) io" where
  "InstallPrometheusOperator sh =
     run_error sh [''kubectl'', ''create'', ''-f'', prometheusOperatorURL prometheusOperatorVersion]"

definition UninstallPrometheusOperator :: "'s Shell \<Rightarrow> ('s world, unit) io" where
  "UninstallPrometheusOperator sh =
     io_bind (run_error sh [''kubectl'', ''delete'', ''-f'', prometheusOperatorURL prometheusOperatorVersion])
       (\<lambda>err. io_return ())"

text \<open>The two nested loops of the checks.\<close>

definition any_listed :: "string list \<Rightarrow> string list \<Rightarrow> bool" where
  "any_listed crds crdList = list_ex (\<lambda>crd. list_ex (\<lambda>line. Contains line crd) crdList) crds"

definition prometheusCRDs :: "string list" where
  "prometheusCRDs =
     [''prometheuses.monitoring.coreos.com'', ''prometheusrules.monitoring.coreos.com'',
      ''prometheusagents.monitoring.coreos.com'']"

definition IsPrometheusCRDsInstalled :: "'s Shell \<Rightarrow> ('s world, bool) io" where
  "IsPrometheusCRDsInstalled sh =
     io_bind (Run sh (Command [''kubectl'', ''get'', ''crds'', ''-o'', ''custom-columns=NAME:.metadata.name'']))
       (\<lambda>(output, err). case err of
          Some e \<Rightarrow> io_return False
        | None \<Rightarrow> io_return (any_listed prometheusCRDs (GetNonEmptyLines output)))"

definition UninstallCertManager :: "'s Shell \<Rightarrow> ('s world, unit) io" where
  "UninstallCertManager sh =
     io_bind (run_error sh [''kubectl'', ''delete'', ''-f'', certmanagerURLTmpl certmanagerVersion]) (\<lambda>err. io_return ())"

definition InstallCertManager :: "'s Shell \<Rightarrow> ('s world, go_error option) io" where
  "InstallCertManager sh =
     io_bind (run_error sh [''kubectl'', ''apply'', ''-f'', certmanagerURLTmpl certmanagerVersion]) (\<lambda>err.
     case err of
       Some e \<Rightarrow> io_return (Some e)
     | None \<Rightarrow>
         run_error sh [''kubectl'', ''wait'', ''deployment.apps/cert-manager-webhook'', ''--for'', ''condition=Available'',
           ''--namespace'', ''cert-manager'', ''--timeout'', ''5m''])"

definition certManagerCRDs :: "string list" where
  "certManagerCRDs =
     [''certificates.cert-manager.io'', ''issuers.cert-manager.io'', ''clusterissuers.cert-manager.io'',
      ''certificaterequests.cert-manager.io'', ''orders.acme.cert-manager.io'', ''challenges.acme.cert-manager.io'']"

definition IsCertManagerCRDsInstalled :: "'s Shell \<Rightarrow> ('s world, bool) io" where
  "IsCertManagerCRDsInstalled sh =
     io_bind (Run sh (Command [''kubectl'', ''get'', ''crds''])) (\<lambda>(output, err). case err of
        Some e \<Rightarrow> io_return False
      | None \<Rightarrow> io_return (any_listed certManagerCRDs (GetNonEmptyLines output)))"

definition LoadImageToKindClusterWithName :: "'s Shell \<Rightarrow> string \<Rightarrow> ('s world, go_error option) io" where
  "LoadImageToKindClusterWithName sh name =
     io_bind (io_state (\<lambda>w. sh_LookupEnv sh ''KIND_CLUSTER'' (svc w))) (\<lambda>v.
     run_error sh [''kind'', ''load'', ''docker-image'', name, ''--name'', case v of Some c \<Rightarrow> c | None \<Rightarrow> ''kind''])"

section \<open>Uncommenting\<close>

text \<open>\<open>os.ReadFile\<close> and \<open>os.WriteFile\<close>, which truncates before it writes.\<close>

definition os_ReadFile :: "string \<Rightarrow> ('s world, string) io" where
  "os_ReadFile p =
     io_bind (os_Open p) (\<lambda>n. os_call (\<lambda>w.
     case n of File c \<Rightarrow> (Ok c, w) | Dir \<Rightarrow> (Err (External ''EISDIR'' (''read '' @ p @ '': is a directory'')), w)))"

definition os_WriteFile :: "string \<Rightarrow> string \<Rightarrow> ('s world, unit) io" where
  "os_WriteFile p s = io_bind (os_Create p) (\<lambda>_. file_Write p s)"

text \<open>Lines 230 to 242: what the loop writes for the tokens of the scanner.\<close>

fun uncomment_lines :: "string \<Rightarrow> string list \<Rightarrow> string" where
  "uncomment_lines p [] = []"
| "uncomment_lines p [l] = TrimPrefix l p"
| "uncomment_lines p (l # l' # ls) = TrimPrefix l p @ newline # uncomment_lines p (l' # ls)"

definition UncommentCode :: "string \<Rightarrow> string \<Rightarrow> string \<Rightarrow> ('s world, unit) io" where
  "UncommentCode filename target pre =
     io_bind (os_ReadFile filename) (\<lambda>content.
     case Index content target of
       None \<Rightarrow> io_fail (Errorf (''unable to find the code '' @ target @ '' to be uncomment''))
     | Some idx \<Rightarrow>
         (let ls = ScanLines target in
          if ls = [] then io_return ()
          else os_WriteFile filename (take idx content @ uncomment_lines pre ls @ drop (idx + length target) content)))"

end
