(* ===== verification/Test_Utils_Proofs.thy ===== *)
theory Test_Utils_Proofs
  imports Test_Utils
begin

text \<open>
  The test helpers do what they say: substrings and lines, detection of resource definitions in the output of a command,
  and that uncommenting undoes commenting.
\<close>

section \<open>Substrings and lines\<close>

lemma Contains_sublist: "Contains s t \<longleftrightarrow> sublist t s"
proof (induction s)
  case Nil
  then show ?case by (simp add: Contains_def)
next
  case (Cons c s)
  then show ?case by (auto simp: Contains_def sublist_Cons_right)
qed

lemma hd_split_on: "hd (split_on c xs) = takeWhile (\<lambda>z. z \<noteq> c) xs"
  by (induction xs) (auto split: list.split)

lemma prefix_takeWhile: "list_all P t \<Longrightarrow> prefix t (takeWhile P xs) \<longleftrightarrow> prefix t xs"
proof (induction t arbitrary: xs)
  case (Cons x t)
  then show ?case by (cases xs) auto
qed simp

text \<open>A string without the separator occurs in a text exactly when it occurs in a part of it.\<close>

lemma sublist_split_on:
  assumes "c \<notin> set t" and "t \<noteq> []"
  shows "sublist t s \<longleftrightarrow> (\<exists>l \<in> set (split_on c s). sublist t l)"
proof (induction s)
  case Nil
  then show ?case using assms by simp
next
  case (Cons x s)
  show ?case
  proof (cases "x = c")
    case True
    then have "\<not> prefix t (x # s)" using assms by (cases t) auto
    then show ?thesis using Cons assms True by (simp add: sublist_Cons_right)
  next
    case False
    obtain y ys where ys: "split_on c s = y # ys" by (cases "split_on c s") auto
    then have "y = takeWhile (\<lambda>z. z \<noteq> c) s" using hd_split_on [of c s] by simp
    then have "prefix t (x # s) \<longleftrightarrow> prefix t (x # y)"
      using False assms(1) prefix_takeWhile [of "\<lambda>z. z \<noteq> c" t "x # s"] by (auto simp: list_all_iff)
    then show ?thesis using Cons False ys by (auto simp: sublist_Cons_right)
  qed
qed

lemma listed_iff:
  assumes "newline \<notin> set t" and "t \<noteq> []"
  shows "list_ex (\<lambda>line. Contains line t) (GetNonEmptyLines s) \<longleftrightarrow> Contains s t"
proof -
  have "sublist t l \<Longrightarrow> l \<noteq> []" for l using assms(2) by auto
  then show ?thesis
    using sublist_split_on [OF assms, of s] by (auto simp: list_ex_iff Contains_sublist GetNonEmptyLines_def)
qed

text \<open>The check of the definitions: searching the lines is searching the output.\<close>

lemma any_listed_iff:
  assumes "\<forall>crd \<in> set crds. newline \<notin> set crd \<and> crd \<noteq> []"
  shows "any_listed crds (GetNonEmptyLines out) \<longleftrightarrow> (\<exists>crd \<in> set crds. sublist crd out)"
  using assms listed_iff by (auto simp: any_listed_def list_ex_iff Contains_sublist)

lemma checks_search_output:
  "any_listed prometheusCRDs (GetNonEmptyLines out) \<longleftrightarrow> (\<exists>crd \<in> set prometheusCRDs. sublist crd out)"
  "any_listed certManagerCRDs (GetNonEmptyLines out) \<longleftrightarrow> (\<exists>crd \<in> set certManagerCRDs. sublist crd out)"
  by (rule any_listed_iff, simp add: prometheusCRDs_def certManagerCRDs_def)+

section \<open>Commenting and uncommenting\<close>

lemma split_on_subset: "l \<in> set (split_on c xs) \<Longrightarrow> set l \<subseteq> set xs"
proof (induction xs arbitrary: l)
  case (Cons x xs)
  then show ?case by (cases "split_on c xs") (fastforce split: if_splits)+
qed simp

lemma last_split_on: "last (split_on c xs) = [] \<longleftrightarrow> xs = [] \<or> last xs = c"
proof (induction xs)
  case (Cons x xs)
  then show ?case by (cases "split_on c xs"; cases xs) (auto split: list.splits if_splits)
qed simp

text \<open>A newline at the end of the target is not seen by the scanner.\<close>

lemma ScanLines_final_newline:
  "t \<noteq> [] \<Longrightarrow> last t \<noteq> newline \<Longrightarrow> ScanLines (t @ [newline]) = ScanLines t"
  using split_on_append_sep [of newline t "[]"] by (simp add: ScanLines_def last_split_on)

definition commented :: "string \<Rightarrow> string \<Rightarrow> string" where
  "commented p code = join_with newline (map ((@) p) (split_on newline code))"

lemma uncomment_lines_join: "uncomment_lines p ls = join_with newline (map (\<lambda>l. TrimPrefix l p) ls)"
  by (induction p ls rule: uncomment_lines.induct) simp_all

lemma ScanLines_commented:
  assumes "p \<noteq> []" and "newline \<notin> set p" and "carriage_return \<notin> set p \<union> set code"
    and "\<forall>l \<in> set (split_on newline code). length p + length l < MaxScanTokenSize"
  shows "ScanLines (commented p code) = map ((@) p) (split_on newline code)"
proof -
  let ?ls = "split_on newline code"
  have split: "split_on newline (commented p code) = map ((@) p) ?ls"
    unfolding commented_def using assms(2) by (intro split_join) (auto dest: split_on_no_sep_elem)
  have "dropCR (p @ l) = p @ l" if "l \<in> set ?ls" for l
    using that assms(1,3) last_in_set [of "p @ l"] split_on_subset [OF that] by (auto simp: dropCR_def)
  moreover have "takeWhile (\<lambda>l. length l < MaxScanTokenSize) (map ((@) p) ?ls) = map ((@) p) ?ls"
    using assms(4) by simp
  ultimately show ?thesis
    using assms(1) by (simp add: ScanLines_def split last_map del: takeWhile_eq_all_conv)
qed

lemma uncomment_commented: "uncomment_lines p (map ((@) p) (split_on newline code)) = code"
  by (simp add: uncomment_lines_join comp_def TrimPrefix_def)

section \<open>Files\<close>

lemma os_ReadFile_Ok:
  assumes "faults w = (\<lambda>_. None)" and "node_at w (pkey f) = Some (File c)"
  shows "os_ReadFile f w = (Ok c, w\<lparr>tick := tick w + 2\<rparr>)"
  using assms by (simp add: os_ReadFile_def os_Open_def os_call_def io_simps)

lemma os_WriteFile_Ok:
  assumes "faults w = (\<lambda>_. None)" and "is_dir w (parent (pkey f))" and "\<not> is_dir w (pkey f)"
  shows "\<exists>w'. os_WriteFile f s w = (Ok (), w') \<and> node_at w' = (node_at w)(pkey f \<mapsto> File s)"
proof -
  let ?w = "put (pkey f) (File '''') (w\<lparr>tick := Suc (tick w)\<rparr>)"
  have "os_Create f w = (Ok (), ?w)"
    using assms by (auto simp: os_Create_def os_call_def is_dir_def Let_def)
  moreover have "file_Write f s ?w = (Ok (), append_file (pkey f) s (?w\<lparr>tick := Suc (tick ?w)\<rparr>))"
    using assms(1) by (simp add: file_Write_def)
  moreover have "node_at (append_file (pkey f) s (?w\<lparr>tick := Suc (tick ?w)\<rparr>)) = (node_at w)(pkey f \<mapsto> File s)"
    by (rule ext) (simp add: node_at_append_file update_conv')
  ultimately show ?thesis by (simp add: os_WriteFile_def io_simps)
qed

lemma UncommentCode_found:
  assumes "faults w = (\<lambda>_. None)" and "is_dir w (parent (pkey f))" and "\<not> is_dir w (pkey f)"
    and "node_at w (pkey f) = Some (File (pre @ target @ post))" and "Index (pre @ target @ post) target = Some (length pre)"
    and "ScanLines target \<noteq> []"
  shows "\<exists>w'. UncommentCode f target p w = (Ok (), w') \<and>
    node_at w' = (node_at w)(pkey f \<mapsto> File (pre @ uncomment_lines p (ScanLines target) @ post))"
proof -
  let ?w = "w\<lparr>tick := tick w + 2\<rparr>" and ?s = "pre @ uncomment_lines p (ScanLines target) @ post"
  have "\<exists>w'. os_WriteFile f ?s ?w = (Ok (), w') \<and> node_at w' = (node_at ?w)(pkey f \<mapsto> File ?s)"
    by (rule os_WriteFile_Ok) (use assms(1-3) in \<open>simp_all add: is_dir_def\<close>)
  moreover have "UncommentCode f target p w = os_WriteFile f ?s ?w"
    using os_ReadFile_Ok [OF assms(1,4)] assms(5,6) by (simp add: UncommentCode_def io_simps Let_def)
  ultimately show ?thesis by simp
qed

text \<open>Whatever fails, no other file changes; a target that is not found leaves all of them as they are.\<close>

definition one_file :: "key \<Rightarrow> 's world \<Rightarrow> 's world \<Rightarrow> bool" where
  "one_file k w w' \<longleftrightarrow> (\<forall>j. j \<noteq> k \<longrightarrow> node_at w' j = node_at w j)"

interpretation one_file: step_relation "one_file k"
  for k
  by unfold_locales (auto simp: one_file_def)

lemma UncommentCode_one_file: "stays (one_file (pkey f)) (UncommentCode f target p)"
proof -
  have "stays (one_file (pkey f)) (os_ReadFile f)" and "stays (one_file (pkey f)) (os_WriteFile f s)" for s
    unfolding os_ReadFile_def os_WriteFile_def
    by (intro one_file.stays_bind; auto simp: stays_def one_file_def os_Open_def os_Create_def file_Write_def os_call_def Let_def
        node_at_append_file update_conv' split: option.split node.split)+
  then show ?thesis
    unfolding UncommentCode_def by (auto intro!: one_file.stays_bind one_file.stays_return one_file.stays_fail simp: Let_def split: option.split)
qed

lemma UncommentCode_missing:
  assumes "faults w = (\<lambda>_. None)" and "node_at w (pkey f) = Some (File c)" and "\<not> Contains c target"
  shows "UncommentCode f target p w =
    (Err (Errorf (''unable to find the code '' @ target @ '' to be uncomment'')), w\<lparr>tick := tick w + 2\<rparr>)"
  using os_ReadFile_Ok [OF assms(1,2)] assms(3) by (simp add: UncommentCode_def io_simps Contains_def)

section \<open>Properties\<close>

text \<open>C39: uncommenting undoes commenting.  Let a file in an existing directory hold code every line of which has been commented
  out with a non-empty prefix without a newline, let the commented code not occur earlier in the file, let prefix and
  code have no carriage return and every commented line be shorter than the buffer of the scanner (64 KiB), and let no system
  call fail.  Then \<open>UncommentCode\<close> restores exactly that code in place and changes no other file; what stands before and
  after it stays.\<close>

theorem uncomment_restores_code:
  assumes "faults w = (\<lambda>_. None)" and "is_dir w (parent (pkey f))" and "\<not> is_dir w (pkey f)"
    and "node_at w (pkey f) = Some (File (pre @ commented p code @ post))"
    and "Index (pre @ commented p code @ post) (commented p code) = Some (length pre)"
    and "p \<noteq> []" and "newline \<notin> set p" and "carriage_return \<notin> set p \<union> set code"
    and "\<forall>l \<in> set (split_on newline code). length p + length l < MaxScanTokenSize"
  shows "\<exists>w'. UncommentCode f (commented p code) p w = (Ok (), w') \<and>
    node_at w' (pkey f) = Some (File (pre @ code @ post)) \<and> (\<forall>k. k \<noteq> pkey f \<longrightarrow> node_at w' k = node_at w k)"
proof -
  note lines = ScanLines_commented [OF assms(6-9)]
  then have "ScanLines (commented p code) \<noteq> []" by simp
  from UncommentCode_found [OF assms(1-5) this, of p] obtain w' where
    "UncommentCode f (commented p code) p w = (Ok (), w')" "node_at w' = (node_at w)(pkey f \<mapsto> File (pre @ code @ post))"
    unfolding lines uncomment_commented by blast
  then show ?thesis by (intro exI [of _ w']) simp
qed

definition kustomization :: "unit world" where
  "kustomization =
     \<lparr>fs = [((False, [''config'']), Dir),
        ((False, [''config'', ''kustomization.yaml'']), File (''- ../crd'' @ newline # ''#- ../prometheus'' @ newline # ''#- x''))],
      tmpdir = ''/tmp'', rnd = (\<lambda>n. n), faults = (\<lambda>_. None), short = (\<lambda>_. 0), tick = 0, svc = ()\<rparr>"

theorem uncomment_restores_code_witness:
  "\<exists>w'. UncommentCode ''config/kustomization.yaml'' ''#- ../prometheus'' ''#'' kustomization = (Ok (), w') \<and>
     node_at w' (False, [''config'', ''kustomization.yaml'']) =
       Some (File (''- ../crd'' @ newline # ''- ../prometheus'' @ newline # ''#- x''))"
proof -
  let ?pre = "''- ../crd'' @ [newline]" and ?code = "''- ../prometheus''" and ?post = "newline # ''#- x''"
  have f: "pkey ''config/kustomization.yaml'' = (False, [''config'', ''kustomization.yaml''])" by code_simp
  have t: "commented ''#'' ?code = ''#- ../prometheus''" by code_simp
  have 1: "faults kustomization = (\<lambda>_. None)" by (simp add: kustomization_def)
  have 2: "is_dir kustomization (parent (pkey ''config/kustomization.yaml''))" unfolding f by code_simp
  have 3: "\<not> is_dir kustomization (pkey ''config/kustomization.yaml'')" unfolding f by code_simp
  have 4: "node_at kustomization (pkey ''config/kustomization.yaml'') = Some (File (?pre @ commented ''#'' ?code @ ?post))"
    unfolding f t by (simp add: kustomization_def)
  have 5: "Index (?pre @ commented ''#'' ?code @ ?post) (commented ''#'' ?code) = Some (length ?pre)"
    unfolding t by code_simp
  have 6: "\<forall>l \<in> set (split_on newline ?code). length ''#'' + length l < MaxScanTokenSize" by (simp add: MaxScanTokenSize_def)
  have "''#'' \<noteq> []" "newline \<notin> set ''#''" "carriage_return \<notin> set ''#'' \<union> set ?code" by simp_all
  from uncomment_restores_code [OF 1 2 3 4 5 this 6] obtain w' where
    "UncommentCode ''config/kustomization.yaml'' (commented ''#'' ?code) ''#'' kustomization = (Ok (), w')"
    "node_at w' (pkey ''config/kustomization.yaml'') = Some (File (?pre @ ?code @ ?post))" by (elim exE conjE)
  then show ?thesis unfolding f t by (intro exI [of _ w']) simp
qed

end
