(* ===== verification/Spec2Isabelle.thy ===== *)
theory Spec2Isabelle
  imports Admission System Policy_Convergence Deep_Copy_Refinement Test_Utils_Proofs
begin

text \<open>
  A verification of the Cluster API addon provider for Kubewarden (\<open>cluster-api-addon-provider-kubewarden\<close>).

  \<^bold>\<open>The program.\<close>  The provider is a Kubernetes controller manager with two custom resources.  A \<open>KubewardenAddon\<close> selects
  clusters of Cluster API by labels; its reconciler (\<open>internal/controller/kubewardenaddon_controller.go\<close>) installs
  Kubewarden on each of them (namespace, CRDs of a release archive, two Helm charts, tolerations) and marks the cluster
  with an annotation.  A \<open>KubewardenPolicy\<close> selects clusters too; its reconciler
  (\<open>kubewardenpolicy_controller.go\<close>) deploys an admission policy to every selected cluster that is ready and carries
  the mark, and reports what it did in the status.  Webhooks (\<open>api/v1alpha1/*_webhook.go\<close>) fill in defaults and
  validate (those of the addon are registered for another API group and are not called); \<open>cmd/main.go\<close> reads the flags and starts everything; \<open>helpers.go\<close> downloads, unpacks and renders.  The
  controllers interact only through the management cluster: the mark the addon controller sets is the guard the policy
  controller tests, and cluster events requeue both.

  \<^bold>\<open>The theories.\<close>
  \<^item> \<open>Prelude\<close>: errors, computations \<open>'w \<Rightarrow> 'a outcome \<times> 'w\<close> with the outcomes value, error and panic, combinators for
    Go's control flow, the calculus of \<open>stays\<close> (the world moves along a relation only) and \<open>safe\<close> (no panic).
  \<^item> \<open>API_Types\<close>: the structures of \<open>kubewardenaddon_types.go\<close> and \<open>kubewardenpolicy_types.go\<close> as records, with
    their accessors; locale \<open>status_object\<close> is the contract both resources share.
  \<^item> \<open>Webhooks\<close>: \<open>Default\<close> and the validators of both resources; the characterisation of what is accepted, which error
    is reported, the documented defaults, and the stability of admission (locale \<open>admission_object\<close>).
  \<^item> \<open>Admission\<close>: the registrations of the webhooks (the markers in the webhook files) and which writes reach them.
  \<^item> \<open>Paths\<close>, \<open>Files\<close>: \<open>filepath.Join\<close>/\<open>Clean\<close>, and a file system with failing and short system calls; temporary
    names as \<open>os.CreateTemp\<close> finds them, with its bound of 10000 tries.
  \<^item> \<open>Environment\<close>: the code outside the repository as records of functions: management client, workload clients, HTTP, tar,
    Helm, YAML and object decoding.  Nothing is assumed of them there.
  \<^item> \<open>Helpers\<close>, \<open>Install\<close>: every function of \<open>helpers.go\<close>, and the installation steps of the addon controller.
  \<^item> \<open>Addon_Controller\<close>, \<open>Policy_Controller\<close>: selection, the reconcile loops with their early returns, deletion and the
    handlers of cluster events, line by line.
  \<^item> \<open>Manager\<close>: \<open>cmd/main.go\<close>, the \<open>SetupWithManager\<close> methods, the constants of the API package.
  \<^item> \<open>Deep_Copy\<close>: \<open>zz_generated.deepcopy.go\<close> over an explicit store of arrays.
  \<^item> \<open>Cluster_Laws\<close>: what the Kubernetes API documents, as predicates on the clients: reads return what is stored, writes
    store, merge patches change the fields that differ.  No law says that a call succeeds.  \<open>Memory_Clusters\<close> and
    \<open>Sample_Objects\<close> are a concrete world in which all laws hold and every witness runs.
  \<^item> \<open>Policy_Deployment\<close>, \<open>Policy_Reconcile\<close>, \<open>Policy_Cleanup\<close>: deployment as create or update (locale \<open>upsert\<close>),
    the loop as a sequence of independent attempts, truthful readiness, best-effort deletion, the exact watch handler.
  \<^item> \<open>Policy_Convergence\<close>: the policy controller refines an abstract deployment to a set of clusters, and on a healthy fleet one
    reconciliation reaches all eligible clusters.
  \<^item> \<open>Test_Utils\<close>, \<open>Test_Utils_Proofs\<close>: the helpers of the end-to-end tests (\<open>test/utils/utils.go\<close>); uncommenting undoes commenting, and
    what the line by line search of a command's output amounts to.
  \<^item> \<open>File_Proofs\<close>, \<open>Install_Files\<close>: unpacking writes exactly the archive into a new directory, the CRD installation cleans up;
    both under a condition on the names of the archive at hand, shown to be needed.
  \<^item> \<open>Install_Proofs\<close>, \<open>Install_Complete\<close>: frames of the installation for every relation on the outside state (locale
    \<open>outside_relation\<close>), the objects a manifest or a chart leaves (locale \<open>chart_install\<close>), completeness of an installation.
  \<^item> \<open>Addon_Reconcile\<close>, \<open>Addon_Properties\<close>: which clusters get marked, when \<open>Ready\<close> is set and that it is reached, and three
    defects of the loop.
  \<^item> \<open>Manager_Proofs\<close>: reading flags back, HTTP/2 off by default, registration before start, no panics of wired reconcilers,
    the kinds of the API package in the scheme.
  \<^item> \<open>Deep_Copy_Proofs\<close>: the contract of a deep copy (locale \<open>deep_copier\<close>), closed under slices and structures.
    \<open>Deep_Copy_Refinement\<close>: copying and then assigning through a pointer, over the store, refines the model of values.
  \<^item> \<open>Interference\<close>: other writers that act between any two calls of a reconciliation, and which relations survive them.
  \<^item> \<open>System\<close>: the running program as a step relation over both reconcilers, both handlers and an environment, which also
    acts inside a reconciliation; relations that every step keeps are kept by every run.  This theory: the properties that span components.

  \<^bold>\<open>Representation.\<close>  Structures are records, pointers and maps that may be nil are options, slices are lists
  (except in \<open>Deep_Copy\<close>), strings are lists of bytes, \<open>int32\<close> is a 32-bit word, durations are integers of nanoseconds.  A
  function that returns \<open>(Result, error)\<close> yields a pair.  Assigning to a nil map and calling a nil function panic.  All model
  functions are total: loops recurse over lists, the search of a temporary name counts down from 10000 as Go does,
  and the parser of the flags has a measure.  A call outside the repository returns and does not panic.

  \<^bold>\<open>Not modelled.\<close>  Logging; contexts and cancellation; permissions, symbolic links and sub-directories of archives other than
  as the errors they cause; the queue, caches and leader election of the controller runtime (the environment of \<open>System\<close>
  covers the calls of a concurrent reconciliation as far as they keep the relation in question; the theorems on single
  reconciliations assume that the objects they read are not changed by others meanwhile); the flags of the logging library,
  which are a parameter; rendering, decoding, label selectors and external commands, which are parameters; the API server, a
  parameter of \<open>Admission\<close> that calls a webhook when its rule matches; the other manifests and the build files, which hold no
  program logic.
\<close>

section \<open>Properties that span components\<close>

text \<open>C8: marks are permanent and the disk stays well formed, for every run of the program: any interleaving of reconciliations
  of addons and policies, cluster events and steps of an environment that removes no mark, also when the environment
  acts between any two calls inside a reconciliation.  A cluster that carries the installation annotation carries it ever
  after, and every file and directory still lies in a directory.\<close>

theorem runs_keep_marks_and_files:
  assumes "system_laws env d ra rp ann ast" and "runs env d ra rp w w'"
  shows "(\<forall>c. ann (svc w) c KubewardenInstalledAnnotation \<noteq> None \<longrightarrow> ann (svc w') c KubewardenInstalledAnnotation \<noteq> None) \<and>
    (tree_ok w \<longrightarrow> tree_ok w')"
  using system_keeps_marks [OF assms] runs_tree [OF assms(2)] by (simp add: keeps_marks_def)

theorem runs_keep_marks_and_files_witness:
  "\<exists>w'. runs (keeps_marks memAnnotations) memDeps memReconciler policyReconciler mixedWorld w' \<and>
     snd (policy_Reconcile (disturb_tools eraser memDeps) (disturb eraser policyReconciler) \<lparr>nn_Namespace = ''default'', nn_Name = ''p''\<rparr>
       (snd (addon_Reconcile memDeps memReconciler \<lparr>nn_Namespace = ''default'', nn_Name = ''a''\<rparr> mixedWorld))) = w' \<and>
     memAnnotations (svc w') (cl_Key (installedCluster ''prod'')) KubewardenInstalledAnnotation \<noteq> None"
proof -
  let ?env = "keeps_marks memAnnotations"
  define v where "v = snd (addon_Reconcile memDeps memReconciler \<lparr>nn_Namespace = ''default'', nn_Name = ''a''\<rparr> mixedWorld)"
  define w' where "w' = snd (policy_Reconcile (disturb_tools eraser memDeps) (disturb eraser policyReconciler)
    \<lparr>nn_Namespace = ''default'', nn_Name = ''p''\<rparr> v)"
  have "program_step ?env memDeps memReconciler policyReconciler mixedWorld v"
    unfolding v_def by (rule reconcile_addon [OF disturbs_id], unfold disturb_id) (rule prod.collapse [symmetric])
  moreover have "program_step ?env memDeps memReconciler policyReconciler v w'"
    unfolding w'_def by (rule reconcile_policy [OF eraser_disturbs]) (rule prod.collapse [symmetric])
  ultimately have run: "runs ?env memDeps memReconciler policyReconciler mixedWorld w'" by simp
  have "memAnnotations (svc mixedWorld) (cl_Key (installedCluster ''prod'')) KubewardenInstalledAnnotation \<noteq> None"
    by (simp add: mixedWorld_def memWorld_def memAnnotations_def keyed_def annotations_of_def installedCluster_def
        KubewardenInstalledAnnotation_def)
  then show ?thesis
    using runs_keep_marks_and_files [OF mem_disturbed_laws run] run unfolding w'_def v_def by blast
qed

text \<open>The clusters that an addon had selected when it became ready stay marked in every further run.\<close>

lemma selected_stay_marked:
  assumes "system_laws env d ra rp ann ast" and "addon_reconcileNormal d ra addon w = (Ok (res, err), w')"
    and "\<not> kast_Ready (ast (svc w) (ObjectKeyFromObject (ka_Meta addon)))"
    and "kast_Ready (ast (svc w') (ObjectKeyFromObject (ka_Meta addon)))"
    and "runs env d ra rp w' w''" and "getMatchingClusters d rp p w'' = (Ok ys, v)"
  shows "\<exists>cls u xs. getAllCapiClusters ra (om_Namespace (ka_Meta addon)) w = (Ok cls, u) \<and>
    selectClusters d cls (kas_ClusterSelector (ka_Spec addon)) = Inr xs \<and> xs \<noteq> [] \<and>
    list_all (\<lambda>y. cl_Key y \<in> cl_Key ` set xs \<longrightarrow> HasAnnotation (cl_Meta y) KubewardenInstalledAnnotation) ys"
proof -
  note laws = assms(1) [unfolded system_laws_def]
  obtain cls u xs where sel: "getAllCapiClusters ra (om_Namespace (ka_Meta addon)) w = (Ok cls, u)"
    "selectClusters d cls (kas_ClusterSelector (ka_Spec addon)) = Inr xs" "xs \<noteq> []"
    and marked: "list_all (\<lambda>cl. ann (svc w') (cl_Key cl) KubewardenInstalledAnnotation = Some ''true'') xs"
    using addon_ready_marks [of d ra ann ast addon w res err w'] laws assms(2-4) by blast
  have kept: "ann (svc w'') (cl_Key x) KubewardenInstalledAnnotation \<noteq> None" if "x \<in> set xs" for x
    using system_keeps_marks [OF assms(1,5)] marked that by (auto simp: keeps_marks_def list_all_iff)
  have "list_all (\<lambda>y. annotations_of (cl_Meta y) = ann (svc w'') (cl_Key y)) ys"
    using assms(6) laws by (fastforce simp: getMatchingClusters_def io_wrap_Ok_iff io_fail_def ext_call_Ok split: sum.splits)
  then have "HasAnnotation (cl_Meta y) KubewardenInstalledAnnotation" if "y \<in> set ys" "cl_Key y \<in> cl_Key ` set xs" for y
    using kept that unfolding HasAnnotation_iff list_all_iff by (metis (no_types, lifting) imageE)
  then show ?thesis using sel by (auto simp: list_all_iff)
qed

text \<open>C6: the two controllers fit together.  After a reconciliation that turned the stored \<open>Ready\<close> of an addon on, and after any
  further run of the program, every cluster that addon had selected passes the installation guard of the policy
  controller whenever a policy selects it: whether the policy is deployed there depends on its control plane alone.\<close>

theorem installed_clusters_stay_eligible:
  assumes "system_laws env d ra rp ann ast" and "addon_reconcileNormal d ra addon w = (Ok (res, err), w')"
    and "\<not> kast_Ready (ast (svc w) (ObjectKeyFromObject (ka_Meta addon)))"
    and "kast_Ready (ast (svc w') (ObjectKeyFromObject (ka_Meta addon)))"
    and "runs env d ra rp w' w''" and "getMatchingClusters d rp p w'' = (Ok ys, v)"
  shows "\<exists>cls u xs. getAllCapiClusters ra (om_Namespace (ka_Meta addon)) w = (Ok cls, u) \<and>
    selectClusters d cls (kas_ClusterSelector (ka_Spec addon)) = Inr xs \<and> xs \<noteq> [] \<and>
    list_all (\<lambda>y. cl_Key y \<in> cl_Key ` set xs \<longrightarrow>
      HasAnnotation (cl_Meta y) KubewardenInstalledAnnotation \<and>
      eligible d y = (cl_ControlPlaneReady y \<and> d_IsTrue d y ControlPlaneReadyCondition)) ys"
  using selected_stay_marked [OF assms] by (auto simp: list_all_iff eligible_def)

theorem installed_clusters_stay_eligible_witness:
  "\<exists>w' ys v. addon_reconcileNormal memDeps memReconciler sampleAddon oneClusterWorld = (Ok (emptyResult, None), w') \<and>
     getMatchingClusters memDeps policyReconciler samplePolicy w' = (Ok ys, v) \<and>
     list_all (\<lambda>y. cl_Key y = cl_Key prodCluster \<longrightarrow> HasAnnotation (cl_Meta y) KubewardenInstalledAnnotation) ys"
proof -
  obtain w' where w': "addon_reconcileNormal memDeps memReconciler sampleAddon oneClusterWorld = (Ok (emptyResult, None), w')"
    "kast_Ready (m_addonStatus (svc w') (ObjectKeyFromObject (ka_Meta sampleAddon)))" using addon_run by blast
  have "\<not> kast_Ready (m_addonStatus (svc oneClusterWorld) (ObjectKeyFromObject (ka_Meta sampleAddon)))"
    by (simp add: oneClusterWorld_def memWorld_def emptyMem_def)
  moreover obtain ys v where ys: "getMatchingClusters memDeps policyReconciler samplePolicy w' = (Ok ys, v)"
    by (simp add: getMatchingClusters_def policyReconciler_def memDeps_def io_simps ext_call_def)
  ultimately show ?thesis
    using installed_clusters_stay_eligible [OF mem_system_laws w'(1) _ w'(2) rtranclp.rtrancl_refl ys] w'(1) ys one_list one_select
    by (auto simp: list_all_iff)
qed

text \<open>C7: the whole story.  An addon has become ready; after any further run of the program a policy is reconciled on a healthy
  fleet, and every cluster it selects is one that the addon had selected and has a ready control plane.  Then the policy becomes
  ready: the reconciliation ends without error, the stored status is ready, and the translated policy is stored in every
  selected cluster.\<close>

theorem ready_addon_lets_policies_become_ready:
  assumes "system_laws env d ra rp ann ast" and "addon_reconcileNormal d ra addon w = (Ok (res, err), w')"
    and "\<not> kast_Ready (ast (svc w) (ObjectKeyFromObject (ka_Meta addon)))"
    and "kast_Ready (ast (svc w') (ObjectKeyFromObject (ka_Meta addon)))"
    and "getAllCapiClusters ra (om_Namespace (ka_Meta addon)) w = (Ok cls, u)"
    and "selectClusters d cls (kas_ClusterSelector (ka_Spec addon)) = Inr xs"
    and "runs env d ra rp w' w''" and "getMatchingClusters d rp p w'' = (Ok ys, v)" and "ys \<noteq> []"
    and "fleet d rp sto adm" and "status_law rp sto pol" and "list_law rp sto" and "healthy d rp sto"
    and "list_all (\<lambda>y. cl_Key y \<in> cl_Key ` set xs \<and> cl_ControlPlaneReady y \<and> d_IsTrue d y ControlPlaneReadyCondition) ys"
  shows "\<exists>z st. policy_reconcileNormal d rp p w'' = (Ok (requeueAfter (5 * minute), None), z) \<and>
    pol (svc z) (ObjectKeyFromObject (kp_Meta p)) = Some st \<and> kpst_Ready st \<and>
    list_all (\<lambda>y. has_policy sto adm p z (cl_Key y)) ys"
proof -
  have "list_all (\<lambda>y. cl_Key y \<in> cl_Key ` set xs \<longrightarrow> HasAnnotation (cl_Meta y) KubewardenInstalledAnnotation) ys"
    using selected_stay_marked [OF assms(1-4,7,8)] assms(5,6) by auto
  then have el: "list_all (eligible d) ys" using assms(14) by (auto simp: list_all_iff eligible_def)
  then have all: "Set.filter (eligible d) (set ys) = set ys" by (auto simp: list_all_iff)
  obtain z st where z: "policy_reconcileNormal d rp p w'' = (Ok (requeueAfter (5 * minute), None), z)"
    "pol (svc z) (ObjectKeyFromObject (kp_Meta p)) = Some st" "kpst_Ready st \<longleftrightarrow> list_all (eligible d) ys"
    "deployments sto z = deploy_to (cl_Key ` set ys) p adm (deployments sto w'')"
    using reconcile_converges [OF assms(10-13,8,9)] unfolding all by blast
  have "list_all (\<lambda>y. has_policy sto adm p z (cl_Key y)) ys"
    by (simp add: deployments_has_policy [symmetric] z(4) deploy_to_def list_all_iff)
  then show ?thesis using z(1-3) el by blast
qed

text \<open>The clusters the sample policy matches after the sample addon has been installed.\<close>

definition matchedClusters :: "mem \<Rightarrow> Cluster list" where
  "matchedClusters s = filter (\<lambda>c. cl_Namespace c = ''default'' \<and>
     list_all (\<lambda>kv. cl_Labels c (fst kv) = Some (snd kv)) (ls_MatchLabels sampleSelector)) (map (storedCluster s) (m_clusters s))"

lemma matched_after_addon:
  "map (\<lambda>c. (cl_Key c, cl_ControlPlaneReady c, d_IsTrue memDeps c ControlPlaneReadyCondition)) (matchedClusters (svc (snd addonLoop))) =
     [(cl_Key prodCluster, True, True)]"
  by code_simp

lemma matched_status: "matchedClusters (s\<lparr>m_addonStatus := x\<rparr>) = matchedClusters s"
proof -
  have "storedCluster (s\<lparr>m_addonStatus := x\<rparr>) = storedCluster s" by (simp add: storedCluster_def fun_eq_iff)
  then show ?thesis by (simp add: matchedClusters_def)
qed

lemma matched_run: "getMatchingClusters memDeps policyReconciler samplePolicy w = (Ok (matchedClusters (svc w)), w)"
  by (simp add: getMatchingClusters_def policyReconciler_def memDeps_def io_simps ext_call_def matchedClusters_def sample_defs)

lemma policy_reconciler_laws:
  "fleet memDeps policyReconciler memView (\<lambda>x. x)" "status_law policyReconciler memView m_status"
  "list_law policyReconciler memView" "healthy memDeps policyReconciler memView"
  using mem_fleet mem_status_law mem_healthy
  by (simp_all add: fleet_def status_law_def list_law_def healthy_def policyReconciler_def memReconciler_def memMgmt_def)

theorem ready_addon_lets_policies_become_ready_witness:
  "\<exists>w' z st. addon_reconcileNormal memDeps memReconciler sampleAddon oneClusterWorld = (Ok (emptyResult, None), w') \<and>
     policy_reconcileNormal memDeps policyReconciler samplePolicy w' = (Ok (requeueAfter (5 * minute), None), z) \<and>
     m_status (svc z) (ObjectKeyFromObject (kp_Meta samplePolicy)) = Some st \<and> kpst_Ready st \<and>
     has_policy memView (\<lambda>x. x) samplePolicy z (cl_Key prodCluster)"
proof -
  define w' where "w' = snd (ext_call (mc_StatusPatchAddon (r_Client memReconciler) (patch_base sampleAddon [prodCluster])
    (patch_object sampleAddon [prodCluster])) (snd addonLoop))"
  have run: "addon_reconcileNormal memDeps memReconciler sampleAddon oneClusterWorld = (Ok (emptyResult, None), w')"
    unfolding w'_def by (rule addon_reconcileNormal_run(2) [OF one_list one_select addon_loop_eq])
  then have on: "kast_Ready (m_addonStatus (svc w') (ObjectKeyFromObject (ka_Meta sampleAddon)))" using addon_run by auto
  have off: "\<not> kast_Ready (m_addonStatus (svc oneClusterWorld) (ObjectKeyFromObject (ka_Meta sampleAddon)))"
    by (simp add: oneClusterWorld_def memWorld_def emptyMem_def)
  have "matchedClusters (svc w') = matchedClusters (svc (snd addonLoop))"
    unfolding w'_def by (simp add: ext_call_def memReconciler_def memMgmt_def matched_status)
  then obtain y where ys: "matchedClusters (svc w') = [y]" "cl_Key y = cl_Key prodCluster" "cl_ControlPlaneReady y"
    "d_IsTrue memDeps y ControlPlaneReadyCondition"
    using matched_after_addon by auto
  have "list_all (\<lambda>y. cl_Key y \<in> cl_Key ` set [prodCluster] \<and> cl_ControlPlaneReady y \<and>
      d_IsTrue memDeps y ControlPlaneReadyCondition) [y]" using ys by simp
  from ready_addon_lets_policies_become_ready [OF mem_system_laws run off on one_list one_select rtranclp.rtrancl_refl
      matched_run [of w', unfolded ys(1)] not_Cons_self2 policy_reconciler_laws this]
  show ?thesis using run ys(2) by auto
qed

text \<open>C38: what the work queue is told.  An addon is looked at again after at most a minute and a policy after at most five; a
  reconciliation that reports an error asks for no delay of its own, so the queue's back-off applies; only an addon
  that could not be read asks for an immediate repetition.\<close>

theorem requeue_bounds:
  "(case fst (addon_Reconcile d r req w) of
      Ok (res, err) \<Rightarrow> RequeueAfter res \<in> {0, minute} \<and> (err \<noteq> None \<longrightarrow> RequeueAfter res = 0) \<and>
        (Requeue res \<longrightarrow> (\<exists>e. fst (mc_GetAddon (r_Client r) req (svc w)) = Inl e))
    | Err e \<Rightarrow> False
    | Panic s \<Rightarrow> r_RemoteClientGetter r = None) \<and>
   (case fst (policy_Reconcile d r req w) of
      Ok (res, err) \<Rightarrow> RequeueAfter res \<in> {0, minute, 5 * minute} \<and> (err \<noteq> None \<longrightarrow> res = emptyResult) \<and> \<not> Requeue res
    | Err e \<Rightarrow> False
    | Panic s \<Rightarrow> r_RemoteClientGetter r = None)"
  using addon_requeue policy_requeue by blast

theorem requeue_bounds_witness:
  "\<exists>res err. fst (addon_Reconcile memDeps memReconciler \<lparr>nn_Namespace = ''default'', nn_Name = ''absent''\<rparr> (memWorld emptyMem)) =
     Ok (res, err) \<and> Requeue res \<and> RequeueAfter res \<in> {0, minute}"
proof -
  have "\<exists>res err. fst (addon_Reconcile memDeps memReconciler \<lparr>nn_Namespace = ''default'', nn_Name = ''absent''\<rparr> (memWorld emptyMem)) =
     Ok (res, err) \<and> Requeue res"
    by (simp add: addon_Reconcile_def io_simps ext_call_def memReconciler_def memMgmt_def memWorld_def emptyMem_def memDeps_def)
  then show ?thesis
    using requeue_bounds [where d = memDeps and r = memReconciler and w = "memWorld emptyMem" and
        req = "\<lparr>nn_Namespace = ''default'', nn_Name = ''absent''\<rparr>"]
    by auto
qed

end
